(* ===== verification/Prelude.thy ===== *)
theory Prelude
  imports Main "HOL-Library.Word"
begin

text \<open>
  The vocabulary every component shares: the EVM's machine types, the ways a call can fail,
  the result type of a call with its sequencing combinator, Solidity's checked arithmetic
  (\<open>pragma solidity ^0.8\<close>), and the lemmas that carry the component proofs.

  A contract call that reverts rolls back every storage write it made, so the model of a call
  returns either an error or the value together with the new state: the caller of a failing
  call still holds the state from before it.
\<close>

section \<open>Machine types\<close>

type_synonym byte = "8 word"
type_synonym bytes = "byte list"
type_synonym uint24 = "24 word"
type_synonym uint48 = "48 word"
type_synonym uint128 = "128 word"
type_synonym uint160 = "160 word"
type_synonym uint256 = "256 word"
type_synonym bytes32 = "256 word"
type_synonym address = "160 word"

text \<open>The public key of a passkey account, \<open>uint256[2]\<close>.\<close>

type_synonym pubkey = "uint256 \<times> uint256"

section \<open>Failures and results\<close>

text \<open>
  \<open>Revert\<close> carries the reason string of a \<open>require\<close> or \<open>revert\<close>; \<open>RevertEmpty\<close> is a
  revert without data (a failing ABI decoder or slice, a \<open>require\<close> without a reason);
  \<open>RevertData\<close> re-raises the return data of a failed inner call; \<open>Panic\<close> is the compiler's
  own failure (0x11 arithmetic overflow, 0x12 division by zero, 0x41 allocation too large).
\<close>

datatype evm_error =
    Revert string
  | RevertEmpty
  | RevertData bytes
  | Panic nat

type_synonym 'a res = "evm_error + 'a"

definition bindR :: "'e + 'a \<Rightarrow> ('a \<Rightarrow> 'e + 'b) \<Rightarrow> 'e + 'b" where
  "bindR m f = (case m of Inl e \<Rightarrow> Inl e | Inr x \<Rightarrow> f x)"

definition require :: "bool \<Rightarrow> string \<Rightarrow> unit res" where
  "require c msg = (if c then Inr () else Inl (Revert msg))"

named_theorems res_simps \<open>equations that run a sequence of calls\<close>
named_theorems checked_simps \<open>inversion of checked arithmetic\<close>

lemma bindR_Inl [simp]: "bindR (Inl e) f = Inl e"
  by (simp add: bindR_def)

lemma bindR_Inr [simp]: "bindR (Inr x) f = f x"
  by (simp add: bindR_def)

lemma bindR_eq_Inr [res_simps]:
  "bindR m f = Inr y \<longleftrightarrow> (\<exists>x. m = Inr x \<and> f x = Inr y)"
  by (cases m) auto

lemma bindR_eq_Inl [res_simps]:
  "bindR m f = Inl e \<longleftrightarrow> m = Inl e \<or> (\<exists>x. m = Inr x \<and> f x = Inl e)"
  by (cases m) auto

lemma bindR_assoc: "bindR (bindR m f) g = bindR m (\<lambda>x. bindR (f x) g)"
  by (cases m) auto

lemma bindR_cong [fundef_cong]:
  "m = m' \<Longrightarrow> (\<And>x. m' = Inr x \<Longrightarrow> f x = f' x) \<Longrightarrow> bindR m f = bindR m' f'"
  by (cases m') auto

lemma require_True [simp]: "require True msg = Inr ()"
  by (simp add: require_def)

lemma require_False [simp]: "require False msg = Inl (Revert msg)"
  by (simp add: require_def)

lemma require_eq_Inr [res_simps]: "require c msg = Inr u \<longleftrightarrow> c"
  by (simp add: require_def)

lemma require_eq_Inl [res_simps]: "require c msg = Inl e \<longleftrightarrow> \<not> c \<and> e = Revert msg"
  by (auto simp: require_def)

lemma res_not_Inl: "(\<nexists>e. r = Inl e) \<longleftrightarrow> (\<exists>x. r = Inr x)"
  by (cases r) auto

section \<open>Checked arithmetic\<close>

text \<open>
  Solidity from 0.8 on checks every arithmetic operation outside an \<open>unchecked\<close> or
  \<open>assembly\<close> block. The result is the wrapped word, returned only when nothing wrapped.
\<close>

definition checked_add :: "'w::len word \<Rightarrow> 'w word \<Rightarrow> 'w word res" where
  "checked_add a b = (if unat a + unat b < 2 ^ LENGTH('w) then Inr (a + b) else Inl (Panic 0x11))"

definition checked_sub :: "'w::len word \<Rightarrow> 'w word \<Rightarrow> 'w word res" where
  "checked_sub a b = (if b \<le> a then Inr (a - b) else Inl (Panic 0x11))"

definition checked_mul :: "'w::len word \<Rightarrow> 'w word \<Rightarrow> 'w word res" where
  "checked_mul a b = (if unat a * unat b < 2 ^ LENGTH('w) then Inr (a * b) else Inl (Panic 0x11))"

definition checked_div :: "'w::len word \<Rightarrow> 'w word \<Rightarrow> 'w word res" where
  "checked_div a b = (if b = 0 then Inl (Panic 0x12) else Inr (a div b))"

fun checked_pow :: "'w::len word \<Rightarrow> nat \<Rightarrow> 'w word res" where
  "checked_pow a 0 = Inr 1"
| "checked_pow a (Suc n) = bindR (checked_pow a n) (\<lambda>x. checked_mul a x)"

lemma checked_add_eq_Inr [checked_simps]:
  fixes a b c :: "'w::len word"
  shows "checked_add a b = Inr c \<longleftrightarrow> unat a + unat b < 2 ^ LENGTH('w) \<and> unat c = unat a + unat b"
proof (cases "unat a + unat b < 2 ^ LENGTH('w)")
  case True
  then have "unat (a + b) = unat a + unat b"
    by (simp add: unat_word_ariths)
  with True show ?thesis
    by (auto simp: checked_add_def word_unat_eq_iff)
qed (simp add: checked_add_def)

lemma checked_sub_eq_Inr [checked_simps]:
  "checked_sub a b = Inr c \<longleftrightarrow> unat b \<le> unat a \<and> unat c = unat a - unat b"
proof (cases "b \<le> a")
  case True
  then have "unat (a - b) = unat a - unat b"
    by (simp add: unat_sub)
  with True show ?thesis
    by (auto simp: checked_sub_def word_unat_eq_iff word_le_nat_alt)
qed (simp add: checked_sub_def word_le_nat_alt)

lemma checked_mul_eq_Inr [checked_simps]:
  fixes a b c :: "'w::len word"
  shows "checked_mul a b = Inr c \<longleftrightarrow> unat a * unat b < 2 ^ LENGTH('w) \<and> unat c = unat a * unat b"
proof (cases "unat a * unat b < 2 ^ LENGTH('w)")
  case True
  then have "unat (a * b) = unat a * unat b"
    by (simp add: unat_word_ariths)
  with True show ?thesis
    by (auto simp: checked_mul_def word_unat_eq_iff)
qed (simp add: checked_mul_def)

lemma checked_div_eq_Inr [checked_simps]:
  "checked_div a b = Inr c \<longleftrightarrow> unat b \<noteq> 0 \<and> unat c = unat a div unat b"
proof (cases "b = 0")
  case False
  then have "unat b \<noteq> 0"
    by (simp add: unat_0_iff)
  moreover have "unat (a div b) = unat a div unat b"
    by (rule unat_div)
  ultimately show ?thesis using False
    by (metis Inr_inject checked_div_def word_unat_eq_iff)
qed (simp add: checked_div_def)

lemma checked_add_cases:
  fixes a b :: "'w::len word"
  shows "checked_add a b = (if unat a + unat b < 2 ^ LENGTH('w) then Inr (of_nat (unat a + unat b)) else Inl (Panic 0x11))"
  by (simp add: checked_add_def)

section \<open>Words\<close>

lemma unat_lt_256 [simp]: "unat (x :: uint256) < 2 ^ 256"
  using unsigned_less [of x] by simp

lemma unat_lt_160 [simp]: "unat (x :: address) < 2 ^ 160"
  using unsigned_less [of x] by simp

lemma unat_lt_48 [simp]: "unat (x :: uint48) < 2 ^ 48"
  using unsigned_less [of x] by simp

lemma unat_lt_8 [simp]: "unat (x :: byte) < 256"
  using unsigned_less [of x] by simp

lemma unat_of_nat_less:
  "n < 2 ^ LENGTH('w) \<Longrightarrow> unat (of_nat n :: 'w::len word) = n"
  by (simp add: unat_of_nat)

lemma unat_ucast_up:
  fixes x :: "'v::len word"
  assumes "LENGTH('v) \<le> LENGTH('w)"
  shows "unat (ucast x :: 'w::len word) = unat x"
proof -
  have "unat x < 2 ^ LENGTH('v)" by (rule unsigned_less)
  also have "\<dots> \<le> 2 ^ LENGTH('w)" using assms by (intro power_increasing) simp_all
  finally show ?thesis by (simp add: unsigned_ucast_eq take_bit_nat_eq_self)
qed

text \<open>Checked operations are monotone: a call that returns also returns on smaller arguments.\<close>

lemma checked_add_mono:
  assumes "checked_add a b = Inr c" and "a' \<le> a" and "b' \<le> b"
  shows "\<exists>c'. checked_add a' b' = Inr c' \<and> c' \<le> c"
proof -
  have le: "unat a' + unat b' \<le> unat a + unat b"
    using assms(2,3) by (simp add: word_le_nat_alt add_mono)
  then have "checked_add a' b' = Inr (a' + b')"
    using assms(1) by (auto simp: checked_add_def split: if_splits)
  moreover have "unat (a' + b') = unat a' + unat b'"
    using calculation by (simp add: checked_add_eq_Inr)
  moreover have "unat c = unat a + unat b"
    using assms(1) by (simp add: checked_add_eq_Inr)
  ultimately show ?thesis using le by (auto simp: word_le_nat_alt)
qed

lemma checked_mul_mono:
  assumes "checked_mul a b = Inr c" and "a' \<le> a" and "b' \<le> b"
  shows "\<exists>c'. checked_mul a' b' = Inr c' \<and> c' \<le> c"
proof -
  have le: "unat a' * unat b' \<le> unat a * unat b"
    using assms(2,3) by (simp add: word_le_nat_alt mult_le_mono)
  then have "checked_mul a' b' = Inr (a' * b')"
    using assms(1) by (auto simp: checked_mul_def split: if_splits)
  moreover have "unat (a' * b') = unat a' * unat b'"
    using calculation by (simp add: checked_mul_eq_Inr)
  moreover have "unat c = unat a * unat b"
    using assms(1) by (simp add: checked_mul_eq_Inr)
  ultimately show ?thesis using le by (auto simp: word_le_nat_alt)
qed

lemma checked_div_mono:
  assumes "checked_div a b = Inr c" and "a' \<le> a"
  shows "\<exists>c'. checked_div a' b = Inr c' \<and> c' \<le> c"
  using assms by (auto simp: checked_div_def word_le_nat_alt unat_div div_le_mono)

lemma checked_pow_eq_Inr:
  fixes a c :: "'w::len word"
  assumes "0 < unat a"
  shows "checked_pow a n = Inr c \<longleftrightarrow> unat a ^ n < 2 ^ LENGTH('w) \<and> unat c = unat a ^ n"
proof (induction n arbitrary: c)
  case 0
  show ?case
    by (metis Inr_inject checked_pow.simps(1) len_gt_0 nat_power_eq_Suc_0_iff one_less_numeral_iff
        one_less_power power_0 semiring_norm(76) unat_1 word_unat_eq_iff)
next
  case (Suc n)
  have le: "unat a ^ n \<le> unat a ^ Suc n"
    using assms by (simp add: mult_le_mono1 Suc_leI)
  show ?case (is "?l \<longleftrightarrow> ?r")
  proof
    assume ?l
    then show ?r using Suc.IH by (auto simp: bindR_eq_Inr checked_mul_eq_Inr)
  next
    assume r: ?r
    then have lt: "unat a ^ n < 2 ^ LENGTH('w)" using le by linarith
    then have "unat (of_nat (unat a ^ n) :: 'w word) = unat a ^ n" by (rule unat_of_nat_less)
    with lt have "checked_pow a n = Inr (of_nat (unat a ^ n))" using Suc.IH by blast
    then show ?l using r \<open>unat (of_nat (unat a ^ n) :: 'w word) = unat a ^ n\<close>
      by (simp add: checked_mul_eq_Inr)
  qed
qed

lemma checked_pow_Inl:
  fixes a :: "'w::len word"
  assumes "0 < unat a" and "2 ^ LENGTH('w) \<le> unat a ^ n"
  shows "checked_pow a n = Inl (Panic 0x11)"
  using assms(2)
proof (induction n)
  case 0
  moreover have "(1::nat) < 2 ^ LENGTH('w)" by (rule one_less_power) simp_all
  ultimately show ?case by simp
next
  case (Suc n)
  show ?case
  proof (cases "2 ^ LENGTH('w) \<le> unat a ^ n")
    case False
    then have "unat (of_nat (unat a ^ n) :: 'w word) = unat a ^ n"
      by (intro unat_of_nat_less) (simp only: not_le)
    moreover from this have "checked_pow a n = Inr (of_nat (unat a ^ n))"
      using False checked_pow_eq_Inr [OF assms(1)] by (simp add: not_le)
    ultimately show ?thesis using Suc.prems by (simp add: checked_mul_def)
  qed (simp add: Suc.IH)
qed

text \<open>EVM \<open>mulmod\<close> and \<open>addmod\<close>: the intermediate result is not reduced to 256 bits.\<close>

definition mulmod :: "uint256 \<Rightarrow> uint256 \<Rightarrow> uint256 \<Rightarrow> uint256" where
  "mulmod a b m = word_of_int ((uint a * uint b) mod uint m)"

definition addmod :: "uint256 \<Rightarrow> uint256 \<Rightarrow> uint256 \<Rightarrow> uint256" where
  "addmod a b m = word_of_int ((uint a + uint b) mod uint m)"

lemma uint_mod_lt_256:
  fixes m :: uint256
  shows "0 < m \<Longrightarrow> k mod uint m < 2 ^ 256 \<and> 0 \<le> k mod uint m"
proof -
  assume "0 < m"
  then have pos: "0 < uint m"
    by (simp add: word_less_def)
  then have "k mod uint m < uint m" by simp
  also have "uint m < 2 ^ 256"
    using uint_lt2p [of m] by simp
  finally show ?thesis using pos by simp
qed

lemma uint_mulmod: "0 < m \<Longrightarrow> uint (mulmod a b m) = (uint a * uint b) mod uint m"
  using uint_mod_lt_256 [of m "uint a * uint b"]
  by (simp add: mulmod_def uint_word_of_int)

lemma unat_mulmod: "0 < m \<Longrightarrow> unat (mulmod a b m) = (unat a * unat b) mod unat m"
  unfolding unat_eq_nat_uint by (simp only: uint_mulmod nat_mod_distrib nat_mult_distrib uint_ge_0 mult_nonneg_nonneg)

lemma uint_addmod: "0 < m \<Longrightarrow> uint (addmod a b m) = (uint a + uint b) mod uint m"
  using uint_mod_lt_256 [of m "uint a + uint b"]
  by (simp add: addmod_def uint_word_of_int)

lemma mulmod_less: "0 < m \<Longrightarrow> mulmod a b m < m"
  by (simp add: word_less_def uint_mulmod)

lemma addmod_less: "0 < m \<Longrightarrow> addmod a b m < m"
  by (simp add: word_less_def uint_addmod)

section \<open>Sums over storage mappings\<close>

text \<open>
  A Solidity mapping with address keys is a total function. Its entries can be added up,
  because there are finitely many addresses.
\<close>

lemma sum_fun_upd:
  fixes f :: "'a::finite \<Rightarrow> nat"
  shows "(\<Sum>a\<in>UNIV. (f(k := v)) a) + f k = (\<Sum>a\<in>UNIV. f a) + v"
proof -
  have 1: "(\<Sum>a\<in>UNIV. (f(k := v)) a) = v + (\<Sum>a\<in>UNIV - {k}. f a)"
    by (subst sum.remove [where x = k]) (auto intro: sum.cong)
  have 2: "(\<Sum>a\<in>UNIV. f a) = f k + (\<Sum>a\<in>UNIV - {k}. f a)"
    by (subst sum.remove [where x = k]) auto
  from 1 2 show ?thesis by simp
qed

lemma sum_ge_entry:
  fixes f :: "'a::finite \<Rightarrow> nat"
  shows "f k \<le> (\<Sum>a\<in>UNIV. f a)"
  by (rule member_le_sum) auto

end
