(* ===== verification/Abi.thy ===== *)
theory Abi
  imports Prelude
begin

text \<open>
  The parts of Solidity's ABI the contracts and the scripts rely on: big-endian integers,
  calldata slices, \<open>abi.encode\<close> and \<open>abi.decode\<close> of tuples of static words and of dynamic
  \<open>bytes\<close> / \<open>string\<close>, and the packed encodings of \<open>abi.encodePacked\<close>. The decoder has the
  failures of the code solc emits: a tuple head that is too short, a value with dirty high
  bits, an offset or a length outside the data, and a length too large to allocate.

  The decoder does not model the free memory pointer, so a length that lies within the
  pointer's distance of \<open>2 ^ 64\<close> fails here with \<open>RevertEmpty\<close> where solc's code fails with
  \<open>Panic 0x41\<close>; it fails in both.
\<close>

section \<open>Big-endian integers\<close>

fun be_bytes :: "nat \<Rightarrow> nat \<Rightarrow> bytes" where
  "be_bytes 0 v = []"
| "be_bytes (Suc n) v = be_bytes n (v div 256) @ [of_nat (v mod 256)]"

definition be_nat :: "bytes \<Rightarrow> nat" where
  "be_nat bs = foldl (\<lambda>acc b. acc * 256 + unat b) 0 bs"

lemma length_be_bytes [simp]: "length (be_bytes n v) = n"
  by (induction n arbitrary: v) auto

lemma be_nat_Nil [simp]: "be_nat [] = 0"
  by (simp add: be_nat_def)

lemma be_nat_snoc [simp]: "be_nat (bs @ [b]) = be_nat bs * 256 + unat b"
  by (simp add: be_nat_def)

lemma unat_byte_of_mod: "unat (of_nat (v mod 256) :: byte) = v mod 256"
  by (simp add: unat_of_nat)

lemma be_nat_be_bytes: "be_nat (be_bytes n v) = v mod 256 ^ n"
proof (induction n arbitrary: v)
  case (Suc n)
  have "v mod (256 * 256 ^ n) = 256 * (v div 256 mod 256 ^ n) + v mod 256"
    by (simp add: mod_mult2_eq)
  then show ?case
    by (simp add: Suc unat_of_nat)
qed simp

lemma be_nat_less: "be_nat bs < 256 ^ length bs"
proof (induction bs rule: rev_induct)
  case (snoc b bs)
  have "be_nat bs * 256 + unat b < be_nat bs * 256 + 256"
    by simp
  also have "\<dots> \<le> 256 ^ length bs * 256"
    using snoc by (simp add: less_eq_Suc_le)
  finally show ?case by simp
qed simp

lemma be_bytes_be_nat: "be_bytes (length bs) (be_nat bs) = bs"
  by (induction bs rule: rev_induct) auto

lemma be_bytes_length: "length bs = n \<Longrightarrow> be_bytes n (be_nat bs) = bs"
  using be_bytes_be_nat by blast

lemma be_bytes_inject:
  assumes "be_bytes n v = be_bytes n w" and "v < 256 ^ n" and "w < 256 ^ n"
  shows "v = w"
  using assms by (metis be_nat_be_bytes mod_less)

section \<open>One ABI word\<close>

definition abi_word :: "uint256 \<Rightarrow> bytes" where
  "abi_word w = be_bytes 32 (unat w)"

definition load_word :: "bytes \<Rightarrow> nat \<Rightarrow> uint256" where
  "load_word bs off = of_nat (be_nat (take 32 (drop off bs)))"

lemma length_abi_word [simp]: "length (abi_word w) = 32"
  by (simp add: abi_word_def)

lemma be_nat_abi_word [simp]: "be_nat (abi_word w) = unat w"
  using unat_lt_256 [of w] by (simp add: abi_word_def be_nat_be_bytes)

lemma load_word_abi_word [simp]:
  "length pre = off \<Longrightarrow> load_word (pre @ abi_word w @ post) off = w"
  by (simp add: load_word_def)

lemma abi_word_inject [simp]: "abi_word v = abi_word w \<longleftrightarrow> v = w"
  by (metis be_nat_abi_word word_unat_eq_iff)

lemma abi_word_load:
  assumes "off + 32 \<le> length bs"
  shows "abi_word (load_word bs off) = take 32 (drop off bs)"
proof -
  let ?w = "take 32 (drop off bs)"
  have len: "length ?w = 32" using assms by simp
  then have "be_nat ?w < 2 ^ 256"
    using be_nat_less [of ?w] by simp
  then have "unat (of_nat (be_nat ?w) :: uint256) = be_nat ?w"
    by (simp add: unat_of_nat)
  then show ?thesis
    using be_bytes_be_nat [of ?w] len
    by (simp add: abi_word_def load_word_def)
qed

section \<open>Slices\<close>

text \<open>\<open>x[s:e]\<close> of a calldata array: reverts unless \<open>s \<le> e \<le> x.length\<close>.\<close>

definition slice :: "nat \<Rightarrow> nat \<Rightarrow> bytes \<Rightarrow> bytes res" where
  "slice s e bs = (if s > e then Inl RevertEmpty
     else if e > length bs then Inl RevertEmpty
     else Inr (take (e - s) (drop s bs)))"

text \<open>\<open>x[s:]\<close>.\<close>

definition slice_from :: "nat \<Rightarrow> bytes \<Rightarrow> bytes res" where
  "slice_from s bs = slice s (length bs) bs"

lemma slice_eq_Inr [res_simps]:
  "slice s e bs = Inr r \<longleftrightarrow> s \<le> e \<and> e \<le> length bs \<and> r = take (e - s) (drop s bs)"
  by (auto simp: slice_def)

lemma slice_from_eq_Inr [res_simps]:
  "slice_from s bs = Inr r \<longleftrightarrow> s \<le> length bs \<and> r = drop s bs"
  by (auto simp: slice_from_def slice_def)

section \<open>Tuples\<close>

text \<open>
  \<open>TUint n\<close> is a static value of at most \<open>n\<close> bits (\<open>uint48\<close>, \<open>address\<close> with 160, \<open>bytes32\<close>
  and \<open>uint256\<close> with 256, \<open>bool\<close> with 1); \<open>TBytes\<close> is \<open>bytes\<close> or \<open>string\<close>; \<open>TWords\<close> is
  \<open>bytes32[]\<close>.
\<close>

datatype abi_ty = TUint nat | TBytes | TWords

datatype abi_val = AWord uint256 | ABytes bytes | AWords "uint256 list"

fun abi_has_ty :: "abi_val \<Rightarrow> abi_ty \<Rightarrow> bool" where
  "abi_has_ty (AWord w) (TUint n) = (unat w < 2 ^ n)"
| "abi_has_ty (ABytes b) TBytes = True"
| "abi_has_ty (AWords ws) TWords = True"
| "abi_has_ty _ _ = False"

definition pad32 :: "bytes \<Rightarrow> bytes" where
  "pad32 b = b @ replicate ((32 - length b mod 32) mod 32) 0"

fun abi_tail :: "abi_val \<Rightarrow> bytes" where
  "abi_tail (AWord w) = []"
| "abi_tail (ABytes b) = abi_word (of_nat (length b)) @ pad32 b"
| "abi_tail (AWords ws) = abi_word (of_nat (length ws)) @ concat (map abi_word ws)"

fun abi_heads :: "nat \<Rightarrow> abi_val list \<Rightarrow> bytes" where
  "abi_heads off [] = []"
| "abi_heads off (AWord w # vs) = abi_word w @ abi_heads off vs"
| "abi_heads off (ABytes b # vs) =
     abi_word (of_nat off) @ abi_heads (off + length (abi_tail (ABytes b))) vs"
| "abi_heads off (AWords ws # vs) =
     abi_word (of_nat off) @ abi_heads (off + length (abi_tail (AWords ws))) vs"

definition abi_encode :: "abi_val list \<Rightarrow> bytes" where
  "abi_encode vs = abi_heads (32 * length vs) vs @ concat (map abi_tail vs)"

text \<open>The dynamic component at offset \<open>off\<close> of the tuple.\<close>

definition abi_decode_bytes_at :: "bytes \<Rightarrow> nat \<Rightarrow> bytes res" where
  "abi_decode_bytes_at bs off =
     (if off > 2 ^ 64 - 1 then Inl RevertEmpty
      else if \<not> off + 31 < length bs then Inl RevertEmpty
      else let len = unat (load_word bs off) in
        if len > 2 ^ 64 - 1 then Inl (Panic 0x41)
        else if off + 32 + len > length bs then Inl RevertEmpty
        else Inr (take len (drop (off + 32) bs)))"

definition abi_decode_words_at :: "bytes \<Rightarrow> nat \<Rightarrow> (uint256 list) res" where
  "abi_decode_words_at bs off =
     (if off > 2 ^ 64 - 1 then Inl RevertEmpty
      else if \<not> off + 31 < length bs then Inl RevertEmpty
      else let len = unat (load_word bs off) in
        if len > 2 ^ 64 - 1 then Inl (Panic 0x41)
        else if off + 32 + 32 * len > length bs then Inl RevertEmpty
        else Inr (map (\<lambda>k. load_word bs (off + 32 + 32 * k)) [0..<len]))"

fun abi_decode_from :: "nat \<Rightarrow> abi_ty list \<Rightarrow> bytes \<Rightarrow> (abi_val list) res" where
  "abi_decode_from i [] bs = Inr []"
| "abi_decode_from i (TUint n # ts) bs =
     (let w = load_word bs (32 * i) in
        if unat w < 2 ^ n
        then bindR (abi_decode_from (Suc i) ts bs) (\<lambda>vs. Inr (AWord w # vs))
        else Inl RevertEmpty)"
| "abi_decode_from i (TBytes # ts) bs =
     bindR (abi_decode_bytes_at bs (unat (load_word bs (32 * i)))) (\<lambda>b.
     bindR (abi_decode_from (Suc i) ts bs) (\<lambda>vs. Inr (ABytes b # vs)))"
| "abi_decode_from i (TWords # ts) bs =
     bindR (abi_decode_words_at bs (unat (load_word bs (32 * i)))) (\<lambda>ws.
     bindR (abi_decode_from (Suc i) ts bs) (\<lambda>vs. Inr (AWords ws # vs)))"

definition abi_decode :: "abi_ty list \<Rightarrow> bytes \<Rightarrow> (abi_val list) res" where
  "abi_decode ts bs =
     (if length bs < 32 * length ts then Inl RevertEmpty else abi_decode_from 0 ts bs)"

subsection \<open>Lengths\<close>

lemma length_abi_heads [simp]: "length (abi_heads off vs) = 32 * length vs"
  by (induction off vs rule: abi_heads.induct) auto

lemma length_abi_encode:
  "length (abi_encode vs) = 32 * length vs + length (concat (map abi_tail vs))"
  by (simp add: abi_encode_def)

lemma length_pad32: "length b \<le> length (pad32 b)"
  by (simp add: pad32_def)

lemma abi_decode_short:
  "length bs < 32 * length ts \<Longrightarrow> abi_decode ts bs = Inl RevertEmpty"
  by (simp add: abi_decode_def)

lemma abi_decode_from_types:
  "abi_decode_from i ts bs = Inr vs \<Longrightarrow> list_all2 abi_has_ty vs ts"
  by (induction i ts bs arbitrary: vs rule: abi_decode_from.induct)
    (auto simp: res_simps Let_def split: if_splits)

lemma abi_decode_types: "abi_decode ts bs = Inr vs \<Longrightarrow> list_all2 abi_has_ty vs ts"
  by (auto simp: abi_decode_def abi_decode_from_types split: if_splits)

subsection \<open>Decoding inverts encoding\<close>

text \<open>
  The induction walks down the tuple: \<open>H\<close> is the part of the head already decoded, \<open>T\<close> the
  tails of the components before the current one.
\<close>

lemma abi_decode_bytes_at_tail:
  assumes "off = length pre" and "length (pre @ abi_tail (ABytes b) @ post) < 2 ^ 64"
  shows "abi_decode_bytes_at (pre @ abi_tail (ABytes b) @ post) off = Inr b"
proof -
  let ?bs = "pre @ abi_tail (ABytes b) @ post"
  have lb: "length b < 2 ^ 64" and lo: "off < 2 ^ 64"
    using assms length_pad32 [of b] by auto
  have "load_word ?bs off = of_nat (length b)"
    using assms(1) by simp
  moreover have "unat (of_nat (length b) :: uint256) = length b"
    using lb by (simp add: unat_of_nat)
  moreover have "take (length b) (drop (off + 32) ?bs) = b"
    using assms(1) by (simp add: pad32_def)
  ultimately show ?thesis
    using lb lo assms(1) length_pad32 [of b]
    by (simp add: abi_decode_bytes_at_def Let_def)
qed

lemma length_concat_words: "length (concat (map abi_word ws)) = 32 * length ws"
  by (induction ws) auto

lemma load_word_nth:
  "k < length ws \<Longrightarrow> load_word (pre @ concat (map abi_word ws) @ post) (length pre + 32 * k) = ws ! k"
proof (induction ws arbitrary: pre k)
  case (Cons w ws)
  show ?case
  proof (cases k)
    case (Suc j)
    then show ?thesis using Cons.IH [of j "pre @ abi_word w"] Cons.prems by (simp add: add.assoc)
  qed simp
qed simp

lemma abi_decode_words_at_tail:
  assumes "off = length pre" and "length (pre @ abi_tail (AWords ws) @ post) < 2 ^ 64"
  shows "abi_decode_words_at (pre @ abi_tail (AWords ws) @ post) off = Inr ws"
proof -
  let ?n = "of_nat (length ws) :: uint256"
  let ?bs = "pre @ abi_word ?n @ concat (map abi_word ws) @ post"
  have lb: "length ws < 2 ^ 64" and lo: "off < 2 ^ 64"
    using assms by (auto simp: length_concat_words)
  have lw: "load_word ?bs off = ?n"
    using assms(1) by simp
  have un: "unat ?n = length ws"
    using lb by (simp add: unat_of_nat)
  have "map (\<lambda>k. load_word ?bs (off + 32 + 32 * k)) [0..<length ws] = ws"
    using load_word_nth [of _ ws "pre @ abi_word ?n" post] assms(1) by (intro nth_equalityI) (simp_all add: add.assoc)
  then show ?thesis
    using lb lo lw un assms(1)
    by (simp add: abi_decode_words_at_def Let_def length_concat_words)
qed

lemma abi_decode_from_encode:
  assumes "list_all2 abi_has_ty vs ts"
    and "length H = 32 * i"
    and "off = length H + 32 * length vs + length T"
    and "length (H @ abi_heads off vs @ T @ concat (map abi_tail vs)) < 2 ^ 64"
  shows "abi_decode_from i ts (H @ abi_heads off vs @ T @ concat (map abi_tail vs)) = Inr vs"
  using assms
proof (induction vs ts arbitrary: H i off T rule: list_all2_induct)
  case (Cons v vs t ts)
  show ?case
  proof (cases v)
    case (AWord w)
    with Cons.hyps obtain n where t: "t = TUint n" and w: "unat w < 2 ^ n"
      by (cases t) auto
    have "abi_decode_from (Suc i) ts
        ((H @ abi_word w) @ abi_heads off vs @ T @ concat (map abi_tail vs)) = Inr vs"
      by (rule Cons.IH) (use Cons.prems AWord in auto)
    with w show ?thesis
      using Cons.prems(1) by (simp add: AWord t Let_def)
  next
    case (ABytes b)
    with Cons.hyps have t: "t = TBytes" by (cases t) auto
    let ?off' = "off + length (abi_tail (ABytes b))"
    let ?tl = "concat (map abi_tail vs)"
    let ?bs = "H @ abi_word (of_nat off) @ abi_heads ?off' vs @ T @ abi_tail (ABytes b) @ ?tl"
    have lo: "off < 2 ^ 64"
      using Cons.prems(2,3) by (simp add: ABytes)
    then have uo: "unat (of_nat off :: uint256) = off"
      by (simp add: unat_of_nat)
    have lw: "load_word ?bs (32 * i) = of_nat off"
      using Cons.prems(1) by simp
    have assoc: "?bs = (H @ abi_word (of_nat off) @ abi_heads ?off' vs @ T) @ abi_tail (ABytes b) @ ?tl"
      by simp
    have dyn: "abi_decode_bytes_at ?bs off = Inr b"
      unfolding assoc
      by (rule abi_decode_bytes_at_tail) (use Cons.prems ABytes in auto)
    have "abi_decode_from (Suc i) ts
        ((H @ abi_word (of_nat off)) @ abi_heads ?off' vs @ (T @ abi_tail (ABytes b)) @ ?tl) = Inr vs"
      by (rule Cons.IH) (use Cons.prems ABytes in auto)
    then show ?thesis
      using lw uo dyn by (simp add: ABytes t)
  next
    case (AWords ws)
    with Cons.hyps have t: "t = TWords" by (cases t) auto
    let ?off' = "off + length (abi_tail (AWords ws))"
    let ?tl = "concat (map abi_tail vs)"
    let ?bs = "H @ abi_word (of_nat off) @ abi_heads ?off' vs @ T @ abi_tail (AWords ws) @ ?tl"
    have lo: "off < 2 ^ 64"
      using Cons.prems(2,3) by (simp add: AWords)
    then have uo: "unat (of_nat off :: uint256) = off"
      by (simp add: unat_of_nat)
    have lw: "load_word ?bs (32 * i) = of_nat off"
      using Cons.prems(1) by simp
    have assoc: "?bs = (H @ abi_word (of_nat off) @ abi_heads ?off' vs @ T) @ abi_tail (AWords ws) @ ?tl"
      by simp
    have dyn: "abi_decode_words_at ?bs off = Inr ws"
      unfolding assoc
      by (rule abi_decode_words_at_tail) (use Cons.prems AWords in auto)
    have "abi_decode_from (Suc i) ts
        ((H @ abi_word (of_nat off)) @ abi_heads ?off' vs @ (T @ abi_tail (AWords ws)) @ ?tl) = Inr vs"
      by (rule Cons.IH) (use Cons.prems AWords in auto)
    then show ?thesis
      using lw uo dyn by (simp add: AWords t)
  qed
qed simp

lemma abi_decode_encode:
  assumes "list_all2 abi_has_ty vs ts" and "length (abi_encode vs) < 2 ^ 64"
  shows "abi_decode ts (abi_encode vs) = Inr vs"
proof -
  have "abi_decode_from 0 ts (abi_encode vs) = Inr vs"
    using abi_decode_from_encode [OF assms(1), of "[]" 0 "32 * length vs" "[]"] assms(2)
    by (simp add: abi_encode_def)
  then show ?thesis
    using list_all2_lengthD [OF assms(1)]
    by (simp add: abi_decode_def length_abi_encode)
qed

lemma abi_encode_inject:
  assumes "list_all2 abi_has_ty vs ts" and "list_all2 abi_has_ty ws ts"
    and "length (abi_encode vs) < 2 ^ 64" and "abi_encode vs = abi_encode ws"
  shows "vs = ws"
  using assms abi_decode_encode by (metis Inr_inject)

subsection \<open>Tuples of static words\<close>

lemma abi_heads_static: "abi_heads off (map AWord ws) = concat (map abi_word ws)"
  by (induction ws) auto

lemma abi_encode_static: "abi_encode (map AWord ws) = concat (map abi_word ws)"
  by (simp add: abi_encode_def abi_heads_static comp_def)

lemma concat_abi_word_inject:
  "length vs = length ws \<Longrightarrow> concat (map abi_word vs) = concat (map abi_word ws) \<longleftrightarrow> vs = ws"
  by (induction vs ws rule: list_induct2) auto

end
