(* ===== verification/UserOp.thy ===== *)
theory UserOp
  imports Abi
begin

unbundle bit_operations_syntax

text \<open>
  The account-abstraction and signature helpers every paymaster and account is compiled with,
  as the repository carries them in \<open>P256SmartAccountFactory_Flattened.sol\<close>: the
  \<open>UserOperation\<close> struct and \<open>UserOperationLib\<close>, the packed validation data of
  \<open>core/Helpers.sol\<close>, and OpenZeppelin's \<open>ECDSA\<close> library.

  The EVM's hash functions and precompiles are arguments (\<open>evm_crypto\<close>): no theorem assumes
  anything of them, and a statement that a signature covers a field is a statement about the
  bytes that are hashed.
\<close>

record evm_crypto =
  keccak256 :: "bytes \<Rightarrow> bytes32"
  sha256 :: "bytes \<Rightarrow> bytes32"
  ecrecover :: "bytes32 \<Rightarrow> byte \<Rightarrow> bytes32 \<Rightarrow> bytes32 \<Rightarrow> address"

section \<open>UserOperation\<close>

record UserOperation =
  sender :: address
  nonce :: uint256
  initCode :: bytes
  callData :: bytes
  callGasLimit :: uint256
  verificationGasLimit :: uint256
  preVerificationGas :: uint256
  maxFeePerGas :: uint256
  maxPriorityFeePerGas :: uint256
  paymasterAndData :: bytes
  signature :: bytes

definition calldataKeccak :: "evm_crypto \<Rightarrow> bytes \<Rightarrow> bytes32" where
  "calldataKeccak c data = keccak256 c data"

definition getSender :: "UserOperation \<Rightarrow> address" where
  "getSender userOp = sender userOp"

definition UserOperationLib_min :: "uint256 \<Rightarrow> uint256 \<Rightarrow> uint256" where
  "UserOperationLib_min a b = (if a < b then a else b)"

text \<open>The addition stands in an \<open>unchecked\<close> block: it wraps.\<close>

definition UserOperationLib_gasPrice :: "uint256 \<Rightarrow> UserOperation \<Rightarrow> uint256" where
  "UserOperationLib_gasPrice basefee userOp =
     (if maxFeePerGas userOp = maxPriorityFeePerGas userOp then maxFeePerGas userOp
      else UserOperationLib_min (maxFeePerGas userOp) (maxPriorityFeePerGas userOp + basefee))"

definition UserOperationLib_pack :: "evm_crypto \<Rightarrow> UserOperation \<Rightarrow> bytes" where
  "UserOperationLib_pack c userOp =
     abi_encode
       [AWord (ucast (getSender userOp)), AWord (nonce userOp),
        AWord (calldataKeccak c (initCode userOp)), AWord (calldataKeccak c (callData userOp)),
        AWord (callGasLimit userOp), AWord (verificationGasLimit userOp), AWord (preVerificationGas userOp),
        AWord (maxFeePerGas userOp), AWord (maxPriorityFeePerGas userOp),
        AWord (calldataKeccak c (paymasterAndData userOp))]"

definition UserOperationLib_hash :: "evm_crypto \<Rightarrow> UserOperation \<Rightarrow> bytes32" where
  "UserOperationLib_hash c userOp = keccak256 c (UserOperationLib_pack c userOp)"

lemma gasPrice_le_maxFee: "UserOperationLib_gasPrice basefee userOp \<le> maxFeePerGas userOp"
  by (auto simp: UserOperationLib_gasPrice_def UserOperationLib_min_def)

lemma ucast_address_inject [simp]:
  "(ucast (a :: address) :: uint256) = ucast b \<longleftrightarrow> a = b"
proof -
  have "unat (ucast x :: uint256) = unat x" for x :: address
    by (rule unat_ucast_up) simp
  then show ?thesis by (metis word_unat_eq_iff)
qed

lemma ucast_uint48_inject [simp]:
  "(ucast (a :: uint48) :: uint256) = ucast b \<longleftrightarrow> a = b"
proof -
  have "unat (ucast x :: uint256) = unat x" for x :: uint48
    by (rule unat_ucast_up) simp
  then show ?thesis by (metis word_unat_eq_iff)
qed

section \<open>Validation data\<close>

record ValidationData =
  aggregator :: address
  validAfter :: uint48
  validUntil :: uint48

definition parseValidationData :: "uint256 \<Rightarrow> ValidationData" where
  "parseValidationData validationData =
     (let vUntil = ucast (drop_bit 160 validationData);
          vUntil = (if vUntil = 0 then - 1 else vUntil);
          vAfter = ucast (drop_bit (48 + 160) validationData)
      in \<lparr>aggregator = ucast validationData, validAfter = vAfter, validUntil = vUntil\<rparr>)"

definition intersectTimeRange :: "uint256 \<Rightarrow> uint256 \<Rightarrow> ValidationData" where
  "intersectTimeRange validationData paymasterValidationData =
     (let account = parseValidationData validationData;
          pm = parseValidationData paymasterValidationData;
          agg = (if aggregator account = 0 then aggregator pm else aggregator account);
          vAfter = (if validAfter account < validAfter pm then validAfter pm else validAfter account);
          vUntil = (if validUntil account > validUntil pm then validUntil pm else validUntil account)
      in \<lparr>aggregator = agg, validAfter = vAfter, validUntil = vUntil\<rparr>)"

definition packValidationData_struct :: "ValidationData \<Rightarrow> uint256" where
  "packValidationData_struct data =
     ucast (aggregator data) OR push_bit 160 (ucast (validUntil data))
       OR push_bit (160 + 48) (ucast (validAfter data))"

definition packValidationData :: "bool \<Rightarrow> uint48 \<Rightarrow> uint48 \<Rightarrow> uint256" where
  "packValidationData sigFailed vUntil vAfter =
     (if sigFailed then 1 else 0) OR push_bit 160 (ucast vUntil) OR push_bit (160 + 48) (ucast vAfter)"

lemma packed_fields:
  fixes agg :: address and u a :: uint48
  defines "w \<equiv> (ucast agg OR push_bit 160 (ucast u) OR push_bit 208 (ucast a) :: uint256)"
  shows "ucast w = agg" and "ucast (drop_bit 160 w) = u" and "ucast (drop_bit 208 w) = a"
  unfolding w_def
  by (rule bit_word_eqI; auto simp: bit_simps dest: bit_imp_le_length)+

lemma pack_struct_fields:
  "ucast (packValidationData_struct d) = aggregator d"
  "ucast (drop_bit 160 (packValidationData_struct d)) = validUntil d"
  "ucast (drop_bit 208 (packValidationData_struct d)) = validAfter d"
  using packed_fields [of "aggregator d" "validUntil d" "validAfter d"]
  by (simp_all only: packValidationData_struct_def numeral_plus_numeral add_num_simps)

lemma parse_pack_struct:
  "parseValidationData (packValidationData_struct d) =
   d\<lparr>validUntil := (if validUntil d = 0 then - 1 else validUntil d)\<rparr>"
  by (simp add: parseValidationData_def pack_struct_fields Let_def)

lemma pack_struct_inject:
  "packValidationData_struct d = packValidationData_struct e \<Longrightarrow>
   aggregator d = aggregator e \<and> validUntil d = validUntil e \<and> validAfter d = validAfter e"
  by (metis pack_struct_fields)

lemma packValidationData_as_struct:
  "packValidationData f u a =
   packValidationData_struct \<lparr>aggregator = (if f then 1 else 0), validAfter = a, validUntil = u\<rparr>"
  by (simp add: packValidationData_def packValidationData_struct_def)

lemma parse_pack:
  "parseValidationData (packValidationData f u a) =
   \<lparr>aggregator = (if f then 1 else 0), validAfter = a, validUntil = (if u = 0 then - 1 else u)\<rparr>"
  by (simp add: packValidationData_as_struct parse_pack_struct)

lemma packValidationData_inject:
  "packValidationData f u a = packValidationData f' u' a' \<longleftrightarrow> f = f' \<and> u = u' \<and> a = a'"
proof
  assume "packValidationData f u a = packValidationData f' u' a'"
  then have eq: "packValidationData_struct \<lparr>aggregator = (if f then 1 else 0), validAfter = a, validUntil = u\<rparr> =
      packValidationData_struct \<lparr>aggregator = (if f' then 1 else 0), validAfter = a', validUntil = u'\<rparr>"
    by (simp only: packValidationData_as_struct)
  then have "(if f then 1 else 0 :: address) = (if f' then 1 else 0)" "u = u'" "a = a'"
    using pack_struct_inject [OF eq] by simp_all
  then show "f = f' \<and> u = u' \<and> a = a'" by (auto split: if_splits)
qed simp

text \<open>The time range of the intersection is the intersection of the two ranges.\<close>

lemma intersectTimeRange_mem:
  "validAfter (intersectTimeRange v p) \<le> t \<and> t \<le> validUntil (intersectTimeRange v p) \<longleftrightarrow>
   (validAfter (parseValidationData v) \<le> t \<and> t \<le> validUntil (parseValidationData v)) \<and>
   (validAfter (parseValidationData p) \<le> t \<and> t \<le> validUntil (parseValidationData p))"
  by (auto simp: intersectTimeRange_def Let_def)

section \<open>ECDSA\<close>

datatype RecoverError =
    NoError | InvalidSignature | InvalidSignatureLength | InvalidSignatureS | InvalidSignatureV

fun throwError :: "RecoverError \<Rightarrow> unit res" where
  "throwError NoError = Inr ()"
| "throwError InvalidSignature = Inl (Revert ''ECDSA: invalid signature'')"
| "throwError InvalidSignatureLength = Inl (Revert ''ECDSA: invalid signature length'')"
| "throwError InvalidSignatureS = Inl (Revert ''ECDSA: invalid signature 's' value'')"
| "throwError InvalidSignatureV = Inr ()"

definition tryRecover_vrs ::
    "evm_crypto \<Rightarrow> bytes32 \<Rightarrow> byte \<Rightarrow> bytes32 \<Rightarrow> bytes32 \<Rightarrow> address \<times> RecoverError" where
  "tryRecover_vrs c hash v r s =
     (if s > 0x7FFFFFFFFFFFFFFFFFFFFFFFFFFFFFFF5D576E7357A4501DDFE92F46681B20A0 then (0, InvalidSignatureS)
      else let signer = ecrecover c hash v r s
           in if signer = 0 then (0, InvalidSignature) else (signer, NoError))"

definition tryRecover :: "evm_crypto \<Rightarrow> bytes32 \<Rightarrow> bytes \<Rightarrow> address \<times> RecoverError" where
  "tryRecover c hash sig =
     (if length sig = 65
      then tryRecover_vrs c hash (sig ! 64) (load_word sig 0) (load_word sig 32)
      else (0, InvalidSignatureLength))"

definition ECDSA_recover :: "evm_crypto \<Rightarrow> bytes32 \<Rightarrow> bytes \<Rightarrow> address res" where
  "ECDSA_recover c hash sig =
     (case tryRecover c hash sig of (recovered, error) \<Rightarrow>
      bindR (throwError error) (\<lambda>_. Inr recovered))"

text \<open>\<open>"\x19Ethereum Signed Message:\n32"\<close> followed by the hash.\<close>

definition eth_prefix :: bytes where
  "eth_prefix = 0x19 # map (\<lambda>ch. of_nat (of_char ch)) ''Ethereum Signed Message:'' @ [0x0a, 0x33, 0x32]"

definition toEthSignedMessageHash :: "evm_crypto \<Rightarrow> bytes32 \<Rightarrow> bytes32" where
  "toEthSignedMessageHash c hash = keccak256 c (eth_prefix @ abi_word hash)"

lemma ECDSA_recover_length:
  "length sig \<noteq> 65 \<Longrightarrow> ECDSA_recover c hash sig = Inl (Revert ''ECDSA: invalid signature length'')"
  by (simp add: ECDSA_recover_def tryRecover_def)

lemma ECDSA_recover_eq_Inr:
  "ECDSA_recover c hash sig = Inr a \<longleftrightarrow>
   length sig = 65 \<and> a \<noteq> 0 \<and> a = ecrecover c hash (sig ! 64) (load_word sig 0) (load_word sig 32) \<and>
   load_word sig 32 \<le> 0x7FFFFFFFFFFFFFFFFFFFFFFFFFFFFFFF5D576E7357A4501DDFE92F46681B20A0"
  by (auto simp: ECDSA_recover_def tryRecover_def tryRecover_vrs_def Let_def not_less)

end
