(* ===== verification/Registry.thy ===== *)
theory Registry
  imports Prelude
begin

text \<open>
  \<open>EnclaveRegistry.sol\<close>: the address book every account looks its entry point and its
  signature verifier up in. The interface the accounts and the deployment scripts use is the
  locale \<open>address_book\<close>; the contract is its interpretation.
\<close>

section \<open>The contract\<close>

record enclave_registry =
  er_owner :: address
  er_registry :: "string \<Rightarrow> address"

text \<open>The constructor: a fresh contract with an empty mapping.\<close>

definition registry_constructor :: "address \<Rightarrow> enclave_registry" where
  "registry_constructor owner' = \<lparr>er_owner = owner', er_registry = (\<lambda>_. 0)\<rparr>"

definition registry_onlyOwner :: "address \<Rightarrow> enclave_registry \<Rightarrow> unit res" where
  "registry_onlyOwner sender s = require (sender = er_owner s) ''Caller not owner''"

definition updateRegistryAddress ::
    "address \<Rightarrow> string \<Rightarrow> address \<Rightarrow> enclave_registry \<Rightarrow> enclave_registry res" where
  "updateRegistryAddress sender contractName contractAddress s =
     bindR (registry_onlyOwner sender s) (\<lambda>_.
     bindR (require (contractAddress \<noteq> 0) ''Registry: Zero address'') (\<lambda>_.
     Inr (s\<lparr>er_registry := (er_registry s)(contractName := contractAddress)\<rparr>)))"

definition getRegistryAddress :: "string \<Rightarrow> enclave_registry \<Rightarrow> address res" where
  "getRegistryAddress contractName s =
     bindR (require (er_registry s contractName \<noteq> 0) ''Registry: Entry doesn't exist'') (\<lambda>_.
     Inr (er_registry s contractName))"

lemmas registry_defs =
  registry_onlyOwner_def updateRegistryAddress_def getRegistryAddress_def registry_constructor_def

section \<open>The interface\<close>

text \<open>A sequence of writes by one caller, stopping at the first that fails.\<close>

fun run_updates :: "('k \<Rightarrow> 'v \<Rightarrow> 's \<Rightarrow> 's res) \<Rightarrow> ('k \<times> 'v) list \<Rightarrow> 's \<Rightarrow> 's res" where
  "run_updates upd [] s = Inr s"
| "run_updates upd ((k, v) # kvs) s = bindR (upd k v s) (run_updates upd kvs)"

locale address_book =
  fixes own :: "'s \<Rightarrow> address"
    and upd :: "address \<Rightarrow> string \<Rightarrow> address \<Rightarrow> 's \<Rightarrow> 's res"
    and get :: "string \<Rightarrow> 's \<Rightarrow> address res"
  assumes upd_returns: "(\<exists>s'. upd u k a s = Inr s') \<longleftrightarrow> u = own s \<and> a \<noteq> 0"
    and upd_own: "upd u k a s = Inr s' \<Longrightarrow> own s' = own s"
    and get_upd_same: "upd u k a s = Inr s' \<Longrightarrow> get k s' = Inr a"
    and get_upd_other: "upd u k a s = Inr s' \<Longrightarrow> k' \<noteq> k \<Longrightarrow> get k' s' = get k' s"
    and get_nonzero: "get k s = Inr a \<Longrightarrow> a \<noteq> 0"
begin

lemma stranger_upd: "u \<noteq> own s \<Longrightarrow> upd u k a s \<noteq> Inr s'"
  using upd_returns by blast

lemma owner_upd: "a \<noteq> 0 \<Longrightarrow> \<exists>s'. upd (own s) k a s = Inr s'"
  using upd_returns by blast

lemma run_own: "run_updates (upd u) kvs s = Inr s' \<Longrightarrow> own s' = own s"
  by (induction "upd u" kvs s rule: run_updates.induct) (auto simp: res_simps upd_own)

lemma run_returns:
  "\<forall>(k, a) \<in> set kvs. a \<noteq> 0 \<Longrightarrow> \<exists>s'. run_updates (upd (own s)) kvs s = Inr s'"
proof (induction kvs arbitrary: s)
  case (Cons ka kvs)
  obtain k a where ka: "ka = (k, a)" by force
  with Cons.prems obtain s1 where s1: "upd (own s) k a s = Inr s1"
    using owner_upd by fastforce
  have "\<exists>s'. run_updates (upd (own s1)) kvs s1 = Inr s'"
    by (rule Cons.IH) (use Cons.prems in simp)
  then show ?case
    by (simp add: ka s1 upd_own [OF s1])
qed simp

lemma run_get:
  "run_updates (upd u) kvs s = Inr s' \<Longrightarrow>
   get k s' = (case map_of (rev kvs) k of None \<Rightarrow> get k s | Some a \<Rightarrow> Inr a)"
proof (induction kvs arbitrary: s)
  case (Cons ka kvs)
  obtain k1 a where ka: "ka = (k1, a)" by force
  with Cons.prems obtain s1 where s1: "upd u k1 a s = Inr s1"
      and run: "run_updates (upd u) kvs s1 = Inr s'"
    by (auto simp: res_simps)
  show ?case
    using Cons.IH [OF run] get_upd_same [OF s1] get_upd_other [OF s1]
    by (cases "k = k1") (auto simp: ka map_add_def split: option.splits)
qed simp

end

lemma registry_get_upd_other:
  "updateRegistryAddress u k a s = Inr s' \<Longrightarrow> k' \<noteq> k \<Longrightarrow>
   getRegistryAddress k' s' = getRegistryAddress k' s"
  by (auto simp: registry_defs res_simps)

interpretation reg: address_book er_owner updateRegistryAddress getRegistryAddress
proof unfold_locales
  show "\<And>u k a s s' k'. updateRegistryAddress u k a s = Inr s' \<Longrightarrow> k' \<noteq> k \<Longrightarrow>
      getRegistryAddress k' s' = getRegistryAddress k' s"
    by (rule registry_get_upd_other)
qed (auto simp: registry_defs res_simps)

section \<open>Calls from arbitrary senders\<close>

text \<open>
  The registry's life: any address may call the only function that writes. A reverting call
  is no step.
\<close>

inductive registry_step :: "enclave_registry \<Rightarrow> address \<Rightarrow> enclave_registry \<Rightarrow> bool" where
  update: "updateRegistryAddress sender k a s = Inr s' \<Longrightarrow> registry_step s sender s'"

inductive_cases registry_stepE: "registry_step s sender s'"

inductive registry_reachable :: "address \<Rightarrow> enclave_registry \<Rightarrow> bool" for ow :: address where
  deploy: "registry_reachable ow (registry_constructor ow)"
| call: "registry_reachable ow s \<Longrightarrow> registry_step s sender s' \<Longrightarrow> registry_reachable ow s'"

lemma registry_step_by_owner: "registry_step s sender s' \<Longrightarrow> sender = er_owner s"
  by (auto elim!: registry_stepE dest: reg.stranger_upd)

lemma registry_reachable_owner: "registry_reachable ow s \<Longrightarrow> er_owner s = ow"
proof (induction rule: registry_reachable.induct)
  case deploy
  show ?case by (simp add: registry_constructor_def)
next
  case (call s sender s')
  then show ?case by (auto elim!: registry_stepE simp: reg.upd_own)
qed

end
