(* ===== verification/Base64Url.thy ===== *)
theory Base64Url
  imports Abi
begin

text \<open>
  \<open>utils/Base64URL.sol\<close> and the OpenZeppelin \<open>Base64\<close> library it calls, whose source the
  repository carries in \<open>P256SmartAccountFactory_Flattened.sol\<close>. The account puts the
  encoding of the user operation's hash into the WebAuthn challenge, which a browser computes as
  RFC 4648's unpadded base64url. The encoder is proved equal to that encoding (\<open>url_ref\<close>), which is
  written here from the RFC, with the RFC's alphabet and without the tables of the code, and
  which \<open>url_decode\<close> inverts.
\<close>

section \<open>The code\<close>

definition ascii :: "string \<Rightarrow> bytes" where
  "ascii s = map of_char s"

definition Base64_TABLE :: bytes where
  "Base64_TABLE = ascii ''ABCDEFGHIJKLMNOPQRSTUVWXYZabcdefghijklmnopqrstuvwxyz0123456789+/''"

text \<open>
  One turn of the loop reads three bytes as a 24-bit number (bytes after the end of the data
  were zeroed) and writes four characters.
\<close>

definition Base64_chunk :: "bytes \<Rightarrow> bytes" where
  "Base64_chunk bs =
     (let input = be_nat (take 3 (bs @ [0, 0, 0])) in
      [Base64_TABLE ! (take_bit 6 (drop_bit 18 input)),
       Base64_TABLE ! (take_bit 6 (drop_bit 12 input)),
       Base64_TABLE ! (take_bit 6 (drop_bit 6 input)),
       Base64_TABLE ! (take_bit 6 input)])"

function Base64_loop :: "bytes \<Rightarrow> bytes" where
  "Base64_loop bs = (if bs = [] then [] else Base64_chunk bs @ Base64_loop (drop 3 bs))"
  by pat_completeness auto
termination
  by (relation "measure length") (auto simp: less_Suc_eq_le)

declare Base64_loop.simps [simp del]

definition Base64_encode :: "bytes \<Rightarrow> bytes" where
  "Base64_encode data =
     (if length data = 0 then []
      else let result = Base64_loop data; n = length result in
        (if length data mod 3 = 1 then result[n - 1 := 0x3d, n - 2 := 0x3d]
         else if length data mod 3 = 2 then result[n - 1 := 0x3d]
         else result))"

text \<open>\<open>Base64URL.encode\<close>: 0x3d is \<open>=\<close>, 0x2b \<open>+\<close>, 0x2d \<open>-\<close>, 0x2f \<open>/\<close>, 0x5f \<open>_\<close>.\<close>

definition url_char :: "byte \<Rightarrow> byte" where
  "url_char c = (if c = 0x2b then 0x2d else if c = 0x2f then 0x5f else c)"

definition Base64URL_encode :: "bytes \<Rightarrow> bytes" where
  "Base64URL_encode data =
     (let b64 = Base64_encode data;
          equalsCount =
            (if length b64 > 2 \<and> b64 ! (length b64 - 2) = 0x3d then 2
             else if length b64 > 1 \<and> b64 ! (length b64 - 1) = 0x3d then 1
             else 0);
          len = length b64 - equalsCount
      in map (\<lambda>i. url_char (b64 ! i)) [0..<len])"

section \<open>The reference encoding\<close>

text \<open>
  RFC 4648, section 5: the alphabet of table 2; groups of 24 bits are read as four 6-bit
  numbers, and a final group of one or two bytes, filled with zero bits, gives two or three characters.
\<close>

definition url_alphabet :: bytes where
  "url_alphabet = ascii ''ABCDEFGHIJKLMNOPQRSTUVWXYZabcdefghijklmnopqrstuvwxyz0123456789-_''"

definition url_sym :: "nat \<Rightarrow> byte" where
  "url_sym k = url_alphabet ! (k mod 64)"

fun url_ref :: "bytes \<Rightarrow> bytes" where
  "url_ref [] = []"
| "url_ref [x] = (let n = unat x * 65536 in [url_sym (n div 262144), url_sym (n div 4096)])"
| "url_ref [x, y] = (let n = unat x * 65536 + unat y * 256 in
     [url_sym (n div 262144), url_sym (n div 4096), url_sym (n div 64)])"
| "url_ref (x # y # z # bs) = (let n = unat x * 65536 + unat y * 256 + unat z in
     [url_sym (n div 262144), url_sym (n div 4096), url_sym (n div 64), url_sym n] @ url_ref bs)"

definition url_val :: "byte \<Rightarrow> nat" where
  "url_val c = length (takeWhile (\<lambda>d. d \<noteq> c) url_alphabet)"

fun url_decode :: "bytes \<Rightarrow> bytes" where
  "url_decode (a # b # c # d # cs) =
     be_bytes 3 (url_val a * 262144 + url_val b * 4096 + url_val c * 64 + url_val d) @ url_decode cs"
| "url_decode [a, b, c] =
     be_bytes 2 ((url_val a * 262144 + url_val b * 4096 + url_val c * 64) div 256)"
| "url_decode [a, b] = be_bytes 1 ((url_val a * 262144 + url_val b * 4096) div 65536)"
| "url_decode _ = []"

section \<open>The table\<close>

lemma table_list:
  "Base64_TABLE = map of_nat ([65..<91] @ [97..<123] @ [48..<58] @ [43, 47])"
  by (simp add: Base64_TABLE_def ascii_def upt_rec)

lemma length_table [simp]: "length Base64_TABLE = 64"
  by (simp add: table_list)

lemma alphabet_list: "url_alphabet = map of_nat ([65..<91] @ [97..<123] @ [48..<58] @ [45, 95])"
  by (simp add: url_alphabet_def ascii_def upt_rec)

lemma length_alphabet [simp]: "length url_alphabet = 64"
  by (simp add: alphabet_list)

lemma alphabet_distinct: "distinct url_alphabet"
  by (simp add: alphabet_list upt_rec)

text \<open>The code's table, with its two characters exchanged for URLs, is the RFC's alphabet.\<close>

lemma url_table: "map url_char Base64_TABLE = url_alphabet"
  by (simp add: table_list alphabet_list upt_rec url_char_def)

lemma table_not_pad: "0x3d \<notin> set Base64_TABLE"
  by (simp add: table_list upt_rec)

lemma table_nth_not_pad: "k < 64 \<Longrightarrow> Base64_TABLE ! k \<noteq> 0x3d"
  using table_not_pad by (metis length_table nth_mem)

lemma url_val_sym: "url_val (url_sym k) = k mod 64"
proof -
  let ?t = url_alphabet and ?i = "k mod 64"
  have i: "?i < length ?t" by simp
  have "takeWhile (\<lambda>d. d \<noteq> ?t ! ?i) ?t = take ?i ?t"
  proof (rule takeWhile_eq_take_P_nth)
    show "\<And>j. j < ?i \<Longrightarrow> j < length ?t \<Longrightarrow> ?t ! j \<noteq> ?t ! ?i"
      using alphabet_distinct i by (metis less_irrefl nth_eq_iff_index_eq)
  qed simp
  moreover have "url_sym k = ?t ! ?i" by (simp add: url_sym_def)
  ultimately show ?thesis by (simp add: url_val_def)
qed

section \<open>The encoder is the reference encoding\<close>

definition tab_sym :: "nat \<Rightarrow> byte" where
  "tab_sym k = Base64_TABLE ! (k mod 64)"

lemma tab_sym_not_pad [simp]: "tab_sym k \<noteq> 0x3d"
  by (simp add: tab_sym_def table_nth_not_pad)

lemma url_char_tab_sym [simp]: "url_char (tab_sym k) = url_sym k"
  by (simp add: tab_sym_def url_sym_def flip: url_table)

definition quad :: "nat \<Rightarrow> bytes" where
  "quad n = [tab_sym (n div 262144), tab_sym (n div 4096), tab_sym (n div 64), tab_sym n]"

lemma length_quad [simp]: "length (quad n) = 4"
  by (simp add: quad_def)

lemma chunk_quad: "Base64_chunk bs = quad (be_nat (take 3 (bs @ [0, 0, 0])))"
  by (simp add: Base64_chunk_def quad_def tab_sym_def Let_def take_bit_eq_mod drop_bit_eq_div)

lemma be_nat_3: "be_nat [x, y, z] = unat x * 65536 + unat y * 256 + unat z"
  by (simp add: be_nat_def)

lemma loop_Nil [simp]: "Base64_loop [] = []"
  by (subst Base64_loop.simps) simp

lemma loop_Cons [simp]:
  "Base64_loop (x # bs) = quad (be_nat (take 3 ((x # bs) @ [0, 0, 0]))) @ Base64_loop (drop 2 bs)"
  by (subst Base64_loop.simps) (simp add: chunk_quad)

text \<open>The padded encoding, character by character.\<close>

fun pad_ref :: "bytes \<Rightarrow> bytes" where
  "pad_ref [] = []"
| "pad_ref [x] = take 2 (quad (unat x * 65536)) @ [0x3d, 0x3d]"
| "pad_ref [x, y] = take 3 (quad (unat x * 65536 + unat y * 256)) @ [0x3d]"
| "pad_ref (x # y # z # bs) = quad (unat x * 65536 + unat y * 256 + unat z) @ pad_ref bs"

lemma length_loop: "bs \<noteq> [] \<Longrightarrow> 4 \<le> length (Base64_loop bs)"
  by (cases bs) auto

lemma update_after: "length q \<le> i \<Longrightarrow> (q @ r)[i := v] = q @ r[i - length q := v]"
  by (simp add: list_update_append)

lemma encode_three:
  assumes "bs \<noteq> []"
  shows "Base64_encode (x # y # z # bs) = quad (be_nat [x, y, z]) @ Base64_encode bs"
proof -
  have "4 \<le> length (Base64_loop bs)"
    using assms by (rule length_loop)
  then show ?thesis
    using assms by (simp add: Base64_encode_def Let_def update_after)
qed

lemma Base64_encode_pad_ref: "Base64_encode bs = pad_ref bs"
proof (induction bs rule: pad_ref.induct)
  case (4 x y z bs)
  then show ?case
    by (cases "bs = []") (simp_all add: encode_three be_nat_3, simp add: Base64_encode_def be_nat_3)
qed (simp_all add: Base64_encode_def be_nat_3 Let_def quad_def)

lemma map_upt_take: "n \<le> length xs \<Longrightarrow> map (\<lambda>i. f (xs ! i)) [0..<n] = map f (take n xs)"
  by (rule nth_equalityI) auto

definition strip :: "bytes \<Rightarrow> bytes" where
  "strip b = map url_char (take (length b -
     (if length b > 2 \<and> b ! (length b - 2) = 0x3d then 2
      else if length b > 1 \<and> b ! (length b - 1) = 0x3d then 1 else 0)) b)"

lemma Base64URL_strip: "Base64URL_encode data = strip (Base64_encode data)"
  by (auto simp: Base64URL_encode_def strip_def Let_def map_upt_take)

lemma strip_append:
  assumes "4 \<le> length r"
  shows "strip (quad n @ r) = map url_char (quad n) @ strip r"
proof -
  let ?ec = "(if length r > 2 \<and> r ! (length r - 2) = 0x3d then 2
      else if length r > 1 \<and> r ! (length r - 1) = 0x3d then 1 else 0) :: nat"
  have "r \<noteq> []" using assms by auto
  then have nth: "(quad n @ r) ! (4 + length r - 2) = r ! (length r - 2)"
      "(quad n @ r) ! (4 + length r - 1) = r ! (length r - 1)"
    using assms by (simp_all add: nth_append)
  have "strip (quad n @ r) = map url_char (take (4 + length r - ?ec) (quad n @ r))"
    using assms nth by (simp add: strip_def)
  also have "4 + length r - ?ec = 4 + (length r - ?ec)"
    using assms by auto
  also have "map url_char (take \<dots> (quad n @ r)) = map url_char (quad n) @ map url_char (take (length r - ?ec) r)"
    by simp
  finally show ?thesis
    by (simp add: strip_def)
qed

lemma map_quad:
  "map url_char (quad n) = [url_sym (n div 262144), url_sym (n div 4096), url_sym (n div 64), url_sym n]"
  by (simp add: quad_def)

lemma length_pad_ref: "bs \<noteq> [] \<Longrightarrow> 4 \<le> length (pad_ref bs)"
  by (cases bs rule: pad_ref.cases) auto

lemma Base64URL_encode_ref: "Base64URL_encode bs = url_ref bs"
  unfolding Base64URL_strip Base64_encode_pad_ref
proof (induction bs rule: url_ref.induct)
  case (4 x y z bs)
  show ?case
  proof (cases "bs = []")
    case True
    then show ?thesis by (simp add: strip_def quad_def Let_def)
  next
    case False
    with 4 show ?thesis by (simp add: strip_append length_pad_ref map_quad Let_def)
  qed
qed (simp_all add: strip_def quad_def Let_def)

section \<open>The reference encoding is inverted\<close>

lemma sextets:
  fixes n :: nat
  assumes "n < 16777216"
  shows "n div 262144 mod 64 * 262144 + n div 4096 mod 64 * 4096 + n div 64 mod 64 * 64 + n mod 64 = n"
proof -
  define a where "a = n div 64"
  define b where "b = a div 64"
  define c where "c = b div 64"
  have "n = a * 64 + n mod 64" and "a = b * 64 + a mod 64" and "b = c * 64 + b mod 64"
    by (simp_all add: a_def b_def c_def)
  moreover have "n div 4096 = b" and "n div 262144 = c"
    by (simp_all add: a_def b_def c_def flip: div_mult2_eq)
  moreover have "c < 64"
    using assms by (simp add: c_def b_def a_def flip: div_mult2_eq)
  ultimately show ?thesis
    by (simp add: a_def [symmetric])
qed

lemma sextet_sum:
  assumes "n < 16777216"
  shows "url_val (url_sym (n div 262144)) * 262144 + url_val (url_sym (n div 4096)) * 4096
    + url_val (url_sym (n div 64)) * 64 + url_val (url_sym n) = n"
  by (simp only: url_val_sym sextets [OF assms])

lemma triple_less: "unat (x :: byte) * 65536 + unat (y :: byte) * 256 + unat (z :: byte) < 16777216"
  using unat_lt_8 [of x] unat_lt_8 [of y] unat_lt_8 [of z] by linarith

lemma url_decode_ref: "url_decode (url_ref bs) = bs"
proof (induction bs rule: url_ref.induct)
  case (2 x)
  let ?n = "unat x * 65536"
  have "url_val (url_sym (?n div 64)) = 0" and "url_val (url_sym ?n) = 0"
    by (simp_all add: url_val_sym)
  then have "url_val (url_sym (?n div 262144)) * 262144 + url_val (url_sym (?n div 4096)) * 4096 = ?n"
    using sextet_sum [of ?n] triple_less [of x 0 0] by simp
  then have "url_decode (url_ref [x]) = be_bytes 1 (be_nat [x])"
    by (simp only: url_ref.simps url_decode.simps Let_def) (simp add: be_nat_def)
  moreover have "be_bytes 1 (be_nat [x]) = [x]"
    by (rule be_bytes_length) simp
  ultimately show ?case by simp
next
  case (3 x y)
  let ?n = "unat x * 65536 + unat y * 256"
  have "?n = (unat x * 1024 + unat y * 4) * 64" by simp
  then have "url_val (url_sym ?n) = 0"
    by (simp only: url_val_sym mod_mult_self2_is_0)
  then have "url_val (url_sym (?n div 262144)) * 262144 + url_val (url_sym (?n div 4096)) * 4096
      + url_val (url_sym (?n div 64)) * 64 = ?n"
    using sextet_sum [of ?n] triple_less [of x y 0] by simp
  then have "url_decode (url_ref [x, y]) = be_bytes 2 (?n div 256)"
    by (simp only: url_ref.simps url_decode.simps Let_def)
  moreover have "?n div 256 = be_nat [x, y]"
    by (simp add: be_nat_def)
  moreover have "be_bytes 2 (be_nat [x, y]) = [x, y]"
    by (rule be_bytes_length) simp
  ultimately show ?case by simp
next
  case (4 x y z bs)
  let ?n = "unat x * 65536 + unat y * 256 + unat z"
  have "url_decode (url_ref (x # y # z # bs)) = be_bytes 3 ?n @ url_decode (url_ref bs)"
    using sextet_sum [OF triple_less [of x y z]]
    by (simp only: url_ref.simps url_decode.simps Let_def append.simps)
  moreover have "be_bytes 3 ?n = [x, y, z]"
    using be_bytes_length [of "[x, y, z]" 3] by (simp add: be_nat_3)
  ultimately show ?case using 4 by simp
qed simp

lemma Base64URL_decode: "url_decode (Base64URL_encode bs) = bs"
  by (simp add: Base64URL_encode_ref url_decode_ref)

end
