(* ===== verification/Accounts.thy ===== *)
theory Accounts
  imports UserOp Registry Base64Url
begin

text \<open>
  The two account contracts: \<open>P256SmartAccount.sol\<close>, owned by a passkey, and
  \<open>eoa-account/SmartAccount.sol\<close>, owned by an address, with the base contracts they are compiled
  with, as \<open>P256SmartAccountFactory_Flattened.sol\<close> carries them: \<open>BaseAccount\<close>,
  \<open>Initializable\<close>, \<open>UUPSUpgradeable\<close> and \<open>ERC1967Upgrade\<close>; and \<open>P256V.sol\<close>, the wrapper of the
  curve precompile.

  An account runs arbitrary calls, which may call it back. A message call is therefore an
  argument that acts on the account's own storage together with the rest \<open>'w\<close> of the world;
  nothing is assumed of it. The account reads its registry through \<open>regs\<close>, the registry
  contracts by address.
\<close>

section \<open>Proxy storage\<close>

datatype proxy_event =
    Initialized byte
  | Upgraded address
  | SimpleAccountInitialized address

record proxy_storage =
  px_initialized :: byte
  px_initializing :: bool
  px_implementation :: address
  px_rollback :: bool
  px_log :: "proxy_event list"

definition px_emit :: "proxy_event \<Rightarrow> 'a proxy_storage_scheme \<Rightarrow> 'a proxy_storage_scheme" where
  "px_emit ev a = a\<lparr>px_log := px_log a @ [ev]\<rparr>"

text \<open>
  The modifier \<open>initializer\<close> around a body that cannot fail. \<open>isContract\<close> is
  \<open>Address.isContract(address(this))\<close>, false while the constructor of the proxy runs.
\<close>

definition initializer ::
    "bool \<Rightarrow> ('a proxy_storage_scheme \<Rightarrow> 'a proxy_storage_scheme) \<Rightarrow> 'a proxy_storage_scheme \<Rightarrow>
     'a proxy_storage_scheme res" where
  "initializer isContract body a =
     (let isTopLevelCall = \<not> px_initializing a in
     bindR (require ((isTopLevelCall \<and> px_initialized a < 1) \<or> (\<not> isContract \<and> px_initialized a = 1))
              ''Initializable: contract is already initialized'') (\<lambda>_.
     let a = a\<lparr>px_initialized := 1\<rparr>;
         a = (if isTopLevelCall then a\<lparr>px_initializing := True\<rparr> else a);
         a = body a
     in Inr (if isTopLevelCall then px_emit (Initialized 1) (a\<lparr>px_initializing := False\<rparr>) else a)))"

definition disableInitializers :: "'a proxy_storage_scheme \<Rightarrow> 'a proxy_storage_scheme res" where
  "disableInitializers a =
     bindR (require (\<not> px_initializing a) ''Initializable: contract is initializing'') (\<lambda>_.
     Inr (if px_initialized a \<noteq> - 1
          then px_emit (Initialized (- 1)) (a\<lparr>px_initialized := - 1\<rparr>)
          else a))"

text \<open>\<open>ERC1967Upgrade\<close>. \<open>is_contract\<close> is \<open>Address.isContract\<close>.\<close>

definition setImplementation ::
    "(address \<Rightarrow> bool) \<Rightarrow> address \<Rightarrow> 'a proxy_storage_scheme \<Rightarrow> 'a proxy_storage_scheme res" where
  "setImplementation is_contract impl a =
     bindR (require (is_contract impl) ''ERC1967: new implementation is not a contract'') (\<lambda>_.
     Inr (a\<lparr>px_implementation := impl\<rparr>))"

definition upgradeTo_internal ::
    "(address \<Rightarrow> bool) \<Rightarrow> address \<Rightarrow> 'a proxy_storage_scheme \<Rightarrow> 'a proxy_storage_scheme res" where
  "upgradeTo_internal is_contract impl a =
     bindR (setImplementation is_contract impl a) (\<lambda>a. Inr (px_emit (Upgraded impl) a))"

text \<open>\<open>delegate impl data a\<close> is \<open>Address.functionDelegateCall\<close> on the account's storage.\<close>

definition upgradeToAndCall_internal ::
    "(address \<Rightarrow> bool) \<Rightarrow> (address \<Rightarrow> bytes \<Rightarrow> 'a proxy_storage_scheme \<Rightarrow> 'a proxy_storage_scheme res) \<Rightarrow>
     address \<Rightarrow> bytes \<Rightarrow> bool \<Rightarrow> 'a proxy_storage_scheme \<Rightarrow> 'a proxy_storage_scheme res" where
  "upgradeToAndCall_internal is_contract delegate impl data forceCall a =
     bindR (upgradeTo_internal is_contract impl a) (\<lambda>a.
     if length data > 0 \<or> forceCall then delegate impl data a else Inr a)"

definition IMPLEMENTATION_SLOT :: bytes32 where
  "IMPLEMENTATION_SLOT = 0x360894a13ba1a3210667c828492db98dca3e2076cc3735a920a3ca505d382bbc"

text \<open>\<open>uuid impl\<close> is the outcome of the call \<open>IERC1822Proxiable(impl).proxiableUUID()\<close>.\<close>

definition upgradeToAndCallUUPS ::
    "(address \<Rightarrow> bool) \<Rightarrow> (address \<Rightarrow> bytes32 res) \<Rightarrow>
     (address \<Rightarrow> bytes \<Rightarrow> 'a proxy_storage_scheme \<Rightarrow> 'a proxy_storage_scheme res) \<Rightarrow>
     address \<Rightarrow> bytes \<Rightarrow> bool \<Rightarrow> 'a proxy_storage_scheme \<Rightarrow> 'a proxy_storage_scheme res" where
  "upgradeToAndCallUUPS is_contract uuid delegate impl data forceCall a =
     (if px_rollback a then setImplementation is_contract impl a
      else case uuid impl of
             Inl _ \<Rightarrow> Inl (Revert ''ERC1967Upgrade: new implementation is not UUPS'')
           | Inr slot \<Rightarrow>
               bindR (require (slot = IMPLEMENTATION_SLOT) ''ERC1967Upgrade: unsupported proxiableUUID'') (\<lambda>_.
               upgradeToAndCall_internal is_contract delegate impl data forceCall a))"

text \<open>\<open>UUPSUpgradeable\<close>: \<open>self\<close> is the immutable \<open>__self\<close>, \<open>this\<close> the proxy's address.\<close>

definition onlyProxy :: "address \<Rightarrow> address \<Rightarrow> 'a proxy_storage_scheme \<Rightarrow> unit res" where
  "onlyProxy self this a =
     bindR (require (this \<noteq> self) ''Function must be called through delegatecall'') (\<lambda>_.
     require (px_implementation a = self) ''Function must be called through active proxy'')"

definition notDelegated :: "address \<Rightarrow> address \<Rightarrow> unit res" where
  "notDelegated self this =
     require (this = self) ''UUPSUpgradeable: must not be called through delegatecall''"

definition proxiableUUID :: "address \<Rightarrow> address \<Rightarrow> bytes32 res" where
  "proxiableUUID self this = bindR (notDelegated self this) (\<lambda>_. Inr IMPLEMENTATION_SLOT)"

definition UUPS_upgradeTo ::
    "(address \<Rightarrow> bool) \<Rightarrow> (address \<Rightarrow> bytes32 res) \<Rightarrow>
     (address \<Rightarrow> bytes \<Rightarrow> 'a proxy_storage_scheme \<Rightarrow> 'a proxy_storage_scheme res) \<Rightarrow>
     ('a proxy_storage_scheme \<Rightarrow> unit res) \<Rightarrow> address \<Rightarrow> address \<Rightarrow> address \<Rightarrow> 'a proxy_storage_scheme \<Rightarrow>
     'a proxy_storage_scheme res" where
  "UUPS_upgradeTo is_contract uuid delegate authorize self this impl a =
     bindR (onlyProxy self this a) (\<lambda>_.
     bindR (authorize a) (\<lambda>_.
     upgradeToAndCallUUPS is_contract uuid delegate impl [] False a))"

definition UUPS_upgradeToAndCall ::
    "(address \<Rightarrow> bool) \<Rightarrow> (address \<Rightarrow> bytes32 res) \<Rightarrow>
     (address \<Rightarrow> bytes \<Rightarrow> 'a proxy_storage_scheme \<Rightarrow> 'a proxy_storage_scheme res) \<Rightarrow>
     ('a proxy_storage_scheme \<Rightarrow> unit res) \<Rightarrow> address \<Rightarrow> address \<Rightarrow> address \<Rightarrow> bytes \<Rightarrow>
     'a proxy_storage_scheme \<Rightarrow> 'a proxy_storage_scheme res" where
  "UUPS_upgradeToAndCall is_contract uuid delegate authorize self this impl data a =
     bindR (onlyProxy self this a) (\<lambda>_.
     bindR (authorize a) (\<lambda>_.
     upgradeToAndCallUUPS is_contract uuid delegate impl data True a))"

section \<open>Calls\<close>

type_synonym ('a, 'w) msg_call = "address \<Rightarrow> uint256 \<Rightarrow> bytes \<Rightarrow> 'a \<times> 'w \<Rightarrow> (bool \<times> bytes) \<times> 'a \<times> 'w"

definition account_call ::
    "('a, 'w) msg_call \<Rightarrow> address \<Rightarrow> uint256 \<Rightarrow> bytes \<Rightarrow> 'a \<times> 'w \<Rightarrow> ('a \<times> 'w) res" where
  "account_call mc target val data st =
     (case mc target val data st of ((success, result), st') \<Rightarrow>
        if success then Inr st' else Inl (RevertData result))"

fun batch_loop ::
    "('a, 'w) msg_call \<Rightarrow> (address \<times> uint256 \<times> bytes) list \<Rightarrow> 'a \<times> 'w \<Rightarrow> ('a \<times> 'w) res" where
  "batch_loop mc [] st = Inr st"
| "batch_loop mc ((d, v, f) # calls) st = bindR (account_call mc d v f st) (batch_loop mc calls)"

text \<open>The body of \<open>executeBatch\<close> after the caller check, the same in both contracts.\<close>

definition executeBatch_body ::
    "('a, 'w) msg_call \<Rightarrow> address list \<Rightarrow> uint256 list \<Rightarrow> bytes list \<Rightarrow> 'a \<times> 'w \<Rightarrow> ('a \<times> 'w) res" where
  "executeBatch_body mc dest val func st =
     bindR (require (length dest = length func \<and> (length val = 0 \<or> length val = length func))
              ''wrong array lengths'') (\<lambda>_.
     if length val = 0
     then batch_loop mc (zip dest (zip (replicate (length dest) 0) func)) st
     else batch_loop mc (zip dest (zip val func)) st)"

section \<open>BaseAccount\<close>

definition SIG_VALIDATION_FAILED :: uint256 where
  "SIG_VALIDATION_FAILED = 1"

text \<open>A failed payment is ignored: the entry point checks that it was paid.\<close>

definition payPrefund :: "('a, 'w) msg_call \<Rightarrow> address \<Rightarrow> uint256 \<Rightarrow> 'a \<times> 'w \<Rightarrow> 'a \<times> 'w" where
  "payPrefund mc caller missingAccountFunds st =
     (if missingAccountFunds \<noteq> 0 then snd (mc caller missingAccountFunds [] st) else st)"

definition BaseAccount_requireFromEntryPoint :: "address res \<Rightarrow> address \<Rightarrow> unit res" where
  "BaseAccount_requireFromEntryPoint ep caller =
     bindR ep (\<lambda>e. require (caller = e) ''account: not from EntryPoint'')"

definition BaseAccount_validateUserOp ::
    "('a, 'w) msg_call \<Rightarrow> ('a \<Rightarrow> address res) \<Rightarrow> ('a \<Rightarrow> UserOperation \<Rightarrow> bytes32 \<Rightarrow> uint256 res) \<Rightarrow>
     address \<Rightarrow> UserOperation \<Rightarrow> bytes32 \<Rightarrow> uint256 \<Rightarrow> 'a \<times> 'w \<Rightarrow> (uint256 \<times> 'a \<times> 'w) res" where
  "BaseAccount_validateUserOp mc ep validateSignature caller userOp userOpHash missingAccountFunds st =
     bindR (BaseAccount_requireFromEntryPoint (ep (fst st)) caller) (\<lambda>_.
     bindR (validateSignature (fst st) userOp userOpHash) (\<lambda>validationData.
     Inr (validationData, payPrefund mc caller missingAccountFunds st)))"

text \<open>What an account calls on an entry point for its deposit, on the rest of the world.\<close>

record 'w entry_point_deposits =
  ep_getNonce :: "address \<Rightarrow> address \<Rightarrow> uint256 \<Rightarrow> 'w \<Rightarrow> uint256 res"
  ep_balanceOf :: "address \<Rightarrow> address \<Rightarrow> 'w \<Rightarrow> uint256 res"
  ep_depositTo :: "address \<Rightarrow> address \<Rightarrow> uint256 \<Rightarrow> address \<Rightarrow> 'w \<Rightarrow> 'w res"
  ep_withdrawTo :: "address \<Rightarrow> address \<Rightarrow> address \<Rightarrow> uint256 \<Rightarrow> 'w \<Rightarrow> 'w res"

section \<open>P256V\<close>

record p256v =
  pv_precompile :: address

text \<open>
  \<open>staticcall target input\<close> is success and return data. The input is the hash, \<open>r\<close>, \<open>s\<close> and the
  two coordinates, 160 bytes.
\<close>

definition P256V_input :: "bytes32 \<Rightarrow> uint256 \<Rightarrow> uint256 \<Rightarrow> pubkey \<Rightarrow> bytes" where
  "P256V_input h r s pk =
     (let publicKey = abi_word (fst pk) @ abi_word (snd pk);
          sig = abi_word r @ abi_word s
      in abi_word h @ sig @ publicKey)"

definition decode_bool :: "bytes \<Rightarrow> bool res" where
  "decode_bool bs =
     bindR (abi_decode [TUint 1] bs) (\<lambda>vs. case vs of [AWord w] \<Rightarrow> Inr (w = 1) | _ \<Rightarrow> Inl RevertEmpty)"

definition P256V_verify ::
    "(address \<Rightarrow> bytes \<Rightarrow> bool \<times> bytes) \<Rightarrow> p256v \<Rightarrow> bytes32 \<Rightarrow> uint256 \<Rightarrow> uint256 \<Rightarrow> pubkey \<Rightarrow> bool res" where
  "P256V_verify staticcall v h r s pk =
     (case staticcall (pv_precompile v) (P256V_input h r s pk) of (success, output) \<Rightarrow>
      bindR (require success ''Verification failed'') (\<lambda>_. decode_bool output))"

section \<open>P256SmartAccount\<close>

record p256_account = proxy_storage +
  guardians :: "address list"
  isGuardian :: "address \<Rightarrow> bool"
  enclaveRegistry :: address
  pubKey :: pubkey

type_synonym registries = "address \<Rightarrow> enclave_registry option"

text \<open>A call of \<open>getRegistryAddress\<close>; it fails when no registry is at the address.\<close>

definition registry_lookup :: "registries \<Rightarrow> address \<Rightarrow> string \<Rightarrow> address res" where
  "registry_lookup regs a k = (case regs a of None \<Rightarrow> Inl RevertEmpty | Some r \<Rightarrow> getRegistryAddress k r)"

definition p256_entryPoint :: "registries \<Rightarrow> p256_account \<Rightarrow> address res" where
  "p256_entryPoint regs a = registry_lookup regs (enclaveRegistry a) ''entryPoint''"

text \<open>The storage of a fresh contract, and the constructor of the implementation contract.\<close>

definition p256_fresh :: "address \<Rightarrow> p256_account" where
  "p256_fresh impl =
     \<lparr>px_initialized = 0, px_initializing = False, px_implementation = impl, px_rollback = False, px_log = [],
      guardians = [], isGuardian = (\<lambda>_. False), enclaveRegistry = 0, pubKey = (0, 0)\<rparr>"

definition p256_constructor :: "p256_account res" where
  "p256_constructor = disableInitializers (p256_fresh 0)"

definition p256_onlyOwner :: "address \<Rightarrow> address \<Rightarrow> unit res" where
  "p256_onlyOwner this caller = require (caller = this) ''only owner''"

definition p256_initialize ::
    "bool \<Rightarrow> pubkey \<Rightarrow> address \<Rightarrow> p256_account \<Rightarrow> p256_account res" where
  "p256_initialize isContract pk reg a =
     initializer isContract (\<lambda>a. a\<lparr>enclaveRegistry := reg, pubKey := pk\<rparr>) a"

definition p256_requireFromEntryPointOrOwner ::
    "registries \<Rightarrow> address \<Rightarrow> address \<Rightarrow> p256_account \<Rightarrow> unit res" where
  "p256_requireFromEntryPointOrOwner regs this caller a =
     bindR (p256_entryPoint regs a) (\<lambda>ep.
     require (caller = ep \<or> caller = this) ''account: not Owner or EntryPoint'')"

definition p256_requireFromOwnerOrGuardian :: "address \<Rightarrow> address \<Rightarrow> p256_account \<Rightarrow> unit res" where
  "p256_requireFromOwnerOrGuardian this caller a =
     require (caller = this \<or> isGuardian a caller) ''account: Not Owner ot guardian''"

definition p256_execute ::
    "(p256_account, 'w) msg_call \<Rightarrow> registries \<Rightarrow> address \<Rightarrow> address \<Rightarrow> address \<Rightarrow> uint256 \<Rightarrow> bytes \<Rightarrow>
     p256_account \<times> 'w \<Rightarrow> (p256_account \<times> 'w) res" where
  "p256_execute mc regs this caller dest val func st =
     bindR (p256_requireFromEntryPointOrOwner regs this caller (fst st)) (\<lambda>_.
     account_call mc dest val func st)"

definition p256_executeBatch ::
    "(p256_account, 'w) msg_call \<Rightarrow> registries \<Rightarrow> address \<Rightarrow> address \<Rightarrow> address list \<Rightarrow> uint256 list \<Rightarrow>
     bytes list \<Rightarrow> p256_account \<times> 'w \<Rightarrow> (p256_account \<times> 'w) res" where
  "p256_executeBatch mc regs this caller dest val func st =
     bindR (p256_requireFromEntryPointOrOwner regs this caller (fst st)) (\<lambda>_.
     executeBatch_body mc dest val func st)"

text \<open>The client data and the hash the passkey signs.\<close>

definition clientDataJSON :: "bytes \<Rightarrow> bytes \<Rightarrow> bytes32 \<Rightarrow> bytes" where
  "clientDataJSON pre post userOpHash = pre @ Base64URL_encode (abi_word userOpHash) @ post"

definition passkey_hash :: "evm_crypto \<Rightarrow> bytes \<Rightarrow> bytes \<Rightarrow> bytes \<Rightarrow> bytes32 \<Rightarrow> bytes32" where
  "passkey_hash c authenticatorData pre post userOpHash =
     sha256 c (authenticatorData @ abi_word (sha256 c (clientDataJSON pre post userOpHash)))"

text \<open>\<open>verifiers addr\<close> is the function \<open>verify\<close> of the contract at that address.\<close>

type_synonym verifiers = "address \<Rightarrow> bytes32 \<Rightarrow> uint256 \<Rightarrow> uint256 \<Rightarrow> pubkey \<Rightarrow> bool res"

definition p256_verifySignature ::
    "evm_crypto \<Rightarrow> registries \<Rightarrow> verifiers \<Rightarrow> p256_account \<Rightarrow> bytes \<Rightarrow> bytes \<Rightarrow> bytes \<Rightarrow> bytes32 \<Rightarrow>
     uint256 \<Rightarrow> uint256 \<Rightarrow> bool res" where
  "p256_verifySignature c regs verifiers a authenticatorData pre post userOpHash r s =
     (let sigHash = passkey_hash c authenticatorData pre post userOpHash in
     bindR (registry_lookup regs (enclaveRegistry a) ''p256Verifier'') (\<lambda>v.
     verifiers v sigHash r s (pubKey a)))"

definition signature_types :: "abi_ty list" where
  "signature_types = [TUint 256, TUint 256, TUint 256, TBytes, TBytes, TBytes]"

definition decode_signature ::
    "bytes \<Rightarrow> (bytes32 \<times> uint256 \<times> uint256 \<times> bytes \<times> bytes \<times> bytes) res" where
  "decode_signature sig =
     bindR (abi_decode signature_types sig) (\<lambda>vs.
     case vs of [AWord k, AWord r, AWord s, ABytes ad, ABytes pre, ABytes post] \<Rightarrow> Inr (k, r, s, ad, pre, post)
     | _ \<Rightarrow> Inl RevertEmpty)"

definition p256_validateSignature ::
    "evm_crypto \<Rightarrow> registries \<Rightarrow> verifiers \<Rightarrow> p256_account \<Rightarrow> UserOperation \<Rightarrow> bytes32 \<Rightarrow> uint256 res" where
  "p256_validateSignature c regs verifiers a userOp userOpHash =
     bindR (decode_signature (signature userOp)) (\<lambda>(k, r, s, ad, pre, post).
     bindR (p256_verifySignature c regs verifiers a ad pre post userOpHash r s) (\<lambda>ok.
     if \<not> ok then Inr SIG_VALIDATION_FAILED else Inr 0))"

definition p256_isValidSignature ::
    "evm_crypto \<Rightarrow> registries \<Rightarrow> verifiers \<Rightarrow> p256_account \<Rightarrow> bytes32 \<Rightarrow> bytes \<Rightarrow> (32 word) res" where
  "p256_isValidSignature c regs verifiers a h sig =
     bindR (decode_signature sig) (\<lambda>(k, r, s, ad, pre, post).
     bindR (p256_verifySignature c regs verifiers a ad pre post h r s) (\<lambda>ok.
     if ok then Inr 0x1626ba7e else Inr 0xffffffff))"

definition p256_validateUserOp ::
    "evm_crypto \<Rightarrow> registries \<Rightarrow> verifiers \<Rightarrow> (p256_account, 'w) msg_call \<Rightarrow> address \<Rightarrow> UserOperation \<Rightarrow>
     bytes32 \<Rightarrow> uint256 \<Rightarrow> p256_account \<times> 'w \<Rightarrow> (uint256 \<times> p256_account \<times> 'w) res" where
  "p256_validateUserOp c regs verifiers mc =
     BaseAccount_validateUserOp mc (p256_entryPoint regs) (p256_validateSignature c regs verifiers)"

definition addGuardian :: "address \<Rightarrow> address \<Rightarrow> address \<Rightarrow> p256_account \<Rightarrow> p256_account res" where
  "addGuardian this caller g a =
     bindR (p256_onlyOwner this caller) (\<lambda>_.
     bindR (require (g \<noteq> 0) ''account: guardian address should be NonZero'') (\<lambda>_.
     bindR (require (\<not> isGuardian a g) ''account: Guardian already exists'') (\<lambda>_.
     Inr (a\<lparr>isGuardian := (isGuardian a)(g := True)\<rparr>))))"

function removeGuardian_loop :: "address \<Rightarrow> nat \<Rightarrow> address list \<Rightarrow> address list" where
  "removeGuardian_loop g i gs =
     (if i < length gs
      then if gs ! i = g then butlast (gs[i := gs ! (length gs - 1)])
           else removeGuardian_loop g (i + 1) gs
      else gs)"
  by auto
termination by (relation "measure (\<lambda>(g, i, gs). length gs - i)") auto

declare removeGuardian_loop.simps [simp del]

definition removeGuardian :: "address \<Rightarrow> address \<Rightarrow> address \<Rightarrow> p256_account \<Rightarrow> p256_account res" where
  "removeGuardian this caller g a =
     bindR (p256_onlyOwner this caller) (\<lambda>_.
     bindR (require (isGuardian a g) ''account: Guardian does not exist'') (\<lambda>_.
     let a = a\<lparr>isGuardian := (isGuardian a)(g := False)\<rparr>
     in Inr (a\<lparr>guardians := removeGuardian_loop g 0 (guardians a)\<rparr>)))"

definition transferOwnership :: "address \<Rightarrow> address \<Rightarrow> pubkey \<Rightarrow> p256_account \<Rightarrow> p256_account res" where
  "transferOwnership this caller pk a =
     bindR (p256_requireFromOwnerOrGuardian this caller a) (\<lambda>_. Inr (a\<lparr>pubKey := pk\<rparr>))"

definition p256_getNonce ::
    "'w entry_point_deposits \<Rightarrow> registries \<Rightarrow> address \<Rightarrow> p256_account \<times> 'w \<Rightarrow> uint256 res" where
  "p256_getNonce epd regs this st =
     bindR (p256_entryPoint regs (fst st)) (\<lambda>ep. ep_getNonce epd ep this 0 (snd st))"

definition p256_getDeposit ::
    "'w entry_point_deposits \<Rightarrow> registries \<Rightarrow> address \<Rightarrow> p256_account \<times> 'w \<Rightarrow> uint256 res" where
  "p256_getDeposit epd regs this st =
     bindR (p256_entryPoint regs (fst st)) (\<lambda>ep. ep_balanceOf epd ep this (snd st))"

definition p256_addDeposit ::
    "'w entry_point_deposits \<Rightarrow> registries \<Rightarrow> address \<Rightarrow> uint256 \<Rightarrow> p256_account \<times> 'w \<Rightarrow>
     (p256_account \<times> 'w) res" where
  "p256_addDeposit epd regs this val st =
     bindR (p256_entryPoint regs (fst st)) (\<lambda>ep.
     bindR (ep_depositTo epd ep this val this (snd st)) (\<lambda>w. Inr (fst st, w)))"

definition p256_withdrawDepositTo ::
    "'w entry_point_deposits \<Rightarrow> registries \<Rightarrow> address \<Rightarrow> address \<Rightarrow> address \<Rightarrow> uint256 \<Rightarrow>
     p256_account \<times> 'w \<Rightarrow> (p256_account \<times> 'w) res" where
  "p256_withdrawDepositTo epd regs this caller to amount st =
     bindR (p256_onlyOwner this caller) (\<lambda>_.
     bindR (p256_entryPoint regs (fst st)) (\<lambda>ep.
     bindR (ep_withdrawTo epd ep this to amount (snd st)) (\<lambda>w. Inr (fst st, w))))"

definition p256_authorizeUpgrade :: "address \<Rightarrow> address \<Rightarrow> p256_account \<Rightarrow> unit res" where
  "p256_authorizeUpgrade this caller a = p256_onlyOwner this caller"

definition getGuardianCount :: "p256_account \<Rightarrow> uint256" where
  "getGuardianCount a = of_nat (length (guardians a))"

section \<open>SmartAccount\<close>

record smart_account = proxy_storage +
  sa_owner :: address
  sa_entrypoint :: address

definition smart_fresh :: "address \<Rightarrow> smart_account" where
  "smart_fresh impl =
     \<lparr>px_initialized = 0, px_initializing = False, px_implementation = impl, px_rollback = False, px_log = [],
      sa_owner = 0, sa_entrypoint = 0\<rparr>"

definition smart_constructor :: "smart_account res" where
  "smart_constructor = disableInitializers (smart_fresh 0)"

definition smart_entryPoint :: "smart_account \<Rightarrow> address res" where
  "smart_entryPoint a = Inr (sa_entrypoint a)"

definition smart_onlyOwner :: "address \<Rightarrow> address \<Rightarrow> smart_account \<Rightarrow> unit res" where
  "smart_onlyOwner this caller a = require (caller = sa_owner a \<or> caller = this) ''only owner''"

definition smart_initialize ::
    "bool \<Rightarrow> address \<Rightarrow> address \<Rightarrow> smart_account \<Rightarrow> smart_account res" where
  "smart_initialize isContract anOwner ep a =
     initializer isContract
       (\<lambda>a. let a = a\<lparr>sa_owner := anOwner, sa_entrypoint := ep\<rparr>
            in px_emit (SimpleAccountInitialized (sa_owner a)) a) a"

definition smart_requireFromEntryPointOrOwner :: "address \<Rightarrow> smart_account \<Rightarrow> unit res" where
  "smart_requireFromEntryPointOrOwner caller a =
     bindR (smart_entryPoint a) (\<lambda>ep.
     require (caller = ep \<or> caller = sa_owner a) ''account: not Owner or EntryPoint'')"

definition smart_execute ::
    "(smart_account, 'w) msg_call \<Rightarrow> address \<Rightarrow> address \<Rightarrow> uint256 \<Rightarrow> bytes \<Rightarrow> smart_account \<times> 'w \<Rightarrow>
     (smart_account \<times> 'w) res" where
  "smart_execute mc caller dest val func st =
     bindR (smart_requireFromEntryPointOrOwner caller (fst st)) (\<lambda>_. account_call mc dest val func st)"

definition smart_executeBatch ::
    "(smart_account, 'w) msg_call \<Rightarrow> address \<Rightarrow> address list \<Rightarrow> uint256 list \<Rightarrow> bytes list \<Rightarrow>
     smart_account \<times> 'w \<Rightarrow> (smart_account \<times> 'w) res" where
  "smart_executeBatch mc caller dest val func st =
     bindR (smart_requireFromEntryPointOrOwner caller (fst st)) (\<lambda>_. executeBatch_body mc dest val func st)"

definition smart_validateSignature ::
    "evm_crypto \<Rightarrow> smart_account \<Rightarrow> UserOperation \<Rightarrow> bytes32 \<Rightarrow> uint256 res" where
  "smart_validateSignature c a userOp userOpHash =
     (let hash = toEthSignedMessageHash c userOpHash in
     bindR (ECDSA_recover c hash (signature userOp)) (\<lambda>recovered.
     if sa_owner a \<noteq> recovered then Inr SIG_VALIDATION_FAILED else Inr 0))"

definition smart_validateUserOp ::
    "evm_crypto \<Rightarrow> (smart_account, 'w) msg_call \<Rightarrow> address \<Rightarrow> UserOperation \<Rightarrow> bytes32 \<Rightarrow> uint256 \<Rightarrow>
     smart_account \<times> 'w \<Rightarrow> (uint256 \<times> smart_account \<times> 'w) res" where
  "smart_validateUserOp c mc = BaseAccount_validateUserOp mc smart_entryPoint (smart_validateSignature c)"

definition smart_getDeposit ::
    "'w entry_point_deposits \<Rightarrow> address \<Rightarrow> smart_account \<times> 'w \<Rightarrow> uint256 res" where
  "smart_getDeposit epd this st =
     bindR (smart_entryPoint (fst st)) (\<lambda>ep. ep_balanceOf epd ep this (snd st))"

definition smart_addDeposit ::
    "'w entry_point_deposits \<Rightarrow> address \<Rightarrow> uint256 \<Rightarrow> smart_account \<times> 'w \<Rightarrow> (smart_account \<times> 'w) res" where
  "smart_addDeposit epd this val st =
     bindR (smart_entryPoint (fst st)) (\<lambda>ep.
     bindR (ep_depositTo epd ep this val this (snd st)) (\<lambda>w. Inr (fst st, w)))"

definition smart_withdrawDepositTo ::
    "'w entry_point_deposits \<Rightarrow> address \<Rightarrow> address \<Rightarrow> address \<Rightarrow> uint256 \<Rightarrow> smart_account \<times> 'w \<Rightarrow>
     (smart_account \<times> 'w) res" where
  "smart_withdrawDepositTo epd this caller to amount st =
     bindR (smart_onlyOwner this caller (fst st)) (\<lambda>_.
     bindR (smart_entryPoint (fst st)) (\<lambda>ep.
     bindR (ep_withdrawTo epd ep this to amount (snd st)) (\<lambda>w. Inr (fst st, w))))"

definition smart_authorizeUpgrade :: "address \<Rightarrow> address \<Rightarrow> smart_account \<Rightarrow> unit res" where
  "smart_authorizeUpgrade this caller a = smart_onlyOwner this caller a"

end
