(* ===== verification/AccountSpec.thy ===== *)
theory AccountSpec
  imports Accounts
begin

text \<open>
  What the accounts guarantee: who can make an account act, that a batch is the sequence of its
  calls, which message calls can change the owner key, that an account is initialised once, and
  what the passkey signature covers.
\<close>

section \<open>The interface\<close>

locale account_executor =
  fixes gate :: "address \<Rightarrow> 'a \<Rightarrow> unit res"
    and exec :: "('a, 'w) msg_call \<Rightarrow> address \<Rightarrow> address \<Rightarrow> uint256 \<Rightarrow> bytes \<Rightarrow> 'a \<times> 'w \<Rightarrow> ('a \<times> 'w) res"
    and batch :: "('a, 'w) msg_call \<Rightarrow> address \<Rightarrow> address list \<Rightarrow> uint256 list \<Rightarrow> bytes list \<Rightarrow> 'a \<times> 'w \<Rightarrow>
      ('a \<times> 'w) res"
  assumes exec_denied: "gate caller (fst st) = Inl e \<Longrightarrow> exec mc caller d v f st = Inl e"
    and exec_allowed: "gate caller (fst st) = Inr () \<Longrightarrow> exec mc caller d v f st = account_call mc d v f st"
    and batch_denied: "gate caller (fst st) = Inl e \<Longrightarrow> batch mc caller ds vs fs st = Inl e"
    and batch_allowed: "gate caller (fst st) = Inr () \<Longrightarrow>
      batch mc caller ds vs fs st = executeBatch_body mc ds vs fs st"
begin

lemma exec_returns: "exec mc caller d v f st = Inr st' \<Longrightarrow> gate caller (fst st) = Inr ()"
  using exec_denied by (cases "gate caller (fst st)") auto

lemma batch_returns: "batch mc caller ds vs fs st = Inr st' \<Longrightarrow> gate caller (fst st) = Inr ()"
  using batch_denied by (cases "gate caller (fst st)") auto

lemma batch_no_values:
  "length ds = length fs \<Longrightarrow> batch mc caller ds [] fs st = batch mc caller ds (replicate (length fs) 0) fs st"
  using batch_denied batch_allowed
  by (cases "gate caller (fst st)") (auto simp: executeBatch_body_def)

lemma batch_single: "batch mc caller [d] [v] [f] st = exec mc caller d v f st"
proof (cases "gate caller (fst st)")
  case (Inr u)
  then show ?thesis
    by (simp add: batch_allowed exec_allowed executeBatch_body_def bindR_def split: sum.split)
qed (simp add: batch_denied exec_denied)

lemma batch_lengths:
  assumes "batch mc caller ds vs fs st = Inr st'"
  shows "length ds = length fs \<and> (vs = [] \<or> length vs = length fs)"
  using assms batch_allowed [OF batch_returns [OF assms], of mc ds vs fs]
  by (simp add: executeBatch_body_def bindR_eq_Inr require_eq_Inr)

end

text \<open>A batch returns exactly when its calls succeed one after the other.\<close>

inductive calls_run :: "('a, 'w) msg_call \<Rightarrow> (address \<times> uint256 \<times> bytes) list \<Rightarrow> 'a \<times> 'w \<Rightarrow> 'a \<times> 'w \<Rightarrow> bool"
  for mc where
  finish: "calls_run mc [] st st"
| call: "mc d v f st = ((True, result), st1) \<Longrightarrow> calls_run mc calls st1 st2 \<Longrightarrow>
    calls_run mc ((d, v, f) # calls) st st2"

inductive_simps calls_run_Nil [simp]: "calls_run mc [] st st'"
inductive_simps calls_run_Cons: "calls_run mc ((d, v, f) # calls) st st'"

lemma account_call_eq_Inr: "account_call mc d v f st = Inr st' \<longleftrightarrow> (\<exists>result. mc d v f st = ((True, result), st'))"
  by (auto simp: account_call_def split: prod.splits)

lemma batch_loop_iff: "batch_loop mc calls st = Inr st' \<longleftrightarrow> calls_run mc calls st st'"
proof (induction calls arbitrary: st)
  case (Cons c calls)
  obtain d v f where c: "c = (d, v, f)" by (metis surj_pair)
  show ?case by (auto simp: c bindR_eq_Inr account_call_eq_Inr Cons.IH calls_run_Cons)
qed auto

interpretation p256_exec: account_executor
  "p256_requireFromEntryPointOrOwner regs this" "\<lambda>mc. p256_execute mc regs this" "\<lambda>mc. p256_executeBatch mc regs this"
  for regs this
  by unfold_locales (simp_all add: p256_execute_def p256_executeBatch_def)

interpretation smart_exec: account_executor smart_requireFromEntryPointOrOwner smart_execute smart_executeBatch
  by unfold_locales (simp_all add: smart_execute_def smart_executeBatch_def)

lemma p256_gate_iff:
  "p256_requireFromEntryPointOrOwner regs this caller a = Inr () \<longleftrightarrow>
   (\<exists>ep. p256_entryPoint regs a = Inr ep \<and> (caller = ep \<or> caller = this))"
  by (auto simp: p256_requireFromEntryPointOrOwner_def bindR_eq_Inr require_eq_Inr)

lemma smart_gate_iff:
  "smart_requireFromEntryPointOrOwner caller a = Inr () \<longleftrightarrow> caller = sa_entrypoint a \<or> caller = sa_owner a"
  by (auto simp: smart_requireFromEntryPointOrOwner_def smart_entryPoint_def bindR_eq_Inr require_eq_Inr)

section \<open>Initialisation\<close>

lemma p256_initialize_eq:
  "px_initialized a = 0 \<Longrightarrow> \<not> px_initializing a \<Longrightarrow>
   p256_initialize ic pk reg a =
     Inr (a\<lparr>px_initialized := 1, px_initializing := False, px_log := px_log a @ [Initialized 1],
            enclaveRegistry := reg, pubKey := pk\<rparr>)"
  by (simp add: p256_initialize_def initializer_def px_emit_def)

lemma p256_initialize_again:
  "px_initialized a \<noteq> 0 \<Longrightarrow>
   p256_initialize True pk reg a = Inl (Revert ''Initializable: contract is already initialized'')"
  by (auto simp: p256_initialize_def initializer_def Let_def word_gt_0)

lemma smart_initialize_again:
  "px_initialized a \<noteq> 0 \<Longrightarrow>
   smart_initialize True ow ep a = Inl (Revert ''Initializable: contract is already initialized'')"
  by (auto simp: smart_initialize_def initializer_def Let_def word_gt_0)

lemma p256_implementation_locked:
  "\<exists>a. p256_constructor = Inr a \<and> px_initialized a = - 1"
  by (simp add: p256_constructor_def disableInitializers_def p256_fresh_def px_emit_def)

section \<open>Who can change a passkey account\<close>

text \<open>
  \<open>p256_write this caller\<close>: one message call to the account that its own code answers by writing its
  storage. \<open>p256_change\<close> has in addition the two upgrade functions, whatever the new implementation
  does with the storage when \<open>upgradeToAndCall\<close> runs it.
\<close>

inductive p256_write :: "address \<Rightarrow> address \<Rightarrow> p256_account \<Rightarrow> p256_account \<Rightarrow> bool" for this caller where
  add: "addGuardian this caller g a = Inr a' \<Longrightarrow> p256_write this caller a a'"
| remove: "removeGuardian this caller g a = Inr a' \<Longrightarrow> p256_write this caller a a'"
| transfer: "transferOwnership this caller pk a = Inr a' \<Longrightarrow> p256_write this caller a a'"
| init: "p256_initialize True pk reg a = Inr a' \<Longrightarrow> p256_write this caller a a'"

inductive_cases p256_writeE: "p256_write this caller a a'"

inductive p256_change :: "address \<Rightarrow> address \<Rightarrow> address \<Rightarrow> p256_account \<Rightarrow> p256_account \<Rightarrow> bool" for self this caller where
  change_write: "p256_write this caller a a' \<Longrightarrow> p256_change self this caller a a'"
| change_upgrade: "UUPS_upgradeTo ic uuid dg (p256_authorizeUpgrade this caller) self this impl a = Inr a' \<Longrightarrow>
    p256_change self this caller a a'"
| change_upgrade_call: "UUPS_upgradeToAndCall ic uuid dg (p256_authorizeUpgrade this caller) self this impl data a = Inr a' \<Longrightarrow>
    p256_change self this caller a a'"

text \<open>
  The call stack of the chain, as far as the account sees it, innermost call first. A call of
  the account's \<open>execute\<close> or \<open>executeBatch\<close> has its caller, the registries at that time, the storage to
  return to if it reverts and the message calls that the function body makes, recorded by running it;
  any other contract's call has only the storage to return to.

  The sender of a message is the code on top of the stack. The account's own code sends calldata
  only where \<open>_call\<close> does, so the account is the sender exactly when a call of \<open>execute\<close> or
  \<open>executeBatch\<close> is on top and one of its message calls goes to the account itself. Under another
  contract's call, or between transactions, the sender is somebody else.
\<close>

datatype frame =
    AccountCall address registries p256_account "(address \<times> uint256 \<times> bytes) list"
  | OtherCall p256_account

fun frame_storage :: "frame \<Rightarrow> p256_account" where
  "frame_storage (AccountCall caller regs a calls) = a"
| "frame_storage (OtherCall a) = a"

definition record_call :: "(p256_account, (address \<times> uint256 \<times> bytes) list) msg_call" where
  "record_call d v f st = ((True, []), (fst st, snd st @ [(d, v, f)]))"

fun sends :: "address \<Rightarrow> frame list \<Rightarrow> address \<Rightarrow> bool" where
  "sends this [] caller = (caller \<noteq> this)"
| "sends this (OtherCall a # st) caller = (caller \<noteq> this)"
| "sends this (AccountCall c regs a calls # st) caller = (caller = this \<and> this \<in> fst ` set calls)"

fun outermost_call :: "frame list \<Rightarrow> (address \<times> registries \<times> p256_account) option" where
  "outermost_call [] = None"
| "outermost_call (OtherCall a # st) = outermost_call st"
| "outermost_call (AccountCall c regs a calls # st) =
     (case outermost_call st of None \<Rightarrow> Some (c, regs, a) | Some oc \<Rightarrow> Some oc)"

text \<open>
  The histories of an account behind a proxy with the implementation \<open>self\<close>: its creation, calls
  of \<open>execute\<close> and \<open>executeBatch\<close> that pass their checks, other contracts' calls, their ends and reverts,
  and the messages that write. The registry may change at any time. The account answers as long as
  its implementation is \<open>self\<close>; \<open>upgradeToAndCall\<close> hands its storage to other code and is the end of
  the history.
\<close>

inductive p256_trace :: "address \<Rightarrow> address \<Rightarrow> p256_account \<Rightarrow> frame list \<Rightarrow> bool" for self this where
  create: "p256_initialize False pk reg (p256_fresh self) = Inr a \<Longrightarrow> p256_trace self this a []"
| execute: "p256_trace self this a st \<Longrightarrow> px_implementation a = self \<Longrightarrow> sends this st caller \<Longrightarrow>
    p256_execute record_call regs this caller d v f (a, []) = Inr (a', calls) \<Longrightarrow>
    p256_trace self this a' (AccountCall caller regs a calls # st)"
| executeBatch: "p256_trace self this a st \<Longrightarrow> px_implementation a = self \<Longrightarrow> sends this st caller \<Longrightarrow>
    p256_executeBatch record_call regs this caller ds vs fs (a, []) = Inr (a', calls) \<Longrightarrow>
    p256_trace self this a' (AccountCall caller regs a calls # st)"
| other: "p256_trace self this a st \<Longrightarrow> p256_trace self this a (OtherCall a # st)"
| leave: "p256_trace self this a (fr # st) \<Longrightarrow> p256_trace self this a st"
| revert: "p256_trace self this a (fr # st) \<Longrightarrow> p256_trace self this (frame_storage fr) st"
| store: "p256_trace self this a st \<Longrightarrow> px_implementation a = self \<Longrightarrow> sends this st caller \<Longrightarrow>
    p256_write this caller a a' \<Longrightarrow> p256_trace self this a' st"
| upgrade: "p256_trace self this a st \<Longrightarrow> px_implementation a = self \<Longrightarrow> sends this st caller \<Longrightarrow>
    UUPS_upgradeTo ic uuid dg (p256_authorizeUpgrade this caller) self this impl a = Inr a' \<Longrightarrow>
    p256_trace self this a' st"

definition account_ok :: "p256_account \<Rightarrow> bool" where
  "account_ok a \<longleftrightarrow> px_initialized a = 1 \<and> \<not> px_initializing a \<and> guardians a = [] \<and> \<not> isGuardian a 0"

lemma removeGuardian_loop_Nil [simp]: "removeGuardian_loop g i [] = []"
  by (simp add: removeGuardian_loop.simps)

lemmas p256_write_defs = addGuardian_def removeGuardian_def transferOwnership_def p256_onlyOwner_def
  p256_requireFromOwnerOrGuardian_def bindR_eq_Inr require_eq_Inr Let_def

lemma p256_write_ok:
  assumes "p256_write this caller a a'" and "account_ok a"
  shows "account_ok a'"
  using assms
proof (cases rule: p256_write.cases)
  case (init pk reg)
  then show ?thesis using assms(2) p256_initialize_again [of a pk reg] by (simp add: account_ok_def)
qed (auto simp: p256_write_defs account_ok_def split: if_splits)

lemma p256_write_cases:
  assumes "p256_write this caller a a'" and "account_ok a"
  shows "caller = this \<or> (isGuardian a caller \<and> (\<exists>pk. a' = a\<lparr>pubKey := pk\<rparr>))"
  using assms
proof (cases rule: p256_write.cases)
  case (init pk reg)
  then show ?thesis using assms(2) p256_initialize_again [of a pk reg] by (simp add: account_ok_def)
qed (auto simp: p256_write_defs)

lemma p256_change_cases:
  assumes "p256_change self this caller a a'" and "account_ok a"
  shows "caller = this \<or> (isGuardian a caller \<and> (\<exists>pk. a' = a\<lparr>pubKey := pk\<rparr>))"
  using assms
proof (cases rule: p256_change.cases)
  case change_write
  then show ?thesis using p256_write_cases assms(2) by blast
qed (auto simp: UUPS_upgradeTo_def UUPS_upgradeToAndCall_def p256_authorizeUpgrade_def p256_onlyOwner_def
    bindR_eq_Inr require_eq_Inr)

lemma upgrade_ok:
  "UUPS_upgradeTo ic uuid dg auth self this impl a = Inr a' \<Longrightarrow> account_ok a \<Longrightarrow> account_ok a'"
  by (auto simp: UUPS_upgradeTo_def upgradeToAndCallUUPS_def upgradeToAndCall_internal_def upgradeTo_internal_def
      setImplementation_def px_emit_def account_ok_def bindR_eq_Inr require_eq_Inr split: sum.splits if_splits)

text \<open>The recorded run of \<open>execute\<close> changes nothing and was let in by the caller check.\<close>

lemma record_batch: "batch_loop record_call calls (a, cs) = Inr (a, cs @ calls)"
  by (induction calls arbitrary: cs) (auto simp: account_call_def record_call_def)

lemma execute_recorded:
  "p256_execute record_call regs this caller d v f (a, []) = Inr (a', calls) \<Longrightarrow>
   a' = a \<and> (\<exists>ep. p256_entryPoint regs a = Inr ep \<and> (caller = ep \<or> caller = this))"
  "p256_executeBatch record_call regs this caller ds vs fs (a, []) = Inr (a', calls) \<Longrightarrow>
   a' = a \<and> (\<exists>ep. p256_entryPoint regs a = Inr ep \<and> (caller = ep \<or> caller = this))"
  using p256_exec.exec_returns p256_exec.batch_returns
  by (force simp: p256_execute_def p256_executeBatch_def executeBatch_body_def record_batch account_call_def
      record_call_def p256_gate_iff bindR_eq_Inr split: if_splits)+

definition begun_by_entryPoint :: "frame list \<Rightarrow> bool" where
  "begun_by_entryPoint st \<longleftrightarrow> (\<exists>c regs a. outermost_call st = Some (c, regs, a) \<and> p256_entryPoint regs a = Inr c)"

lemma sends_this: "sends this st this \<Longrightarrow> outermost_call st \<noteq> None"
  by (cases st rule: outermost_call.cases) (auto split: option.splits)

lemma outermost_Cons: "outermost_call (fr # st) = None \<or> begun_by_entryPoint (fr # st) \<Longrightarrow>
  outermost_call st = None \<or> begun_by_entryPoint st"
  by (cases fr) (auto simp: begun_by_entryPoint_def split: option.splits)

lemma outermost_enter:
  assumes "outermost_call st = None \<or> begun_by_entryPoint st" "sends this st caller"
    and "p256_entryPoint regs a = Inr ep" "caller = ep \<or> caller = this"
  shows "begun_by_entryPoint (AccountCall caller regs a calls # st)"
proof (cases "outermost_call st")
  case None
  then have "caller = ep" using assms(2,4) sends_this [of this st] by auto
  then show ?thesis using None assms(3) by (simp add: begun_by_entryPoint_def)
next
  case (Some oc)
  then show ?thesis using assms(1) by (auto simp: begun_by_entryPoint_def)
qed

lemma p256_trace_inv:
  "p256_trace self this a st \<Longrightarrow>
   account_ok a \<and> (\<forall>fr \<in> set st. account_ok (frame_storage fr)) \<and> (outermost_call st = None \<or> begun_by_entryPoint st)"
proof (induction rule: p256_trace.induct)
  case (create pk reg a)
  then show ?case using p256_initialize_eq [of "p256_fresh self" False pk reg]
    by (auto simp: account_ok_def p256_fresh_def)
next
  case (execute a st caller regs d v f a' calls)
  then show ?case using execute_recorded(1) [OF execute.hyps(4)] outermost_enter by auto
next
  case (executeBatch a st caller regs ds vs fs a' calls)
  then show ?case using execute_recorded(2) [OF executeBatch.hyps(4)] outermost_enter by auto
next
  case (other a st)
  then show ?case by (simp add: begun_by_entryPoint_def)
next
  case (leave a fr st)
  then show ?case using outermost_Cons by auto
next
  case (revert a fr st)
  then show ?case using outermost_Cons by auto
next
  case (store a st caller a')
  then show ?case using p256_write_ok by blast
next
  case (upgrade a st caller ic uuid dg impl a')
  then show ?case using upgrade_ok by blast
qed

section \<open>Signatures\<close>

lemma clientDataJSON_inject:
  "clientDataJSON pre post h = clientDataJSON pre post h' \<longleftrightarrow> h = h'"
  by (metis Base64URL_decode abi_word_inject append_same_eq clientDataJSON_def same_append_eq)

lemma decode_signature_short: "length sig < 192 \<Longrightarrow> decode_signature sig = Inl RevertEmpty"
  by (simp add: decode_signature_def abi_decode_short signature_types_def)

definition encode_signature :: "bytes32 \<Rightarrow> uint256 \<Rightarrow> uint256 \<Rightarrow> bytes \<Rightarrow> bytes \<Rightarrow> bytes \<Rightarrow> bytes" where
  "encode_signature k r s ad pre post =
     abi_encode [AWord k, AWord r, AWord s, ABytes ad, ABytes pre, ABytes post]"

lemma decode_encode_signature:
  assumes "length (encode_signature k r s ad pre post) < 2 ^ 64"
  shows "decode_signature (encode_signature k r s ad pre post) = Inr (k, r, s, ad, pre, post)"
proof -
  have "abi_decode signature_types (encode_signature k r s ad pre post) =
      Inr [AWord k, AWord r, AWord s, ABytes ad, ABytes pre, ABytes post]"
    unfolding encode_signature_def
    by (rule abi_decode_encode)
      (use assms in \<open>simp_all only: signature_types_def list_all2_Cons list_all2_Nil abi_has_ty.simps unat_lt_256
        simp_thms encode_signature_def\<close>)
  then show ?thesis by (simp add: decode_signature_def)
qed

lemma isValidSignature_iff:
  "p256_isValidSignature c regs vs a h (signature userOp) = Inr 0x1626ba7e \<longleftrightarrow>
   p256_validateSignature c regs vs a userOp h = Inr 0"
  by (auto simp: p256_isValidSignature_def p256_validateSignature_def bindR_eq_Inr SIG_VALIDATION_FAILED_def
      split: if_splits)

lemma p256_validateSignature_values:
  "p256_validateSignature c regs vs a userOp h = Inr v \<Longrightarrow> v = 0 \<or> v = SIG_VALIDATION_FAILED"
  by (auto simp: p256_validateSignature_def bindR_eq_Inr split: if_splits)

lemma p256_validateUserOp_eq_Inr:
  "p256_validateUserOp c regs vs mc caller userOp h funds st = Inr (v, st') \<longleftrightarrow>
   p256_entryPoint regs (fst st) = Inr caller \<and> p256_validateSignature c regs vs (fst st) userOp h = Inr v \<and>
   st' = payPrefund mc caller funds st"
  by (auto simp: p256_validateUserOp_def BaseAccount_validateUserOp_def BaseAccount_requireFromEntryPoint_def
      bindR_eq_Inr require_eq_Inr)

lemma smart_validateUserOp_eq_Inr:
  "smart_validateUserOp c mc caller userOp h funds st = Inr (v, st') \<longleftrightarrow>
   caller = sa_entrypoint (fst st) \<and> smart_validateSignature c (fst st) userOp h = Inr v \<and>
   st' = payPrefund mc caller funds st"
  by (auto simp: smart_validateUserOp_def BaseAccount_validateUserOp_def BaseAccount_requireFromEntryPoint_def
      smart_entryPoint_def bindR_eq_Inr require_eq_Inr)

lemma P256V_input_length: "length (P256V_input h r s pk) = 160"
  by (simp add: P256V_input_def Let_def)

lemma P256V_input_inject:
  "P256V_input h r s pk = P256V_input h' r' s' pk' \<longleftrightarrow> h = h' \<and> r = r' \<and> s = s' \<and> pk = pk'"
  by (auto simp: P256V_input_def Let_def prod_eq_iff)

section \<open>Upgrades\<close>

lemma upgrade_authorized:
  "UUPS_upgradeTo ic uuid dg auth self this impl a = Inr a' \<Longrightarrow>
   auth a = Inr () \<and> this \<noteq> self \<and> px_implementation a = self"
  by (auto simp: UUPS_upgradeTo_def onlyProxy_def bindR_eq_Inr require_eq_Inr)

lemma upgrade_sets:
  assumes "UUPS_upgradeTo ic uuid dg auth self this impl a = Inr a'" and "\<not> px_rollback a"
  shows "a' = a\<lparr>px_implementation := impl, px_log := px_log a @ [Upgraded impl]\<rparr> \<and> ic impl \<and>
    uuid impl = Inr IMPLEMENTATION_SLOT"
  using assms
  by (auto simp: UUPS_upgradeTo_def upgradeToAndCallUUPS_def upgradeToAndCall_internal_def upgradeTo_internal_def
      setImplementation_def px_emit_def bindR_eq_Inr require_eq_Inr split: sum.splits)

end
