(* ===== verification/Factories.thy ===== *)
theory Factories
  imports AccountSpec
begin

text \<open>
  \<open>P256SmartAccountFactory.sol\<close> and \<open>eoa-account/SmartAccountFactory.sol\<close>, with \<open>Create2\<close>'s
  address computation and the constructor of \<open>ERC1967Proxy\<close> as the flattened file has them.
  The creation code of the proxy is the compiler's output, an argument; so is the hash function.
  The locale \<open>account_factory\<close> is what the deployment scripts and an entry point rely on.
\<close>

section \<open>Create2\<close>

text \<open>
  \<open>computeAddress\<close> as the assembly writes it: three words in memory, the byte before the
  deployer's address overwritten with \<open>0xff\<close>, and the hash of the 85 bytes from there.
\<close>

definition computeAddress_memory :: "bytes32 \<Rightarrow> bytes32 \<Rightarrow> address \<Rightarrow> bytes" where
  "computeAddress_memory salt bytecodeHash deployer =
     (abi_word (ucast deployer) @ abi_word salt @ abi_word bytecodeHash)[11 := 0xff]"

definition computeAddress :: "evm_crypto \<Rightarrow> bytes32 \<Rightarrow> bytes32 \<Rightarrow> address \<Rightarrow> address" where
  "computeAddress c salt bytecodeHash deployer =
     ucast (keccak256 c (take 85 (drop 11 (computeAddress_memory salt bytecodeHash deployer))))"

text \<open>The address the EVM's \<open>CREATE2\<close> gives a contract.\<close>

definition create2_address :: "evm_crypto \<Rightarrow> address \<Rightarrow> bytes32 \<Rightarrow> bytes \<Rightarrow> address" where
  "create2_address c deployer salt initcode =
     ucast (keccak256 c (0xff # be_bytes 20 (unat deployer) @ abi_word salt @ abi_word (keccak256 c initcode)))"

lemma be_bytes_add: "be_bytes (m + n) v = be_bytes m (v div 256 ^ n) @ be_bytes n v"
proof (induction n arbitrary: v)
  case (Suc n)
  show ?case using Suc [of "v div 256"] by (simp add: div_mult2_eq)
qed simp

lemma be_bytes_zero: "be_bytes n 0 = replicate n 0"
  by (induction n) (auto simp: replicate_append_same)

lemma abi_word_address: "abi_word (ucast (a :: address)) = replicate 12 0 @ be_bytes 20 (unat a)"
proof -
  have "unat (ucast a :: uint256) = unat a" by (rule unat_ucast_up) simp
  moreover have "unat a div 256 ^ 20 = 0" using unat_lt_160 [of a] by simp
  ultimately show ?thesis
    using be_bytes_add [of 12 20 "unat a"] by (simp only: abi_word_def be_bytes_zero numeral_plus_numeral add_num_simps)
qed

lemma computeAddress_preimage:
  "take 85 (drop 11 (computeAddress_memory salt h deployer)) =
   0xff # be_bytes 20 (unat deployer) @ abi_word salt @ abi_word h"
proof -
  have twelve: "replicate 12 0 = replicate 11 (0 :: byte) @ [0]"
    using replicate_add [of 11 1 "0 :: byte"] by simp
  have "computeAddress_memory salt h deployer =
      (replicate 11 0 @ 0 # be_bytes 20 (unat deployer) @ abi_word salt @ abi_word h)[length (replicate 11 (0 :: byte)) := 0xff]"
    by (simp add: computeAddress_memory_def abi_word_address twelve)
  also have "\<dots> = replicate 11 0 @ 0xff # be_bytes 20 (unat deployer) @ abi_word salt @ abi_word h"
    by (rule list_update_length)
  finally have mem: "computeAddress_memory salt h deployer =
      replicate 11 0 @ 0xff # be_bytes 20 (unat deployer) @ abi_word salt @ abi_word h" .
  show ?thesis unfolding mem by simp
qed

lemma computeAddress_is_create2:
  "computeAddress c salt (keccak256 c initcode) deployer = create2_address c deployer salt initcode"
  by (simp add: computeAddress_def create2_address_def computeAddress_preimage)

section \<open>The factories\<close>

text \<open>
  The part of the chain a factory acts on: which addresses have code, and the storage of the
  account proxies.
\<close>

record 'a chain =
  ch_code :: "address \<Rightarrow> bool"
  ch_account :: "address \<Rightarrow> 'a option"

record factory =
  fa_this :: address
  fa_implementation :: address

text \<open>The four bytes of a function's selector, and \<open>abi.encodeCall\<close> of the two initialisers.\<close>

definition selector :: "evm_crypto \<Rightarrow> string \<Rightarrow> bytes" where
  "selector c sig = take 4 (abi_word (keccak256 c (map (\<lambda>ch. of_nat (of_char ch)) sig)))"

definition p256_initialize_call :: "evm_crypto \<Rightarrow> pubkey \<Rightarrow> address \<Rightarrow> bytes" where
  "p256_initialize_call c pk reg =
     selector c ''initialize(uint256[2],address)'' @
     abi_encode [AWord (fst pk), AWord (snd pk), AWord (ucast reg)]"

definition smart_initialize_call :: "evm_crypto \<Rightarrow> address \<Rightarrow> address \<Rightarrow> bytes" where
  "smart_initialize_call c ow ep =
     selector c ''initialize(address,address)'' @ abi_encode [AWord (ucast ow), AWord (ucast ep)]"

definition proxy_initcode :: "bytes \<Rightarrow> address \<Rightarrow> bytes \<Rightarrow> bytes" where
  "proxy_initcode creationCode impl data = creationCode @ abi_encode [AWord (ucast impl), ABytes data]"

text \<open>
  \<open>Address.functionDelegateCall\<close> for a call whose code, run on the caller's storage, is \<open>body\<close>
  and returns no data.
\<close>

definition functionDelegateCall ::
    "(address \<Rightarrow> bool) \<Rightarrow> ('a \<Rightarrow> 'a res) \<Rightarrow> address \<Rightarrow> 'a \<Rightarrow> 'a res" where
  "functionDelegateCall is_contract body target a =
     bindR (body a) (\<lambda>a.
     bindR (require (is_contract target) ''Address: call to non-contract'') (\<lambda>_. Inr a))"

text \<open>
  \<open>new ERC1967Proxy{salt: salt}(impl, data)\<close>. The constructor is \<open>_upgradeToAndCall\<close>, whose
  delegate call runs \<open>init\<close>, the initialiser \<open>data\<close> encodes, on the storage of the proxy; the
  proxy has no code yet. Creation at an address that has code fails.
\<close>

definition new_ERC1967Proxy ::
    "evm_crypto \<Rightarrow> bytes \<Rightarrow> address \<Rightarrow> bytes32 \<Rightarrow> address \<Rightarrow> bytes \<Rightarrow> 'a proxy_storage_scheme \<Rightarrow>
     ('a proxy_storage_scheme \<Rightarrow> 'a proxy_storage_scheme res) \<Rightarrow> 'a proxy_storage_scheme chain \<Rightarrow>
     (address \<times> 'a proxy_storage_scheme chain) res" where
  "new_ERC1967Proxy c creationCode deployer salt impl data fresh init ch =
     (let addr = create2_address c deployer salt (proxy_initcode creationCode impl data) in
      if ch_code ch addr then Inl RevertEmpty
      else bindR (upgradeToAndCall_internal (ch_code ch)
                    (\<lambda>target _. functionDelegateCall (ch_code ch) init target)
                    impl data False fresh) (\<lambda>a.
           Inr (addr, ch\<lparr>ch_code := (ch_code ch)(addr := True), ch_account := (ch_account ch)(addr := Some a)\<rparr>)))"

definition p256_getAccountAddress ::
    "evm_crypto \<Rightarrow> bytes \<Rightarrow> factory \<Rightarrow> pubkey \<Rightarrow> address \<Rightarrow> uint256 \<Rightarrow> address" where
  "p256_getAccountAddress c creationCode f pk reg salt =
     computeAddress c salt
       (keccak256 c (creationCode @
          abi_encode [AWord (ucast (fa_implementation f)), ABytes (p256_initialize_call c pk reg)]))
       (fa_this f)"

definition p256_createAccount ::
    "evm_crypto \<Rightarrow> bytes \<Rightarrow> factory \<Rightarrow> pubkey \<Rightarrow> address \<Rightarrow> uint256 \<Rightarrow> p256_account chain \<Rightarrow>
     (address \<times> p256_account chain) res" where
  "p256_createAccount c creationCode f pk reg salt ch =
     (let addr = p256_getAccountAddress c creationCode f pk reg salt in
      if ch_code ch addr then Inr (addr, ch)
      else new_ERC1967Proxy c creationCode (fa_this f) salt (fa_implementation f) (p256_initialize_call c pk reg)
             (p256_fresh 0) (p256_initialize False pk reg) ch)"

datatype factory_event = AccountCreated address address

definition smart_getAccountAddress ::
    "evm_crypto \<Rightarrow> bytes \<Rightarrow> factory \<Rightarrow> address \<Rightarrow> address \<Rightarrow> uint256 \<Rightarrow> address" where
  "smart_getAccountAddress c creationCode f ow ep salt =
     computeAddress c salt
       (keccak256 c (creationCode @
          abi_encode [AWord (ucast (fa_implementation f)), ABytes (smart_initialize_call c ow ep)]))
       (fa_this f)"

definition smart_createAccount ::
    "evm_crypto \<Rightarrow> bytes \<Rightarrow> factory \<Rightarrow> address \<Rightarrow> address \<Rightarrow> uint256 \<Rightarrow>
     smart_account chain \<times> factory_event list \<Rightarrow> (address \<times> smart_account chain \<times> factory_event list) res" where
  "smart_createAccount c creationCode f ow ep salt st =
     (case st of (ch, log) \<Rightarrow>
      let addr = smart_getAccountAddress c creationCode f ow ep salt in
      if ch_code ch addr then Inr (addr, ch, log)
      else bindR (new_ERC1967Proxy c creationCode (fa_this f) salt (fa_implementation f)
                    (smart_initialize_call c ow ep) (smart_fresh 0) (smart_initialize False ow ep) ch) (\<lambda>(ret, ch).
           Inr (ret, ch, log @ [AccountCreated addr ow])))"

section \<open>The interface\<close>

fun create_all :: "('k \<Rightarrow> 's \<Rightarrow> (address \<times> 's) res) \<Rightarrow> 'k list \<Rightarrow> 's \<Rightarrow> (address list \<times> 's) res" where
  "create_all create [] s = Inr ([], s)"
| "create_all create (k # ks) s =
     bindR (create k s) (\<lambda>(a, s). bindR (create_all create ks s) (\<lambda>(as, s). Inr (a # as, s)))"

locale account_factory =
  fixes addr_of :: "'k \<Rightarrow> address"
    and create :: "'k \<Rightarrow> 's \<Rightarrow> (address \<times> 's) res"
    and has_code :: "'s \<Rightarrow> address \<Rightarrow> bool"
    and account_at :: "'s \<Rightarrow> address \<Rightarrow> 'a option"
    and impl :: address
    and initial :: "'k \<Rightarrow> 'a"
  assumes create_returns: "has_code s impl \<Longrightarrow> \<exists>s'. create k s = Inr (addr_of k, s')"
    and create_addr: "create k s = Inr (a, s') \<Longrightarrow> a = addr_of k"
    and create_code: "create k s = Inr (a, s') \<Longrightarrow> has_code s' b \<longleftrightarrow> has_code s b \<or> b = addr_of k"
    and create_existing: "has_code s (addr_of k) \<Longrightarrow> create k s = Inr (addr_of k, s)"
    and create_new: "create k s = Inr (a, s') \<Longrightarrow> \<not> has_code s (addr_of k) \<Longrightarrow>
      account_at s' (addr_of k) = Some (initial k)"
    and create_frame: "create k s = Inr (a, s') \<Longrightarrow> b \<noteq> addr_of k \<or> has_code s b \<Longrightarrow>
      account_at s' b = account_at s b"
begin

lemma create_twice: "create k s = Inr (a, s') \<Longrightarrow> create k s' = Inr (a, s')"
  using create_addr create_code create_existing by metis

lemma create_all_returns:
  "has_code s impl \<Longrightarrow> \<exists>s'. create_all create ks s = Inr (map addr_of ks, s') \<and>
     (\<forall>b. has_code s' b \<longleftrightarrow> has_code s b \<or> b \<in> addr_of ` set ks)"
proof (induction ks arbitrary: s)
  case (Cons k ks)
  obtain s1 where s1: "create k s = Inr (addr_of k, s1)" using create_returns [OF Cons.prems] by blast
  then have "has_code s1 impl" using Cons.prems create_code by blast
  then obtain s2 where s2: "create_all create ks s1 = Inr (map addr_of ks, s2)"
      "\<forall>b. has_code s2 b \<longleftrightarrow> has_code s1 b \<or> b \<in> addr_of ` set ks"
    using Cons.IH by blast
  then show ?case using s1 create_code [OF s1] by auto
qed simp

lemma create_all_keeps:
  "create_all create ks s = Inr (as, s') \<Longrightarrow> has_code s b \<Longrightarrow> account_at s' b = account_at s b"
proof (induction ks arbitrary: s as)
  case (Cons k ks)
  then obtain a s1 as1 where s1: "create k s = Inr (a, s1)" "create_all create ks s1 = Inr (as1, s')"
    by (auto simp: bindR_eq_Inr)
  have "has_code s1 b" using create_code [OF s1(1)] Cons.prems(2) by blast
  then show ?case using Cons.IH [OF s1(2)] create_frame [OF s1(1)] Cons.prems(2) by metis
qed simp

end

lemma new_proxy_eq:
  assumes "\<not> ch_code ch (create2_address c dep salt (proxy_initcode cc impl data))" and "data \<noteq> []"
  shows "new_ERC1967Proxy c cc dep salt impl data fresh init ch =
    (if ch_code ch impl
     then bindR (init (px_emit (Upgraded impl) (fresh\<lparr>px_implementation := impl\<rparr>))) (\<lambda>a.
       let addr = create2_address c dep salt (proxy_initcode cc impl data) in
       Inr (addr, ch\<lparr>ch_code := (ch_code ch)(addr := True), ch_account := (ch_account ch)(addr := Some a)\<rparr>))
     else Inl (Revert ''ERC1967: new implementation is not a contract''))"
  using assms
  by (simp add: new_ERC1967Proxy_def upgradeToAndCall_internal_def upgradeTo_internal_def setImplementation_def
      functionDelegateCall_def bindR_assoc Let_def)

lemma initialize_call_nonempty: "p256_initialize_call c pk reg \<noteq> []" "smart_initialize_call c ow ep \<noteq> []"
proof -
  have "length (p256_initialize_call c pk reg) > 0" "length (smart_initialize_call c ow ep) > 0"
    by (simp_all only: p256_initialize_call_def smart_initialize_call_def length_append length_abi_encode) simp_all
  then show "p256_initialize_call c pk reg \<noteq> []" "smart_initialize_call c ow ep \<noteq> []" by auto
qed

lemma getAccountAddress_is_create2:
  "p256_getAccountAddress c cc f pk reg salt =
   create2_address c (fa_this f) salt (proxy_initcode cc (fa_implementation f) (p256_initialize_call c pk reg))"
  "smart_getAccountAddress c cc f ow ep salt =
   create2_address c (fa_this f) salt (proxy_initcode cc (fa_implementation f) (smart_initialize_call c ow ep))"
  by (simp_all add: p256_getAccountAddress_def smart_getAccountAddress_def computeAddress_is_create2 proxy_initcode_def)

definition p256_created :: "address \<Rightarrow> pubkey \<Rightarrow> address \<Rightarrow> p256_account" where
  "p256_created impl pk reg =
     \<lparr>px_initialized = 1, px_initializing = False, px_implementation = impl, px_rollback = False,
      px_log = [Upgraded impl, Initialized 1], guardians = [], isGuardian = (\<lambda>_. False), enclaveRegistry = reg,
      pubKey = pk\<rparr>"

definition smart_created :: "address \<Rightarrow> address \<Rightarrow> address \<Rightarrow> smart_account" where
  "smart_created impl ow ep =
     \<lparr>px_initialized = 1, px_initializing = False, px_implementation = impl, px_rollback = False,
      px_log = [Upgraded impl, SimpleAccountInitialized ow, Initialized 1], sa_owner = ow, sa_entrypoint = ep\<rparr>"

lemma p256_createAccount_eq:
  "p256_createAccount c cc f pk reg salt ch =
    (let addr = p256_getAccountAddress c cc f pk reg salt in
     if ch_code ch addr then Inr (addr, ch)
     else if ch_code ch (fa_implementation f)
     then Inr (addr, ch\<lparr>ch_code := (ch_code ch)(addr := True),
            ch_account := (ch_account ch)(addr := Some (p256_created (fa_implementation f) pk reg))\<rparr>)
     else Inl (Revert ''ERC1967: new implementation is not a contract''))"
proof (cases "ch_code ch (p256_getAccountAddress c cc f pk reg salt)")
  case False
  have "p256_initialize False pk reg (px_emit (Upgraded i) ((p256_fresh 0)\<lparr>px_implementation := i\<rparr>)) =
      Inr (p256_created i pk reg)" for i
    by (simp add: p256_initialize_eq px_emit_def p256_fresh_def p256_created_def)
  then show ?thesis
    using False
    by (simp add: new_proxy_eq initialize_call_nonempty p256_createAccount_def getAccountAddress_is_create2 Let_def)
qed (simp add: p256_createAccount_def)

lemma smart_createAccount_eq:
  "smart_createAccount c cc f ow ep salt (ch, log) =
    (let addr = smart_getAccountAddress c cc f ow ep salt in
     if ch_code ch addr then Inr (addr, ch, log)
     else if ch_code ch (fa_implementation f)
     then Inr (addr, ch\<lparr>ch_code := (ch_code ch)(addr := True),
            ch_account := (ch_account ch)(addr := Some (smart_created (fa_implementation f) ow ep))\<rparr>,
            log @ [AccountCreated addr ow])
     else Inl (Revert ''ERC1967: new implementation is not a contract''))"
proof (cases "ch_code ch (smart_getAccountAddress c cc f ow ep salt)")
  case False
  have "smart_initialize False ow ep (px_emit (Upgraded i) ((smart_fresh 0)\<lparr>px_implementation := i\<rparr>)) =
      Inr (smart_created i ow ep)" for i
    by (simp add: smart_initialize_def initializer_def px_emit_def smart_fresh_def smart_created_def Let_def)
  then show ?thesis
    using False
    by (simp add: new_proxy_eq initialize_call_nonempty smart_createAccount_def getAccountAddress_is_create2 Let_def)
qed (simp add: smart_createAccount_def)

interpretation p256_factory: account_factory
  "\<lambda>(pk, reg, salt). p256_getAccountAddress c cc f pk reg salt"
  "\<lambda>(pk, reg, salt). p256_createAccount c cc f pk reg salt"
  ch_code ch_account "fa_implementation f" "\<lambda>(pk, reg, salt). p256_created (fa_implementation f) pk reg"
  for c cc f
  by unfold_locales (auto simp: p256_createAccount_eq Let_def split: if_splits)

interpretation smart_factory: account_factory
  "\<lambda>(ow, ep, salt). smart_getAccountAddress c cc f ow ep salt"
  "\<lambda>(ow, ep, salt). smart_createAccount c cc f ow ep salt"
  "\<lambda>st. ch_code (fst st)" "\<lambda>st. ch_account (fst st)" "fa_implementation f"
  "\<lambda>(ow, ep, salt). smart_created (fa_implementation f) ow ep"
  for c cc f
  by unfold_locales (auto simp: smart_createAccount_eq Let_def split: if_splits)

text \<open>The bytes hashed for the address determine the key and the registry.\<close>

lemma p256_initcode_inject:
  "proxy_initcode cc i (p256_initialize_call c pk reg) = proxy_initcode cc i (p256_initialize_call c pk' reg') \<longleftrightarrow>
   pk = pk' \<and> reg = reg'"
proof
  let ?d = "p256_initialize_call c pk reg" and ?d' = "p256_initialize_call c pk' reg'"
  assume "proxy_initcode cc i ?d = proxy_initcode cc i ?d'"
  then have eq: "abi_encode [AWord (ucast i), ABytes ?d] = abi_encode [AWord (ucast i), ABytes ?d']"
    by (simp add: proxy_initcode_def)
  have len: "length ?d = 100" "length ?d' = 100"
    by (simp_all add: p256_initialize_call_def selector_def length_abi_encode)
  have "[AWord (ucast i), ABytes ?d] = [AWord (ucast i), ABytes ?d']"
    by (rule abi_encode_inject [OF _ _ _ eq, of "[TUint 256, TBytes]"])
      (simp_all only: list_all2_Cons list_all2_Nil abi_has_ty.simps unat_lt_256 simp_thms,
       simp add: length_abi_encode pad32_def len)
  then have "abi_encode (map AWord [fst pk, snd pk, ucast reg]) = abi_encode (map AWord [fst pk', snd pk', ucast reg'])"
    by (simp add: p256_initialize_call_def)
  then have "[fst pk, snd pk, ucast reg] = [fst pk', snd pk', ucast reg' :: uint256]"
    unfolding abi_encode_static by (subst (asm) concat_abi_word_inject) simp_all
  then show "pk = pk' \<and> reg = reg'" by (simp add: prod_eq_iff)
qed simp

end
