(* ===== verification/FullMath.thy ===== *)
theory FullMath
  imports Prelude
begin

unbundle bit_operations_syntax

text \<open>
  \<open>paymaster/CustomFullMath.sol\<close>, the 512-bit \<open>mulDiv\<close> the fee logic computes prices with.
  The blocks in \<open>assembly\<close> wrap; every other operation is checked, because the library is
  compiled with \<open>pragma solidity ^0.8.0\<close> and has no \<open>unchecked\<close> block. The routine was
  written for compilers that wrap silently, and the theorems give what it computes under the
  checked semantics it is compiled with: the exact floor whenever it returns, a revert when
  the result does not fit, and a panic on every 512-bit product whose divisor is not a power
  of two.
\<close>

section \<open>The code\<close>

text \<open>One Newton-Raphson line, \<open>inv *= 2 - denominator * inv\<close> (\<open>inv\<close> is \<open>iv\<close> here).\<close>

definition newton :: "uint256 \<Rightarrow> uint256 \<Rightarrow> uint256 res" where
  "newton denominator iv =
     bindR (checked_mul denominator iv) (\<lambda>x.
     bindR (checked_sub 2 x) (\<lambda>y.
     checked_mul iv y))"

text \<open>The part of \<open>mulDiv\<close> under the heading ``512 by 256 division''.\<close>

definition mulDiv_512 :: "uint256 \<Rightarrow> uint256 \<Rightarrow> uint256 \<Rightarrow> uint256 \<Rightarrow> uint256 \<Rightarrow> uint256 res" where
  "mulDiv_512 a b denominator prod1 prod0 =
     (let remainder = mulmod a b denominator;
          prod1 = prod1 - (if remainder > prod0 then 1 else 0);
          prod0 = prod0 - remainder
      in bindR (checked_add (NOT denominator) 1) (\<lambda>neg.
         let twos = neg AND denominator;
             denominator = denominator div twos;
             prod0 = prod0 div twos;
             twos = (0 - twos) div twos + 1
         in bindR (checked_mul prod1 twos) (\<lambda>high.
            let prod0 = prod0 OR high
            in bindR (checked_mul 3 denominator) (\<lambda>three.
               let iv = three XOR 2
               in bindR (newton denominator iv) (\<lambda>iv.
                  bindR (newton denominator iv) (\<lambda>iv.
                  bindR (newton denominator iv) (\<lambda>iv.
                  bindR (newton denominator iv) (\<lambda>iv.
                  bindR (newton denominator iv) (\<lambda>iv.
                  bindR (newton denominator iv) (\<lambda>iv.
                  checked_mul prod0 iv))))))))))"

definition mulDiv :: "uint256 \<Rightarrow> uint256 \<Rightarrow> uint256 \<Rightarrow> uint256 res" where
  "mulDiv a b denominator =
     (let mm = mulmod a b (NOT 0);
          prod0 = a * b;
          prod1 = mm - prod0 - (if mm < prod0 then 1 else 0)
      in if prod1 = 0
         then (if denominator > 0 then Inr (prod0 div denominator) else Inl RevertEmpty)
         else if \<not> denominator > prod1 then Inl RevertEmpty
         else mulDiv_512 a b denominator prod1 prod0)"

definition mulDivRoundingUp :: "uint256 \<Rightarrow> uint256 \<Rightarrow> uint256 \<Rightarrow> uint256 res" where
  "mulDivRoundingUp a b denominator =
     bindR (mulDiv a b denominator) (\<lambda>result.
     if denominator = 0 then Inl (Panic 0x12)
     else if mulmod a b denominator > 0
     then (if result < NOT 0 then checked_add result 1 else Inl RevertEmpty)
     else Inr result)"

section \<open>The double-word product\<close>

lemma crt_high:
  fixes q r M :: nat
  assumes "q + 2 \<le> M" and "r < M"
  shows "(q * M + r) mod (M - 1) = (if q + r < M - 1 then q + r else q + r + 1 - M)"
proof -
  have M: "M = Suc (M - 1)" using assms by simp
  have "(q * M + r) mod (M - 1) = (q + r + q * (M - 1)) mod (M - 1)"
    by (subst M) (simp add: algebra_simps)
  also have "\<dots> = (q + r) mod (M - 1)" by simp
  also have "\<dots> = (if q + r < M - 1 then q + r else q + r - (M - 1))"
    using assms by (auto simp: le_mod_geq)
  finally show ?thesis
    using assms by auto
qed

lemma unat_max: "unat (- 1 :: uint256) = 2 ^ 256 - 1"
  by (simp only: unsigned_minus_1_eq_mask mask_eq_exp_minus_1) simp

lemma high_word:
  fixes a b :: uint256
  defines "P \<equiv> unat a * unat b"
  shows "unat (mulmod a b (NOT 0) - a * b - (if mulmod a b (NOT 0) < a * b then 1 else 0)) = P div 2 ^ 256"
proof -
  let ?mm = "mulmod a b (NOT 0)" and ?p0 = "a * b"
  define M :: nat where "M = 2 ^ 256"
  define q where "q = P div M"
  define r where "r = P mod M"
  have M1: "1 < M" by (simp add: M_def)
  have r: "r < M" using M1 by (simp add: r_def)
  have "unat a \<le> M - 1" and "unat b \<le> M - 1"
    using unat_lt_256 [of a] unat_lt_256 [of b] by (auto simp: M_def)
  then have "P \<le> (M - 1) * (M - 1)"
    unfolding P_def by (rule mult_le_mono)
  also have "\<dots> < M * (M - 1)" using M1 by simp
  finally have "q < M - 1"
    using M1 by (simp add: q_def div_less_iff_less_mult mult.commute)
  then have q: "q + 2 \<le> M" by simp
  have P: "P = q * M + r" by (simp add: q_def r_def)
  have "0 < (NOT 0 :: uint256)" by (simp add: word_less_nat_alt unat_max)
  then have "unat ?mm = P mod unat (NOT 0 :: uint256)"
    unfolding P_def by (rule unat_mulmod)
  then have "unat ?mm = P mod (M - 1)"
    by (simp only: bit.compl_zero unat_max M_def)
  then have mm: "unat ?mm = (if q + r < M - 1 then q + r else q + r + 1 - M)"
    using crt_high [OF q r] by (simp only: P)
  have p0: "unat ?p0 = r"
    by (simp add: unat_word_ariths r_def P_def M_def)
  show ?thesis
  proof (cases "q + r < M - 1")
    case True
    then have ge: "?p0 \<le> ?mm" using mm p0 by (simp add: word_le_nat_alt)
    then have "unat (?mm - ?p0) = q" using mm p0 True by (simp add: unat_sub)
    then show ?thesis using leD [OF ge] by (simp add: q_def M_def)
  next
    case False
    then have lt: "?mm < ?p0" using mm p0 q by (simp add: word_less_nat_alt)
    then have "unat (?mm - ?p0) = unat ?mm + M - unat ?p0"
      by (simp add: unat_sub_if' word_less_nat_alt M_def)
    then have d: "unat (?mm - ?p0) = q + 1" using mm p0 False q r by simp
    then have "unat (?mm - ?p0 - 1) = q"
      by (subst unat_sub) (auto simp: word_le_nat_alt)
    then show ?thesis using lt by (simp add: q_def M_def)
  qed
qed

lemma lowest_bit_int:
  fixes h :: int
  shows "(- (2 ^ v * (2 * h + 1))) AND (2 ^ v * (2 * h + 1)) = 2 ^ v"
proof -
  have odd: "(- (2 * h + 1)) AND (2 * h + 1) = 1"
  proof -
    have "(2 * x + 1) AND (2 * y + 1) = 2 * (x AND y) + 1" for x y :: int
      by (subst and_rec) simp
    moreover have "- (2 * h + 1) = 2 * NOT h + 1" by (simp add: not_int_def)
    ultimately show ?thesis by (simp only:) simp
  qed
  have "(- (2 ^ v * (2 * h + 1))) AND (2 ^ v * (2 * h + 1))
      = push_bit v (- (2 * h + 1)) AND push_bit v (2 * h + 1)"
    by (simp add: push_bit_eq_mult algebra_simps)
  also have "\<dots> = push_bit v 1"
    by (simp only: push_bit_and [symmetric] odd)
  finally show ?thesis by (simp add: push_bit_eq_mult)
qed

section \<open>The power of two in the divisor\<close>

lemma len256: "LENGTH(256) = 256"
  by simp

lemma checked_mul_1: "checked_mul x 1 = Inr (x :: uint256)"
  using unat_lt_256 [of x] by (simp only: checked_mul_def unat_1 mult_1_right if_True len256)

lemma odd_part: "0 < n \<Longrightarrow> \<exists>v h. n = 2 ^ v * (2 * h + 1)" for n :: nat
proof (induction n rule: less_induct)
  case (less n)
  show ?case
  proof (cases "even n")
    case True
    then obtain m where m: "n = 2 * m" by blast
    with less.prems less.IH [of m] obtain v h where "m = 2 ^ v * (2 * h + 1)" by auto
    then have "n = 2 ^ Suc v * (2 * h + 1)" by (simp add: m)
    then show ?thesis by blast
  next
    case False
    then obtain h where "n = 2 * h + 1" by (blast elim: oddE)
    then have "n = 2 ^ 0 * (2 * h + 1)" by simp
    then show ?thesis by blast
  qed
qed

lemma twos_word:
  fixes d :: uint256
  assumes d: "unat d = 2 ^ v * (2 * h + 1)"
  shows "unat ((NOT d + 1) AND d) = 2 ^ v"
proof -
  have ud: "uint d = 2 ^ v * (2 * int h + 1)"
    by (simp add: uint_nat d algebra_simps)
  have "(NOT d + 1) AND d = word_of_int (- uint d) AND word_of_int (uint d)"
    by (simp add: minus_eq_not_plus_1 [symmetric])
  also have "\<dots> = word_of_int ((- uint d) AND uint d)"
    by (simp only: of_int_and_eq)
  also have "(- uint d) AND uint d = 2 ^ v"
    unfolding ud by (rule lowest_bit_int)
  finally have eq: "(NOT d + 1) AND d = word_of_int (2 ^ v)" .
  have "2 ^ v \<le> unat d" by (simp add: d)
  then have "(2::nat) ^ v < 2 ^ LENGTH(256)"
    using unat_lt_256 [of d] unfolding len256 by linarith
  then have "unat (of_nat (2 ^ v) :: uint256) = 2 ^ v" by (rule unat_of_nat_less)
  moreover have "word_of_int (2 ^ v) = (of_nat (2 ^ v) :: uint256)" by simp
  ultimately show ?thesis unfolding eq by (simp only:)
qed

lemma neg_checked: "d \<noteq> 0 \<Longrightarrow> checked_add (NOT d) 1 = Inr (NOT d + (1 :: uint256))"
proof -
  assume "d \<noteq> 0"
  then have "0 < unat d" by (simp add: unat_gt_0)
  moreover have "unat (NOT d) = unat (- 1 :: uint256) - unat d"
  proof -
    have "NOT d = - 1 - d" by (simp add: not_eq_complement)
    then show ?thesis by (simp add: unat_sub)
  qed
  ultimately show ?thesis by (simp add: checked_add_def unat_max)
qed

section \<open>Newton's iteration under checked arithmetic\<close>

lemma newton_one: "newton 1 1 = Inr 1"
  by (simp add: newton_def checked_mul_def checked_sub_def)

lemma newton_panics:
  assumes "2 < unat d * unat iv"
  shows "newton d iv = Inl (Panic 0x11)"
proof (cases "unat d * unat iv < 2 ^ 256")
  case True
  then have "unat (d * iv) = unat d * unat iv"
    by (simp add: unat_word_ariths)
  then have "\<not> d * iv \<le> 2" using assms by (simp add: word_le_nat_alt)
  then show ?thesis
    using True by (simp add: newton_def checked_mul_def checked_sub_def)
qed (simp add: newton_def checked_mul_def)

lemma xor_two_ge: "x - 2 \<le> x XOR 2" for x :: nat
proof -
  have 1: "y - 1 \<le> y XOR 1" for y :: nat
    by (subst xor_rec) (auto elim!: evenE oddE)
  have "x XOR 2 = of_bool (odd x) + 2 * ((x div 2) XOR 1)"
    by (subst xor_rec) simp
  then show ?thesis
    using 1 [of "x div 2"] by (cases "even x") (auto elim!: evenE oddE)
qed

lemma mulDiv_512_panics:
  fixes d :: uint256
  assumes d: "d \<noteq> 0" and np: "\<nexists>k. unat d = 2 ^ k"
  shows "mulDiv_512 a b d p1 p0 = Inl (Panic 0x11)"
proof -
  let ?twos = "(NOT d + 1) AND d"
  from d have "0 < unat d" by (simp add: unat_gt_0)
  then obtain v h where vh: "unat d = 2 ^ v * (2 * h + 1)"
    using odd_part by blast
  with np have h: "h \<noteq> 0" by (metis add_0 mult.right_neutral mult_zero_right)
  have od: "unat (d div ?twos) = 2 * h + 1"
    using twos_word [OF vh] vh by (simp add: unat_div)
  have nw: "newton (d div ?twos) (x XOR 2) = Inl (Panic 0x11)"
    if x: "checked_mul 3 (d div ?twos) = Inr x" for x
  proof (rule newton_panics)
    have "unat x = 3 * (2 * h + 1)"
      using x by (simp add: checked_simps od)
    then have "2 \<le> unat (x XOR 2)"
      using h xor_two_ge [of "unat x"] by (simp add: unsigned_xor_eq)
    moreover have "3 \<le> unat (d div ?twos)" using h by (simp add: od)
    ultimately have "3 * 2 \<le> unat (d div ?twos) * unat (x XOR 2)"
      by (intro mult_le_mono)
    then show "2 < unat (d div ?twos) * unat (x XOR 2)" by simp
  qed
  have mul: "bindR (checked_mul u w) f = Inl (Panic 0x11)"
    if "\<And>x. checked_mul u w = Inr x \<Longrightarrow> f x = Inl (Panic 0x11)"
    for u w :: uint256 and f :: "uint256 \<Rightarrow> uint256 res"
    using that by (auto simp: checked_mul_def)
  show ?thesis
    unfolding mulDiv_512_def Let_def neg_checked [OF d] bindR_Inr
    by (intro mul) (simp add: nw)
qed

section \<open>Division by a power of two\<close>

lemma or_disjoint:
  fixes x q :: nat
  assumes "x < 2 ^ m"
  shows "x OR (q * 2 ^ m) = x + q * 2 ^ m"
proof -
  have "\<not> bit x n \<or> \<not> bit (push_bit m q) n" for n
  proof (cases "n < m")
    case True
    then show ?thesis by (simp add: bit_push_bit_iff)
  next
    case False
    then have "\<not> bit (take_bit m x) n" by (simp add: bit_take_bit_iff)
    then show ?thesis using assms by (simp add: take_bit_nat_eq_self)
  qed
  then have "x + push_bit m q = x OR push_bit m q"
    by (intro disjunctive_add) simp
  then show ?thesis by (simp add: push_bit_eq_mult)
qed

lemma flip_twos:
  fixes t :: uint256
  assumes t: "unat t = 2 ^ k" and k: "0 < k" "k < 256"
  shows "unat ((0 - t) div t + 1) = 2 ^ (256 - k)"
proof -
  have split: "(2::nat) ^ 256 = 2 ^ k * 2 ^ (256 - k)"
    using k by (simp flip: power_add)
  have "unat (0 - t) = 2 ^ 256 - 2 ^ k"
    by (simp only: unat_sub_if' t unat_0 len256) simp
  also have "\<dots> = 2 ^ k * (2 ^ (256 - k) - 1)"
    unfolding split by (simp add: algebra_simps)
  finally have dv: "unat ((0 - t) div t) = 2 ^ (256 - k) - 1"
    using t by (simp add: unat_div)
  have "(2::nat) ^ (256 - k) < 2 ^ 256"
    using k by (intro power_strict_increasing) auto
  then have "unat ((0 - t) div t) + unat (1 :: uint256) < 2 ^ 256"
    using dv by simp
  then have "unat ((0 - t) div t + 1) = unat ((0 - t) div t) + 1"
    by (simp add: unat_word_ariths)
  then show ?thesis using dv by simp
qed

lemma mod_mod_pow2: "k \<le> m \<Longrightarrow> x mod 2 ^ m mod 2 ^ k = x mod 2 ^ k" for x :: nat
  by (simp add: mod_mod_cancel le_imp_power_dvd)

lemma div_split_pow2:
  fixes q r :: nat
  assumes "k \<le> m"
  shows "(q * 2 ^ m + r) div 2 ^ k = r div 2 ^ k + q * 2 ^ (m - k)"
proof -
  have "(2::nat) ^ m = 2 ^ (m - k) * 2 ^ k"
    using assms by (simp flip: power_add)
  then have eq: "q * 2 ^ m + r = r + q * 2 ^ (m - k) * 2 ^ k" by simp
  show ?thesis unfolding eq by simp
qed

lemma mulDiv_512_pow2:
  fixes a b d p1 p0 :: uint256
  defines "P \<equiv> unat a * unat b"
  assumes d: "unat d = 2 ^ k" and k: "0 < k" "k < 256"
    and p1: "unat p1 = P div 2 ^ 256" and p0: "unat p0 = P mod 2 ^ 256"
    and fits: "P div 2 ^ 256 < 2 ^ k"
  shows "mulDiv_512 a b d p1 p0 = Inr (of_nat (P div 2 ^ k))"
proof -
  have d0: "d \<noteq> 0" using d by (metis power_not_zero unat_0 zero_neq_numeral)
  then have dpos: "0 < d" by (simp add: word_neq_0_conv)
  have rem: "unat (mulmod a b d) = unat p0 mod 2 ^ k"
    using k by (simp only: unat_mulmod [OF dpos] d p0 P_def mod_mod_pow2 less_imp_le)
  then have le: "mulmod a b d \<le> p0" by (simp add: word_le_nat_alt)
  have sub: "unat (p0 - mulmod a b d) = unat p0 div 2 ^ k * 2 ^ k"
    using le rem by (simp add: unat_sub minus_mod_eq_div_mult)
  have tw: "(NOT d + 1) AND d = d"
    using twos_word [of d k 0] d by (simp add: word_unat_eq_iff)
  have one: "d div d = 1" using d0 by (simp add: word_unat_eq_iff unat_div d)
  have lo: "unat ((p0 - mulmod a b d) div d) = unat p0 div 2 ^ k"
    by (simp add: unat_div sub d)
  note fl = flip_twos [OF d k]
  have split: "(2::nat) ^ 256 = 2 ^ k * 2 ^ (256 - k)"
    using k by (simp flip: power_add)
  have hb: "unat p1 * 2 ^ (256 - k) < 2 ^ 256"
    using fits p1 unfolding split by simp
  have high: "checked_mul p1 ((0 - d) div d + 1) = Inr (of_nat (unat p1 * 2 ^ (256 - k)))"
    using hb by (simp only: checked_mul_eq_Inr fl len256 unat_of_nat_less)
  have lb: "unat p0 div 2 ^ k < 2 ^ (256 - k)"
    using unat_lt_256 [of p0] unfolding split
    by (simp add: less_mult_imp_div_less mult.commute)
  let ?or = "((p0 - mulmod a b d) div d) OR of_nat (unat p1 * 2 ^ (256 - k))"
  have "unat (of_nat (unat p1 * 2 ^ (256 - k)) :: uint256) = unat p1 * 2 ^ (256 - k)"
    using hb by (simp only: unat_of_nat_less len256)
  then have "unat ?or = unat p0 div 2 ^ k + unat p1 * 2 ^ (256 - k)"
    by (simp only: unsigned_or_eq lo or_disjoint [OF lb])
  also have "\<dots> = (unat p1 * 2 ^ 256 + unat p0) div 2 ^ k"
    using div_split_pow2 [of k 256 "unat p1" "unat p0"] k by (simp only: less_imp_le)
  also have "unat p1 * 2 ^ 256 + unat p0 = P"
    by (simp only: p1 p0 div_mult_mod_eq)
  finally have res: "?or = of_nat (P div 2 ^ k)"
    by (metis of_nat_unat ucast_id)
  have three: "checked_mul 3 1 = Inr (3 :: uint256)" by (rule checked_mul_1)
  have nb: "\<not> mulmod a b d > p0" using le by (simp add: linorder_not_less)
  show ?thesis
    unfolding mulDiv_512_def Let_def neg_checked [OF d0] bindR_Inr tw one
    using nb high res newton_one checked_mul_1 three
    by (simp only: bindR_Inr if_False diff_0_right tw one, simp)
qed

lemma pow2_of_fits:
  assumes "unat (d :: uint256) = 2 ^ k" and "1 < unat d"
  shows "0 < k \<and> k < 256"
proof -
  have "(2::nat) ^ k < 2 ^ 256" using assms unat_lt_256 [of d] by simp
  then have "k < 256" by (rule power_less_imp_less_exp [rotated]) simp
  moreover have "0 < k" using assms by (cases k) auto
  ultimately show ?thesis by simp
qed

section \<open>What \<open>mulDiv\<close> computes\<close>

lemma mulDiv_zero: "mulDiv a b 0 = Inl RevertEmpty"
  by (simp add: mulDiv_def Let_def)

lemma mulDiv_unfold:
  fixes a b :: uint256
  defines "P \<equiv> unat a * unat b"
  obtains p1 where "unat p1 = P div 2 ^ 256" and "unat (a * b) = P mod 2 ^ 256"
    and "\<And>d. mulDiv a b d = (if p1 = 0 then if d > 0 then Inr (a * b div d) else Inl RevertEmpty
              else if \<not> d > p1 then Inl RevertEmpty else mulDiv_512 a b d p1 (a * b))"
proof -
  have "unat (a * b) = P mod 2 ^ 256" unfolding P_def by (simp add: unat_word_ariths)
  then show ?thesis
    using that [OF high_word [of a b, folded P_def]] by (simp only: mulDiv_def Let_def)
qed

lemma mulDiv_small:
  assumes "unat a * unat b < 2 ^ 256" and "d \<noteq> 0"
  shows "mulDiv a b d = Inr (of_nat (unat a * unat b div unat d))"
proof (rule mulDiv_unfold [of a b])
  fix p1
  assume *: "unat p1 = unat a * unat b div 2 ^ 256" "unat (a * b) = unat a * unat b mod 2 ^ 256"
    "\<And>d. mulDiv a b d = (if p1 = 0 then if d > 0 then Inr (a * b div d) else Inl RevertEmpty
          else if \<not> d > p1 then Inl RevertEmpty else mulDiv_512 a b d p1 (a * b))"
  have "unat p1 = 0" using * (1) assms(1) by (simp only: div_less)
  then have "p1 = 0" by (simp only: unat_eq_0)
  moreover have "d > 0" using assms(2) by (simp add: word_gt_0)
  moreover have "unat (a * b) = unat a * unat b" using * (2) assms(1) by (simp only: mod_less)
  ultimately show ?thesis 
    using *(3) [of d] word_arith_nat_div [of "a * b" d] by (simp only: if_True refl)
qed

lemma mulDiv_large:
  assumes "2 ^ 256 \<le> unat a * unat b" and "d \<noteq> 0"
  shows "mulDiv a b d =
    (if unat d \<le> unat a * unat b div 2 ^ 256 then Inl RevertEmpty
     else if \<exists>k. unat d = 2 ^ k then Inr (of_nat (unat a * unat b div unat d))
     else Inl (Panic 0x11))"
proof (rule mulDiv_unfold [of a b])
  let ?P = "unat a * unat b"
  fix p1
  assume *: "unat p1 = ?P div 2 ^ 256" "unat (a * b) = ?P mod 2 ^ 256"
    "\<And>d. mulDiv a b d = (if p1 = 0 then if d > 0 then Inr (a * b div d) else Inl RevertEmpty
          else if \<not> d > p1 then Inl RevertEmpty else mulDiv_512 a b d p1 (a * b))"
  have pos: "0 < unat p1" using *(1) assms(1) by (simp add: div_greater_zero_iff)
  then have "p1 \<noteq> 0" by auto
  then have md: "mulDiv a b d = (if unat d \<le> ?P div 2 ^ 256 then Inl RevertEmpty
      else mulDiv_512 a b d p1 (a * b))"
    using *(3) [of d] *(1) by (simp only: if_False word_less_nat_alt linorder_not_less)
  show ?thesis
  proof (cases "\<exists>k. unat d = 2 ^ k")
    case True
    then obtain k where k: "unat d = 2 ^ k" by blast
    show ?thesis
    proof (cases "unat d \<le> ?P div 2 ^ 256")
      case False
      then have lt: "?P div 2 ^ 256 < 2 ^ k" and "1 < unat d" using k pos *(1) by linarith+
      then have "0 < k \<and> k < 256" using pow2_of_fits [OF k] by blast
      then show ?thesis
        using mulDiv_512_pow2 [OF k _ _ *(1) *(2) lt] False True md k by (simp only: if_True if_False)
    qed (simp only: md if_True)
  next
    case False
    then show ?thesis
      using mulDiv_512_panics [OF assms(2) False] md by (simp only: if_False)
  qed
qed

lemma mulDiv_returns:
  assumes "mulDiv a b d = Inr r"
  shows "unat r = unat a * unat b div unat d"
proof -
  have "d \<noteq> 0" using assms mulDiv_zero by auto
  then have d: "0 < unat d" by (simp add: unat_gt_0)
  obtain M :: nat where M: "M = 2 ^ 256" by blast
  have "r = of_nat (unat a * unat b div unat d) \<and> unat a * unat b div unat d < M"
  proof (cases "unat a * unat b < M")
    case True
    then have "r = of_nat (unat a * unat b div unat d)"
      using assms mulDiv_small [OF _ \<open>d \<noteq> 0\<close>] by (simp only: M sum.inject)
    moreover have "unat a * unat b div unat d < M" using True by (rule le_less_trans [OF div_le_dividend])
    ultimately show ?thesis by blast
  next
    case False
    then have "unat a * unat b div M < unat d" "r = of_nat (unat a * unat b div unat d)"
      using assms mulDiv_large [OF _ \<open>d \<noteq> 0\<close>, of a b] unfolding M [symmetric]
      by (auto split: if_splits)
    moreover have "0 < M" by (simp add: M)
    ultimately show ?thesis using d by (simp add: div_less_iff_less_mult mult.commute)
  qed
  then show ?thesis using unat_of_nat_less [where 'w=256] by (simp only: M len256)
qed

lemma mulDiv_mono:
  assumes r: "mulDiv a b d = Inr r" and "a' \<le> a" and "b' \<le> b"
  shows "\<exists>r'. mulDiv a' b' d = Inr r' \<and> r' \<le> r"
proof -
  have d: "d \<noteq> 0" using r mulDiv_zero by auto
  have le: "unat a' * unat b' \<le> unat a * unat b"
    using assms(2,3) by (simp add: word_le_nat_alt mult_le_mono)
  have "\<exists>r'. mulDiv a' b' d = Inr r'"
  proof (cases "unat a' * unat b' < 2 ^ 256")
    case True
    then show ?thesis using mulDiv_small d by blast
  next
    case False
    then have big': "2 ^ 256 \<le> unat a' * unat b'" by (simp only: not_less)
    then have big: "2 ^ 256 \<le> unat a * unat b" using le by (rule order_trans)
    have "\<not> unat d \<le> unat a * unat b div 2 ^ 256" "\<exists>k. unat d = 2 ^ k"
      using r unfolding mulDiv_large [OF big d] by (auto split: if_splits)
    moreover have "unat a' * unat b' div 2 ^ 256 \<le> unat a * unat b div 2 ^ 256"
      using le by (rule div_le_mono)
    ultimately have "\<not> unat d \<le> unat a' * unat b' div 2 ^ 256" "\<exists>k. unat d = 2 ^ k"
      using order_trans by blast+
    then show ?thesis
      unfolding mulDiv_large [OF big' d] by (simp only: if_False if_True) blast
  qed
  then obtain r' where r': "mulDiv a' b' d = Inr r'" ..
  moreover have "r' \<le> r"
    using mulDiv_returns [OF r] mulDiv_returns [OF r'] le by (simp add: word_le_nat_alt div_le_mono)
  ultimately show ?thesis by blast
qed

lemma ceiling_div:
  fixes p d :: nat
  assumes "0 < d"
  shows "(p + d - 1) div d = (if p mod d = 0 then p div d else p div d + 1)"
proof -
  have "p + d - 1 = p mod d + d - 1 + (p div d) * d"
    using assms div_mult_mod_eq [of p d] by linarith
  then have "(p + d - 1) div d = (p mod d + d - 1 + (p div d) * d) div d"
    by (rule arg_cong)
  also have "\<dots> = p div d + (p mod d + d - 1) div d"
    by (rule div_mult_self1) (use assms in simp)
  also have "(p mod d + d - 1) div d = (if p mod d = 0 then 0 else 1)"
  proof (cases "p mod d = 0")
    case False
    then have "p mod d + d - 1 = (p mod d - 1) + 1 * d" by simp
    then have "(p mod d + d - 1) div d = 1 + (p mod d - 1) div d"
      using assms div_mult_self1 [of d "p mod d - 1" 1] by (simp only: neq0_conv)
    moreover have "p mod d - 1 < d" using assms by (simp add: less_imp_diff_less)
    ultimately show ?thesis using False by simp
  qed (use assms in simp)
  finally show ?thesis by simp
qed

lemma mulDivRoundingUp_returns:
  assumes "mulDivRoundingUp a b d = Inr r"
  shows "unat r = (unat a * unat b + unat d - 1) div unat d"
proof -
  from assms obtain q where q: "mulDiv a b d = Inr q" and d: "d \<noteq> 0"
    and r: "if mulmod a b d > 0 then checked_add q 1 = Inr r else r = q"
    by (auto simp: mulDivRoundingUp_def bindR_eq_Inr split: if_splits)
  from d have "0 < unat d" by (simp add: unat_gt_0)
  moreover have "mulmod a b d > 0 \<longleftrightarrow> unat a * unat b mod unat d \<noteq> 0"
    using d by (simp add: word_less_nat_alt unat_mulmod word_neq_0_conv)
  moreover have "unat r = (if mulmod a b d > 0 then unat q + 1 else unat q)"
    using r by (simp add: checked_add_eq_Inr split: if_splits)
  ultimately show ?thesis using mulDiv_returns [OF q] 
    by (simp only: ceiling_div if_not_P if_P split: if_split) simp
qed

end
