(* ===== verification/FeeLogic.thy ===== *)
theory FeeLogic
  imports FullMath
begin

text \<open>
  The contracts that price gas in a token: \<open>paymaster/EnclaveFeeLogicTestnet.sol\<close>,
  \<open>EnclaveFeeLogicMainnet.sol\<close> (a Chainlink price) and \<open>EnclaveFeeLogicUniswap.sol\<close> (a
  Uniswap pool), and the pure part and the swap of \<open>UniswapHelper.sol\<close>.

  Chainlink, Uniswap, the ERC-20 tokens, OpenZeppelin's \<open>Ownable\<close> and \<open>SafeMath\<close> are not
  part of the repository: a call to one of them is a function argument of the definition that
  makes it. \<open>onlyOwner sender\<close> is the outcome of \<open>Ownable\<close>'s modifier for that sender.

  What a paymaster relies on is the locale \<open>fee_logic\<close>: a smaller gas cost is never priced
  higher, and can be priced whenever the larger one can.
\<close>

section \<open>The interface\<close>

definition ownable_by :: "(address \<Rightarrow> unit res) \<Rightarrow> address \<Rightarrow> bool" where
  "ownable_by onlyOwner ow \<longleftrightarrow> (\<forall>a. onlyOwner a = Inr () \<longleftrightarrow> a = ow)"

locale fee_logic =
  fixes fee :: "uint256 \<Rightarrow> uint256 res"
  assumes fee_mono: "fee g = Inr f \<Longrightarrow> g' \<le> g \<Longrightarrow> \<exists>f'. fee g' = Inr f' \<and> f' \<le> f"
begin

lemma fee_le: "fee g = Inr f \<Longrightarrow> fee g' = Inr f' \<Longrightarrow> g' \<le> g \<Longrightarrow> f' \<le> f"
  using fee_mono by fastforce

lemma fee_fails_up: "fee g = Inl e \<Longrightarrow> g \<le> g' \<Longrightarrow> \<exists>e'. fee g' = Inl e'"
  using fee_mono [of g' _ g] by (cases "fee g'") auto

lemma fee_zero_least: "fee g = Inr f \<Longrightarrow> \<exists>f0. fee 0 = Inr f0 \<and> f0 \<le> f"
  using fee_mono by fastforce

end

section \<open>Testnet\<close>

text \<open>The storage constants are \<open>USDC_DECIMALS = 6\<close> and \<open>ETH_DECIMALS = 18\<close>.\<close>

definition testnet_calculateFee :: "uint256 \<Rightarrow> uint256 res" where
  "testnet_calculateFee actualGasCost =
     bindR (checked_mul actualGasCost 2500) (\<lambda>n.
     bindR (checked_sub (18 :: uint256) 6) (\<lambda>k.
     bindR (checked_pow 10 (unat k)) (\<lambda>d.
     checked_div n d)))"

lemma testnet_unfold:
  "testnet_calculateFee g = bindR (checked_mul g 2500) (\<lambda>n. Inr (n div 1000000000000))"
proof -
  have "checked_sub (18 :: uint256) 6 = Inr 12" by (simp add: checked_sub_def)
  moreover have "checked_pow 10 12 = Inr (1000000000000 :: uint256)" by (simp add: checked_pow_eq_Inr)
  ultimately show ?thesis by (simp add: testnet_calculateFee_def checked_div_def)
qed

lemma testnet_eq:
  "testnet_calculateFee g = Inr f \<longleftrightarrow> unat g * 2500 < 2 ^ 256 \<and> unat f = unat g * 2500 div 10 ^ 12"
proof -
  have "unat (g * 2500) = unat g * 2500" if "unat g * 2500 < 2 ^ 256"
    using that checked_mul_eq_Inr [of g 2500 "g * 2500"] by (simp add: checked_mul_def)
  then show ?thesis
    unfolding testnet_unfold checked_mul_def word_unat_eq_iff [of f]
    by (auto simp: unat_div word_unat_eq_iff)
qed

lemma fits_256: "n < 2 ^ 256 \<Longrightarrow> \<exists>x :: uint256. unat x = n"
  using unat_of_nat_less [where 'w = 256 and n = n] by (metis len256)

lemma testnet_mono:
  assumes "testnet_calculateFee g = Inr f" and "g' \<le> g"
  shows "\<exists>f'. testnet_calculateFee g' = Inr f' \<and> f' \<le> f"
proof -
  have le: "unat g' * 2500 \<le> unat g * 2500" using assms(2) by (simp add: word_le_nat_alt)
  obtain x :: uint256 where "unat x = unat g' * 2500 div 10 ^ 12"
    using assms(1) le fits_256 unfolding testnet_eq by (meson div_le_dividend le_less_trans)
  then show ?thesis
    using assms(1) le by (auto simp: testnet_eq word_le_nat_alt div_le_mono)
qed

interpretation testnet: fee_logic testnet_calculateFee
  by unfold_locales (rule testnet_mono)

section \<open>Mainnet\<close>

datatype mainnet_event =
    ChainlinkDataFeedUpdated address address uint256
  | MarkupDenominatorUpdated uint256 uint256 uint256

record fee_mainnet =
  fm_ETH_DECIMALS :: uint256
  fm_dataFeed :: address
  fm_markupDenominator :: uint256
  fm_log :: "mainnet_event list"

definition mainnet_constructor :: "address \<Rightarrow> uint256 \<Rightarrow> fee_mainnet" where
  "mainnet_constructor feed denom =
     \<lparr>fm_ETH_DECIMALS = 18, fm_dataFeed = feed, fm_markupDenominator = denom, fm_log = []\<rparr>"

definition updateChainlinkDataFeed ::
    "(address \<Rightarrow> unit res) \<Rightarrow> uint256 \<Rightarrow> address \<Rightarrow> address \<Rightarrow> fee_mainnet \<Rightarrow> fee_mainnet res" where
  "updateChainlinkDataFeed onlyOwner timestamp sender feed s =
     bindR (onlyOwner sender) (\<lambda>_.
     let s = s\<lparr>fm_dataFeed := feed\<rparr>
     in Inr (s\<lparr>fm_log := fm_log s @ [ChainlinkDataFeedUpdated (fm_dataFeed s) feed timestamp]\<rparr>))"

definition mainnet_updateMarkupDenominator ::
    "(address \<Rightarrow> unit res) \<Rightarrow> uint256 \<Rightarrow> address \<Rightarrow> uint256 \<Rightarrow> fee_mainnet \<Rightarrow> fee_mainnet res" where
  "mainnet_updateMarkupDenominator onlyOwner timestamp sender denom s =
     bindR (onlyOwner sender) (\<lambda>_.
     let s = s\<lparr>fm_markupDenominator := denom\<rparr>
     in Inr (s\<lparr>fm_log := fm_log s @
              [MarkupDenominatorUpdated (fm_markupDenominator s) denom timestamp]\<rparr>))"

text \<open>
  A data feed answers \<open>latestRoundData()\<close> and \<open>decimals()\<close>. The answer is an \<open>int256\<close>, kept
  as its bits: the cast \<open>uint256(...)\<close> reads them unsigned.
\<close>

record chainlink =
  cl_latestAnswer :: "address \<Rightarrow> uint256 res"
  cl_decimals :: "address \<Rightarrow> byte res"

definition getChainlinkDataFeedLatestAnswer :: "chainlink \<Rightarrow> fee_mainnet \<Rightarrow> uint256 res" where
  "getChainlinkDataFeedLatestAnswer cl s = cl_latestAnswer cl (fm_dataFeed s)"

definition mainnet_calculateFee :: "chainlink \<Rightarrow> fee_mainnet \<Rightarrow> address \<Rightarrow> uint256 \<Rightarrow> uint256 res" where
  "mainnet_calculateFee cl s token actualGasCost =
     bindR (getChainlinkDataFeedLatestAnswer cl s) (\<lambda>answer.
     bindR (checked_mul actualGasCost answer) (\<lambda>n.
     bindR (cl_decimals cl (fm_dataFeed s)) (\<lambda>decimals.
     bindR (checked_add (fm_ETH_DECIMALS s) (ucast decimals)) (\<lambda>k.
     bindR (checked_sub k 6) (\<lambda>k.
     bindR (checked_pow 10 (unat k)) (\<lambda>d.
     bindR (checked_div n d) (\<lambda>costInUSDC.
     bindR (checked_div costInUSDC (fm_markupDenominator s)) (\<lambda>markup.
     checked_add costInUSDC markup))))))))"

text \<open>The cost before the markup, and the fee, as natural numbers.\<close>

definition mainnet_cost :: "nat \<Rightarrow> nat \<Rightarrow> nat \<Rightarrow> nat" where
  "mainnet_cost answer decimals gas = gas * answer div 10 ^ (12 + decimals)"

definition mainnet_fee :: "nat \<Rightarrow> nat \<Rightarrow> nat \<Rightarrow> nat \<Rightarrow> nat" where
  "mainnet_fee answer decimals denom gas =
     mainnet_cost answer decimals gas + mainnet_cost answer decimals gas div denom"

lemma mainnet_exponent:
  fixes decimals :: byte
  shows "\<exists>k k'. checked_add 18 (ucast decimals) = Inr (k :: uint256) \<and> checked_sub k 6 = Inr k' \<and>
    unat k' = 12 + unat decimals"
proof -
  have u: "unat (ucast decimals :: uint256) = unat decimals" by (rule unat_ucast_up) simp
  have lt: "18 + unat decimals < 2 ^ 256" using less_trans [OF unat_lt_8 [of decimals], of "2 ^ 256 - 18"] by simp
  then obtain k k' :: uint256 where "unat k = 18 + unat decimals" "unat k' = 12 + unat decimals"
    using fits_256 [of "18 + unat decimals"] fits_256 [of "12 + unat decimals"] by auto
  then have "checked_add 18 (ucast decimals) = Inr k" "checked_sub k 6 = Inr k'"
    using lt by (simp_all add: checked_add_eq_Inr checked_sub_eq_Inr u)
  then show ?thesis using \<open>unat k' = _\<close> by blast
qed

lemma mainnet_eq:
  assumes eth: "fm_ETH_DECIMALS s = 18"
    and ans: "cl_latestAnswer cl (fm_dataFeed s) = Inr answer"
    and dec: "cl_decimals cl (fm_dataFeed s) = Inr decimals"
  shows "mainnet_calculateFee cl s token g = Inr f \<longleftrightarrow>
    unat g * unat answer < 2 ^ 256 \<and> (10::nat) ^ (12 + unat decimals) < 2 ^ 256 \<and>
    fm_markupDenominator s \<noteq> 0 \<and>
    mainnet_fee (unat answer) (unat decimals) (unat (fm_markupDenominator s)) (unat g) < 2 ^ 256 \<and>
    unat f = mainnet_fee (unat answer) (unat decimals) (unat (fm_markupDenominator s)) (unat g)"
    (is "?l \<longleftrightarrow> ?r")
proof -
  let ?n = "unat g * unat answer" and ?D = "(10::nat) ^ (12 + unat decimals)"
  obtain k k' :: uint256 where k: "checked_add 18 (ucast decimals) = Inr k" "checked_sub k 6 = Inr k'"
      "unat k' = 12 + unat decimals"
    using mainnet_exponent by blast
  have ten: "unat (10 :: uint256) = 10" "0 < unat (10 :: uint256)" by simp_all
  have run: "?l \<longleftrightarrow> bindR (checked_mul g answer) (\<lambda>n. bindR (checked_pow 10 (12 + unat decimals)) (\<lambda>d.
      bindR (checked_div n d) (\<lambda>c. bindR (checked_div c (fm_markupDenominator s)) (\<lambda>m.
      checked_add c m)))) = Inr f"
    by (simp only: mainnet_calculateFee_def getChainlinkDataFeedLatestAnswer_def ans dec eth k bindR_Inr)
  have costfee: "mainnet_fee (unat answer) (unat decimals) m (unat g) = ?n div ?D + ?n div ?D div m" for m
    by (simp only: mainnet_fee_def mainnet_cost_def)
  show ?thesis
  proof
    assume ?l
    then show ?r
      unfolding run costfee by (auto simp only: bindR_eq_Inr checked_simps checked_pow_eq_Inr [OF ten(2)] ten len256 unat_0)
  next
    assume r: ?r
    obtain n d c m :: uint256 where
      "unat n = ?n" "unat d = ?D" "unat c = ?n div ?D" "unat m = ?n div ?D div unat (fm_markupDenominator s)"
      using r fits_256 by (meson div_le_dividend le_less_trans)
    moreover have "unat (fm_markupDenominator s) \<noteq> 0" using r by (simp only: unat_eq_0 not_False_eq_True)
    moreover have "?D \<noteq> 0" by simp
    ultimately have "checked_mul g answer = Inr n" "checked_pow 10 (12 + unat decimals) = Inr d"
      "checked_div n d = Inr c" "checked_div c (fm_markupDenominator s) = Inr m" "checked_add c m = Inr f"
      using r unfolding costfee
      by (simp_all only: checked_simps checked_pow_eq_Inr [OF ten(2)] ten len256 simp_thms)
    then show ?l unfolding run by (simp only: bindR_Inr)
  qed
qed

lemma mainnet_mono:
  assumes "mainnet_calculateFee cl s token g = Inr f" and "g' \<le> g"
  shows "\<exists>f'. mainnet_calculateFee cl s token g' = Inr f' \<and> f' \<le> f"
proof -
  from assms(1) obtain answer n decimals k k' d c m where
    run: "getChainlinkDataFeedLatestAnswer cl s = Inr answer" "cl_decimals cl (fm_dataFeed s) = Inr decimals"
      "checked_add (fm_ETH_DECIMALS s) (ucast decimals) = Inr k" "checked_sub k 6 = Inr k'"
      "checked_pow 10 (unat k') = Inr d"
    and steps: "checked_mul g answer = Inr n" "checked_div n d = Inr c"
      "checked_div c (fm_markupDenominator s) = Inr m" "checked_add c m = Inr f"
    by (auto simp: mainnet_calculateFee_def bindR_eq_Inr)
  obtain n' where n': "checked_mul g' answer = Inr n'" "n' \<le> n"
    using checked_mul_mono [OF steps(1) assms(2) order_refl] by blast
  obtain c' where c': "checked_div n' d = Inr c'" "c' \<le> c"
    using checked_div_mono [OF steps(2) n'(2)] by blast
  obtain m' where m': "checked_div c' (fm_markupDenominator s) = Inr m'" "m' \<le> m"
    using checked_div_mono [OF steps(3) c'(2)] by blast
  show ?thesis
    using checked_add_mono [OF steps(4) c'(2) m'(2)] run n' c' m'
    by (simp add: mainnet_calculateFee_def)
qed

interpretation mainnet: fee_logic "mainnet_calculateFee cl s token" for cl s token
  by unfold_locales (rule mainnet_mono)

section \<open>Uniswap\<close>

text \<open>
  The calls of \<open>EnclaveFeeLogicUniswap\<close> to the factory, the pools and the token, and the three
  \<open>SafeMath\<close> functions it uses. \<open>safemath_ok\<close> is \<open>SafeMath\<close>'s documented behaviour: the
  result, or a revert where the operation overflows or divides by zero.
\<close>

record uniswap_ext =
  ux_getPool :: "address \<Rightarrow> address \<Rightarrow> address \<Rightarrow> uint24 \<Rightarrow> address res"
  ux_liquidity :: "address \<Rightarrow> uint128 res"
  ux_sqrtPriceX96 :: "address \<Rightarrow> uint160 res"
  ux_decimals :: "address \<Rightarrow> byte res"
  sm_add :: "uint256 \<Rightarrow> uint256 \<Rightarrow> uint256 res"
  sm_sub :: "uint256 \<Rightarrow> uint256 \<Rightarrow> uint256 res"
  sm_div :: "uint256 \<Rightarrow> uint256 \<Rightarrow> uint256 res"

definition safemath_ok :: "uniswap_ext \<Rightarrow> bool" where
  "safemath_ok ux \<longleftrightarrow>
     (\<forall>a b c. sm_add ux a b = Inr c \<longleftrightarrow> checked_add a b = Inr c) \<and>
     (\<forall>a b c. sm_sub ux a b = Inr c \<longleftrightarrow> checked_sub a b = Inr c) \<and>
     (\<forall>a b c. sm_div ux a b = Inr c \<longleftrightarrow> checked_div a b = Inr c)"

record fee_uniswap =
  fu_WETH9 :: address
  fu_factory :: address
  fu_markup :: uint24
  fu_markupDenominator :: uint24
  fu_feeTiers :: "uint24 list"

record PoolInfo =
  pi_poolAddress :: address
  pi_fee :: uint24
  pi_liquidity :: uint128

definition uniswap_constructor :: "address \<Rightarrow> address \<Rightarrow> uint24 \<Rightarrow> uint24 \<Rightarrow> fee_uniswap" where
  "uniswap_constructor weth fac m md =
     \<lparr>fu_WETH9 = weth, fu_factory = fac, fu_markup = m, fu_markupDenominator = md,
      fu_feeTiers = [100, 500, 3000, 10000]\<rparr>"

definition updateFeeTiers ::
    "(address \<Rightarrow> unit res) \<Rightarrow> address \<Rightarrow> uint24 list \<Rightarrow> fee_uniswap \<Rightarrow> fee_uniswap res" where
  "updateFeeTiers onlyOwner sender tiers s =
     bindR (onlyOwner sender) (\<lambda>_. Inr (s\<lparr>fu_feeTiers := tiers\<rparr>))"

definition updateMarkup ::
    "(address \<Rightarrow> unit res) \<Rightarrow> address \<Rightarrow> uint24 \<Rightarrow> fee_uniswap \<Rightarrow> fee_uniswap res" where
  "updateMarkup onlyOwner sender m s =
     bindR (onlyOwner sender) (\<lambda>_. Inr (s\<lparr>fu_markup := m\<rparr>))"

definition uniswap_updateMarkupDenominator ::
    "(address \<Rightarrow> unit res) \<Rightarrow> address \<Rightarrow> uint24 \<Rightarrow> fee_uniswap \<Rightarrow> fee_uniswap res" where
  "uniswap_updateMarkupDenominator onlyOwner sender md s =
     bindR (onlyOwner sender) (\<lambda>_. Inr (s\<lparr>fu_markupDenominator := md\<rparr>))"

text \<open>
  The loop of \<open>findOptimalPool\<close> over the fee tiers. \<open>bestLiquidity\<close> is a variable of its own
  beside \<open>bestPool.liquidity\<close>, as in the source.
\<close>

fun findOptimalPool_loop ::
    "uniswap_ext \<Rightarrow> fee_uniswap \<Rightarrow> address \<Rightarrow> uint24 list \<Rightarrow> PoolInfo \<Rightarrow> uint128 \<Rightarrow> PoolInfo res" where
  "findOptimalPool_loop ux s token [] bestPool bestLiquidity = Inr bestPool"
| "findOptimalPool_loop ux s token (tier # tiers) bestPool bestLiquidity =
     bindR (ux_getPool ux (fu_factory s) (fu_WETH9 s) token tier) (\<lambda>poolAddress.
     if poolAddress \<noteq> 0 then
       bindR (ux_liquidity ux poolAddress) (\<lambda>liquidity.
       if liquidity > bestLiquidity \<or> (liquidity = bestLiquidity \<and> tier < pi_fee bestPool)
       then findOptimalPool_loop ux s token tiers
              \<lparr>pi_poolAddress = poolAddress, pi_fee = tier, pi_liquidity = liquidity\<rparr> liquidity
       else findOptimalPool_loop ux s token tiers bestPool bestLiquidity)
     else findOptimalPool_loop ux s token tiers bestPool bestLiquidity)"

definition findOptimalPool :: "uniswap_ext \<Rightarrow> fee_uniswap \<Rightarrow> address \<Rightarrow> uint24 res" where
  "findOptimalPool ux s token =
     bindR (findOptimalPool_loop ux s token (fu_feeTiers s)
              \<lparr>pi_poolAddress = 0, pi_fee = 0, pi_liquidity = 0\<rparr> 0) (\<lambda>bestPool.
     Inr (pi_fee bestPool))"

definition Q96 :: uint256 where
  "Q96 = 2 ^ 96"

definition getAmountIn :: "uniswap_ext \<Rightarrow> fee_uniswap \<Rightarrow> address \<Rightarrow> uint256 \<Rightarrow> uint256 res" where
  "getAmountIn ux s tokenIn amountOut =
     bindR (findOptimalPool ux s tokenIn) (\<lambda>fee.
     bindR (ux_getPool ux (fu_factory s) tokenIn (fu_WETH9 s) fee) (\<lambda>poolAddress.
     bindR (require (poolAddress \<noteq> 0) ''Pool does not exist'') (\<lambda>_.
     bindR (ux_sqrtPriceX96 ux poolAddress) (\<lambda>sqrtPriceX96.
     bindR (mulDiv (ucast sqrtPriceX96) (ucast sqrtPriceX96) Q96) (\<lambda>priceX96.
     bindR (sm_div ux (ucast fee) 1000) (\<lambda>f.
     bindR (sm_sub ux 1000 f) (\<lambda>d.
     bindR (mulDiv amountOut 1000 d) (\<lambda>ethAmountWithFee.
     bindR (ux_liquidity ux poolAddress) (\<lambda>liquidity.
     bindR (mulDiv ethAmountWithFee Q96 (ucast liquidity)) (\<lambda>impact.
     bindR (sm_add ux priceX96 impact) (\<lambda>newPriceX96.
     bindR (mulDiv amountOut newPriceX96 Q96) (\<lambda>amountIn.
     bindR (ux_decimals ux tokenIn) (\<lambda>decimals.
     bindR (checked_pow 10 (unat decimals)) (\<lambda>scale.
     bindR (mulDiv amountIn scale (10 ^ 18)) (\<lambda>amountIn.
     mulDiv amountIn (ucast (fu_markup s)) (ucast (fu_markupDenominator s)))))))))))))))))"

definition uniswap_calculateFee ::
    "uniswap_ext \<Rightarrow> fee_uniswap \<Rightarrow> uint256 \<Rightarrow> address \<Rightarrow> uint256 \<Rightarrow> uint256 res" where
  "uniswap_calculateFee ux s gasprice token gasUsed =
     bindR (mulDiv gasUsed gasprice 1) (\<lambda>baseFeeInEth.
     if token = fu_WETH9 s then Inr baseFeeInEth
     else bindR (getAmountIn ux s token baseFeeInEth) (\<lambda>amountIn.
          mulDiv amountIn (ucast (fu_markup s)) 100))"

lemma getAmountIn_mono:
  assumes sm: "safemath_ok ux" and run: "getAmountIn ux s token g = Inr f" and le: "g' \<le> g"
  shows "\<exists>f'. getAmountIn ux s token g' = Inr f' \<and> f' \<le> f"
proof -
  from run obtain fee pool sq price f0 d e liq im np a dec sc a2 where
    env: "findOptimalPool ux s token = Inr fee" "ux_getPool ux (fu_factory s) token (fu_WETH9 s) fee = Inr pool"
      "pool \<noteq> 0" "ux_sqrtPriceX96 ux pool = Inr sq" "mulDiv (ucast sq) (ucast sq) Q96 = Inr price"
      "sm_div ux (ucast fee) 1000 = Inr f0" "sm_sub ux 1000 f0 = Inr d" "ux_liquidity ux pool = Inr liq"
      "ux_decimals ux token = Inr dec" "checked_pow 10 (unat dec) = Inr sc"
    and steps: "mulDiv g 1000 d = Inr e" "mulDiv e Q96 (ucast liq) = Inr im" "sm_add ux price im = Inr np"
      "mulDiv g np Q96 = Inr a" "mulDiv a sc (10 ^ 18) = Inr a2"
      "mulDiv a2 (ucast (fu_markup s)) (ucast (fu_markupDenominator s)) = Inr f"
    unfolding getAmountIn_def bindR_eq_Inr require_eq_Inr by blast
  obtain e' where e': "mulDiv g' 1000 d = Inr e'" "e' \<le> e"
    using mulDiv_mono [OF steps(1) le order_refl] by blast
  obtain im' where im': "mulDiv e' Q96 (ucast liq) = Inr im'" "im' \<le> im"
    using mulDiv_mono [OF steps(2) e'(2) order_refl] by blast
  obtain np' where np': "sm_add ux price im' = Inr np'" "np' \<le> np"
    using checked_add_mono [OF _ order_refl im'(2), of price np] steps(3) sm unfolding safemath_ok_def by blast
  obtain a' where a': "mulDiv g' np' Q96 = Inr a'" "a' \<le> a"
    using mulDiv_mono [OF steps(4) le np'(2)] by blast
  obtain a2' where a2': "mulDiv a' sc (10 ^ 18) = Inr a2'" "a2' \<le> a2"
    using mulDiv_mono [OF steps(5) a'(2) order_refl] by blast
  show ?thesis
    using mulDiv_mono [OF steps(6) a2'(2) order_refl] env e' im' np' a' a2'
    by (simp only: getAmountIn_def bindR_Inr require_def if_True simp_thms)
qed

lemma uniswap_mono:
  assumes sm: "safemath_ok ux" and run: "uniswap_calculateFee ux s gasprice token g = Inr f" and le: "g' \<le> g"
  shows "\<exists>f'. uniswap_calculateFee ux s gasprice token g' = Inr f' \<and> f' \<le> f"
proof -
  from run obtain b where b: "mulDiv g gasprice 1 = Inr b"
      and rest: "if token = fu_WETH9 s then f = b
        else \<exists>a. getAmountIn ux s token b = Inr a \<and> mulDiv a (ucast (fu_markup s)) 100 = Inr f"
    by (auto simp: uniswap_calculateFee_def bindR_eq_Inr split: if_splits)
  obtain b' where b': "mulDiv g' gasprice 1 = Inr b'" "b' \<le> b"
    using mulDiv_mono [OF b le order_refl] by blast
  show ?thesis
  proof (cases "token = fu_WETH9 s")
    case True
    then show ?thesis using rest b' by (simp add: uniswap_calculateFee_def)
  next
    case False
    with rest obtain a where a: "getAmountIn ux s token b = Inr a" "mulDiv a (ucast (fu_markup s)) 100 = Inr f"
      by auto
    obtain a' where a': "getAmountIn ux s token b' = Inr a'" "a' \<le> a"
      using getAmountIn_mono [OF sm a(1) b'(2)] by blast
    show ?thesis
      using mulDiv_mono [OF a(2) a'(2) order_refl] b' a' False by (simp add: uniswap_calculateFee_def)
  qed
qed

lemma uniswap_fee_logic: "safemath_ok ux \<Longrightarrow> fee_logic (uniswap_calculateFee ux s gasprice token)"
  by unfold_locales (rule uniswap_mono)

text \<open>
  What \<open>findOptimalPool\<close> selects. \<open>tier_liquidity\<close> is the liquidity of a tier's pool, when there
  is a pool.
\<close>

definition tier_liquidity :: "uniswap_ext \<Rightarrow> fee_uniswap \<Rightarrow> address \<Rightarrow> uint24 \<Rightarrow> uint128 option" where
  "tier_liquidity ux s token tier =
     (case ux_getPool ux (fu_factory s) (fu_WETH9 s) token tier of Inl e \<Rightarrow> None
      | Inr p \<Rightarrow> if p = 0 then None else (case ux_liquidity ux p of Inl e \<Rightarrow> None | Inr l \<Rightarrow> Some l))"

definition best_tier ::
    "uniswap_ext \<Rightarrow> fee_uniswap \<Rightarrow> address \<Rightarrow> uint24 set \<Rightarrow> uint24 \<Rightarrow> uint128 \<Rightarrow> bool" where
  "best_tier ux s token T fee best \<longleftrightarrow>
     (if best = 0
      then fee = 0 \<and> (\<forall>t\<in>T. \<forall>l. tier_liquidity ux s token t = Some l \<longrightarrow> l = 0)
      else fee \<in> T \<and> tier_liquidity ux s token fee = Some best \<and>
           (\<forall>t\<in>T. \<forall>l. tier_liquidity ux s token t = Some l \<longrightarrow> l < best \<or> l = best \<and> fee \<le> t))"

lemma best_tier_skip:
  "best_tier ux s token T fee best \<Longrightarrow> tier_liquidity ux s token t = None \<Longrightarrow>
   best_tier ux s token (insert t T) fee best"
  by (auto simp: best_tier_def split: if_splits)

lemma best_tier_keep:
  "best_tier ux s token T fee best \<Longrightarrow> tier_liquidity ux s token t = Some l \<Longrightarrow>
   \<not> (l > best \<or> l = best \<and> t < fee) \<Longrightarrow> best_tier ux s token (insert t T) fee best"
  by (auto simp: best_tier_def not_less split: if_splits)

lemma best_tier_replace:
  assumes "best_tier ux s token T fee best" "tier_liquidity ux s token t = Some l"
    "l > best \<or> l = best \<and> t < fee"
  shows "best_tier ux s token (insert t T) t l"
proof (cases "best = 0")
  case True
  then have "l \<noteq> 0" using assms by (auto simp: best_tier_def word_neq_0_conv)
  then show ?thesis using True assms by (auto simp: best_tier_def word_neq_0_conv)
next
  case False
  then have "l \<noteq> 0" using assms(3) by auto
  then show ?thesis using False assms by (fastforce simp: best_tier_def)
qed

lemma findOptimalPool_loop_best:
  "findOptimalPool_loop ux s token tiers p best = Inr q \<Longrightarrow> best_tier ux s token T (pi_fee p) best \<Longrightarrow>
   \<exists>best'. best_tier ux s token (T \<union> set tiers) (pi_fee q) best'"
proof (induction tiers arbitrary: p best T)
  case (Cons t tiers)
  from Cons.prems(1) obtain a where a: "ux_getPool ux (fu_factory s) (fu_WETH9 s) token t = Inr a"
    by (auto simp: bindR_eq_Inr)
  have step: "\<exists>best'. best_tier ux s token (T \<union> set (t # tiers)) (pi_fee q) best'"
    if "best_tier ux s token (insert t T) (pi_fee p') best1"
      "findOptimalPool_loop ux s token tiers p' best1 = Inr q" for p' best1
    using Cons.IH [OF that(2) that(1)] by simp
  show ?case
  proof (cases "a = 0")
    case True
    then have "tier_liquidity ux s token t = None" using a by (simp add: tier_liquidity_def)
    then show ?thesis
      using step [of p best] best_tier_skip [OF Cons.prems(2)] Cons.prems(1) a True by simp
  next
    case False
    with Cons.prems(1) a obtain l where l: "ux_liquidity ux a = Inr l" by (auto simp: bindR_eq_Inr)
    then have tl: "tier_liquidity ux s token t = Some l" using a False by (simp add: tier_liquidity_def)
    show ?thesis
    proof (cases "l > best \<or> l = best \<and> t < pi_fee p")
      case True
      then show ?thesis
        using step [of "\<lparr>pi_poolAddress = a, pi_fee = t, pi_liquidity = l\<rparr>" l]
          best_tier_replace [OF Cons.prems(2) tl True] Cons.prems(1) a l False by simp
    next
      case keep: False
      then have "findOptimalPool_loop ux s token tiers p best = Inr q"
        using Cons.prems(1) a l False by auto
      then show ?thesis
        using step [of p best] best_tier_keep [OF Cons.prems(2) tl keep] by simp
    qed
  qed
qed auto

lemma findOptimalPool_best:
  assumes "findOptimalPool ux s token = Inr fee"
  shows "\<exists>best. best_tier ux s token (set (fu_feeTiers s)) fee best"
proof -
  from assms obtain q where q: "findOptimalPool_loop ux s token (fu_feeTiers s)
      \<lparr>pi_poolAddress = 0, pi_fee = 0, pi_liquidity = 0\<rparr> 0 = Inr q" "fee = pi_fee q"
    by (auto simp: findOptimalPool_def bindR_eq_Inr)
  have "best_tier ux s token {} (pi_fee \<lparr>pi_poolAddress = 0, pi_fee = 0, pi_liquidity = 0\<rparr>) 0"
    by (simp add: best_tier_def)
  from findOptimalPool_loop_best [OF q(1) this] show ?thesis by (simp add: q(2))
qed

section \<open>UniswapHelper\<close>

definition PRICE_DENOMINATOR :: uint256 where
  "PRICE_DENOMINATOR = 10 ^ 26"

record UniswapHelperConfig =
  minSwapAmount :: uint256
  uniswapPoolFee :: uint24
  slippage :: byte

record uniswap_helper =
  uh_uniswap :: address
  uh_token :: address
  uh_wrappedNative :: address
  uh_config :: UniswapHelperConfig

definition setUniswapHelperConfiguration :: "UniswapHelperConfig \<Rightarrow> uniswap_helper \<Rightarrow> uniswap_helper" where
  "setUniswapHelperConfiguration cfg h = h\<lparr>uh_config := cfg\<rparr>"

definition helper_constructor ::
    "(address \<Rightarrow> address \<Rightarrow> uint256 \<Rightarrow> 'x \<Rightarrow> (bool \<times> 'x) res) \<Rightarrow> address \<Rightarrow> address \<Rightarrow> address \<Rightarrow> UniswapHelperConfig \<Rightarrow>
     'x \<Rightarrow> (uniswap_helper \<times> 'x) res" where
  "helper_constructor approve token wrappedNative uniswap cfg x =
     bindR (approve token uniswap (- 1) x) (\<lambda>(_, x').
     Inr (setUniswapHelperConfiguration cfg
            \<lparr>uh_uniswap = uniswap, uh_token = token, uh_wrappedNative = wrappedNative,
             uh_config = \<lparr>minSwapAmount = 0, uniswapPoolFee = 0, slippage = 0\<rparr>\<rparr>, x'))"

definition unwrapWeth ::
    "(address \<Rightarrow> uint256 \<Rightarrow> address \<Rightarrow> 'x \<Rightarrow> 'x res) \<Rightarrow> address \<Rightarrow> uint256 \<Rightarrow> uniswap_helper \<Rightarrow> 'x \<Rightarrow> 'x res" where
  "unwrapWeth unwrapWETH9 this amount h x = unwrapWETH9 (uh_uniswap h) amount this x"

definition addSlippage :: "uint256 \<Rightarrow> byte \<Rightarrow> uint256 res" where
  "addSlippage amount slip =
     bindR (checked_sub (1000 :: 16 word) (ucast slip)) (\<lambda>k.
     bindR (checked_mul amount (ucast k)) (\<lambda>n.
     checked_div n 1000))"

definition tokenToWei :: "uint256 \<Rightarrow> uint256 \<Rightarrow> uint256 res" where
  "tokenToWei amount price =
     bindR (checked_mul amount price) (\<lambda>n. checked_div n PRICE_DENOMINATOR)"

definition weiToToken :: "uint256 \<Rightarrow> uint256 \<Rightarrow> uint256 res" where
  "weiToToken amount price =
     bindR (checked_mul amount PRICE_DENOMINATOR) (\<lambda>n. checked_div n price)"

record ExactInputSingleParams =
  sp_tokenIn :: address
  sp_tokenOut :: address
  sp_fee :: uint24
  sp_recipient :: address
  sp_deadline :: uint256
  sp_amountIn :: uint256
  sp_amountOutMinimum :: uint256
  sp_sqrtPriceLimitX96 :: uint160

datatype helper_event = UniswapReverted address address uint256 uint256

text \<open>
  \<open>exactInputSingle\<close> is the router's swap on the state \<open>'x\<close> of the world outside the helper. A
  failing swap is caught: the outside state is the one before it, and an event is emitted.
\<close>

definition swapToToken ::
    "(ExactInputSingleParams \<Rightarrow> 'x \<Rightarrow> (uint256 \<times> 'x) res) \<Rightarrow> address \<Rightarrow> uint256 \<Rightarrow>
     address \<Rightarrow> address \<Rightarrow> uint256 \<Rightarrow> uint256 \<Rightarrow> uint24 \<Rightarrow> 'x \<times> helper_event list \<Rightarrow>
     uint256 \<times> 'x \<times> helper_event list" where
  "swapToToken exactInputSingle uniswap timestamp tokenIn tokenOut amountIn amountOutMin fee st =
     (case st of (x, log) \<Rightarrow>
        (case exactInputSingle
          \<lparr>sp_tokenIn = tokenIn, sp_tokenOut = tokenOut, sp_fee = fee, sp_recipient = uniswap,
           sp_deadline = timestamp, sp_amountIn = amountIn, sp_amountOutMinimum = amountOutMin,
           sp_sqrtPriceLimitX96 = 0\<rparr> x of
          Inr (amountOut, x') \<Rightarrow> (amountOut, x', log)
        | Inl e \<Rightarrow> (0, x, log @ [UniswapReverted tokenIn tokenOut amountIn amountOutMin])))"

definition maybeSwapTokenToWeth ::
    "(ExactInputSingleParams \<Rightarrow> 'x \<Rightarrow> (uint256 \<times> 'x) res) \<Rightarrow> (address \<Rightarrow> 'x \<Rightarrow> uint256 res) \<Rightarrow>
     uniswap_helper \<Rightarrow> uint256 \<Rightarrow> address \<Rightarrow> uint256 \<Rightarrow>
     'x \<times> helper_event list \<Rightarrow> (uint256 \<times> 'x \<times> helper_event list) res" where
  "maybeSwapTokenToWeth exactInputSingle balanceOfThis h timestamp tokenIn quote st =
     bindR (balanceOfThis tokenIn (fst st)) (\<lambda>tokenBalance.
     bindR (tokenToWei tokenBalance quote) (\<lambda>w.
     bindR (addSlippage w (slippage (uh_config h))) (\<lambda>amountOutMin.
     if amountOutMin < minSwapAmount (uh_config h) then Inr (0, st)
     else Inr (swapToToken exactInputSingle (uh_uniswap h) timestamp tokenIn (uh_wrappedNative h) tokenBalance
                 amountOutMin (uniswapPoolFee (uh_config h)) st))))"

text \<open>The slippage factor never underflows, and the minimum never exceeds the quoted amount.\<close>

lemma slippage_factor:
  "\<exists>k. checked_sub (1000 :: 16 word) (ucast slip) = Inr k \<and> unat (ucast k :: uint256) = 1000 - unat slip"
  for slip :: byte
proof -
  have u: "unat (ucast slip :: 16 word) = unat slip" by (rule unat_ucast_up) simp
  have le: "unat slip \<le> 1000" using unat_lt_8 [of slip] by linarith
  then have "unat (of_nat (1000 - unat slip) :: 16 word) = 1000 - unat slip"
    by (intro unat_of_nat_less) simp
  then have "checked_sub (1000 :: 16 word) (ucast slip) = Inr (of_nat (1000 - unat slip))"
    using le unfolding checked_sub_eq_Inr u by simp
  moreover have "unat (ucast (of_nat (1000 - unat slip) :: 16 word) :: uint256) = 1000 - unat slip"
    using \<open>unat (of_nat _) = _\<close> by (subst unat_ucast_up) simp_all
  ultimately show ?thesis by blast
qed

lemma addSlippage_eq:
  "addSlippage amount slip = Inr m \<longleftrightarrow>
   unat amount * (1000 - unat slip) < 2 ^ 256 \<and> unat m = unat amount * (1000 - unat slip) div 1000"
proof -
  obtain k where k: "checked_sub (1000 :: 16 word) (ucast slip) = Inr k"
      "unat (ucast k :: uint256) = 1000 - unat slip"
    using slippage_factor by blast
  have "addSlippage amount slip = bindR (checked_mul amount (ucast k)) (\<lambda>n. Inr (n div 1000))"
    by (simp add: addSlippage_def k checked_div_def)
  moreover have "unat (amount * ucast k) = unat amount * (1000 - unat slip)"
    if "unat amount * (1000 - unat slip) < 2 ^ 256"
    using that checked_mul_eq_Inr [of amount "ucast k" "amount * ucast k"] by (simp add: checked_mul_def k)
  ultimately show ?thesis
    by (auto simp: checked_mul_def k(2) word_unat_eq_iff unat_div)
qed

lemma token_wei_round_trip:
  assumes "tokenToWei a p = Inr w" and "weiToToken w p = Inr a'"
  shows "a' \<le> a"
proof -
  let ?D = "unat PRICE_DENOMINATOR"
  have "unat w = unat a * unat p div ?D" "unat a' = unat w * ?D div unat p" "unat p \<noteq> 0"
    using assms by (auto simp only: tokenToWei_def weiToToken_def bindR_eq_Inr checked_simps)
  moreover have "unat a * unat p div ?D * ?D \<le> unat a * unat p" by simp
  ultimately have "unat a' \<le> unat a * unat p div unat p" by (simp only: div_le_mono)
  then show ?thesis using \<open>unat p \<noteq> 0\<close> by (simp add: word_le_nat_alt)
qed

lemma swapToToken_failure:
  assumes "exactInputSingle
    \<lparr>sp_tokenIn = tokenIn, sp_tokenOut = tokenOut, sp_fee = fee, sp_recipient = uniswap,
     sp_deadline = timestamp, sp_amountIn = amountIn, sp_amountOutMinimum = amountOutMin,
     sp_sqrtPriceLimitX96 = 0\<rparr> x = Inl e"
  shows "swapToToken exactInputSingle uniswap timestamp tokenIn tokenOut amountIn amountOutMin fee (x, log) =
    (0, x, log @ [UniswapReverted tokenIn tokenOut amountIn amountOutMin])"
  using assms by (simp add: swapToToken_def)

end
