(* ===== verification/NftGas.thy ===== *)
theory NftGas
  imports Prelude
begin

text \<open>
  \<open>paymaster/NFTGasLogic.sol\<close>, the per-NFT budget of sponsored gas, and the minting functions
  of \<open>paymaster/GasNFT.sol\<close> and \<open>enclave-smart-balance/TestNFT.sol\<close>. The ERC-721 and ERC-20
  base contracts are arguments.
\<close>

section \<open>The contract\<close>

record SponsoredData =
  sd_count :: uint256
  sd_totalAmount :: uint256

record nft_gas_logic =
  sponsoredTransactionsByNFT :: "address \<Rightarrow> address \<Rightarrow> SponsoredData"
  transactionLimitByNFT :: "address \<Rightarrow> uint256"
  gasValueLimitByNFT :: "address \<Rightarrow> uint256"

definition nft_gas_constructor :: nft_gas_logic where
  "nft_gas_constructor =
     \<lparr>sponsoredTransactionsByNFT = (\<lambda>_ _. \<lparr>sd_count = 0, sd_totalAmount = 0\<rparr>),
      transactionLimitByNFT = (\<lambda>_. 0), gasValueLimitByNFT = (\<lambda>_. 0)\<rparr>"

text \<open>
  \<open>nftBalance nft user\<close> is \<open>IERC721(nft).balanceOf(user)\<close>. The conjunction short-circuits, so
  the checked addition runs only when the first two conditions hold.
\<close>

definition isEligible ::
    "(address \<Rightarrow> address \<Rightarrow> uint256 res) \<Rightarrow> address \<Rightarrow> address \<Rightarrow> uint256 \<Rightarrow> nft_gas_logic \<Rightarrow> bool res" where
  "isEligible nftBalance user nft gasAmount s =
     bindR (nftBalance nft user) (\<lambda>bal.
     if \<not> bal > 0 then Inr False
     else if \<not> sd_count (sponsoredTransactionsByNFT s nft user) < transactionLimitByNFT s nft then Inr False
     else bindR (checked_add gasAmount (sd_totalAmount (sponsoredTransactionsByNFT s nft user))) (\<lambda>total.
          Inr (total \<le> gasValueLimitByNFT s nft)))"

definition set_sponsored :: "address \<Rightarrow> address \<Rightarrow> SponsoredData \<Rightarrow> nft_gas_logic \<Rightarrow> nft_gas_logic" where
  "set_sponsored nft user d s =
     s\<lparr>sponsoredTransactionsByNFT := (sponsoredTransactionsByNFT s)
         (nft := (sponsoredTransactionsByNFT s nft)(user := d))\<rparr>"

definition applyLogic ::
    "(address \<Rightarrow> address \<Rightarrow> uint256 res) \<Rightarrow> address \<Rightarrow> address \<Rightarrow> uint256 \<Rightarrow> nft_gas_logic \<Rightarrow>
     (bool \<times> nft_gas_logic) res" where
  "applyLogic nftBalance user nft gasAmount s =
     bindR (isEligible nftBalance user nft gasAmount s) (\<lambda>ok.
     bindR (require ok ''Not eligible for sponsorship'') (\<lambda>_.
     let d = sponsoredTransactionsByNFT s nft user in
     bindR (checked_add (sd_count d) 1) (\<lambda>n.
     bindR (checked_add (sd_totalAmount d) gasAmount) (\<lambda>t.
     Inr (True, set_sponsored nft user \<lparr>sd_count = n, sd_totalAmount = t\<rparr> s)))))"

definition addOrUpdateNFTLimits :: "address \<Rightarrow> uint256 \<Rightarrow> uint256 \<Rightarrow> nft_gas_logic \<Rightarrow> nft_gas_logic" where
  "addOrUpdateNFTLimits nft transactionLimit gasValueLimit s =
     s\<lparr>transactionLimitByNFT := (transactionLimitByNFT s)(nft := transactionLimit),
       gasValueLimitByNFT := (gasValueLimitByNFT s)(nft := gasValueLimit)\<rparr>"

section \<open>What a sponsorship does\<close>

lemma isEligible_eq_True:
  "isEligible nb user nft g s = Inr True \<longleftrightarrow>
   (\<exists>b. nb nft user = Inr b \<and> 0 < b) \<and>
   unat (sd_count (sponsoredTransactionsByNFT s nft user)) < unat (transactionLimitByNFT s nft) \<and>
   unat g + unat (sd_totalAmount (sponsoredTransactionsByNFT s nft user)) \<le> unat (gasValueLimitByNFT s nft)"
proof -
  let ?t = "sd_totalAmount (sponsoredTransactionsByNFT s nft user)" and ?l = "gasValueLimitByNFT s nft"
  have "bindR (checked_add g ?t) (\<lambda>total. Inr (total \<le> ?l)) = Inr True \<longleftrightarrow> unat g + unat ?t \<le> unat ?l"
  proof (cases "unat g + unat ?t < 2 ^ 256")
    case True
    then have "unat (g + ?t) = unat g + unat ?t" by (simp add: unat_word_ariths)
    then show ?thesis using True by (simp add: checked_add_def word_le_nat_alt)
  next
    case False
    then show ?thesis using unat_lt_256 [of ?l] by (simp add: checked_add_def)
  qed
  then show ?thesis
    by (auto simp: isEligible_def bindR_eq_Inr word_less_nat_alt not_less split: if_splits)
qed

lemma applyLogic_run:
  assumes "isEligible nb user nft g s = Inr True"
  defines "d \<equiv> sponsoredTransactionsByNFT s nft user"
  shows "\<exists>n t. applyLogic nb user nft g s = Inr (True, set_sponsored nft user \<lparr>sd_count = n, sd_totalAmount = t\<rparr> s) \<and>
    unat n = unat (sd_count d) + 1 \<and> unat t = unat (sd_totalAmount d) + unat g"
proof -
  have lim: "unat (sd_count d) < unat (transactionLimitByNFT s nft)"
      "unat g + unat (sd_totalAmount d) \<le> unat (gasValueLimitByNFT s nft)"
    using assms by (simp_all add: isEligible_eq_True)
  then have "unat (sd_count d) + unat (1 :: uint256) < 2 ^ LENGTH(256)"
      "unat (sd_totalAmount d) + unat g < 2 ^ LENGTH(256)"
    using unat_lt_256 [of "transactionLimitByNFT s nft"] unat_lt_256 [of "gasValueLimitByNFT s nft"]
    by simp_all
  then obtain n t where "checked_add (sd_count d) 1 = Inr n" "checked_add (sd_totalAmount d) g = Inr t"
    by (meson checked_add_def)
  moreover from this have "unat n = unat (sd_count d) + 1" "unat t = unat (sd_totalAmount d) + unat g"
    by (simp_all add: checked_add_eq_Inr)
  ultimately show ?thesis
    using assms(1) by (auto simp: applyLogic_def d_def [symmetric] Let_def)
qed

lemma applyLogic_eligible:
  "applyLogic nb user nft g s = Inr r \<Longrightarrow> isEligible nb user nft g s = Inr True"
  by (auto simp: applyLogic_def bindR_eq_Inr require_eq_Inr)

lemma applyLogic_iff:
  "(\<exists>r. applyLogic nb user nft g s = Inr r) \<longleftrightarrow> isEligible nb user nft g s = Inr True"
  using applyLogic_run applyLogic_eligible by blast

lemma applyLogic_effect:
  assumes "applyLogic nb user nft g s = Inr (b, s')"
  shows "b" and "isEligible nb user nft g s = Inr True"
    and "unat (sd_count (sponsoredTransactionsByNFT s' nft user)) =
         unat (sd_count (sponsoredTransactionsByNFT s nft user)) + 1"
    and "unat (sd_totalAmount (sponsoredTransactionsByNFT s' nft user)) =
         unat (sd_totalAmount (sponsoredTransactionsByNFT s nft user)) + unat g"
    and "(nft', user') \<noteq> (nft, user) \<Longrightarrow>
         sponsoredTransactionsByNFT s' nft' user' = sponsoredTransactionsByNFT s nft' user'"
    and "transactionLimitByNFT s' = transactionLimitByNFT s"
    and "gasValueLimitByNFT s' = gasValueLimitByNFT s"
  using applyLogic_run [OF applyLogic_eligible [OF assms]] applyLogic_eligible [OF assms] assms
  by (auto simp: set_sponsored_def)

text \<open>A smaller amount is eligible whenever a larger one is.\<close>

lemma isEligible_mono:
  "isEligible nb user nft g s = Inr True \<Longrightarrow> g' \<le> g \<Longrightarrow> isEligible nb user nft g' s = Inr True"
  by (auto simp: isEligible_eq_True word_le_nat_alt)

section \<open>Budgets\<close>

text \<open>A sequence of sponsorships; any contract or account may call \<open>applyLogic\<close>.\<close>

fun sponsor_run ::
    "(address \<Rightarrow> address \<Rightarrow> uint256 res) \<Rightarrow> (address \<times> address \<times> uint256) list \<Rightarrow> nft_gas_logic \<Rightarrow>
     nft_gas_logic res" where
  "sponsor_run nb [] s = Inr s"
| "sponsor_run nb ((user, nft, g) # reqs) s =
     bindR (applyLogic nb user nft g s) (\<lambda>(b, s'). sponsor_run nb reqs s')"

definition requests_of :: "address \<Rightarrow> address \<Rightarrow> (address \<times> address \<times> uint256) list \<Rightarrow> nat list" where
  "requests_of user nft reqs = map (\<lambda>(u, n, g). unat g) (filter (\<lambda>(u, n, g). u = user \<and> n = nft) reqs)"

lemma sponsor_run_limits:
  "sponsor_run nb reqs s = Inr s' \<Longrightarrow>
   transactionLimitByNFT s' = transactionLimitByNFT s \<and> gasValueLimitByNFT s' = gasValueLimitByNFT s"
proof (induction nb reqs s rule: sponsor_run.induct)
  case (2 nb user nft g reqs s)
  then obtain b s1 where "applyLogic nb user nft g s = Inr (b, s1)" "sponsor_run nb reqs s1 = Inr s'"
    by (auto simp: bindR_eq_Inr)
  then show ?case using 2 applyLogic_effect(6,7) by fastforce
qed simp

lemma sponsor_run_total:
  "sponsor_run nb reqs s = Inr s' \<Longrightarrow>
   unat (sd_count (sponsoredTransactionsByNFT s' nft user)) =
     unat (sd_count (sponsoredTransactionsByNFT s nft user)) + length (requests_of user nft reqs) \<and>
   unat (sd_totalAmount (sponsoredTransactionsByNFT s' nft user)) =
     unat (sd_totalAmount (sponsoredTransactionsByNFT s nft user)) + sum_list (requests_of user nft reqs)"
proof (induction nb reqs s rule: sponsor_run.induct)
  case (2 nb u n g reqs s)
  then obtain b s1 where s1: "applyLogic nb u n g s = Inr (b, s1)" "sponsor_run nb reqs s1 = Inr s'"
    by (auto simp: bindR_eq_Inr)
  note IH = "2.IH" [OF s1(1) refl s1(2)]
  show ?case
  proof (cases "u = user \<and> n = nft")
    case True
    then show ?thesis using IH applyLogic_effect(3,4) [OF s1(1)] by (simp add: requests_of_def)
  next
    case False
    then have "sponsoredTransactionsByNFT s1 nft user = sponsoredTransactionsByNFT s nft user"
      by (intro applyLogic_effect(5) [OF s1(1)]) auto
    then show ?thesis using IH False by (auto simp: requests_of_def)
  qed
qed (simp add: requests_of_def)

lemma sponsor_run_within:
  assumes "sponsor_run nb reqs s = Inr s'" and "requests_of user nft reqs \<noteq> []"
  shows "unat (sd_count (sponsoredTransactionsByNFT s' nft user)) \<le> unat (transactionLimitByNFT s nft) \<and>
    unat (sd_totalAmount (sponsoredTransactionsByNFT s' nft user)) \<le> unat (gasValueLimitByNFT s nft)"
  using assms
proof (induction nb reqs s rule: sponsor_run.induct)
  case (2 nb u n g reqs s)
  then obtain b s1 where s1: "applyLogic nb u n g s = Inr (b, s1)" "sponsor_run nb reqs s1 = Inr s'"
    by (auto simp: bindR_eq_Inr)
  note lim = applyLogic_effect(6,7) [OF s1(1)]
  show ?case
  proof (cases "requests_of user nft reqs = []")
    case True
    then have un: "u = user \<and> n = nft" using "2.prems"(2) by (auto simp: requests_of_def split: if_splits)
    then show ?thesis
      using sponsor_run_total [OF s1(2), of nft user] True applyLogic_effect(2-4) [OF s1(1)]
      by (simp add: isEligible_eq_True)
  next
    case False
    then show ?thesis using "2.IH" [OF s1(1) refl s1(2)] lim by simp
  qed
qed (simp add: requests_of_def)

section \<open>The NFTs\<close>

text \<open>
  The inherited ERC-721 functions act on the contract's inherited storage \<open>'n\<close>:
  \<open>balanceOf\<close> and \<open>_mint\<close>. \<open>Counters\<close> is a wrapped number with \<open>increment\<close> and \<open>current\<close>.
\<close>

record 'n erc721_base =
  n721_balanceOf :: "address \<Rightarrow> 'n \<Rightarrow> uint256 res"
  n721_mint :: "address \<Rightarrow> uint256 \<Rightarrow> 'n \<Rightarrow> 'n res"
  ctr_increment :: "uint256 \<Rightarrow> uint256 res"
  ctr_current :: "uint256 \<Rightarrow> uint256"

record 'n gas_nft =
  gn_base :: 'n
  gn_tokenIds :: uint256
  gn_mintPrice :: uint256

definition setMintPrice :: "(address \<Rightarrow> unit res) \<Rightarrow> address \<Rightarrow> uint256 \<Rightarrow> 'n gas_nft \<Rightarrow> 'n gas_nft res" where
  "setMintPrice onlyOwner sender price s =
     bindR (onlyOwner sender) (\<lambda>_. Inr (s\<lparr>gn_mintPrice := price\<rparr>))"

definition gasNFT_mintNFT :: "'n erc721_base \<Rightarrow> address \<Rightarrow> 'n gas_nft \<Rightarrow> (uint256 \<times> 'n gas_nft) res" where
  "gasNFT_mintNFT e recipient s =
     bindR (n721_balanceOf e recipient (gn_base s)) (\<lambda>bal.
     bindR (require (bal = 0) ''GasNFT: Already minted'') (\<lambda>_.
     bindR (ctr_increment e (gn_tokenIds s)) (\<lambda>ids.
     let newItemId = ctr_current e ids in
     bindR (n721_mint e recipient newItemId (gn_base s)) (\<lambda>base.
     Inr (newItemId, s\<lparr>gn_base := base, gn_tokenIds := ids\<rparr>)))))"

record 'n test_nft =
  tn_base :: 'n
  tn_tokenIds :: uint256
  tn_mintPrice :: uint256
  tn_usdc :: address

definition testNFT_constructor :: "'n \<Rightarrow> uint256 \<Rightarrow> address \<Rightarrow> 'n test_nft" where
  "testNFT_constructor base price usdc' =
     \<lparr>tn_base = base, tn_tokenIds = 0, tn_mintPrice = price, tn_usdc = usdc'\<rparr>"

text \<open>
  \<open>usdc_balanceOf\<close> and \<open>usdc_transferFrom\<close> are the payment token's functions on the state \<open>'x\<close>
  outside the contract. The boolean the transfer returns is discarded, as in the source.
\<close>

definition testNFT_mintNFT ::
    "'n erc721_base \<Rightarrow> (address \<Rightarrow> address \<Rightarrow> 'x \<Rightarrow> uint256 res) \<Rightarrow>
     (address \<Rightarrow> address \<Rightarrow> address \<Rightarrow> uint256 \<Rightarrow> 'x \<Rightarrow> (bool \<times> 'x) res) \<Rightarrow> address \<Rightarrow> address \<Rightarrow>
     'n test_nft \<times> 'x \<Rightarrow> (uint256 \<times> 'n test_nft \<times> 'x) res" where
  "testNFT_mintNFT e usdc_balanceOf usdc_transferFrom this recipient st =
     (case st of (s, x) \<Rightarrow>
     bindR (usdc_balanceOf (tn_usdc s) recipient x) (\<lambda>_.
     bindR (usdc_transferFrom (tn_usdc s) recipient this (tn_mintPrice s) x) (\<lambda>(_, x').
     bindR (ctr_increment e (tn_tokenIds s)) (\<lambda>ids.
     let newItemId = ctr_current e ids in
     bindR (n721_mint e recipient newItemId (tn_base s)) (\<lambda>base.
     Inr (newItemId, s\<lparr>tn_base := base, tn_tokenIds := ids\<rparr>, x'))))))"

text \<open>
  ERC-721's \<open>_mint\<close>, as documented: it leaves the recipient with a positive balance.
\<close>

definition mint_gives_balance :: "'n erc721_base \<Rightarrow> bool" where
  "mint_gives_balance e \<longleftrightarrow>
     (\<forall>to tid n n'. n721_mint e to tid n = Inr n' \<longrightarrow> (\<exists>b. n721_balanceOf e to n' = Inr b \<and> 0 < b))"

lemma gasNFT_once:
  assumes "mint_gives_balance e" and "gasNFT_mintNFT e r s = Inr (tid, s')"
  shows "gasNFT_mintNFT e r s' = Inl (Revert ''GasNFT: Already minted'')"
proof -
  from assms(2) obtain ids base where "n721_mint e r (ctr_current e ids) (gn_base s) = Inr base" "gn_base s' = base"
    by (auto simp: gasNFT_mintNFT_def bindR_eq_Inr require_eq_Inr Let_def)
  then obtain b where "n721_balanceOf e r (gn_base s') = Inr b" "0 < b"
    using assms(1) unfolding mint_gives_balance_def by metis
  moreover from this have "b \<noteq> 0" by auto
  ultimately show ?thesis by (simp add: gasNFT_mintNFT_def)
qed

end
