(* ===== verification/Paymasters.thy ===== *)
theory Paymasters
  imports UserOp FeeLogic NftGas
begin

text \<open>
  The paymasters: \<open>EnclaveVerifyingPaymaster.sol\<close>, \<open>paymaster/EnclaveVerifyingTokenPaymaster.sol\<close>,
  \<open>EnclaveVerifyingNFTPaymaster.sol\<close>, \<open>EnclaveMultiTokenPaymaster.sol\<close> and the two versions of
  \<open>EnclaveSolverPaymaster\<close>. All of them keep a nonce per sender and check the signature of one
  trusted signer over the request; their \<open>pack\<close>, and where it has the same parameters their
  \<open>getHash\<close> and \<open>parsePaymasterAndData\<close>, are the same text, modelled once.

  \<open>BasePaymaster\<close> (the caller check and the dispatch to the functions below), the ERC-20 and
  ERC-721 contracts and \<open>Ownable\<close> are not part of the repository; the calls the paymasters
  make to them are arguments. \<open>console.log\<close> has no effect on the chain.

  The locale \<open>nonce_paymaster\<close> is what an entry point relies on: a validation that returns
  counts the sender's nonce up by one, touches no other sender's, and reports success only if
  the trusted signer signed the preimage that contains the nonce.
\<close>

section \<open>Shared parts\<close>

record pm_env =
  pe_crypto :: evm_crypto
  pe_chainid :: uint256
  pe_this :: address

record verifying_paymaster =
  verifyingSigner :: address
  senderNonce :: "address \<Rightarrow> uint256"

definition verifying_constructor :: "address \<Rightarrow> verifying_paymaster" where
  "verifying_constructor signer = \<lparr>verifyingSigner = signer, senderNonce = (\<lambda>_. 0)\<rparr>"

definition pm_pack :: "evm_crypto \<Rightarrow> UserOperation \<Rightarrow> bytes" where
  "pm_pack c userOp =
     abi_encode
       [AWord (ucast (sender userOp)), AWord (nonce userOp),
        AWord (calldataKeccak c (initCode userOp)), AWord (calldataKeccak c (callData userOp)),
        AWord (callGasLimit userOp), AWord (verificationGasLimit userOp), AWord (preVerificationGas userOp),
        AWord (maxFeePerGas userOp), AWord (maxPriorityFeePerGas userOp)]"

text \<open>The bytes \<open>getHash\<close> hashes.\<close>

definition pm_preimage ::
    "pm_env \<Rightarrow> uint256 \<Rightarrow> UserOperation \<Rightarrow> uint48 \<Rightarrow> uint48 \<Rightarrow> bytes" where
  "pm_preimage e n userOp vUntil vAfter =
     abi_encode
       [ABytes (pm_pack (pe_crypto e) userOp), AWord (pe_chainid e), AWord (ucast (pe_this e)), AWord n,
        AWord (ucast vUntil), AWord (ucast vAfter)]"

definition pm_getHash ::
    "pm_env \<Rightarrow> 'a verifying_paymaster_scheme \<Rightarrow> UserOperation \<Rightarrow> uint48 \<Rightarrow> uint48 \<Rightarrow> bytes32" where
  "pm_getHash e s userOp vUntil vAfter =
     keccak256 (pe_crypto e) (pm_preimage e (senderNonce s (getSender userOp)) userOp vUntil vAfter)"

definition decode_range :: "bytes \<Rightarrow> (uint48 \<times> uint48) res" where
  "decode_range bs =
     bindR (abi_decode [TUint 48, TUint 48] bs) (\<lambda>vs.
     case vs of [AWord u, AWord a] \<Rightarrow> Inr (ucast u, ucast a) | _ \<Rightarrow> Inl RevertEmpty)"

definition parsePaymasterAndData :: "bytes \<Rightarrow> (uint48 \<times> uint48 \<times> bytes) res" where
  "parsePaymasterAndData data =
     bindR (slice 20 84 data) (\<lambda>range.
     bindR (decode_range range) (\<lambda>(vUntil, vAfter).
     bindR (slice_from 84 data) (\<lambda>sig.
     Inr (vUntil, vAfter, sig))))"

definition require_sig_length :: "bytes \<Rightarrow> unit res" where
  "require_sig_length sig =
     require (length sig = 64 \<or> length sig = 65)
       ''VerifyingPaymaster: invalid signature length in paymasterAndData''"

definition bump_nonce ::
    "address \<Rightarrow> 'a verifying_paymaster_scheme \<Rightarrow> 'a verifying_paymaster_scheme res" where
  "bump_nonce a s =
     bindR (checked_add (senderNonce s a) 1) (\<lambda>n. Inr (s\<lparr>senderNonce := (senderNonce s)(a := n)\<rparr>))"

section \<open>The handlers\<close>

definition verifying_validatePaymasterUserOp ::
    "pm_env \<Rightarrow> UserOperation \<Rightarrow> uint256 \<Rightarrow> verifying_paymaster \<Rightarrow>
     ((bytes \<times> uint256) \<times> verifying_paymaster) res" where
  "verifying_validatePaymasterUserOp e userOp requiredPreFund s =
     bindR (parsePaymasterAndData (paymasterAndData userOp)) (\<lambda>(vUntil, vAfter, sig).
     bindR (require_sig_length sig) (\<lambda>_.
     let hash = toEthSignedMessageHash (pe_crypto e) (pm_getHash e s userOp vUntil vAfter) in
     bindR (bump_nonce (getSender userOp) s) (\<lambda>s.
     bindR (ECDSA_recover (pe_crypto e) hash sig) (\<lambda>recovered.
     if verifyingSigner s \<noteq> recovered
     then Inr (([], packValidationData True vUntil vAfter), s)
     else Inr (([], packValidationData False vUntil vAfter), s)))))"

subsection \<open>Token paymaster\<close>

datatype token_pm_event =
    FeeLogicUpdated address address uint256
  | PaymentTokenUpdated address address uint256

record token_paymaster = verifying_paymaster +
  tp_paymentToken :: address
  tp_feeLogic :: address
  tp_log :: "token_pm_event list"

text \<open>
  \<open>erc20_transferFrom token caller from to amount\<close> and \<open>erc20_transfer token caller to amount\<close>
  act on the state \<open>'x\<close> of the token contracts.
\<close>

record 'x erc20 =
  erc20_balanceOf :: "address \<Rightarrow> address \<Rightarrow> 'x \<Rightarrow> uint256 res"
  erc20_transferFrom :: "address \<Rightarrow> address \<Rightarrow> address \<Rightarrow> address \<Rightarrow> uint256 \<Rightarrow> 'x \<Rightarrow> (bool \<times> 'x) res"
  erc20_transfer :: "address \<Rightarrow> address \<Rightarrow> address \<Rightarrow> uint256 \<Rightarrow> 'x \<Rightarrow> (bool \<times> 'x) res"

definition token_constructor :: "address \<Rightarrow> address \<Rightarrow> address \<Rightarrow> token_paymaster" where
  "token_constructor signer token fees =
     \<lparr>verifyingSigner = signer, senderNonce = (\<lambda>_. 0), tp_paymentToken = token, tp_feeLogic = fees,
      tp_log = []\<rparr>"

definition token_updateFeeLogic ::
    "(address \<Rightarrow> unit res) \<Rightarrow> uint256 \<Rightarrow> address \<Rightarrow> address \<Rightarrow> token_paymaster \<Rightarrow> token_paymaster res" where
  "token_updateFeeLogic onlyOwner timestamp caller fees s =
     bindR (onlyOwner caller) (\<lambda>_.
     let s = s\<lparr>tp_feeLogic := fees\<rparr>
     in Inr (s\<lparr>tp_log := tp_log s @ [FeeLogicUpdated (tp_feeLogic s) fees timestamp]\<rparr>))"

definition updatePaymentToken ::
    "(address \<Rightarrow> unit res) \<Rightarrow> uint256 \<Rightarrow> address \<Rightarrow> address \<Rightarrow> token_paymaster \<Rightarrow> token_paymaster res" where
  "updatePaymentToken onlyOwner timestamp caller token s =
     bindR (onlyOwner caller) (\<lambda>_.
     let s = s\<lparr>tp_paymentToken := token\<rparr>
     in Inr (s\<lparr>tp_log := tp_log s @ [PaymentTokenUpdated (tp_paymentToken s) token timestamp]\<rparr>))"

definition token_validatePaymasterUserOp ::
    "pm_env \<Rightarrow> UserOperation \<Rightarrow> uint256 \<Rightarrow> token_paymaster \<Rightarrow> ((bytes \<times> uint256) \<times> token_paymaster) res" where
  "token_validatePaymasterUserOp e userOp requiredPreFund s =
     bindR (parsePaymasterAndData (paymasterAndData userOp)) (\<lambda>(vUntil, vAfter, sig).
     bindR (require_sig_length sig) (\<lambda>_.
     let hash = toEthSignedMessageHash (pe_crypto e) (pm_getHash e s userOp vUntil vAfter);
         context = abi_encode [AWord (ucast (getSender userOp))] in
     bindR (bump_nonce (getSender userOp) s) (\<lambda>s.
     bindR (ECDSA_recover (pe_crypto e) hash sig) (\<lambda>recovered.
     if verifyingSigner s \<noteq> recovered
     then Inr ((context, packValidationData True vUntil vAfter), s)
     else Inr ((context, packValidationData False vUntil vAfter), s)))))"

definition decode_address :: "bytes \<Rightarrow> address res" where
  "decode_address bs =
     bindR (abi_decode [TUint 160] bs) (\<lambda>vs. case vs of [AWord a] \<Rightarrow> Inr (ucast a) | _ \<Rightarrow> Inl RevertEmpty)"

text \<open>\<open>calculateFee feeLogic token gas\<close> is the call to the fee logic contract at that address.\<close>

definition token_postOp ::
    "'x erc20 \<Rightarrow> (address \<Rightarrow> address \<Rightarrow> uint256 \<Rightarrow> uint256 res) \<Rightarrow> pm_env \<Rightarrow> bytes \<Rightarrow> uint256 \<Rightarrow>
     token_paymaster \<Rightarrow> 'x \<Rightarrow> 'x res" where
  "token_postOp erc calculateFee e context actualGasCost s x =
     bindR (decode_address context) (\<lambda>sndr.
     bindR (calculateFee (tp_feeLogic s) (tp_paymentToken s) actualGasCost) (\<lambda>charge.
     bindR (erc20_transferFrom erc (tp_paymentToken s) (pe_this e) sndr (pe_this e) charge x) (\<lambda>(ok, x').
     bindR (require ok ''EnclaveVerifyingTokenPaymaster: transfer failed'') (\<lambda>_.
     Inr x'))))"

definition token_withdrawTokens ::
    "'x erc20 \<Rightarrow> pm_env \<Rightarrow> address \<Rightarrow> address \<Rightarrow> uint256 \<Rightarrow> token_paymaster \<Rightarrow> 'x \<Rightarrow> 'x res" where
  "token_withdrawTokens erc e caller to amount s x =
     bindR (require (caller = verifyingSigner s) ''Only verifying signer can withdraw'') (\<lambda>_.
     bindR (erc20_transfer erc (tp_paymentToken s) (pe_this e) to amount x) (\<lambda>(ok, x').
     bindR (require ok ''EnclaveVerifyingTokenPaymaster: withdraw failed'') (\<lambda>_.
     Inr x')))"

subsection \<open>NFT paymaster\<close>

datatype nft_pm_event = NFTUpdated address address uint256

record nft_paymaster = verifying_paymaster +
  np_nft :: address
  np_gasLogic :: address
  np_log :: "nft_pm_event list"

definition nft_constructor :: "address \<Rightarrow> address \<Rightarrow> address \<Rightarrow> nft_paymaster" where
  "nft_constructor signer nft gas =
     \<lparr>verifyingSigner = signer, senderNonce = (\<lambda>_. 0), np_nft = nft, np_gasLogic = gas, np_log = []\<rparr>"

definition updateNFT ::
    "(address \<Rightarrow> unit res) \<Rightarrow> uint256 \<Rightarrow> address \<Rightarrow> address \<Rightarrow> nft_paymaster \<Rightarrow> nft_paymaster res" where
  "updateNFT onlyOwner timestamp caller nft s =
     bindR (onlyOwner caller) (\<lambda>_.
     let s = s\<lparr>np_nft := nft\<rparr>
     in Inr (s\<lparr>np_log := np_log s @ [NFTUpdated 0 nft timestamp]\<rparr>))"

text \<open>
  The gas logic contract is \<open>NFTGasLogic\<close>; its storage is the argument \<open>gl\<close>. The validation
  reads it, the post-operation updates it.
\<close>

definition nft_validatePaymasterUserOp ::
    "(address \<Rightarrow> address \<Rightarrow> uint256 res) \<Rightarrow> nft_gas_logic \<Rightarrow> pm_env \<Rightarrow> UserOperation \<Rightarrow> uint256 \<Rightarrow>
     nft_paymaster \<Rightarrow> ((bytes \<times> uint256) \<times> nft_paymaster) res" where
  "nft_validatePaymasterUserOp nftBalance gl e userOp requiredPreFund s =
     bindR (nftBalance (np_nft s) (getSender userOp)) (\<lambda>bal.
     bindR (require (bal > 0) ''User does not have the NFT'') (\<lambda>_.
     bindR (isEligible nftBalance (getSender userOp) (np_nft s) requiredPreFund gl) (\<lambda>ok.
     bindR (require ok ''User is not eligible for gas payment'') (\<lambda>_.
     bindR (parsePaymasterAndData (paymasterAndData userOp)) (\<lambda>(vUntil, vAfter, sig).
     bindR (require_sig_length sig) (\<lambda>_.
     let hash = toEthSignedMessageHash (pe_crypto e) (pm_getHash e s userOp vUntil vAfter);
         context = abi_encode [AWord (ucast (getSender userOp))] in
     bindR (bump_nonce (getSender userOp) s) (\<lambda>s.
     bindR (ECDSA_recover (pe_crypto e) hash sig) (\<lambda>recovered.
     if verifyingSigner s \<noteq> recovered
     then Inr ((context, packValidationData True vUntil vAfter), s)
     else Inr ((context, packValidationData False vUntil vAfter), s)))))))))"

definition nft_postOp ::
    "(address \<Rightarrow> address \<Rightarrow> uint256 res) \<Rightarrow> bytes \<Rightarrow> uint256 \<Rightarrow> nft_paymaster \<Rightarrow> nft_gas_logic \<Rightarrow>
     nft_gas_logic res" where
  "nft_postOp nftBalance context actualGasCost s gl =
     bindR (decode_address context) (\<lambda>sndr.
     bindR (applyLogic nftBalance sndr (np_nft s) actualGasCost gl) (\<lambda>(_, gl').
     Inr gl'))"

subsection \<open>Multi-token paymaster\<close>

datatype multi_pm_event =
    MultiFeeLogicUpdated address address uint256
  | MultiPaymentTokenUpdated address bool uint256

record multi_paymaster = verifying_paymaster +
  mp_feeLogic :: address
  mp_allowedPaymentTokens :: "address \<Rightarrow> bool"
  mp_log :: "multi_pm_event list"

definition multi_constructor :: "address \<Rightarrow> address \<Rightarrow> multi_paymaster" where
  "multi_constructor signer fees =
     \<lparr>verifyingSigner = signer, senderNonce = (\<lambda>_. 0), mp_feeLogic = fees,
      mp_allowedPaymentTokens = (\<lambda>_. False), mp_log = []\<rparr>"

definition multi_updateFeeLogic ::
    "(address \<Rightarrow> unit res) \<Rightarrow> uint256 \<Rightarrow> address \<Rightarrow> address \<Rightarrow> multi_paymaster \<Rightarrow> multi_paymaster res" where
  "multi_updateFeeLogic onlyOwner timestamp caller fees s =
     bindR (onlyOwner caller) (\<lambda>_.
     let s = s\<lparr>mp_feeLogic := fees\<rparr>
     in Inr (s\<lparr>mp_log := mp_log s @ [MultiFeeLogicUpdated (mp_feeLogic s) fees timestamp]\<rparr>))"

definition addPaymentToken ::
    "(address \<Rightarrow> unit res) \<Rightarrow> uint256 \<Rightarrow> address \<Rightarrow> address \<Rightarrow> multi_paymaster \<Rightarrow> multi_paymaster res" where
  "addPaymentToken onlyOwner timestamp caller token s =
     bindR (onlyOwner caller) (\<lambda>_.
     let s = s\<lparr>mp_allowedPaymentTokens := (mp_allowedPaymentTokens s)(token := True)\<rparr>
     in Inr (s\<lparr>mp_log := mp_log s @ [MultiPaymentTokenUpdated token True timestamp]\<rparr>))"

definition removePaymentToken ::
    "(address \<Rightarrow> unit res) \<Rightarrow> uint256 \<Rightarrow> address \<Rightarrow> address \<Rightarrow> multi_paymaster \<Rightarrow> multi_paymaster res" where
  "removePaymentToken onlyOwner timestamp caller token s =
     bindR (onlyOwner caller) (\<lambda>_.
     let s = s\<lparr>mp_allowedPaymentTokens := (mp_allowedPaymentTokens s)(token := False)\<rparr>
     in Inr (s\<lparr>mp_log := mp_log s @ [MultiPaymentTokenUpdated token False timestamp]\<rparr>))"

definition multi_parsePaymasterAndData :: "bytes \<Rightarrow> (address \<times> uint48 \<times> uint48 \<times> bytes) res" where
  "multi_parsePaymasterAndData data =
     bindR (slice 20 40 data) (\<lambda>tok.
     bindR (slice 40 104 data) (\<lambda>range.
     bindR (decode_range range) (\<lambda>(vUntil, vAfter).
     bindR (slice_from 104 data) (\<lambda>sig.
     Inr (of_nat (be_nat tok), vUntil, vAfter, sig)))))"

definition multi_validatePaymasterUserOp ::
    "pm_env \<Rightarrow> UserOperation \<Rightarrow> uint256 \<Rightarrow> multi_paymaster \<Rightarrow> ((bytes \<times> uint256) \<times> multi_paymaster) res" where
  "multi_validatePaymasterUserOp e userOp requiredPreFund s =
     bindR (multi_parsePaymasterAndData (paymasterAndData userOp)) (\<lambda>(token, vUntil, vAfter, sig).
     bindR (require (mp_allowedPaymentTokens s token) ''EnclaveVerifyingTokenPaymaster: token not allowed'') (\<lambda>_.
     bindR (require_sig_length sig) (\<lambda>_.
     let hash = toEthSignedMessageHash (pe_crypto e) (pm_getHash e s userOp vUntil vAfter);
         context = abi_encode [AWord (ucast (getSender userOp))] in
     bindR (bump_nonce (getSender userOp) s) (\<lambda>s.
     bindR (ECDSA_recover (pe_crypto e) hash sig) (\<lambda>recovered.
     if verifyingSigner s \<noteq> recovered
     then Inr ((context, packValidationData True vUntil vAfter), s)
     else Inr ((context, packValidationData False vUntil vAfter), s))))))"

definition decode_address_pair :: "bytes \<Rightarrow> (address \<times> address) res" where
  "decode_address_pair bs =
     bindR (abi_decode [TUint 160, TUint 160] bs) (\<lambda>vs.
     case vs of [AWord a, AWord b] \<Rightarrow> Inr (ucast a, ucast b) | _ \<Rightarrow> Inl RevertEmpty)"

definition multi_postOp ::
    "'x erc20 \<Rightarrow> (address \<Rightarrow> address \<Rightarrow> uint256 \<Rightarrow> uint256 res) \<Rightarrow> pm_env \<Rightarrow> bytes \<Rightarrow> uint256 \<Rightarrow>
     multi_paymaster \<Rightarrow> 'x \<Rightarrow> 'x res" where
  "multi_postOp erc calculateFee e context actualGasCost s x =
     bindR (decode_address_pair context) (\<lambda>(sndr, token).
     bindR (calculateFee (mp_feeLogic s) token actualGasCost) (\<lambda>charge.
     bindR (erc20_transferFrom erc token (pe_this e) sndr (pe_this e) charge x) (\<lambda>(ok, x').
     bindR (require ok ''EnclaveVerifyingTokenPaymaster: transfer failed'') (\<lambda>_.
     Inr x'))))"

definition multi_withdrawTokens ::
    "'x erc20 \<Rightarrow> pm_env \<Rightarrow> address \<Rightarrow> address \<Rightarrow> address \<Rightarrow> uint256 \<Rightarrow> multi_paymaster \<Rightarrow> 'x \<Rightarrow> 'x res" where
  "multi_withdrawTokens erc e caller token to amount s x =
     bindR (require (caller = verifyingSigner s) ''Only verifying signer can withdraw'') (\<lambda>_.
     bindR (erc20_transfer erc token (pe_this e) to amount x) (\<lambda>(ok, x').
     bindR (require ok ''EnclaveVerifyingTokenPaymaster: withdraw failed'') (\<lambda>_.
     Inr x')))"

subsection \<open>Solver paymasters\<close>

datatype solver_event = SolverSponsored address address uint256 address

record solver_paymaster = verifying_paymaster +
  sp_log :: "solver_event list"

definition solver_constructor :: "address \<Rightarrow> solver_paymaster" where
  "solver_constructor signer = \<lparr>verifyingSigner = signer, senderNonce = (\<lambda>_. 0), sp_log = []\<rparr>"

definition solver_preimage_v0 ::
    "pm_env \<Rightarrow> uint256 \<Rightarrow> UserOperation \<Rightarrow> uint48 \<Rightarrow> uint48 \<Rightarrow> address \<Rightarrow> uint256 \<Rightarrow> bytes" where
  "solver_preimage_v0 e n userOp vUntil vAfter tokenAddress amount =
     abi_encode
       [ABytes (pm_pack (pe_crypto e) userOp), AWord (pe_chainid e), AWord (ucast (pe_this e)), AWord n,
        AWord (ucast vUntil), AWord (ucast vAfter), AWord (ucast tokenAddress), AWord amount]"

definition solver_getHash_v0 ::
    "pm_env \<Rightarrow> solver_paymaster \<Rightarrow> UserOperation \<Rightarrow> uint48 \<Rightarrow> uint48 \<Rightarrow> address \<Rightarrow> uint256 \<Rightarrow> bytes32" where
  "solver_getHash_v0 e s userOp vUntil vAfter tokenAddress amount =
     keccak256 (pe_crypto e)
       (solver_preimage_v0 e (senderNonce s (getSender userOp)) userOp vUntil vAfter tokenAddress amount)"

definition solver_preimage_v1 ::
    "pm_env \<Rightarrow> uint256 \<Rightarrow> UserOperation \<Rightarrow> uint48 \<Rightarrow> uint48 \<Rightarrow> address \<Rightarrow> uint256 \<Rightarrow> bytes" where
  "solver_preimage_v1 e n userOp vUntil vAfter tokenAddress amount =
     abi_encode
       [AWord (ucast (sender userOp)), AWord (pe_chainid e), AWord (ucast (pe_this e)), AWord n,
        AWord (ucast vUntil), AWord (ucast vAfter), AWord (ucast tokenAddress), AWord amount]"

definition solver_getHash_v1 ::
    "pm_env \<Rightarrow> solver_paymaster \<Rightarrow> UserOperation \<Rightarrow> uint48 \<Rightarrow> uint48 \<Rightarrow> address \<Rightarrow> uint256 \<Rightarrow> bytes32" where
  "solver_getHash_v1 e s userOp vUntil vAfter tokenAddress amount =
     keccak256 (pe_crypto e)
       (solver_preimage_v1 e (senderNonce s (getSender userOp)) userOp vUntil vAfter tokenAddress amount)"

definition decode_uint256 :: "bytes \<Rightarrow> uint256 res" where
  "decode_uint256 bs =
     bindR (abi_decode [TUint 256] bs) (\<lambda>vs. case vs of [AWord a] \<Rightarrow> Inr a | _ \<Rightarrow> Inl RevertEmpty)"

definition solver_parsePaymasterAndData ::
    "bytes \<Rightarrow> (uint48 \<times> uint48 \<times> bytes \<times> address \<times> uint256) res" where
  "solver_parsePaymasterAndData data =
     bindR (slice 20 84 data) (\<lambda>range.
     bindR (decode_range range) (\<lambda>(vUntil, vAfter).
     bindR (slice 84 148 data) (\<lambda>sig.
     bindR (slice 148 212 data) (\<lambda>tok.
     bindR (decode_address tok) (\<lambda>tokenAddress.
     bindR (slice_from 212 data) (\<lambda>amt.
     bindR (decode_uint256 amt) (\<lambda>amount.
     Inr (vUntil, vAfter, sig, tokenAddress, amount))))))))"

text \<open>The two versions differ in the hash only, so the handler has it as an argument.\<close>

definition solver_validate ::
    "(pm_env \<Rightarrow> solver_paymaster \<Rightarrow> UserOperation \<Rightarrow> uint48 \<Rightarrow> uint48 \<Rightarrow> address \<Rightarrow> uint256 \<Rightarrow> bytes32) \<Rightarrow>
     'x erc20 \<Rightarrow> pm_env \<Rightarrow> UserOperation \<Rightarrow> uint256 \<Rightarrow> solver_paymaster \<times> 'x \<Rightarrow>
     ((bytes \<times> uint256) \<times> solver_paymaster \<times> 'x) res" where
  "solver_validate getHash erc e userOp requiredPreFund st =
     (case st of (s, x) \<Rightarrow>
     bindR (solver_parsePaymasterAndData (paymasterAndData userOp)) (\<lambda>(vUntil, vAfter, sig, tokenAddress, amount).
     bindR (require_sig_length sig) (\<lambda>_.
     let hash = toEthSignedMessageHash (pe_crypto e) (getHash e s userOp vUntil vAfter tokenAddress amount) in
     bindR (bump_nonce (getSender userOp) s) (\<lambda>s.
     bindR (ECDSA_recover (pe_crypto e) hash sig) (\<lambda>recovered.
     if verifyingSigner s \<noteq> recovered
     then Inr (([], packValidationData True vUntil vAfter), s, x)
     else bindR (erc20_transferFrom erc tokenAddress (pe_this e) (pe_this e) (getSender userOp) amount x) (\<lambda>(ok, x').
          bindR (require ok ''Solver Sponsor failed'') (\<lambda>_.
          Inr (([], packValidationData False vUntil vAfter),
               s\<lparr>sp_log := sp_log s @ [SolverSponsored (getSender userOp) tokenAddress amount (pe_this e)]\<rparr>, x'))))))))"

definition solver_validatePaymasterUserOp_v0 ::
    "'x erc20 \<Rightarrow> pm_env \<Rightarrow> UserOperation \<Rightarrow> uint256 \<Rightarrow> solver_paymaster \<times> 'x \<Rightarrow>
     ((bytes \<times> uint256) \<times> solver_paymaster \<times> 'x) res" where
  "solver_validatePaymasterUserOp_v0 = solver_validate solver_getHash_v0"

definition solver_validatePaymasterUserOp_v1 ::
    "'x erc20 \<Rightarrow> pm_env \<Rightarrow> UserOperation \<Rightarrow> uint256 \<Rightarrow> solver_paymaster \<times> 'x \<Rightarrow>
     ((bytes \<times> uint256) \<times> solver_paymaster \<times> 'x) res" where
  "solver_validatePaymasterUserOp_v1 = solver_validate solver_getHash_v1"

end
