(* ===== verification/PaymasterSpec.thy ===== *)
theory PaymasterSpec
  imports Paymasters
begin

text \<open>
  What the paymasters guarantee: the bytes the trusted signer signs determine every field of
  the request they mention, each validation consumes one nonce, a signature can therefore not
  be used for a second validation, and the post-operation charges what the fee logic computes.
\<close>

section \<open>The signed bytes\<close>

definition covered :: "evm_crypto \<Rightarrow> UserOperation \<Rightarrow> uint256 list" where
  "covered c userOp =
     [ucast (sender userOp), nonce userOp, calldataKeccak c (initCode userOp),
      calldataKeccak c (callData userOp), callGasLimit userOp, verificationGasLimit userOp,
      preVerificationGas userOp, maxFeePerGas userOp, maxPriorityFeePerGas userOp]"

lemma pm_pack_covered: "pm_pack c userOp = concat (map abi_word (covered c userOp))"
  using abi_encode_static [of "covered c userOp"] by (simp add: pm_pack_def covered_def)

lemma length_covered [simp]: "length (covered c userOp) = 9"
  by (simp add: covered_def)

lemma length_concat_abi_word: "length (concat (map abi_word ws)) = 32 * length ws"
  by (induction ws) auto

lemma pm_pack_inject: "pm_pack c userOp = pm_pack c userOp' \<longleftrightarrow> covered c userOp = covered c userOp'"
  by (simp add: pm_pack_covered concat_abi_word_inject)

lemma length_pm_pack [simp]: "length (pm_pack c userOp) = 288"
  by (simp add: pm_pack_covered length_concat_abi_word)

definition preimage_types :: "abi_ty list" where
  "preimage_types = [TBytes, TUint 256, TUint 256, TUint 256, TUint 256, TUint 256]"

lemma pm_preimage_inject:
  "pm_preimage e n userOp u a = pm_preimage e n' userOp' u' a' \<longleftrightarrow>
   covered (pe_crypto e) userOp = covered (pe_crypto e) userOp' \<and> n = n' \<and> u = u' \<and> a = a'"
proof
  let ?vs = "[ABytes (pm_pack (pe_crypto e) userOp), AWord (pe_chainid e), AWord (ucast (pe_this e)), AWord n,
        AWord (ucast u), AWord (ucast a)]"
  let ?ws = "[ABytes (pm_pack (pe_crypto e) userOp'), AWord (pe_chainid e), AWord (ucast (pe_this e)), AWord n',
        AWord (ucast u'), AWord (ucast a')]"
  assume "pm_preimage e n userOp u a = pm_preimage e n' userOp' u' a'"
  then have eq: "abi_encode ?vs = abi_encode ?ws" by (simp only: pm_preimage_def)
  have "?vs = ?ws"
    by (rule abi_encode_inject [OF _ _ _ eq, of preimage_types])
      (simp_all only: preimage_types_def list_all2_Cons list.rel_inject abi_has_ty.simps unat_lt_256 simp_thms, simp add: length_abi_encode pad32_def)
  then show "covered (pe_crypto e) userOp = covered (pe_crypto e) userOp' \<and> n = n' \<and> u = u' \<and> a = a'"
    by (simp add: pm_pack_inject)
next
  assume "covered (pe_crypto e) userOp = covered (pe_crypto e) userOp' \<and> n = n' \<and> u = u' \<and> a = a'"
  then show "pm_preimage e n userOp u a = pm_preimage e n' userOp' u' a'"
    by (simp add: pm_preimage_def pm_pack_covered)
qed

section \<open>The interface\<close>

fun validate_run ::
    "(UserOperation \<Rightarrow> uint256 \<Rightarrow> 's \<Rightarrow> ((bytes \<times> uint256) \<times> 's) res) \<Rightarrow> (UserOperation \<times> uint256) list \<Rightarrow>
     's \<Rightarrow> 's res" where
  "validate_run validate [] s = Inr s"
| "validate_run validate ((userOp, pf) # ops) s =
     bindR (validate userOp pf s) (\<lambda>(_, s'). validate_run validate ops s')"

locale nonce_paymaster =
  fixes e :: pm_env
    and validate :: "UserOperation \<Rightarrow> uint256 \<Rightarrow> 's \<Rightarrow> ((bytes \<times> uint256) \<times> 's) res"
    and nonces :: "'s \<Rightarrow> address \<Rightarrow> uint256"
    and signer :: "'s \<Rightarrow> address"
    and sig_offset :: nat
  assumes nonce_step: "validate userOp pf s = Inr (r, s') \<Longrightarrow>
      unat (nonces s' (sender userOp)) = unat (nonces s (sender userOp)) + 1"
    and nonce_frame: "validate userOp pf s = Inr (r, s') \<Longrightarrow> a \<noteq> sender userOp \<Longrightarrow> nonces s' a = nonces s a"
    and signer_frame: "validate userOp pf s = Inr (r, s') \<Longrightarrow> signer s' = signer s"
    and verdict: "validate userOp pf s = Inr ((ctx, vd), s') \<Longrightarrow>
      \<exists>u a rec. vd = packValidationData (signer s \<noteq> rec) u a \<and>
        ECDSA_recover (pe_crypto e)
          (toEthSignedMessageHash (pe_crypto e)
            (keccak256 (pe_crypto e) (pm_preimage e (nonces s (sender userOp)) userOp u a)))
          (drop sig_offset (paymasterAndData userOp)) = Inr rec"
begin

lemma run_nonce:
  "validate_run validate ops s = Inr s' \<Longrightarrow>
   unat (nonces s' a) = unat (nonces s a) + length (filter (\<lambda>(userOp, pf). sender userOp = a) ops)"
proof (induction ops arbitrary: s)
  case (Cons o1 ops)
  obtain op pf where o1: "o1 = (op, pf)" by force
  with Cons.prems obtain r s1 where s1: "validate op pf s = Inr (r, s1)" "validate_run validate ops s1 = Inr s'"
    by (auto simp: bindR_eq_Inr)
  show ?case
    using Cons.IH [OF s1(2)] nonce_step [OF s1(1)] nonce_frame [OF s1(1), of a]
    by (cases "sender op = a") (auto simp: o1)
qed simp

lemma run_signer: "validate_run validate ops s = Inr s' \<Longrightarrow> signer s' = signer s"
proof (induction ops arbitrary: s)
  case (Cons o1 ops)
  obtain op pf where o1: "o1 = (op, pf)" by force
  with Cons.prems obtain r s1 where s1: "validate op pf s = Inr (r, s1)" "validate_run validate ops s1 = Inr s'"
    by (auto simp: bindR_eq_Inr)
  show ?case using Cons.IH [OF s1(2)] signer_frame [OF s1(1)] by simp
qed simp

lemma no_replay:
  assumes "validate_run validate ((userOp, pf) # ops) s = Inr s'"
  shows "pm_preimage e (nonces s' (sender userOp')) userOp' u' a' \<noteq>
         pm_preimage e (nonces s (sender userOp)) userOp u a"
proof
  assume "pm_preimage e (nonces s' (sender userOp')) userOp' u' a' = pm_preimage e (nonces s (sender userOp)) userOp u a"
  then have "covered (pe_crypto e) userOp' = covered (pe_crypto e) userOp"
      "nonces s' (sender userOp') = nonces s (sender userOp)"
    by (simp_all add: pm_preimage_inject)
  then have "sender userOp' = sender userOp" by (simp add: covered_def)
  then show False
    using run_nonce [OF assms, of "sender userOp"] \<open>nonces s' (sender userOp') = _\<close> by simp
qed

lemma success_is_signed:
  assumes "validate userOp pf s = Inr ((ctx, packValidationData False u a), s')"
  shows "ECDSA_recover (pe_crypto e)
    (toEthSignedMessageHash (pe_crypto e)
      (keccak256 (pe_crypto e) (pm_preimage e (nonces s (sender userOp)) userOp u a)))
    (drop sig_offset (paymasterAndData userOp)) = Inr (signer s)"
  using verdict [OF assms] by (auto simp: packValidationData_inject)

end

section \<open>The four paymasters\<close>

lemma bump_nonce_eq_Inr:
  "bump_nonce a s = Inr s' \<longleftrightarrow>
   (\<exists>n. unat n = unat (senderNonce s a) + 1 \<and> s' = s\<lparr>senderNonce := (senderNonce s)(a := n)\<rparr>)"
proof -
  have "checked_add (senderNonce s a) 1 = Inr n \<longleftrightarrow> unat n = unat (senderNonce s a) + 1" for n
    using unat_lt_256 [of n] by (auto simp: checked_add_eq_Inr)
  then show ?thesis by (auto simp: bump_nonce_def bindR_eq_Inr)
qed

lemma parse_signature:
  "parsePaymasterAndData data = Inr (u, a, sig) \<Longrightarrow> sig = drop 84 data"
  by (auto simp: parsePaymasterAndData_def bindR_eq_Inr slice_from_eq_Inr)

lemma multi_parse_signature:
  "multi_parsePaymasterAndData data = Inr (t, u, a, sig) \<Longrightarrow> sig = drop 104 data"
  by (auto simp: multi_parsePaymasterAndData_def bindR_eq_Inr slice_from_eq_Inr)

lemma verdict_if:
  "(if b then Inr ((c, packValidationData True u a), s) else Inr ((c, packValidationData False u a), s)) =
   Inr ((c, packValidationData b u a), s)"
  by simp

lemmas pm_inversion = verdict_if packValidationData_inject bindR_eq_Inr require_eq_Inr require_sig_length_def bump_nonce_eq_Inr Let_def getSender_def
  pm_getHash_def

interpretation verifying: nonce_paymaster e "verifying_validatePaymasterUserOp e" senderNonce verifyingSigner 84
  for e
  by unfold_locales
    (auto simp: verifying_validatePaymasterUserOp_def pm_inversion dest!: parse_signature)

interpretation token: nonce_paymaster e "token_validatePaymasterUserOp e" senderNonce verifyingSigner 84
  for e
  by unfold_locales
    (auto simp: token_validatePaymasterUserOp_def pm_inversion dest!: parse_signature)

interpretation nft: nonce_paymaster e "nft_validatePaymasterUserOp nb gl e" senderNonce verifyingSigner 84
  for nb gl e
  by unfold_locales
    (auto simp: nft_validatePaymasterUserOp_def pm_inversion dest!: parse_signature)

interpretation multi: nonce_paymaster e "multi_validatePaymasterUserOp e" senderNonce verifyingSigner 104
  for e
  by unfold_locales
    (auto simp: multi_validatePaymasterUserOp_def pm_inversion dest!: multi_parse_signature)

section \<open>Parsing\<close>

lemma unat_ucast_48 [simp]: "unat (ucast (u :: uint48) :: uint256) = unat u"
  by (rule unat_ucast_up) simp

lemma unat_ucast_160 [simp]: "unat (ucast (a :: address) :: uint256) = unat a"
  by (rule unat_ucast_up) simp

lemma ucast_ucast_48 [simp]: "ucast (ucast (u :: uint48) :: uint256) = u"
  by (rule bit_word_eqI) (simp add: bit_simps)

lemma ucast_ucast_160 [simp]: "ucast (ucast (a :: address) :: uint256) = a"
  by (rule bit_word_eqI) (simp add: bit_simps)

lemma decode_range_encode: "decode_range (abi_encode [AWord (ucast u), AWord (ucast a)]) = Inr (u, a)"
proof -
  have "abi_decode [TUint 48, TUint 48] (abi_encode [AWord (ucast u), AWord (ucast a)]) =
      Inr [AWord (ucast u), AWord (ucast a)]"
    by (rule abi_decode_encode) (simp_all only: list_all2_Cons list_all2_Nil abi_has_ty.simps unat_ucast_48
        unat_lt_48 simp_thms, simp add: length_abi_encode)
  then show ?thesis by (simp add: decode_range_def)
qed

lemma decode_address_encode: "decode_address (abi_encode [AWord (ucast a)]) = Inr a"
proof -
  have "abi_decode [TUint 160] (abi_encode [AWord (ucast a)]) = Inr [AWord (ucast a)]"
    by (rule abi_decode_encode) (simp_all only: list_all2_Cons list_all2_Nil abi_has_ty.simps unat_ucast_160
        unat_lt_160 simp_thms, simp add: length_abi_encode)
  then show ?thesis by (simp add: decode_address_def)
qed

text \<open>The layout the off-chain signer builds is the one the contract takes apart.\<close>

definition build_paymasterAndData :: "bytes \<Rightarrow> uint48 \<Rightarrow> uint48 \<Rightarrow> bytes \<Rightarrow> bytes" where
  "build_paymasterAndData pm u a sig = pm @ abi_encode [AWord (ucast u), AWord (ucast a)] @ sig"

lemma length_two_words: "length (abi_encode [AWord v, AWord w]) = 64"
  by (simp add: length_abi_encode)

lemma parse_build:
  assumes "length pm = 20"
  shows "parsePaymasterAndData (build_paymasterAndData pm u a sig) = Inr (u, a, sig)"
proof -
  have "slice 20 84 (build_paymasterAndData pm u a sig) = Inr (abi_encode [AWord (ucast u), AWord (ucast a)])"
    by (simp add: slice_def build_paymasterAndData_def assms length_two_words)
  moreover have "slice_from 84 (build_paymasterAndData pm u a sig) = Inr sig"
    by (simp add: slice_from_def slice_def build_paymasterAndData_def assms length_two_words)
  ultimately show ?thesis by (simp add: parsePaymasterAndData_def decode_range_encode)
qed

text \<open>Conversely, data that parse are exactly data of this form: no word of the range is truncated.\<close>

lemma ucast_48_of_small: "unat (w :: uint256) < 2 ^ 48 \<Longrightarrow> ucast (ucast w :: uint48) = w"
proof -
  assume "unat w < 2 ^ 48"
  then have "unat (ucast w :: uint48) = unat w" by (simp add: unsigned_ucast_eq take_bit_nat_eq_self)
  then have "unat (ucast (ucast w :: uint48) :: uint256) = unat w" by (simp only: unat_ucast_48)
  then show ?thesis by (simp only: unsigned_word_eqI)
qed

lemma decode_range_eq_Inr:
  assumes "length bs = 64"
  shows "decode_range bs = Inr (u, a) \<longleftrightarrow> bs = abi_encode [AWord (ucast u), AWord (ucast a)]"
proof
  assume run: "decode_range bs = Inr (u, a)"
  have bs: "bs = abi_word (load_word bs 0) @ abi_word (load_word bs 32)"
    using abi_word_load [of 0 bs] abi_word_load [of 32 bs] assms append_take_drop_id [of 32 bs] by simp
  have "load_word bs 0 = ucast u \<and> load_word bs 32 = ucast a"
    using run assms
    by (auto simp: decode_range_def abi_decode_def Let_def ucast_48_of_small split: if_splits)
  then show "bs = abi_encode [AWord (ucast u), AWord (ucast a)]"
    using bs abi_encode_static [of "[ucast u, ucast a]"] by simp
qed (simp add: decode_range_encode)

lemma parse_iff:
  "parsePaymasterAndData data = Inr (u, a, sig) \<longleftrightarrow>
   (\<exists>pm. length pm = 20 \<and> data = build_paymasterAndData pm u a sig)"
proof
  assume run: "parsePaymasterAndData data = Inr (u, a, sig)"
  then have len: "84 \<le> length data" and sig: "sig = drop 84 data"
    and range: "decode_range (take 64 (drop 20 data)) = Inr (u, a)"
    by (auto simp: parsePaymasterAndData_def res_simps split: prod.splits)
  have "take 64 (drop 20 data) = abi_encode [AWord (ucast u), AWord (ucast a)]"
    using range len decode_range_eq_Inr [of "take 64 (drop 20 data)" u a] by simp
  moreover have "data = take 20 data @ take 64 (drop 20 data) @ drop 84 data"
    using append_take_drop_id [of 20 data] append_take_drop_id [of 64 "drop 20 data"] by (simp add: add.commute)
  ultimately show "\<exists>pm. length pm = 20 \<and> data = build_paymasterAndData pm u a sig"
    using len sig by (intro exI [of _ "take 20 data"]) (simp add: build_paymasterAndData_def)
qed (auto simp: parse_build)
lemma parse_short: "length data < 84 \<Longrightarrow> parsePaymasterAndData data = Inl RevertEmpty"
  by (simp add: parsePaymasterAndData_def slice_def)

section \<open>Outcomes of a validation\<close>

text \<open>What each branch of the verifying paymaster returns on data of the documented layout.\<close>

definition request_hash :: "pm_env \<Rightarrow> uint256 \<Rightarrow> UserOperation \<Rightarrow> uint48 \<Rightarrow> uint48 \<Rightarrow> bytes32" where
  "request_hash e n userOp u a =
     toEthSignedMessageHash (pe_crypto e) (keccak256 (pe_crypto e) (pm_preimage e n userOp u a))"

lemma checked_succ: "checked_add n 1 = (if n = - 1 then Inl (Panic 0x11) else Inr (n + 1 :: uint256))"
proof -
  have "unat n = 2 ^ 256 - 1 \<longleftrightarrow> n = - 1" by (metis unat_max word_unat_eq_iff)
  then have "unat n + 1 < 2 ^ 256 \<longleftrightarrow> n \<noteq> - 1" using unat_lt_256 [of n] by linarith
  then show ?thesis by (simp only: checked_add_def unat_1 len256 if_not_P split: if_split) simp
qed

lemma bump_nonce_cases:
  "bump_nonce a s = (if senderNonce s a = - 1 then Inl (Panic 0x11)
     else Inr (s\<lparr>senderNonce := (senderNonce s)(a := senderNonce s a + 1)\<rparr>))"
  by (simp add: bump_nonce_def checked_succ)

lemma verifying_outcome:
  assumes "length pm = 20" and "paymasterAndData userOp = build_paymasterAndData pm u a sig"
  shows "verifying_validatePaymasterUserOp e userOp pf s =
    (if length sig \<noteq> 64 \<and> length sig \<noteq> 65
     then Inl (Revert ''VerifyingPaymaster: invalid signature length in paymasterAndData'')
     else if senderNonce s (sender userOp) = - 1 then Inl (Panic 0x11)
     else case ECDSA_recover (pe_crypto e) (request_hash e (senderNonce s (sender userOp)) userOp u a) sig of
            Inl err \<Rightarrow> Inl err
          | Inr rec \<Rightarrow> Inr (([], packValidationData (verifyingSigner s \<noteq> rec) u a),
              s\<lparr>senderNonce := (senderNonce s)(sender userOp := senderNonce s (sender userOp) + 1)\<rparr>))"
proof -
  have "parsePaymasterAndData (paymasterAndData userOp) = Inr (u, a, sig)"
    using parse_build [OF assms(1)] assms(2) by simp
  then show ?thesis
    by (auto simp: verifying_validatePaymasterUserOp_def require_sig_length_def require_def bump_nonce_cases
        Let_def getSender_def pm_getHash_def request_hash_def bindR_def split: sum.split)
qed

section \<open>Post-operations\<close>

lemma token_context:
  "token_validatePaymasterUserOp e userOp pf s = Inr ((ctx, vd), s') \<Longrightarrow>
   ctx = abi_encode [AWord (ucast (sender userOp))]"
  by (auto simp: token_validatePaymasterUserOp_def pm_inversion)

lemma nft_context:
  "nft_validatePaymasterUserOp nb gl e userOp pf s = Inr ((ctx, vd), s') \<Longrightarrow>
   ctx = abi_encode [AWord (ucast (sender userOp))] \<and> np_nft s' = np_nft s \<and>
   isEligible nb (sender userOp) (np_nft s) pf gl = Inr True"
  by (auto simp: nft_validatePaymasterUserOp_def pm_inversion)

lemma multi_context:
  "multi_validatePaymasterUserOp e userOp pf s = Inr ((ctx, vd), s') \<Longrightarrow>
   ctx = abi_encode [AWord (ucast (sender userOp))]"
  by (auto simp: multi_validatePaymasterUserOp_def pm_inversion)

lemma token_frame:
  "token_validatePaymasterUserOp e userOp pf s = Inr (r, s') \<Longrightarrow>
   tp_paymentToken s' = tp_paymentToken s \<and> tp_feeLogic s' = tp_feeLogic s"
  by (auto simp: token_validatePaymasterUserOp_def pm_inversion)

lemma multi_postOp_short: "length context < 64 \<Longrightarrow> multi_postOp erc cf e context g s x = Inl RevertEmpty"
  by (simp add: multi_postOp_def decode_address_pair_def abi_decode_short)

lemma nft_postOp_eq:
  "nft_postOp nb (abi_encode [AWord (ucast a)]) g s gl = Inr gl' \<longleftrightarrow> applyLogic nb a (np_nft s) g gl = Inr (True, gl')"
  using applyLogic_effect(1) by (force simp: nft_postOp_def decode_address_encode bindR_eq_Inr)

lemma nft_postOp_iff:
  "(\<exists>gl'. nft_postOp nb (abi_encode [AWord (ucast a)]) g s gl = Inr gl') \<longleftrightarrow>
   isEligible nb a (np_nft s) g gl = Inr True"
  unfolding nft_postOp_eq using applyLogic_run applyLogic_eligible by blast

text \<open>
  What the ERC-20 interface documents of \<open>transferFrom\<close>: with enough balance and allowance it
  returns true. \<open>can_pull\<close> says so for every amount up to \<open>cap\<close>.
\<close>

definition can_pull :: "'x erc20 \<Rightarrow> address \<Rightarrow> address \<Rightarrow> address \<Rightarrow> uint256 \<Rightarrow> 'x \<Rightarrow> bool" where
  "can_pull erc token pm payer cap x \<longleftrightarrow>
     (\<forall>amount. amount \<le> cap \<longrightarrow> (\<exists>x'. erc20_transferFrom erc token pm payer pm amount x = Inr (True, x')))"

lemma token_postOp_ok:
  assumes fees: "fee_logic (calculateFee (tp_feeLogic s) (tp_paymentToken s))"
    and cap: "calculateFee (tp_feeLogic s) (tp_paymentToken s) pf = Inr cap" and le: "g \<le> pf"
    and pull: "can_pull erc (tp_paymentToken s) (pe_this e) payer cap x"
  shows "\<exists>charge x'. calculateFee (tp_feeLogic s) (tp_paymentToken s) g = Inr charge \<and> charge \<le> cap \<and>
    erc20_transferFrom erc (tp_paymentToken s) (pe_this e) payer (pe_this e) charge x = Inr (True, x') \<and>
    token_postOp erc calculateFee e (abi_encode [AWord (ucast payer)]) g s x = Inr x'"
proof -
  obtain charge where charge: "calculateFee (tp_feeLogic s) (tp_paymentToken s) g = Inr charge" "charge \<le> cap"
    using fee_logic.fee_mono [OF fees cap le] by blast
  then obtain x' where "erc20_transferFrom erc (tp_paymentToken s) (pe_this e) payer (pe_this e) charge x = Inr (True, x')"
    using pull unfolding can_pull_def by blast
  then show ?thesis using charge by (simp add: token_postOp_def decode_address_encode)
qed

section \<open>Solver paymasters\<close>

lemma solver_parse_signature:
  "solver_parsePaymasterAndData data = Inr (u, a, sig, t, m) \<Longrightarrow> length sig = 64"
  by (auto simp: solver_parsePaymasterAndData_def bindR_eq_Inr slice_eq_Inr)

lemma solver_never_returns: "solver_validate getHash erc e userOp pf st \<noteq> Inr r"
proof
  assume "solver_validate getHash erc e userOp pf st = Inr r"
  then obtain u a sig t m h rec where p: "solver_parsePaymasterAndData (paymasterAndData userOp) = Inr (u, a, sig, t, m)"
      and rec: "ECDSA_recover (pe_crypto e) h sig = Inr rec"
    by (auto simp: solver_validate_def bindR_eq_Inr Let_def split: prod.splits)
  then show False using solver_parse_signature [OF p] by (simp add: ECDSA_recover_length)
qed

end
