(* ===== verification/Vault.thy ===== *)
theory Vault
  imports Paymasters
begin

text \<open>
  \<open>enclave-smart-balance/v0/EnclaveTokenVaultV0.sol\<close>: token deposits, withdrawals by the
  depositor and claims by a vault manager. A step of the model is one call from outside, run to
  its end; \<open>nonReentrant\<close> (OpenZeppelin's \<open>ReentrancyGuard\<close>) makes the three functions that move
  tokens atomic in this sense, and changes nothing else. \<open>console.log\<close> has no effect.

  The ERC-20 tokens are arguments. \<open>vault_tokens_ok\<close> states what the interface documents of
  \<open>transferFrom\<close> and \<open>transfer\<close>: a call that reports success has moved the amount.
\<close>

section \<open>The contract\<close>

datatype vault_event =
    VaultManagerAdded address
  | VaultManagerRemoved address
  | Deposited address address uint256
  | Withdrawn address address uint256
  | Claimed address address uint256 address

record token_vault =
  deposits :: "address \<Rightarrow> address \<Rightarrow> uint256"
  isVaultManager :: "address \<Rightarrow> bool"
  vault_log :: "vault_event list"

definition vault_emit :: "vault_event \<Rightarrow> token_vault \<Rightarrow> token_vault" where
  "vault_emit ev s = s\<lparr>vault_log := vault_log s @ [ev]\<rparr>"

definition set_deposit :: "address \<Rightarrow> address \<Rightarrow> uint256 \<Rightarrow> token_vault \<Rightarrow> token_vault" where
  "set_deposit token user v s = s\<lparr>deposits := (deposits s)(token := (deposits s token)(user := v))\<rparr>"

definition vault_constructor :: "address \<Rightarrow> token_vault" where
  "vault_constructor caller =
     vault_emit (VaultManagerAdded caller)
       \<lparr>deposits = (\<lambda>_ _. 0), isVaultManager = (\<lambda>_. False)(caller := True), vault_log = []\<rparr>"

definition onlyVaultManager :: "address \<Rightarrow> token_vault \<Rightarrow> unit res" where
  "onlyVaultManager caller s = require (isVaultManager s caller) ''Caller is not a vault manager''"

definition addVaultManager :: "address \<Rightarrow> address \<Rightarrow> token_vault \<Rightarrow> token_vault res" where
  "addVaultManager caller m s =
     bindR (onlyVaultManager caller s) (\<lambda>_.
     bindR (require (m \<noteq> 0) ''Invalid vault manager address'') (\<lambda>_.
     bindR (require (\<not> isVaultManager s m) ''Address is already a vault manager'') (\<lambda>_.
     Inr (vault_emit (VaultManagerAdded m) (s\<lparr>isVaultManager := (isVaultManager s)(m := True)\<rparr>)))))"

definition removeVaultManager :: "address \<Rightarrow> address \<Rightarrow> token_vault \<Rightarrow> token_vault res" where
  "removeVaultManager caller m s =
     bindR (onlyVaultManager caller s) (\<lambda>_.
     bindR (require (isVaultManager s m) ''Address is not a vault manager'') (\<lambda>_.
     bindR (require (caller \<noteq> m) ''Cannot remove self as vault manager'') (\<lambda>_.
     Inr (vault_emit (VaultManagerRemoved m) (s\<lparr>isVaultManager := (isVaultManager s)(m := False)\<rparr>)))))"

definition vault_deposit ::
    "'x erc20 \<Rightarrow> address \<Rightarrow> address \<Rightarrow> address \<Rightarrow> uint256 \<Rightarrow> token_vault \<times> 'x \<Rightarrow> (token_vault \<times> 'x) res" where
  "vault_deposit erc this caller token amount st =
     (case st of (s, x) \<Rightarrow>
     bindR (require (amount > 0) ''Amount must be greater than 0'') (\<lambda>_.
     bindR (erc20_transferFrom erc token this caller this amount x) (\<lambda>(ok, x').
     bindR (require ok ''Transfer failed'') (\<lambda>_.
     bindR (checked_add (deposits s token caller) amount) (\<lambda>v.
     Inr (vault_emit (Deposited caller token amount) (set_deposit token caller v s), x'))))))"

definition vault_withdraw ::
    "'x erc20 \<Rightarrow> address \<Rightarrow> address \<Rightarrow> address \<Rightarrow> uint256 \<Rightarrow> token_vault \<times> 'x \<Rightarrow> (token_vault \<times> 'x) res" where
  "vault_withdraw erc this caller token amount st =
     (case st of (s, x) \<Rightarrow>
     bindR (require (amount > 0) ''Amount must be greater than 0'') (\<lambda>_.
     bindR (require (deposits s token caller \<ge> amount) ''Insufficient balance'') (\<lambda>_.
     bindR (checked_sub (deposits s token caller) amount) (\<lambda>v.
     let s = set_deposit token caller v s in
     bindR (erc20_transfer erc token this caller amount x) (\<lambda>(ok, x').
     bindR (require ok ''Transfer failed'') (\<lambda>_.
     Inr (vault_emit (Withdrawn caller token amount) s, x')))))))"

definition vault_claim ::
    "'x erc20 \<Rightarrow> address \<Rightarrow> address \<Rightarrow> address \<Rightarrow> uint256 \<Rightarrow> bytes \<Rightarrow> token_vault \<times> 'x \<Rightarrow>
     (token_vault \<times> 'x) res" where
  "vault_claim erc this caller token amount proof_data st =
     (case st of (s, x) \<Rightarrow>
     bindR (onlyVaultManager caller s) (\<lambda>_.
     bindR (require (amount > 0) ''Amount must be greater than 0'') (\<lambda>_.
     bindR (decode_address proof_data) (\<lambda>ow.
     bindR (require (deposits s token ow \<ge> amount) ''Insufficient balance'') (\<lambda>_.
     bindR (checked_sub (deposits s token ow) amount) (\<lambda>v.
     let s = set_deposit token ow v s in
     bindR (erc20_transfer erc token this caller amount x) (\<lambda>(ok, x').
     bindR (require ok ''Transfer failed'') (\<lambda>_.
     Inr (vault_emit (Claimed caller token amount ow) s, x')))))))))"

lemmas vault_defs = addVaultManager_def removeVaultManager_def vault_deposit_def vault_withdraw_def
  vault_claim_def onlyVaultManager_def vault_emit_def set_deposit_def

section \<open>Solvency\<close>

text \<open>
  \<open>bal x token holder\<close> is the balance the token contract records. A successful pull into the
  vault raises the vault's balance by the amount; a successful payment lowers it by at most the
  amount; neither touches the vault's balance in another token.
\<close>

definition vault_tokens_ok :: "'x erc20 \<Rightarrow> ('x \<Rightarrow> address \<Rightarrow> address \<Rightarrow> nat) \<Rightarrow> address \<Rightarrow> bool" where
  "vault_tokens_ok erc bal this \<longleftrightarrow>
     (\<forall>t from amount x x'. from \<noteq> this \<longrightarrow> erc20_transferFrom erc t this from this amount x = Inr (True, x') \<longrightarrow>
        bal x' t this = bal x t this + unat amount \<and> (\<forall>t'. t' \<noteq> t \<longrightarrow> bal x' t' this = bal x t' this)) \<and>
     (\<forall>t to amount x x'. erc20_transfer erc t this to amount x = Inr (True, x') \<longrightarrow>
        bal x t this \<le> bal x' t this + unat amount \<and> (\<forall>t'. t' \<noteq> t \<longrightarrow> bal x' t' this = bal x t' this))"

definition total_deposits :: "token_vault \<Rightarrow> address \<Rightarrow> nat" where
  "total_deposits s token = (\<Sum>u\<in>UNIV. unat (deposits s token u))"

definition vault_solvent :: "('x \<Rightarrow> address \<Rightarrow> address \<Rightarrow> nat) \<Rightarrow> address \<Rightarrow> token_vault \<times> 'x \<Rightarrow> bool" where
  "vault_solvent bal this st \<longleftrightarrow> (\<forall>t. total_deposits (fst st) t \<le> bal (snd st) t this)"

lemma total_set_deposit:
  "total_deposits (set_deposit token u v s) t + (if t = token then unat (deposits s token u) else 0) =
   total_deposits s t + (if t = token then unat v else 0)"
proof (cases "t = token")
  case True
  have "(\<lambda>a. unat (((deposits s token)(u := v)) a)) = (\<lambda>a. unat (deposits s token a))(u := unat v)"
    by auto
  then show ?thesis
    using True sum_fun_upd [of "\<lambda>a. unat (deposits s token a)" u "unat v"]
    by (simp add: total_deposits_def set_deposit_def if_distrib [of unat])
qed (simp add: total_deposits_def set_deposit_def)

lemma total_emit [simp]: "total_deposits (vault_emit ev s) = total_deposits s"
  by (simp add: total_deposits_def vault_emit_def fun_eq_iff)

text \<open>What the three calls that move tokens do when they return.\<close>

lemma vault_deposit_eq_Inr:
  "vault_deposit erc this caller token amount (s, x) = Inr (s', x') \<longleftrightarrow>
   amount > 0 \<and> erc20_transferFrom erc token this caller this amount x = Inr (True, x') \<and>
   (\<exists>v. unat v = unat (deposits s token caller) + unat amount \<and>
        s' = vault_emit (Deposited caller token amount) (set_deposit token caller v s))"
proof -
  have "checked_add (deposits s token caller) amount = Inr v \<longleftrightarrow>
      unat v = unat (deposits s token caller) + unat amount" for v
    using unat_lt_256 [of v] by (auto simp: checked_add_eq_Inr)
  then show ?thesis
    by (auto simp: vault_deposit_def bindR_eq_Inr require_eq_Inr split: prod.splits)
qed

lemma checked_sub_iff: "checked_sub a b = Inr c \<longleftrightarrow> unat c + unat b = unat a"
  by (auto simp: checked_sub_eq_Inr)

lemma vault_withdraw_eq_Inr:
  "vault_withdraw erc this caller token amount (s, x) = Inr (s', x') \<longleftrightarrow>
   amount > 0 \<and> amount \<le> deposits s token caller \<and>
   erc20_transfer erc token this caller amount x = Inr (True, x') \<and>
   (\<exists>v. unat v + unat amount = unat (deposits s token caller) \<and>
        s' = vault_emit (Withdrawn caller token amount) (set_deposit token caller v s))"
  by (auto simp: vault_withdraw_def bindR_eq_Inr require_eq_Inr checked_sub_iff word_le_nat_alt Let_def
      split: prod.splits)

lemma vault_claim_eq_Inr:
  "vault_claim erc this caller token amount pd (s, x) = Inr (s', x') \<longleftrightarrow>
   isVaultManager s caller \<and> amount > 0 \<and>
   (\<exists>ow v. decode_address pd = Inr ow \<and> amount \<le> deposits s token ow \<and>
     erc20_transfer erc token this caller amount x = Inr (True, x') \<and>
     unat v + unat amount = unat (deposits s token ow) \<and>
     s' = vault_emit (Claimed caller token amount ow) (set_deposit token ow v s))"
  by (auto simp: vault_claim_def onlyVaultManager_def bindR_eq_Inr require_eq_Inr checked_sub_iff
      word_le_nat_alt Let_def split: prod.splits)

lemma deposit_solvent:
  assumes ok: "vault_tokens_ok erc bal this" and "caller \<noteq> this"
    and run: "vault_deposit erc this caller token amount st = Inr st'" and sol: "vault_solvent bal this st"
  shows "vault_solvent bal this st'"
  unfolding vault_solvent_def
proof
  fix t
  obtain s x s' x' where st: "st = (s, x)" "st' = (s', x')" by (metis surj_pair)
  from run obtain v where tf: "erc20_transferFrom erc token this caller this amount x = Inr (True, x')"
      and v: "unat v = unat (deposits s token caller) + unat amount"
      and s': "s' = vault_emit (Deposited caller token amount) (set_deposit token caller v s)"
    unfolding st vault_deposit_eq_Inr by blast
  have "bal x' token this = bal x token this + unat amount \<and> (\<forall>t'. t' \<noteq> token \<longrightarrow> bal x' t' this = bal x t' this)"
    using ok tf \<open>caller \<noteq> this\<close> unfolding vault_tokens_ok_def by blast
  moreover have "total_deposits s t \<le> bal x t this" using sol by (simp add: vault_solvent_def st)
  ultimately show "total_deposits (fst st') t \<le> bal (snd st') t this"
    using total_set_deposit [of token caller v s t] v by (cases "t = token") (auto simp: st s')
qed

lemma payout_solvent:
  assumes ok: "vault_tokens_ok erc bal this"
    and tr: "erc20_transfer erc token this to amount x = Inr (True, x')"
    and v: "unat v + unat amount = unat (deposits s token u)"
    and sol: "vault_solvent bal this (s, x)"
  shows "vault_solvent bal this (vault_emit ev (set_deposit token u v s), x')"
  unfolding vault_solvent_def
proof
  fix t
  have "bal x token this \<le> bal x' token this + unat amount \<and> (\<forall>t'. t' \<noteq> token \<longrightarrow> bal x' t' this = bal x t' this)"
    using ok tr unfolding vault_tokens_ok_def by blast
  moreover have "total_deposits s t \<le> bal x t this" using sol by (simp add: vault_solvent_def)
  ultimately show "total_deposits (fst (vault_emit ev (set_deposit token u v s), x')) t \<le>
      bal (snd (vault_emit ev (set_deposit token u v s), x')) t this"
    using total_set_deposit [of token u v s t] v by (cases "t = token") auto
qed

section \<open>The life of a vault\<close>

text \<open>
  Any account but the vault itself may call; \<open>outside\<close> is everything that happens in the token
  contracts without a call from the vault. The vault never approves a spender, so nobody else
  can lower its balances.
\<close>

inductive vault_step ::
    "'x erc20 \<Rightarrow> ('x \<Rightarrow> address \<Rightarrow> address \<Rightarrow> nat) \<Rightarrow> address \<Rightarrow> token_vault \<times> 'x \<Rightarrow> token_vault \<times> 'x \<Rightarrow> bool"
  for erc bal this where
  add: "addVaultManager caller m s = Inr s' \<Longrightarrow> vault_step erc bal this (s, x) (s', x)"
| remove: "removeVaultManager caller m s = Inr s' \<Longrightarrow> vault_step erc bal this (s, x) (s', x)"
| deposit: "caller \<noteq> this \<Longrightarrow> vault_deposit erc this caller token amount st = Inr st' \<Longrightarrow>
    vault_step erc bal this st st'"
| withdraw: "vault_withdraw erc this caller token amount st = Inr st' \<Longrightarrow> vault_step erc bal this st st'"
| claim: "vault_claim erc this caller token amount pd st = Inr st' \<Longrightarrow> vault_step erc bal this st st'"
| outside: "(\<And>t. bal x t this \<le> bal x' t this) \<Longrightarrow> vault_step erc bal this (s, x) (s, x')"

inductive_cases vault_stepE: "vault_step erc bal this st st'"

inductive vault_reachable ::
    "'x erc20 \<Rightarrow> ('x \<Rightarrow> address \<Rightarrow> address \<Rightarrow> nat) \<Rightarrow> address \<Rightarrow> token_vault \<times> 'x \<Rightarrow> bool"
  for erc bal this where
  deploy: "vault_reachable erc bal this (vault_constructor deployer, x)"
| step: "vault_reachable erc bal this st \<Longrightarrow> vault_step erc bal this st st' \<Longrightarrow> vault_reachable erc bal this st'"

lemma vault_step_solvent:
  assumes ok: "vault_tokens_ok erc bal this" and "vault_step erc bal this st st'" and "vault_solvent bal this st"
  shows "vault_solvent bal this st'"
  using assms(2,3)
proof (induction rule: vault_step.induct)
  case (add caller m s s' x)
  then have "deposits s' = deposits s"
    by (auto simp: addVaultManager_def bindR_eq_Inr vault_emit_def)
  with add show ?case by (simp add: vault_solvent_def total_deposits_def)
next
  case (remove caller m s s' x)
  then have "deposits s' = deposits s"
    by (auto simp: removeVaultManager_def bindR_eq_Inr vault_emit_def)
  with remove show ?case by (simp add: vault_solvent_def total_deposits_def)
next
  case (deposit caller token amount st st')
  then show ?case using deposit_solvent [OF ok] by blast
next
  case (withdraw caller token amount st st')
  obtain s x s' x' where "st = (s, x)" "st' = (s', x')" by (metis surj_pair)
  with withdraw show ?case by (auto simp: vault_withdraw_eq_Inr intro: payout_solvent [OF ok])
next
  case (claim caller token amount pd st st')
  obtain s x s' x' where "st = (s, x)" "st' = (s', x')" by (metis surj_pair)
  with claim show ?case by (auto simp: vault_claim_eq_Inr intro: payout_solvent [OF ok])
next
  case (outside x x' s)
  then show ?case by (auto simp: vault_solvent_def intro: order_trans)
qed

lemma vault_reachable_solvent:
  assumes "vault_tokens_ok erc bal this" and "vault_reachable erc bal this st"
  shows "vault_solvent bal this st"
  using assms(2)
proof (induction rule: vault_reachable.induct)
  case (deploy deployer x)
  show ?case by (simp add: vault_solvent_def vault_constructor_def) (simp add: total_deposits_def)
next
  case (step st st')
  then show ?case using vault_step_solvent [OF assms(1)] by blast
qed

lemma vault_reachable_manager:
  assumes "vault_reachable erc bal this st"
  shows "\<exists>m. isVaultManager (fst st) m"
  using assms
proof (induction rule: vault_reachable.induct)
  case (deploy deployer x)
  show ?case by (auto simp: vault_constructor_def vault_emit_def)
next
  case (step st st')
  from step(2) step(3) show ?case
  proof (cases rule: vault_step.cases)
    case (remove caller m s s' x)
    then have "isVaultManager s' caller"
      by (auto simp: removeVaultManager_def onlyVaultManager_def bindR_eq_Inr require_eq_Inr vault_emit_def)
    then show ?thesis using remove by auto
  qed (auto simp: vault_defs bindR_eq_Inr Let_def split: prod.splits)
qed

section \<open>MockUSDC\<close>

text \<open>
  The test token adds two public functions to the inherited \<open>ERC20\<close>, whose internal \<open>_mint\<close> and
  \<open>_burn\<close> are arguments here: neither looks at its caller. Minting is harmless for a vault, while
  anybody can burn the tokens that a vault holds, which no step of \<open>vault_step\<close> allows.
\<close>

type_synonym 'x supply_change = "address \<Rightarrow> address \<Rightarrow> uint256 \<Rightarrow> 'x \<Rightarrow> 'x res"

definition mockusdc_mint :: "'x supply_change \<Rightarrow> address \<Rightarrow> address \<Rightarrow> address \<Rightarrow> uint256 \<Rightarrow> 'x \<Rightarrow> 'x res" where
  "mockusdc_mint erc20_mint this caller account value = erc20_mint this account value"

definition mockusdc_burn :: "'x supply_change \<Rightarrow> address \<Rightarrow> address \<Rightarrow> address \<Rightarrow> uint256 \<Rightarrow> 'x \<Rightarrow> 'x res" where
  "mockusdc_burn erc20_burn this caller account value = erc20_burn this account value"

lemma mockusdc_mint_step:
  assumes "\<And>t account value x x'. erc20_mint t account value x = Inr x' \<Longrightarrow> (\<And>t' a. bal x t' a \<le> bal x' t' a)"
    and "mockusdc_mint erc20_mint token caller account value x = Inr x'"
  shows "vault_step erc bal vault (s, x) (s, x')"
  using assms by (intro vault_step.outside) (auto simp: mockusdc_mint_def)

lemma mockusdc_burn_uncovers:
  assumes "\<And>t account value x x'. erc20_burn t account value x = Inr x' \<Longrightarrow>
      bal x t account = bal x' t account + unat value"
    and "mockusdc_burn erc20_burn token caller vault value x = Inr x'"
    and "bal x token vault < total_deposits s token + unat value"
  shows "\<not> vault_solvent bal vault (s, x')"
proof
  assume "vault_solvent bal vault (s, x')"
  then have "total_deposits s token \<le> bal x' token vault" by (simp add: vault_solvent_def)
  moreover have "bal x token vault = bal x' token vault + unat value"
    using assms(1,2) by (simp add: mockusdc_burn_def)
  ultimately show False using assms(3) by simp
qed

end
