(* ===== verification/P256.thy ===== *)
theory P256
  imports Accounts
begin

text \<open>
  \<open>P256Verifier.sol\<close>: verification of secp256r1 signatures behind the interface of the EIP-7212
  precompile, and \<open>P256V.sol\<close> as its client. A subtraction from the field prime is checked
  arithmetic in the source, so every point operation can panic in the model; the lemmas show
  that none does. The modular exponentiation of the EVM (the precompile at address 5) is
  \<open>modexp\<close>.
\<close>

section \<open>Parameters\<close>

definition P256_p :: uint256 where
  "P256_p = 0xFFFFFFFF00000001000000000000000000000000FFFFFFFFFFFFFFFFFFFFFFFF"

definition P256_a :: uint256 where
  "P256_a = 0xFFFFFFFF00000001000000000000000000000000FFFFFFFFFFFFFFFFFFFFFFFC"

definition P256_b :: uint256 where
  "P256_b = 0x5AC635D8AA3A93E7B3EBBD55769886BC651D06B0CC53B0F63BCE3C3E27D2604B"

definition GX :: uint256 where
  "GX = 0x6B17D1F2E12C4247F8BCE6E563A440F277037D812DEB33A0F4A13945D898C296"

definition GY :: uint256 where
  "GY = 0x4FE342E2FE1A7F9B8EE7EB4A7C0F9E162BCE33576B315ECECBB6406837BF51F5"

definition P256_n :: uint256 where
  "P256_n = 0xFFFFFFFF00000000FFFFFFFFFFFFFFFFBCE6FAADA7179E84F3B9CAC2FC632551"

definition minus_2modp :: uint256 where
  "minus_2modp = 0xFFFFFFFF00000001000000000000000000000000FFFFFFFFFFFFFFFFFFFFFFFD"

definition minus_2modn :: uint256 where
  "minus_2modn = 0xFFFFFFFF00000000FFFFFFFFFFFFFFFFBCE6FAADA7179E84F3B9CAC2FC63254F"

section \<open>Inversion\<close>

fun powmod :: "nat \<Rightarrow> nat \<Rightarrow> nat \<Rightarrow> nat" where
  "powmod u e f =
     (if e = 0 then 1 mod f
      else let h = powmod (u * u mod f) (e div 2) f in if even e then h else u * h mod f)"

declare powmod.simps [simp del]

definition modexp :: "uint256 \<Rightarrow> uint256 \<Rightarrow> uint256 \<Rightarrow> uint256" where
  "modexp u e f = (if f = 0 then 0 else of_nat (powmod (unat u) (unat e) (unat f)))"

definition modInv :: "uint256 \<Rightarrow> uint256 \<Rightarrow> uint256 \<Rightarrow> uint256" where
  "modInv u f minus_2modf = modexp u minus_2modf f"

definition nModInv :: "uint256 \<Rightarrow> uint256" where
  "nModInv u = modInv u P256_n minus_2modn"

definition pModInv :: "uint256 \<Rightarrow> uint256" where
  "pModInv u = modInv u P256_p minus_2modp"

section \<open>Points\<close>

text \<open>A point in ZZ representation: \<open>x = X / ZZ\<close>, \<open>y = Y / ZZZ\<close>.\<close>

type_synonym zz_point = "uint256 \<times> uint256 \<times> uint256 \<times> uint256"

type_synonym aff_point = "uint256 \<times> uint256"

definition ecZZ_PointAtInf :: zz_point where
  "ecZZ_PointAtInf = (0, 0, 0, 0)"

definition ecAffine_PointAtInf :: aff_point where
  "ecAffine_PointAtInf = (0, 0)"

definition ecAff_IsInf :: "uint256 \<Rightarrow> uint256 \<Rightarrow> bool" where
  "ecAff_IsInf x y \<longleftrightarrow> x = 0 \<and> y = 0"

definition ecZZ_IsInf :: "uint256 \<Rightarrow> uint256 \<Rightarrow> bool" where
  "ecZZ_IsInf zz zzz \<longleftrightarrow> zz = 0 \<and> zzz = 0"

definition ecAff_satisfiesCurveEqn :: "uint256 \<Rightarrow> uint256 \<Rightarrow> bool" where
  "ecAff_satisfiesCurveEqn x y =
     (let LHS = mulmod y y P256_p;
          RHS = addmod (mulmod (mulmod x x P256_p) x P256_p) (mulmod P256_a x P256_p) P256_p;
          RHS = addmod RHS P256_b P256_p
      in LHS = RHS)"

definition ecAff_isValidPubkey :: "uint256 \<Rightarrow> uint256 \<Rightarrow> bool" where
  "ecAff_isValidPubkey x y =
     (if P256_p \<le> x \<or> P256_p \<le> y \<or> (x = 0 \<and> y = 0) then False else ecAff_satisfiesCurveEqn x y)"

definition ecZZ_double_zz :: "zz_point \<Rightarrow> zz_point res" where
  "ecZZ_double_zz P =
     (case P of (x1, y1, zz1, zzz1) \<Rightarrow>
      if ecZZ_IsInf zz1 zzz1 then Inr ecZZ_PointAtInf
      else
        let comp_U = mulmod 2 y1 P256_p;
            comp_V = mulmod comp_U comp_U P256_p;
            comp_W = mulmod comp_U comp_V P256_p;
            comp_S = mulmod x1 comp_V P256_p;
            comp_M = addmod (mulmod 3 (mulmod x1 x1 P256_p) P256_p)
                       (mulmod P256_a (mulmod zz1 zz1 P256_p) P256_p) P256_p;
            x3 = addmod (mulmod comp_M comp_M P256_p) (mulmod minus_2modp comp_S P256_p) P256_p
        in bindR (checked_sub P256_p x3) (\<lambda>nx3.
           bindR (checked_sub P256_p comp_W) (\<lambda>nW.
           let y3 = addmod (mulmod comp_M (addmod comp_S nx3 P256_p) P256_p) (mulmod nW y1 P256_p) P256_p;
               zz3 = mulmod comp_V zz1 P256_p;
               zzz3 = mulmod comp_W zzz1 P256_p
           in Inr (x3, y3, zz3, zzz3))))"

definition ecZZ_double_affine :: "uint256 \<Rightarrow> uint256 \<Rightarrow> zz_point res" where
  "ecZZ_double_affine x1 y1 =
     (if ecAff_IsInf x1 y1 then Inr ecZZ_PointAtInf
      else
        let comp_U = mulmod 2 y1 P256_p;
            zz3 = mulmod comp_U comp_U P256_p;
            zzz3 = mulmod comp_U zz3 P256_p;
            comp_S = mulmod x1 zz3 P256_p;
            comp_M = addmod (mulmod 3 (mulmod x1 x1 P256_p) P256_p) P256_a P256_p;
            x3 = addmod (mulmod comp_M comp_M P256_p) (mulmod minus_2modp comp_S P256_p) P256_p
        in bindR (checked_sub P256_p x3) (\<lambda>nx3.
           bindR (checked_sub P256_p zzz3) (\<lambda>nW.
           let y3 = addmod (mulmod comp_M (addmod comp_S nx3 P256_p) P256_p) (mulmod nW y1 P256_p) P256_p
           in Inr (x3, y3, zz3, zzz3))))"

definition ecZZ_dadd_affine :: "zz_point \<Rightarrow> uint256 \<Rightarrow> uint256 \<Rightarrow> zz_point res" where
  "ecZZ_dadd_affine P x2 y2 =
     (case P of (x1, y1, zz1, zzz1) \<Rightarrow>
      if ecAff_IsInf x2 y2 then
        (if ecZZ_IsInf zz1 zzz1 then Inr ecZZ_PointAtInf else Inr (x1, y1, zz1, zzz1))
      else if ecZZ_IsInf zz1 zzz1 then Inr (x2, y2, 1, 1)
      else
        bindR (checked_sub P256_p y1) (\<lambda>ny1.
        bindR (checked_sub P256_p x1) (\<lambda>nx1.
        let comp_R = addmod (mulmod y2 zzz1 P256_p) ny1 P256_p;
            comp_P = addmod (mulmod x2 zz1 P256_p) nx1 P256_p
        in if comp_P \<noteq> 0 then
             let comp_PP = mulmod comp_P comp_P P256_p;
                 comp_PPP = mulmod comp_PP comp_P P256_p;
                 zz3 = mulmod zz1 comp_PP P256_p;
                 zzz3 = mulmod zzz1 comp_PPP P256_p;
                 comp_Q = mulmod x1 comp_PP P256_p
             in bindR (checked_sub P256_p comp_PPP) (\<lambda>nPPP.
                let x3 = addmod (addmod (mulmod comp_R comp_R P256_p) nPPP P256_p)
                           (mulmod minus_2modp comp_Q P256_p) P256_p
                in bindR (checked_sub P256_p x3) (\<lambda>nx3.
                   let y3 = addmod (mulmod (addmod comp_Q nx3 P256_p) comp_R P256_p)
                              (mulmod ny1 comp_PPP P256_p) P256_p
                   in Inr (x3, y3, zz3, zzz3)))
           else if comp_R = 0 then ecZZ_double_affine x2 y2
           else Inr ecZZ_PointAtInf)))"

definition ecZZ_SetAff :: "zz_point \<Rightarrow> aff_point" where
  "ecZZ_SetAff P =
     (case P of (x, y, zz, zzz) \<Rightarrow>
      if ecZZ_IsInf zz zzz then ecAffine_PointAtInf
      else
        let zzzInv = pModInv zzz;
            zInv = mulmod zz zzzInv P256_p;
            zzInv = mulmod zInv zInv P256_p
        in (mulmod x zzInv P256_p, mulmod y zzzInv P256_p))"

definition ecAff_add :: "uint256 \<Rightarrow> uint256 \<Rightarrow> uint256 \<Rightarrow> uint256 \<Rightarrow> aff_point res" where
  "ecAff_add x1 y1 x2 y2 =
     (if ecAff_IsInf x1 y1 then Inr (x2, y2)
      else if ecAff_IsInf x2 y2 then Inr (x1, y1)
      else bindR (ecZZ_dadd_affine (x1, y1, 1, 1) x2 y2) (\<lambda>P. Inr (ecZZ_SetAff P)))"

section \<open>The simultaneous multiplication\<close>

definition compute_bitpair :: "nat \<Rightarrow> uint256 \<Rightarrow> uint256 \<Rightarrow> uint256" where
  "compute_bitpair index scalar_u scalar_v =
     push_bit 1 (and (drop_bit index scalar_v) 1) + and (drop_bit index scalar_u) 1"

text \<open>
  The two loops count \<open>index\<close> down from 255 to -1; the argument is \<open>index + 1\<close>. The first one stops
  behind the highest bit set in either scalar and returns the pair of bits found there.
\<close>

fun mulmuladd_first :: "nat \<Rightarrow> uint256 \<Rightarrow> uint256 \<Rightarrow> uint256 \<Rightarrow> nat \<times> uint256" where
  "mulmuladd_first 0 u v bitpair = (0, bitpair)"
| "mulmuladd_first (Suc i) u v bitpair =
     (let bitpair = compute_bitpair i u v in
      if bitpair \<noteq> 0 then (i, bitpair) else mulmuladd_first i u v bitpair)"

fun mulmuladd_loop ::
    "aff_point \<Rightarrow> aff_point \<Rightarrow> nat \<Rightarrow> uint256 \<Rightarrow> uint256 \<Rightarrow> zz_point \<Rightarrow> zz_point res" where
  "mulmuladd_loop Q H 0 u v P = Inr P"
| "mulmuladd_loop Q H (Suc i) u v P =
     bindR (ecZZ_double_zz P) (\<lambda>P.
     let bitpair = compute_bitpair i u v in
     if bitpair = 0 then mulmuladd_loop Q H i u v P
     else
       let (TX, TY) = (if bitpair = 1 then (GX, GY) else if bitpair = 2 then Q else H)
       in bindR (ecZZ_dadd_affine P TX TY) (mulmuladd_loop Q H i u v))"

definition ecZZ_mulmuladd :: "uint256 \<Rightarrow> uint256 \<Rightarrow> uint256 \<Rightarrow> uint256 \<Rightarrow> uint256 res" where
  "ecZZ_mulmuladd QX QY scalar_u scalar_v =
     (if scalar_u = 0 \<and> scalar_v = 0 then Inr 0
      else
        bindR (ecAff_add GX GY QX QY) (\<lambda>(HX, HY).
        let (index, bitpair) = mulmuladd_first 256 scalar_u scalar_v 0;
            (X, Y) = (if bitpair = 1 then (GX, GY) else if bitpair = 2 then (QX, QY)
                      else if bitpair = 3 then (HX, HY) else (0, 0))
        in bindR (mulmuladd_loop (QX, QY) (HX, HY) index scalar_u scalar_v (X, Y, 1, 1)) (\<lambda>(X, Y, zz, zzz).
           let zzInv = pModInv zz in Inr (mulmod X zzInv P256_p))))"

definition ecdsa_verify :: "bytes32 \<Rightarrow> uint256 \<Rightarrow> uint256 \<Rightarrow> pubkey \<Rightarrow> bool res" where
  "ecdsa_verify message_hash r s pk =
     (if r = 0 \<or> P256_n \<le> r \<or> s = 0 \<or> P256_n \<le> s then Inr False
      else if \<not> ecAff_isValidPubkey (fst pk) (snd pk) then Inr False
      else
        let sInv = nModInv s;
            scalar_u = mulmod message_hash sInv P256_n;
            scalar_v = mulmod r sInv P256_n
        in bindR (ecZZ_mulmuladd (fst pk) (snd pk) scalar_u scalar_v) (\<lambda>r_x.
           Inr (r_x mod P256_n = r)))"

definition P256Verifier_fallback :: "bytes \<Rightarrow> bytes res" where
  "P256Verifier_fallback input =
     (if length input \<noteq> 160 then Inr (abi_word 0)
      else
        let hash = load_word input 0;
            r = load_word input 32;
            s = load_word input 64;
            x = load_word input 96;
            y = load_word input 128
        in bindR (ecdsa_verify hash r s (x, y)) (\<lambda>ok. Inr (abi_word (if ok then 1 else 0))))"

section \<open>The exponentiation\<close>

lemma powmod_eq: "powmod u e f = u ^ e mod f"
proof (induction u e f rule: powmod.induct)
  case (1 u e f)
  show ?case
  proof (cases "e = 0")
    case False
    have half: "powmod (u * u mod f) (e div 2) f = (u * u) ^ (e div 2) mod f"
      using "1.IH" False by (simp add: power_mod)
    have "(u * u) ^ (e div 2) = u ^ (2 * (e div 2))" by (simp add: power_mult power2_eq_square)
    moreover have "u ^ e = u ^ (2 * (e div 2)) * u ^ (e mod 2)" by (simp flip: power_add)
    ultimately have split: "u ^ e mod f = ((u * u) ^ (e div 2) mod f) * (u ^ (e mod 2)) mod f"
      by (simp only: mod_mult_left_eq)
    show ?thesis
    proof (cases "even e")
      case True
      then show ?thesis using False half split by (subst powmod.simps) simp
    next
      case odd: False
      then have "powmod u e f = u * powmod (u * u mod f) (e div 2) f mod f"
        using False by (subst powmod.simps) (simp add: Let_def)
      also have "\<dots> = u * ((u * u) ^ (e div 2) mod f) mod f" by (simp only: half)
      also have "\<dots> = u ^ e mod f"
        using odd by (simp only: split odd_iff_mod_2_eq_one power_one_right mult.commute)
      finally show ?thesis .
    qed
  qed (simp add: powmod.simps)
qed

lemma unat_modInv: "f \<noteq> 0 \<Longrightarrow> unat (modInv u f e) = unat u ^ unat e mod unat f"
proof -
  assume "f \<noteq> 0"
  then have "unat u ^ unat e mod unat f < unat f" by (simp add: unat_gt_0)
  then have "unat u ^ unat e mod unat f < 2 ^ LENGTH(256)" using unsigned_less [of f, where 'a = nat] by (rule less_trans)
  then show ?thesis
    using \<open>f \<noteq> 0\<close> unfolding modInv_def modexp_def powmod_eq
    by (simp only: unat_of_nat_less if_False)
qed

section \<open>Field arithmetic\<close>

text \<open>\<open>rep w k\<close>: the word \<open>w\<close> represents the integer \<open>k\<close> modulo the field prime.\<close>

definition rep :: "uint256 \<Rightarrow> int \<Rightarrow> bool" where
  "rep w k \<longleftrightarrow> uint P256_p dvd (uint w - k)"

named_theorems rep_intros \<open>what a word computed modulo the field prime represents\<close>

lemma P256_p_pos: "0 < P256_p" by (simp add: P256_p_def)

lemma P256_p_gt_1: "1 < P256_p" by (simp add: P256_p_def)

lemma rep_iff: "rep w k \<longleftrightarrow> uint w mod uint P256_p = k mod uint P256_p"
  by (simp add: rep_def mod_eq_dvd_iff)

lemma rep_uint [rep_intros]: "rep w (uint w)"
  by (simp add: rep_def)

lemma rep_mulmod [rep_intros]: "rep w k \<Longrightarrow> rep w' k' \<Longrightarrow> rep (mulmod w w' P256_p) (k * k')"
  unfolding rep_iff uint_mulmod [OF P256_p_pos] mod_mod_trivial by (rule mod_mult_cong)

lemma rep_addmod [rep_intros]: "rep w k \<Longrightarrow> rep w' k' \<Longrightarrow> rep (addmod w w' P256_p) (k + k')"
  unfolding rep_iff uint_addmod [OF P256_p_pos] mod_mod_trivial by (rule mod_add_cong)

lemma checked_sub_p: "w \<le> P256_p \<Longrightarrow> checked_sub P256_p w = Inr (P256_p - w)"
  by (simp add: checked_sub_def)

lemma rep_sub [rep_intros]: "w \<le> P256_p \<Longrightarrow> rep w k \<Longrightarrow> rep (P256_p - w) (- k)"
proof -
  assume le: "w \<le> P256_p" and "rep w k"
  then obtain c where c: "uint w - k = uint P256_p * c" by (auto simp: rep_def)
  have "uint (P256_p - w) = uint P256_p - uint w"
    using le by (simp add: uint_minus_simple_alt word_le_def)
  then have "uint (P256_p - w) - (- k) = uint P256_p * (1 - c)"
    using c by (simp add: algebra_simps)
  then show ?thesis unfolding rep_def by (metis dvd_triv_left)
qed

lemma rep_minus_2 [rep_intros]: "rep minus_2modp (- 2)"
  by (simp add: rep_def minus_2modp_def P256_p_def)

lemma rep_small [rep_intros]: "rep 2 2" "rep 3 3" "rep 1 1" "rep 0 0"
  by (simp_all add: rep_def)

lemmas mod_p_less = mulmod_less [OF P256_p_pos] addmod_less [OF P256_p_pos]

lemma mod_p_le: "mulmod u v P256_p \<le> P256_p" "addmod u v P256_p \<le> P256_p"
  using mod_p_less by (simp_all add: less_imp_le)

lemma rep_zero_iff: "w < P256_p \<Longrightarrow> rep w 0 \<longleftrightarrow> w = 0"
  by (auto simp: rep_iff word_less_def uint_0_iff)

lemma rep_dvd_iff: "rep w k \<Longrightarrow> w < P256_p \<Longrightarrow> w = 0 \<longleftrightarrow> uint P256_p dvd k"
  using rep_zero_iff [of w] by (auto simp: rep_iff dvd_eq_mod_eq_0)

section \<open>The curve\<close>

definition curve_poly :: "int \<Rightarrow> int \<Rightarrow> int \<Rightarrow> int" where
  "curve_poly X Y ZZ = Y ^ 2 - X ^ 3 - uint P256_a * X * ZZ ^ 2 - uint P256_b * ZZ ^ 3"

text \<open>
  The invariant of a point in ZZ representation: reduced coordinates, \<open>ZZ\<^sup>3 = ZZZ\<^sup>2\<close>, and the curve
  equation in projective form.
\<close>

definition zz_reduced :: "zz_point \<Rightarrow> bool" where
  "zz_reduced P \<longleftrightarrow> (case P of (X, Y, ZZ, ZZZ) \<Rightarrow> X < P256_p \<and> Y < P256_p \<and> ZZ < P256_p \<and> ZZZ < P256_p)"

definition zz_on_curve :: "zz_point \<Rightarrow> bool" where
  "zz_on_curve P \<longleftrightarrow> (case P of (X, Y, ZZ, ZZZ) \<Rightarrow>
     uint P256_p dvd (uint ZZ ^ 3 - uint ZZZ ^ 2) \<and> uint P256_p dvd curve_poly (uint X) (uint Y) (uint ZZ))"

definition zz_ok :: "zz_point \<Rightarrow> bool" where
  "zz_ok P \<longleftrightarrow> zz_reduced P \<and> zz_on_curve P"

lemma on_curve_rep:
  assumes "rep X X'" "rep Y Y'" "rep ZZ ZZ'" "rep ZZZ ZZZ'"
    and "uint P256_p dvd (ZZ' ^ 3 - ZZZ' ^ 2)" "uint P256_p dvd curve_poly X' Y' ZZ'"
  shows "zz_on_curve (X, Y, ZZ, ZZZ)"
proof -
  define p where "p = uint P256_p"
  have eq: "uint X mod p = X' mod p" "uint Y mod p = Y' mod p" "uint ZZ mod p = ZZ' mod p"
      "uint ZZZ mod p = ZZZ' mod p"
    using assms(1-4) by (simp_all add: rep_iff p_def)
  have pow: "x mod p = y mod p \<Longrightarrow> x ^ k mod p = y ^ k mod p" for x y :: int and k by (metis power_mod)
  have "(uint ZZ ^ 3 - uint ZZZ ^ 2) mod p = (ZZ' ^ 3 - ZZZ' ^ 2) mod p"
    by (intro mod_diff_cong pow eq)
  moreover have "curve_poly (uint X) (uint Y) (uint ZZ) mod p = curve_poly X' Y' ZZ' mod p"
    unfolding curve_poly_def by (intro mod_diff_cong mod_mult_cong pow eq refl)
  ultimately show ?thesis
    using assms(5,6) by (simp add: zz_on_curve_def dvd_eq_mod_eq_0 p_def)
qed

lemma double_poly:
  fixes X Y A B :: int
  assumes "M = 3 * X ^ 2 + A" "X3 = M ^ 2 - 8 * X * Y ^ 2" "Y3 = M * (4 * X * Y ^ 2 - X3) - 8 * Y ^ 4"
  shows "Y3 ^ 2 - X3 ^ 3 - A * X3 * (4 * Y ^ 2) ^ 2 - B * (4 * Y ^ 2) ^ 3 =
    (4 * Y ^ 2) ^ 3 * (Y ^ 2 - X ^ 3 - A * X - B)"
  unfolding assms by (simp add: power_numeral_reduce algebra_simps)

lemma add_poly:
  fixes X1 Y1 P R A B :: int
  assumes "X3 = R ^ 2 - P ^ 3 - 2 * X1 * P ^ 2" "Y3 = R * (X1 * P ^ 2 - X3) - Y1 * P ^ 3"
    "c = P ^ 3 * (X3 - P ^ 2 * X1)"
  shows "Y3 ^ 2 - X3 ^ 3 - A * P ^ 4 * X3 - B * P ^ 6 =
    (P ^ 6 - c) * (Y1 ^ 2 - X1 ^ 3 - A * X1 - B) + c * ((Y1 + R) ^ 2 - (X1 + P) ^ 3 - A * (X1 + P) - B)"
  unfolding assms by algebra

lemma double_curve:
  fixes X Y ZZ ZZZ :: int
  assumes M: "M = 3 * (X * X) + uint P256_a * (ZZ * ZZ)"
    and X3: "X3 = M * M + - 2 * (X * (2 * Y * (2 * Y)))"
    and Y3: "Y3 = M * (X * (2 * Y * (2 * Y)) + - X3) + - (2 * Y * (2 * Y * (2 * Y))) * Y"
    and Z: "p dvd (ZZ ^ 3 - ZZZ ^ 2)" and C: "p dvd curve_poly X Y ZZ"
  shows "p dvd curve_poly X3 Y3 (2 * Y * (2 * Y) * ZZ)"
    and "p dvd ((2 * Y * (2 * Y) * ZZ) ^ 3 - (2 * Y * (2 * Y * (2 * Y)) * ZZZ) ^ 2)"
proof -
  let ?A = "uint P256_a * ZZ ^ 2" and ?B = "uint P256_b * ZZ ^ 3"
  have M': "M = 3 * X ^ 2 + ?A" and X3': "X3 = M ^ 2 - 8 * X * Y ^ 2"
    and Y3': "Y3 = M * (4 * X * Y ^ 2 - X3) - 8 * Y ^ 4"
    unfolding M X3 Y3 by algebra+
  have "curve_poly X3 Y3 (2 * Y * (2 * Y) * ZZ) =
      Y3 ^ 2 - X3 ^ 3 - ?A * X3 * (4 * Y ^ 2) ^ 2 - ?B * (4 * Y ^ 2) ^ 3"
    unfolding curve_poly_def by algebra
  also have "\<dots> = (4 * Y ^ 2) ^ 3 * (Y ^ 2 - X ^ 3 - ?A * X - ?B)"
    by (rule double_poly [OF M' X3' Y3'])
  also have "\<dots> = (4 * Y ^ 2) ^ 3 * curve_poly X Y ZZ" by (simp add: curve_poly_def mult_ac)
  finally show "p dvd curve_poly X3 Y3 (2 * Y * (2 * Y) * ZZ)" using C by simp
  have "(2 * Y * (2 * Y) * ZZ) ^ 3 - (2 * Y * (2 * Y * (2 * Y)) * ZZZ) ^ 2 = 64 * Y ^ 6 * (ZZ ^ 3 - ZZZ ^ 2)"
    by algebra
  then show "p dvd ((2 * Y * (2 * Y) * ZZ) ^ 3 - (2 * Y * (2 * Y * (2 * Y)) * ZZZ) ^ 2)"
    using Z by simp
qed

lemma add_curve:
  fixes X1 Y1 ZZ ZZZ X2 Y2 :: int
  assumes R: "R = Y2 * ZZZ + - Y1" and P: "P = X2 * ZZ + - X1"
    and X3: "X3 = R * R + - (P * P * P) + - 2 * (X1 * (P * P))"
    and Y3: "Y3 = (X1 * (P * P) + - X3) * R + - Y1 * (P * P * P)"
    and Z: "p dvd (ZZ ^ 3 - ZZZ ^ 2)" and C1: "p dvd curve_poly X1 Y1 ZZ" and C2: "p dvd curve_poly X2 Y2 1"
  shows "p dvd curve_poly X3 Y3 (ZZ * (P * P))"
    and "p dvd ((ZZ * (P * P)) ^ 3 - (ZZZ * (P * P * P)) ^ 2)"
proof -
  let ?A = "uint P256_a * ZZ ^ 2" and ?B = "uint P256_b * ZZ ^ 3"
  define c where "c = P ^ 3 * (X3 - P ^ 2 * X1)"
  have X3': "X3 = R ^ 2 - P ^ 3 - 2 * X1 * P ^ 2" and Y3': "Y3 = R * (X1 * P ^ 2 - X3) - Y1 * P ^ 3"
    unfolding X3 Y3 by algebra+
  have "curve_poly X3 Y3 (ZZ * (P * P)) = Y3 ^ 2 - X3 ^ 3 - ?A * P ^ 4 * X3 - ?B * P ^ 6"
    unfolding curve_poly_def by algebra
  also have "\<dots> = (P ^ 6 - c) * (Y1 ^ 2 - X1 ^ 3 - ?A * X1 - ?B) +
      c * ((Y1 + R) ^ 2 - (X1 + P) ^ 3 - ?A * (X1 + P) - ?B)"
    by (rule add_poly [OF X3' Y3' c_def])
  also have "Y1 ^ 2 - X1 ^ 3 - ?A * X1 - ?B = curve_poly X1 Y1 ZZ" by (simp add: curve_poly_def mult_ac)
  also have "(Y1 + R) ^ 2 - (X1 + P) ^ 3 - ?A * (X1 + P) - ?B =
      ZZ ^ 3 * (Y2 ^ 2 - X2 ^ 3 - uint P256_a * X2 - uint P256_b) - Y2 ^ 2 * (ZZ ^ 3 - ZZZ ^ 2)"
    unfolding R P by algebra
  also have "Y2 ^ 2 - X2 ^ 3 - uint P256_a * X2 - uint P256_b = curve_poly X2 Y2 1"
    by (simp add: curve_poly_def)
  finally show "p dvd curve_poly X3 Y3 (ZZ * (P * P))"
    using Z C1 C2 by (simp only: dvd_add dvd_mult dvd_diff)
  have "(ZZ * (P * P)) ^ 3 - (ZZZ * (P * P * P)) ^ 2 = P ^ 6 * (ZZ ^ 3 - ZZZ ^ 2)" by algebra
  then show "p dvd ((ZZ * (P * P)) ^ 3 - (ZZZ * (P * P * P)) ^ 2)" using Z by simp
qed

section \<open>The point operations keep the curve\<close>

lemma ok_inf [simp]: "zz_ok ecZZ_PointAtInf"
  using P256_p_pos
  by (simp add: zz_ok_def zz_reduced_def zz_on_curve_def curve_poly_def ecZZ_PointAtInf_def)

definition aff_ok :: "aff_point \<Rightarrow> bool" where
  "aff_ok T \<longleftrightarrow> T = (0, 0) \<or> ecAff_isValidPubkey (fst T) (snd T)"

lemma satisfies_iff:
  "ecAff_satisfiesCurveEqn x y \<longleftrightarrow> uint P256_p dvd curve_poly (uint x) (uint y) 1"
proof -
  let ?R = "addmod (addmod (mulmod (mulmod x x P256_p) x P256_p) (mulmod P256_a x P256_p) P256_p) P256_b P256_p"
  have l: "rep (mulmod y y P256_p) (uint y * uint y)" by (intro rep_intros)
  have r: "rep ?R (uint x * uint x * uint x + uint P256_a * uint x + uint P256_b)" by (intro rep_intros)
  have "mulmod y y P256_p = ?R \<longleftrightarrow> uint (mulmod y y P256_p) mod uint P256_p = uint ?R mod uint P256_p"
    using mod_p_less by (simp add: word_less_def word_uint_eq_iff)
  also have "\<dots> \<longleftrightarrow> uint P256_p dvd (uint y * uint y - (uint x * uint x * uint x + uint P256_a * uint x + uint P256_b))"
    by (simp only: l [unfolded rep_iff] r [unfolded rep_iff] mod_eq_dvd_iff)
  finally show ?thesis
    by (simp add: ecAff_satisfiesCurveEqn_def curve_poly_def power2_eq_square power3_eq_cube algebra_simps)
qed

lemma generator_equation:
  "0x4FE342E2FE1A7F9B8EE7EB4A7C0F9E162BCE33576B315ECECBB6406837BF51F5 * 0x4FE342E2FE1A7F9B8EE7EB4A7C0F9E162BCE33576B315ECECBB6406837BF51F5 + 0xFFFFFFFF00000001000000000000000000000000FFFFFFFFFFFFFFFFFFFFFFFF * 0x12BDD1AD23DFC833DCCF5F6141D6BB4A1F365DC1430B0E600B52DD851938D2D6FE48D89A1028327DF66C2A7B9EDC3E46CDEC89E6AF942F1B022B7FE93B37C6EE =
   (0x6B17D1F2E12C4247F8BCE6E563A440F277037D812DEB33A0F4A13945D898C296 :: int) * 0x6B17D1F2E12C4247F8BCE6E563A440F277037D812DEB33A0F4A13945D898C296 * 0x6B17D1F2E12C4247F8BCE6E563A440F277037D812DEB33A0F4A13945D898C296 + 0xFFFFFFFF00000001000000000000000000000000FFFFFFFFFFFFFFFFFFFFFFFC * 0x6B17D1F2E12C4247F8BCE6E563A440F277037D812DEB33A0F4A13945D898C296 + 0x5AC635D8AA3A93E7B3EBBD55769886BC651D06B0CC53B0F63BCE3C3E27D2604B"
  by code_simp

lemma uint_params:
  "uint GX = 0x6B17D1F2E12C4247F8BCE6E563A440F277037D812DEB33A0F4A13945D898C296"
  "uint GY = 0x4FE342E2FE1A7F9B8EE7EB4A7C0F9E162BCE33576B315ECECBB6406837BF51F5"
  "uint P256_p = 0xFFFFFFFF00000001000000000000000000000000FFFFFFFFFFFFFFFFFFFFFFFF"
  "uint P256_a = 0xFFFFFFFF00000001000000000000000000000000FFFFFFFFFFFFFFFFFFFFFFFC"
  "uint P256_b = 0x5AC635D8AA3A93E7B3EBBD55769886BC651D06B0CC53B0F63BCE3C3E27D2604B"
  by (simp_all add: GX_def GY_def P256_p_def P256_a_def P256_b_def)

lemma generator_on_curve: "ecAff_isValidPubkey GX GY"
proof -
  have "uint P256_p dvd curve_poly (uint GX) (uint GY) 1"
  proof (rule dvdI)
    have e: "g * g + p * k = x * x * x + a * x + b \<Longrightarrow> g ^ 2 - x ^ 3 - a * x * 1 ^ 2 - b * 1 ^ 3 = p * - k"
      for g p k x a b :: int by (simp add: power2_eq_square power3_eq_cube)
    show "curve_poly (uint GX) (uint GY) 1 = uint P256_p * - 0x12BDD1AD23DFC833DCCF5F6141D6BB4A1F365DC1430B0E600B52DD851938D2D6FE48D89A1028327DF66C2A7B9EDC3E46CDEC89E6AF942F1B022B7FE93B37C6EE"
      unfolding curve_poly_def by (rule e) (simp only: uint_params generator_equation)
  qed
  then show ?thesis by (simp add: ecAff_isValidPubkey_def satisfies_iff) (simp add: GX_def GY_def P256_p_def)
qed
lemma aff_ok_cases:
  assumes "aff_ok (x, y)" "\<not> ecAff_IsInf x y"
  shows "x < P256_p" "y < P256_p" "uint P256_p dvd curve_poly (uint x) (uint y) 1"
  using assms by (auto simp: aff_ok_def ecAff_isValidPubkey_def ecAff_IsInf_def satisfies_iff split: if_splits)

lemma ok_affine: "aff_ok (x, y) \<Longrightarrow> \<not> ecAff_IsInf x y \<Longrightarrow> zz_ok (x, y, 1, 1)"
  using aff_ok_cases [of x y] P256_p_gt_1 by (simp add: zz_ok_def zz_reduced_def zz_on_curve_def)

lemma double_zz_rep:
  fixes x1 y1 zz1 zzz1 :: uint256
  assumes "\<not> ecZZ_IsInf zz1 zzz1"
  defines "X \<equiv> uint x1" and "Y \<equiv> uint y1" and "Z \<equiv> uint zz1"
  defines "M' \<equiv> 3 * (X * X) + uint P256_a * (Z * Z)" and "S' \<equiv> X * (2 * Y * (2 * Y))"
  shows "\<exists>x3 y3 zz3 zzz3. ecZZ_double_zz (x1, y1, zz1, zzz1) = Inr (x3, y3, zz3, zzz3) \<and>
    zz_reduced (x3, y3, zz3, zzz3) \<and> rep x3 (M' * M' + - 2 * S') \<and>
    rep y3 (M' * (S' + - (M' * M' + - 2 * S')) + - (2 * Y * (2 * Y * (2 * Y))) * Y) \<and>
    rep zz3 (2 * Y * (2 * Y) * Z) \<and> rep zzz3 (2 * Y * (2 * Y * (2 * Y)) * uint zzz1)"
proof -
  define U where "U = mulmod 2 y1 P256_p"
  define V where "V = mulmod U U P256_p"
  define W where "W = mulmod U V P256_p"
  define S where "S = mulmod x1 V P256_p"
  define M where "M = addmod (mulmod 3 (mulmod x1 x1 P256_p) P256_p)
    (mulmod P256_a (mulmod zz1 zz1 P256_p) P256_p) P256_p"
  define x3 where "x3 = addmod (mulmod M M P256_p) (mulmod minus_2modp S P256_p) P256_p"
  define y3 where "y3 = addmod (mulmod M (addmod S (P256_p - x3) P256_p) P256_p)
    (mulmod (P256_p - W) y1 P256_p) P256_p"
  note defs = U_def V_def W_def S_def M_def x3_def y3_def
  have lt: "x3 < P256_p" "y3 < P256_p" "x3 \<le> P256_p" "W \<le> P256_p"
    using mod_p_less mod_p_le by (simp_all add: defs)
  have res: "ecZZ_double_zz (x1, y1, zz1, zzz1) = Inr (x3, y3, mulmod V zz1 P256_p, mulmod W zzz1 P256_p)"
    using assms(1) lt
    by (simp add: ecZZ_double_zz_def Let_def checked_sub_p flip: U_def V_def W_def S_def M_def x3_def)
      (simp add: y3_def)
  have V: "rep V (2 * Y * (2 * Y))" and W: "rep W (2 * Y * (2 * Y * (2 * Y)))"
    unfolding W_def V_def U_def Y_def by (intro rep_intros)+
  have S: "rep S S'" unfolding S_def S'_def X_def by (intro rep_intros V)
  have M: "rep M M'" unfolding M_def M'_def X_def Z_def by (intro rep_intros)
  note x3 = rep_addmod [OF rep_mulmod [OF M M] rep_mulmod [OF rep_minus_2 S], folded x3_def]
  note y3 = rep_addmod [OF rep_mulmod [OF M rep_addmod [OF S rep_sub [OF lt(3) x3]]]
      rep_mulmod [OF rep_sub [OF lt(4) W] rep_uint [of y1]], folded y3_def]
  have "rep (mulmod V zz1 P256_p) (2 * Y * (2 * Y) * Z)"
    "rep (mulmod W zzz1 P256_p) (2 * Y * (2 * Y * (2 * Y)) * uint zzz1)"
    unfolding Z_def by (intro rep_mulmod V W rep_uint)+
  then show ?thesis using res lt mod_p_less x3 y3 by (auto simp: zz_reduced_def Y_def)
qed

lemma double_zz_ok:
  assumes "zz_ok P"
  shows "\<exists>P'. ecZZ_double_zz P = Inr P' \<and> zz_ok P'"
proof -
  obtain x1 y1 zz1 zzz1 where P: "P = (x1, y1, zz1, zzz1)" by (metis surj_pair)
  have curve: "uint P256_p dvd (uint zz1 ^ 3 - uint zzz1 ^ 2)"
      "uint P256_p dvd curve_poly (uint x1) (uint y1) (uint zz1)"
    using assms by (simp_all add: P zz_ok_def zz_on_curve_def)
  show ?thesis
  proof (cases "ecZZ_IsInf zz1 zzz1")
    case False
    from double_zz_rep [OF this, of x1 y1]
    show ?thesis
      unfolding P zz_ok_def using on_curve_rep double_curve [OF refl refl refl curve] by (metis (no_types, lifting))
  qed (simp add: P ecZZ_double_zz_def)
qed

text \<open>The doubling of an affine point is the doubling of the point with \<open>ZZ = ZZZ = 1\<close>.\<close>

lemma mulmod_1: "w < P256_p \<Longrightarrow> mulmod w 1 P256_p = w"
  by (simp add: word_uint_eq_iff uint_mulmod [OF P256_p_pos] word_less_def)

lemma double_affine_eq:
  "\<not> ecAff_IsInf x y \<Longrightarrow> ecZZ_double_affine x y = ecZZ_double_zz (x, y, 1, 1)"
proof -
  assume "\<not> ecAff_IsInf x y"
  moreover have "mulmod 1 1 P256_p = 1" using mulmod_1 [of 1] P256_p_gt_1 by simp
  moreover have "mulmod P256_a 1 P256_p = P256_a" by (rule mulmod_1) (simp add: P256_a_def P256_p_def)
  ultimately show ?thesis
    using mod_p_less
    by (simp add: ecZZ_double_affine_def ecZZ_double_zz_def ecZZ_IsInf_def Let_def mulmod_1)
qed

lemma dadd_affine_rep:
  fixes x1 y1 zz1 zzz1 x2 y2 :: uint256
  assumes "x1 \<le> P256_p" "y1 \<le> P256_p" "\<not> ecAff_IsInf x2 y2" "\<not> ecZZ_IsInf zz1 zzz1"
  defines "R' \<equiv> uint y2 * uint zzz1 + - uint y1" and "C' \<equiv> uint x2 * uint zz1 + - uint x1"
  defines "X' \<equiv> R' * R' + - (C' * C' * C') + - 2 * (uint x1 * (C' * C'))"
  shows "\<exists>x3 y3 zz3 zzz3. ecZZ_dadd_affine (x1, y1, zz1, zzz1) x2 y2 =
      (if \<not> uint P256_p dvd C' then Inr (x3, y3, zz3, zzz3)
       else if uint P256_p dvd R' then ecZZ_double_affine x2 y2 else Inr ecZZ_PointAtInf) \<and>
    zz_reduced (x3, y3, zz3, zzz3) \<and> rep x3 X' \<and>
    rep y3 ((uint x1 * (C' * C') + - X') * R' + - uint y1 * (C' * C' * C')) \<and>
    rep zz3 (uint zz1 * (C' * C')) \<and> rep zzz3 (uint zzz1 * (C' * C' * C'))"
proof -
  define R where "R = addmod (mulmod y2 zzz1 P256_p) (P256_p - y1) P256_p"
  define C where "C = addmod (mulmod x2 zz1 P256_p) (P256_p - x1) P256_p"
  define PP where "PP = mulmod C C P256_p"
  define PPP where "PPP = mulmod PP C P256_p"
  define Q where "Q = mulmod x1 PP P256_p"
  define x3 where "x3 = addmod (addmod (mulmod R R P256_p) (P256_p - PPP) P256_p) (mulmod minus_2modp Q P256_p) P256_p"
  define y3 where "y3 = addmod (mulmod (addmod Q (P256_p - x3) P256_p) R P256_p) (mulmod (P256_p - y1) PPP P256_p) P256_p"
  have lt: "x3 < P256_p" "y3 < P256_p" "x3 \<le> P256_p" "PPP \<le> P256_p" "C < P256_p" "R < P256_p"
    using mod_p_less mod_p_le by (simp_all add: x3_def y3_def PPP_def C_def R_def)
  have res: "ecZZ_dadd_affine (x1, y1, zz1, zzz1) x2 y2 =
      (if C \<noteq> 0 then Inr (x3, y3, mulmod zz1 PP P256_p, mulmod zzz1 PPP P256_p)
       else if R = 0 then ecZZ_double_affine x2 y2 else Inr ecZZ_PointAtInf)"
    using assms(1-4) lt
    by (simp add: ecZZ_dadd_affine_def Let_def checked_sub_p flip: R_def C_def PP_def PPP_def Q_def x3_def y3_def)
  have C: "rep C C'" and R: "rep R R'"
    unfolding C_def R_def C'_def R'_def by (intro rep_intros assms(1,2))+
  note PP = rep_mulmod [OF C C, folded PP_def]
  note PPP = rep_mulmod [OF PP C, folded PPP_def]
  note Q = rep_mulmod [OF rep_uint [of x1] PP, folded Q_def]
  note x3 = rep_addmod [OF rep_addmod [OF rep_mulmod [OF R R] rep_sub [OF lt(4) PPP]]
      rep_mulmod [OF rep_minus_2 Q], folded x3_def]
  note y3 = rep_addmod [OF rep_mulmod [OF rep_addmod [OF Q rep_sub [OF lt(3) x3]] R]
      rep_mulmod [OF rep_sub [OF assms(2) rep_uint] PPP], folded y3_def]
  have "zz_reduced (x3, y3, mulmod zz1 PP P256_p, mulmod zzz1 PPP P256_p)"
    using lt mod_p_less by (simp add: zz_reduced_def)
  then show ?thesis
    using res rep_dvd_iff [OF C lt(5)] rep_dvd_iff [OF R lt(6)] x3 y3 rep_mulmod [OF rep_uint PP, of zz1]
      rep_mulmod [OF rep_uint PPP, of zzz1]
    unfolding X'_def by (intro exI [where x = x3] exI [where x = y3] exI conjI) simp_all
qed

lemma dadd_affine_ok:
  assumes "zz_ok P" "aff_ok (x2, y2)"
  shows "\<exists>P'. ecZZ_dadd_affine P x2 y2 = Inr P' \<and> zz_ok P'"
proof -
  obtain x1 y1 zz1 zzz1 where P: "P = (x1, y1, zz1, zzz1)" by (metis surj_pair)
  consider "ecAff_IsInf x2 y2" | "\<not> ecAff_IsInf x2 y2" "ecZZ_IsInf zz1 zzz1"
    | "\<not> ecAff_IsInf x2 y2" "\<not> ecZZ_IsInf zz1 zzz1" by blast
  then show ?thesis
  proof cases
    case 3
    have red: "x1 \<le> P256_p" "y1 \<le> P256_p"
      using assms(1) by (simp_all add: P zz_ok_def zz_reduced_def less_imp_le)
    have curve: "uint P256_p dvd (uint zz1 ^ 3 - uint zzz1 ^ 2)" "uint P256_p dvd curve_poly (uint x1) (uint y1) (uint zz1)"
      using assms(1) by (simp_all add: P zz_ok_def zz_on_curve_def)
    note curve3 = add_curve [OF refl refl refl refl curve aff_ok_cases(3) [OF assms(2) 3(1)]]
    obtain x3 y3 zz3 zzz3 where res: "ecZZ_dadd_affine P x2 y2 = Inr (x3, y3, zz3, zzz3) \<or>
        ecZZ_dadd_affine P x2 y2 = ecZZ_double_affine x2 y2 \<or> ecZZ_dadd_affine P x2 y2 = Inr ecZZ_PointAtInf"
        "zz_ok (x3, y3, zz3, zzz3)"
      using dadd_affine_rep [OF red 3] on_curve_rep curve3 unfolding P zz_ok_def by (metis (no_types, lifting))
    then show ?thesis
      using double_affine_eq [OF 3(1)] double_zz_ok [OF ok_affine [OF assms(2) 3(1)]]
      by (auto simp del: split_paired_Ex)
  qed (use assms ok_affine in \<open>auto simp: P ecZZ_dadd_affine_def simp del: split_paired_Ex\<close>)
qed

text \<open>No operation panics on reduced coordinates, on the curve or not.\<close>

definition aff_reduced :: "aff_point \<Rightarrow> bool" where
  "aff_reduced T \<longleftrightarrow> fst T < P256_p \<and> snd T < P256_p"

lemma double_zz_reduced: "\<exists>P'. ecZZ_double_zz P = Inr P' \<and> zz_reduced P'"
  using mod_p_less mod_p_le P256_p_pos
  by (cases P) (simp add: ecZZ_double_zz_def Let_def checked_sub_p zz_reduced_def ecZZ_PointAtInf_def)

lemma double_affine_reduced: "\<exists>P'. ecZZ_double_affine x y = Inr P' \<and> zz_reduced P'"
  using double_zz_reduced [of "(x, y, 1, 1)"] double_affine_eq [of x y] P256_p_pos
  by (cases "ecAff_IsInf x y") (auto simp: ecZZ_double_affine_def zz_reduced_def ecZZ_PointAtInf_def)

lemma dadd_affine_reduced:
  assumes "zz_reduced P" "aff_reduced (x2, y2)"
  shows "\<exists>P'. ecZZ_dadd_affine P x2 y2 = Inr P' \<and> zz_reduced P'"
proof -
  obtain x1 y1 zz1 zzz1 where P: "P = (x1, y1, zz1, zzz1)" by (metis surj_pair)
  then have "x1 \<le> P256_p" "y1 \<le> P256_p" using assms(1) by (simp_all add: zz_reduced_def less_imp_le)
  then show ?thesis
    using assms mod_p_less mod_p_le P256_p_pos P256_p_gt_1 double_affine_reduced [of x2 y2]
    by (simp add: P ecZZ_dadd_affine_def Let_def checked_sub_p zz_reduced_def aff_reduced_def ecZZ_PointAtInf_def)
qed

lemma SetAff_reduced: "aff_reduced (ecZZ_SetAff P)"
  using mod_p_less P256_p_pos
  by (cases P) (simp add: ecZZ_SetAff_def aff_reduced_def Let_def ecAffine_PointAtInf_def)

lemma ecAff_add_returns:
  assumes "aff_reduced (x1, y1)" "aff_reduced (x2, y2)"
  shows "\<exists>H. ecAff_add x1 y1 x2 y2 = Inr H \<and> aff_reduced H"
proof -
  have "zz_reduced (x1, y1, 1, 1)"
    using assms(1) P256_p_gt_1 by (simp add: zz_reduced_def aff_reduced_def)
  then obtain P where "ecZZ_dadd_affine (x1, y1, 1, 1) x2 y2 = Inr P"
    using dadd_affine_reduced assms(2) by blast
  then show ?thesis using assms SetAff_reduced [of P] by (auto simp: ecAff_add_def simp del: split_paired_Ex)
qed

section \<open>Straus-Shamir\<close>

lemma bitpair_cases:
  "compute_bitpair i u v =
    (if bit v i then (if bit u i then 3 else 2) else (if bit u i then 1 else 0))"
  by (simp add: compute_bitpair_def and_one_eq mod2_eq_if even_drop_bit_iff_not_bit)

lemma unat_div_pow:
  fixes w :: uint256
  shows "unat w div 2 ^ i = 2 * (unat w div 2 ^ Suc i) + (if bit w i then 1 else 0)"
proof -
  have "bit w i \<longleftrightarrow> odd (unat w div 2 ^ i)"
    by (simp add: bit_unsigned_iff flip: bit_iff_odd)
  moreover have "unat w div 2 ^ Suc i = unat w div 2 ^ i div 2" by (simp add: div_mult2_eq mult.commute [of 2])
  ultimately show ?thesis using mult_div_mod_eq [of 2 "unat w div 2 ^ i"] by (auto simp: mod2_eq_if)
qed

text \<open>
  What the two loops need from the point operations: \<open>ok i j P\<close> says that \<open>P\<close> stands for \<open>i\<close> times
  the generator plus \<open>j\<close> times the public key.
\<close>

locale double_and_add =
  fixes Q H :: aff_point
    and ok :: "nat \<Rightarrow> nat \<Rightarrow> zz_point \<Rightarrow> bool"
  assumes dbl: "ok i j P \<Longrightarrow> \<exists>P'. ecZZ_double_zz P = Inr P' \<and> ok (2 * i) (2 * j) P'"
    and add_G: "ok (2 * i) (2 * j) P \<Longrightarrow> \<exists>P'. ecZZ_dadd_affine P GX GY = Inr P' \<and> ok (2 * i + 1) (2 * j) P'"
    and add_Q: "ok (2 * i) (2 * j) P \<Longrightarrow>
      \<exists>P'. ecZZ_dadd_affine P (fst Q) (snd Q) = Inr P' \<and> ok (2 * i) (2 * j + 1) P'"
    and add_H: "ok (2 * i) (2 * j) P \<Longrightarrow>
      \<exists>P'. ecZZ_dadd_affine P (fst H) (snd H) = Inr P' \<and> ok (2 * i + 1) (2 * j + 1) P'"
begin

lemma loop_ok:
  "ok (unat u div 2 ^ k) (unat v div 2 ^ k) P \<Longrightarrow>
   \<exists>P'. mulmuladd_loop Q H k u v P = Inr P' \<and> ok (unat u) (unat v) P'"
proof (induction k arbitrary: P)
  case (Suc k)
  obtain D where D: "ecZZ_double_zz P = Inr D"
      "ok (2 * (unat u div 2 ^ Suc k)) (2 * (unat v div 2 ^ Suc k)) D"
    using dbl [OF Suc.prems] by blast
  let ?T = "if bit v k then (if bit u k then H else Q) else (GX, GY)"
  have "\<exists>P'. (if bit u k \<or> bit v k then ecZZ_dadd_affine D (fst ?T) (snd ?T) else Inr D) = Inr P' \<and>
      ok (unat u div 2 ^ k) (unat v div 2 ^ k) P'"
    using D(2) add_G [OF D(2)] add_Q [OF D(2)] add_H [OF D(2)]
    unfolding unat_div_pow [of u k] unat_div_pow [of v k]
    by (cases "bit u k"; cases "bit v k") (simp_all del: split_paired_Ex power_Suc)
  then obtain P' where P': "(if bit u k \<or> bit v k then ecZZ_dadd_affine D (fst ?T) (snd ?T) else Inr D) = Inr P'"
      "ok (unat u div 2 ^ k) (unat v div 2 ^ k) P'" by blast
  have "mulmuladd_loop Q H (Suc k) u v P = mulmuladd_loop Q H k u v P'"
    using D(1) P'(1) by (cases "bit u k"; cases "bit v k") (simp_all add: bitpair_cases split_beta)
  then show ?case using Suc.IH [OF P'(2)] by simp
qed simp

end

lemma mulmuladd_first_finds:
  "unat u < 2 ^ k \<Longrightarrow> unat v < 2 ^ k \<Longrightarrow> u \<noteq> 0 \<or> v \<noteq> 0 \<Longrightarrow> mulmuladd_first k u v b0 = (i, b) \<Longrightarrow>
   b = compute_bitpair i u v \<and> b \<noteq> 0 \<and>
   unat u div 2 ^ i = (if bit u i then 1 else 0) \<and> unat v div 2 ^ i = (if bit v i then 1 else 0)"
proof (induction k arbitrary: b0)
  case (Suc k)
  have top: "unat w div 2 ^ k = (if bit w k then 1 else 0)" if "unat w < 2 ^ Suc k" for w :: uint256
    using unat_div_pow [of w k] that by simp
  show ?case
  proof (cases "compute_bitpair k u v = 0")
    case True
    then have "\<not> bit u k" "\<not> bit v k" by (simp_all add: bitpair_cases split: if_splits)
    then have "unat u < 2 ^ k" "unat v < 2 ^ k"
      using top [OF Suc.prems(1)] top [OF Suc.prems(2)] by (simp_all add: div_eq_0_iff)
    then show ?thesis using Suc.IH Suc.prems(3,4) True by simp
  next
    case False
    then show ?thesis using Suc.prems(4) top [OF Suc.prems(1)] top [OF Suc.prems(2)] by auto
  qed
qed (simp add: unsigned_eq_0_iff)

text \<open>
  The points a sequence of the contract's doublings and additions computes, with the multiples of
  the generator and of the public key they stand for; \<open>H\<close> stands for the sum of the two.
\<close>

inductive represents :: "aff_point \<Rightarrow> aff_point \<Rightarrow> nat \<Rightarrow> nat \<Rightarrow> zz_point \<Rightarrow> bool" for Q H where
  gen: "represents Q H 1 0 (GX, GY, 1, 1)"
| key: "represents Q H 0 1 (fst Q, snd Q, 1, 1)"
| both: "represents Q H 1 1 (fst H, snd H, 1, 1)"
| twice: "represents Q H i j P \<Longrightarrow> ecZZ_double_zz P = Inr P' \<Longrightarrow> represents Q H (2 * i) (2 * j) P'"
| plus_gen: "represents Q H i j P \<Longrightarrow> ecZZ_dadd_affine P GX GY = Inr P' \<Longrightarrow> represents Q H (i + 1) j P'"
| plus_key: "represents Q H i j P \<Longrightarrow> ecZZ_dadd_affine P (fst Q) (snd Q) = Inr P' \<Longrightarrow>
    represents Q H i (j + 1) P'"
| plus_both: "represents Q H i j P \<Longrightarrow> ecZZ_dadd_affine P (fst H) (snd H) = Inr P' \<Longrightarrow>
    represents Q H (i + 1) (j + 1) P'"

definition tracked :: "aff_point \<Rightarrow> aff_point \<Rightarrow> nat \<Rightarrow> nat \<Rightarrow> zz_point \<Rightarrow> bool" where
  "tracked Q H i j P \<longleftrightarrow> represents Q H i j P \<and> zz_reduced P \<and> aff_reduced Q \<and> aff_reduced H"

text \<open>The same with the curve in place of the multiples.\<close>

definition tracked_on_curve :: "aff_point \<Rightarrow> aff_point \<Rightarrow> nat \<Rightarrow> nat \<Rightarrow> zz_point \<Rightarrow> bool" where
  "tracked_on_curve Q H i j P \<longleftrightarrow> zz_ok P \<and> aff_ok (GX, GY) \<and> aff_ok Q \<and> aff_ok H"

lemma G_reduced: "aff_reduced (GX, GY)"
  by (simp add: aff_reduced_def GX_def GY_def P256_p_def)

interpretation ladder: double_and_add Q H "tracked Q H" for Q H
proof unfold_locales
  have red: "aff_reduced (fst Q, snd Q)" "aff_reduced (fst H, snd H)" "zz_reduced P" if "tracked Q H i j P" for i j P
    using that by (simp_all add: tracked_def)
  show "\<exists>P'. ecZZ_double_zz P = Inr P' \<and> tracked Q H (2 * i) (2 * j) P'" if "tracked Q H i j P" for i j P
    using double_zz_reduced [of P] that represents.twice unfolding tracked_def by blast
  show "\<exists>P'. ecZZ_dadd_affine P GX GY = Inr P' \<and> tracked Q H (2 * i + 1) (2 * j) P'"
    if "tracked Q H (2 * i) (2 * j) P" for i j P
    using dadd_affine_reduced [OF red(3) [OF that] G_reduced] that represents.plus_gen unfolding tracked_def by blast
  show "\<exists>P'. ecZZ_dadd_affine P (fst Q) (snd Q) = Inr P' \<and> tracked Q H (2 * i) (2 * j + 1) P'"
    if "tracked Q H (2 * i) (2 * j) P" for i j P
    using dadd_affine_reduced [OF red(3) [OF that] red(1) [OF that]] that represents.plus_key unfolding tracked_def by blast
  show "\<exists>P'. ecZZ_dadd_affine P (fst H) (snd H) = Inr P' \<and> tracked Q H (2 * i + 1) (2 * j + 1) P'"
    if "tracked Q H (2 * i) (2 * j) P" for i j P
    using dadd_affine_reduced [OF red(3) [OF that] red(2) [OF that]] that represents.plus_both unfolding tracked_def by blast
qed

interpretation curve_ladder: double_and_add Q H "tracked_on_curve Q H" for Q H
  using double_zz_ok dadd_affine_ok unfolding tracked_on_curve_def by unfold_locales (metis prod.collapse)+

text \<open>The multiplication returns, and its result stands for \<open>u\<close> times the generator plus \<open>v\<close> times the key.\<close>

lemma mulmuladd_represents:
  assumes "u \<noteq> 0 \<or> v \<noteq> 0" "aff_reduced (QX, QY)"
  shows "\<exists>H X Y ZZ ZZZ. ecAff_add GX GY QX QY = Inr H \<and>
    represents (QX, QY) H (unat u) (unat v) (X, Y, ZZ, ZZZ) \<and>
    ecZZ_mulmuladd QX QY u v = Inr (mulmod X (pModInv ZZ) P256_p)"
proof -
  obtain HX HY where H: "ecAff_add GX GY QX QY = Inr (HX, HY)" "aff_reduced (HX, HY)"
    using ecAff_add_returns [OF G_reduced assms(2)] by auto
  obtain i b where first: "mulmuladd_first 256 u v 0 = (i, b)" by (metis surj_pair)
  note found = mulmuladd_first_finds [OF unat_lt_256 unat_lt_256 assms(1) first]
  let ?S = "if b = 1 then (GX, GY) else if b = 2 then (QX, QY) else if b = 3 then (HX, HY) else (0, 0)"
  obtain SX SY where S: "?S = (SX, SY)" by (metis surj_pair)
  have "tracked (QX, QY) (HX, HY) (unat u div 2 ^ i) (unat v div 2 ^ i) (SX, SY, 1, 1)"
    using found G_reduced assms(2) H(2) P256_p_gt_1 S
      represents.gen [of "(QX, QY)" "(HX, HY)"] represents.key [of "(QX, QY)" "(HX, HY)"]
      represents.both [of "(QX, QY)" "(HX, HY)"]
    by (cases "bit u i"; cases "bit v i")
      (simp_all add: bitpair_cases tracked_def zz_reduced_def aff_reduced_def)
  then obtain P where P: "mulmuladd_loop (QX, QY) (HX, HY) i u v (SX, SY, 1, 1) = Inr P"
      "tracked (QX, QY) (HX, HY) (unat u) (unat v) P"
    using ladder.loop_ok by blast
  obtain X Y ZZ ZZZ where X: "P = (X, Y, ZZ, ZZZ)" by (metis surj_pair)
  have "ecZZ_mulmuladd QX QY u v = Inr (mulmod X (pModInv ZZ) P256_p)"
    using assms(1) P(1) by (auto simp: ecZZ_mulmuladd_def H(1) first Let_def S X split del: if_split)
  then show ?thesis using H(1) P(2) X by (auto simp: tracked_def)
qed

section \<open>Verification\<close>

lemma valid_reduced: "ecAff_isValidPubkey x y \<Longrightarrow> aff_reduced (x, y)"
  by (auto simp: ecAff_isValidPubkey_def aff_reduced_def split: if_splits)

lemma mulmuladd_returns:
  assumes "aff_reduced (QX, QY)"
  shows "\<exists>X. ecZZ_mulmuladd QX QY u v = Inr X"
  using mulmuladd_represents [OF _ assms, of u v] by (cases "u = 0 \<and> v = 0") (auto simp: ecZZ_mulmuladd_def)

lemma ecdsa_verify_returns: "\<exists>ok. ecdsa_verify h r s pk = Inr ok"
  using mulmuladd_returns [OF valid_reduced]
  by (auto simp: ecdsa_verify_def Let_def bindR_eq_Inr)

lemma ecdsa_verify_accepts:
  assumes "ecdsa_verify h r s pk = Inr True"
  shows "0 < r" "r < P256_n" "0 < s" "s < P256_n" "ecAff_isValidPubkey (fst pk) (snd pk)"
  using assms by (auto simp: ecdsa_verify_def word_gt_0 split: if_splits)

lemma fallback_returns:
  "\<exists>ok. P256Verifier_fallback input = Inr (abi_word (if ok then 1 else 0)) \<and> (length input \<noteq> 160 \<longrightarrow> \<not> ok)"
proof (cases "length input = 160")
  case True
  obtain ok where "ecdsa_verify (load_word input 0) (load_word input 32) (load_word input 64)
      (load_word input 96, load_word input 128) = Inr ok"
    using ecdsa_verify_returns by blast
  then have "P256Verifier_fallback input = Inr (abi_word (if ok then 1 else 0))"
    by (simp add: P256Verifier_fallback_def True)
  then show ?thesis using True by blast
next
  case False
  then have "P256Verifier_fallback input = Inr (abi_word (if False then 1 else 0))"
    by (simp add: P256Verifier_fallback_def)
  then show ?thesis by blast
qed

lemma load_word_abi [simp]: "load_word (abi_word w @ bs) 0 = w"
  by (simp add: load_word_def)

lemma fallback_input:
  "P256Verifier_fallback (P256V_input h r s pk) =
   bindR (ecdsa_verify h r s pk) (\<lambda>ok. Inr (abi_word (if ok then 1 else 0)))"
proof -
  have skip: "load_word (abi_word w @ bs) (32 + off) = load_word bs off" for w bs off
    by (simp add: load_word_def)
  show ?thesis
    using skip [where off = 0] skip [where off = 32] skip [where off = 64] skip [where off = 96]
      load_word_abi [of "snd pk" "[]"]
    by (simp add: P256Verifier_fallback_def P256V_input_def Let_def)
qed

text \<open>A static call of the deployed verifier: a panic would be a failed call.\<close>

definition verifier_staticcall :: "address \<Rightarrow> address \<Rightarrow> bytes \<Rightarrow> bool \<times> bytes" where
  "verifier_staticcall verifier target input =
     (if target = verifier then (case P256Verifier_fallback input of Inl e \<Rightarrow> (False, []) | Inr out \<Rightarrow> (True, out))
      else (True, []))"

lemma decode_bool_word: "decode_bool (abi_word (if ok then 1 else 0)) = Inr ok"
proof -
  let ?w = "(if ok then 1 else 0) :: uint256"
  have "abi_word ?w = abi_encode [AWord ?w]" using abi_encode_static [of "[?w]"] by simp
  then have "abi_decode [TUint 1] (abi_word ?w) = Inr [AWord ?w]"
    using abi_decode_encode [of "[AWord ?w]" "[TUint 1]"] by (simp add: length_abi_encode)
  then show ?thesis by (simp add: decode_bool_def)
qed

lemma P256V_on_verifier:
  "P256V_verify (verifier_staticcall verifier) \<lparr>pv_precompile = verifier\<rparr> h r s pk = ecdsa_verify h r s pk"
  using ecdsa_verify_returns [of h r s pk]
  by (auto simp: P256V_verify_def verifier_staticcall_def fallback_input decode_bool_word)

end
