(* ===== verification/Script.thy ===== *)
theory Script
  imports Factories PaymasterSpec Vault P256
begin

text \<open>
  The world the scripts under \<open>scripts/\<close> act on, and the operations of hardhat and ethers they
  use. A script is a sequence of asynchronous steps; every transaction it sends stays on the
  chain when a later step throws, so the model returns the world in both cases.

  The contracts of the repository are modelled by the definitions of the other theories. What
  is not part of the repository is an argument, \<open>'x ethers_env\<close>: the accounts of the network, the
  address a contract creation gets, how ethers turns a string into an address, and the effect of
  a call to a contract outside the repository on the state \<open>'x\<close> of the rest of the chain.
\<close>

section \<open>Scripts\<close>

text \<open>The JavaScript values the scripts print or pass to a contract.\<close>

datatype jsval =
    JUndef
  | JAddr address
  | JNum int
  | JStr string
  | JBytes bytes
  | JBool bool
  | JList "jsval list"
  | JUserOp UserOperation

text \<open>
  \<open>Thrown\<close> is an exception of hardhat or ethers before anything is sent, \<open>Reverted\<close> a call or
  transaction the contract rejects.
\<close>

datatype script_error = Thrown string | Reverted evm_error

type_synonym log_line = "string \<times> jsval list"

text \<open>
  The contracts of the repository that the scripts deploy or attach to, with their storage. A
  paymaster has the address of its entry point in its code. The storage that \<open>GasNFT\<close>, \<open>TestNFT\<close> and
  \<open>MockUSDC\<close> inherit is part of the rest of the chain.
\<close>

datatype contract =
    CEntryPoint
  | CVerifyingPaymaster address verifying_paymaster
  | CTokenPaymaster address token_paymaster
  | CSolverPaymaster address solver_paymaster
  | CSolverPaymasterV1 address solver_paymaster
  | CFeeTestnet
  | CFeeMainnet fee_mainnet
  | CFeeUniswap fee_uniswap
  | CMockUSDC string string
  | CP256Verifier
  | CP256V p256v
  | CP256Implementation p256_account
  | CP256Factory address
  | CP256Account p256_account
  | CSmartImplementation smart_account
  | CSmartFactory address
  | CSmartAccount smart_account
  | CRegistry enclave_registry
  | CVault token_vault
  | CGasNFT uint256 uint256
  | CTestNFT uint256 address

text \<open>
  A contract creation is sent before it is mined. \<open>w_contracts\<close> has every contract whose creation was
  sent; \<open>w_unmined\<close> lists the addresses, latest first, whose creation the network has not mined yet, and
  where a read finds no code. \<open>en_mined\<close> says of which transactions of the signer, by nonce, the network
  is that quick that they are mined before the script's next step.
\<close>

record 'x world =
  w_contracts :: "address \<Rightarrow> contract option"
  w_unmined :: "address list"
  w_nonce :: nat
  w_rest :: 'x
  w_console :: "log_line list"

record 'x ethers_env =
  en_signers :: "address list"
  en_create :: "address \<Rightarrow> nat \<Rightarrow> address"
  en_mined :: "nat \<Rightarrow> bool"
  en_resolve :: "string \<Rightarrow> address option"
  en_view :: "address \<Rightarrow> string \<Rightarrow> jsval list \<Rightarrow> 'x \<Rightarrow> script_error + jsval"
  en_send :: "address \<Rightarrow> address \<Rightarrow> string \<Rightarrow> jsval list \<Rightarrow> nat \<Rightarrow> 'x \<Rightarrow> script_error + 'x"
  en_onlyOwner :: "address \<Rightarrow> address \<Rightarrow> unit res"
  en_chainlink :: "'x \<Rightarrow> chainlink"
  en_uniswap :: "'x \<Rightarrow> uniswap_ext"
  en_erc721 :: "address \<Rightarrow> 'x erc721_base"
  en_staticcall :: "address \<Rightarrow> bytes \<Rightarrow> bool \<times> bytes"
  en_crypto :: evm_crypto
  en_chainid :: uint256
  en_gasprice :: uint256
  en_proxyCode :: bytes
  en_txHash :: "address \<Rightarrow> nat \<Rightarrow> bytes"

type_synonym ('x, 'a) script = "'x world \<Rightarrow> (script_error + 'a) \<times> 'x world"

definition returnS :: "'a \<Rightarrow> ('x, 'a) script" where
  "returnS x w = (Inr x, w)"

definition throwS :: "script_error \<Rightarrow> ('x, 'a) script" where
  "throwS e w = (Inl e, w)"

definition bindS :: "('x, 'a) script \<Rightarrow> ('a \<Rightarrow> ('x, 'b) script) \<Rightarrow> ('x, 'b) script" where
  "bindS m f w = (case m w of (Inl e, w') \<Rightarrow> (Inl e, w') | (Inr x, w') \<Rightarrow> f x w')"

definition thenS :: "('x, 'a) script \<Rightarrow> ('x, 'b) script \<Rightarrow> ('x, 'b) script" where
  "thenS m k = bindS m (\<lambda>_. k)"

definition liftS :: "script_error + 'a \<Rightarrow> ('x, 'a) script" where
  "liftS r w = (r, w)"

text \<open>\<open>try { m } catch (error) { h }\<close>\<close>

definition tryS :: "('x, 'a) script \<Rightarrow> (script_error \<Rightarrow> ('x, 'a) script) \<Rightarrow> ('x, 'a) script" where
  "tryS m h w = (case m w of (Inl e, w') \<Rightarrow> h e w' | (Inr x, w') \<Rightarrow> (Inr x, w'))"

definition console_log :: "string \<Rightarrow> jsval list \<Rightarrow> ('x, unit) script" where
  "console_log label vals w = (Inr (), w\<lparr>w_console := w_console w @ [(label, vals)]\<rparr>)"

text \<open>
  The last lines of a script: \<open>main().catch(error => { console.error(error); process.exitCode = 1 })\<close>,
  or \<open>main()\<close> alone, where an unhandled rejection ends the process with exit code 1. The result is
  the exit code and the world.
\<close>

definition run_catch :: "('x, unit) script \<Rightarrow> 'x world \<Rightarrow> nat \<times> 'x world" where
  "run_catch m w =
     (case m w of (Inr _, w') \<Rightarrow> (0, w')
      | (Inl e, w') \<Rightarrow> (1, w'\<lparr>w_console := w_console w' @ [(''error'', [])]\<rparr>))"

definition run_bare :: "('x, unit) script \<Rightarrow> 'x world \<Rightarrow> nat \<times> 'x world" where
  "run_bare m w = (case m w of (Inr _, w') \<Rightarrow> (0, w') | (Inl e, w') \<Rightarrow> (1, w'))"

section \<open>Signers and contracts\<close>

definition getSigner :: "'x ethers_env \<Rightarrow> ('x, address) script" where
  "getSigner e = (case en_signers e of [] \<Rightarrow> throwS (Thrown ''no such account'') | a # _ \<Rightarrow> returnS a)"

text \<open>\<open>const [signer] = await ethers.getSigners()\<close>, used only where the signer is dereferenced.\<close>

definition getSigners :: "'x ethers_env \<Rightarrow> ('x, address list) script" where
  "getSigners e = returnS (en_signers e)"

text \<open>The contracts hardhat has an artifact for: those of \<open>contracts/\<close> and the imported ones.\<close>

definition artifacts :: "string list" where
  "artifacts =
     [''EntryPoint'', ''ERC20'', ''MockUSDC'', ''EnclaveRegistry'', ''EnclaveVerifyingPaymaster'',
      ''EnclaveVerifyingTokenPaymaster'', ''EnclaveVerifyingNFTPaymaster'', ''EnclaveMultiTokenPaymaster'',
      ''EnclaveFeeLogicTestnet'', ''EnclaveFeeLogicMainnet'', ''EnclaveFeeLogicUniswap'', ''NFTGasLogic'', ''GasNFT'',
      ''P256Verifier'', ''P256VerifierYul'', ''P256V'', ''P256SmartAccount'', ''P256SmartAccountFactory'',
      ''MultichainPasskeyValidator'', ''SmartAccount'', ''SmartAccountFactory'', ''EnclaveSolverPaymaster'',
      ''EnclaveSolverPaymasterV1'', ''EnclaveTokenVaultV0'', ''TestNFT'']"

definition getContractFactory :: "string \<Rightarrow> ('x, string) script" where
  "getContractFactory name =
     (if name \<in> set artifacts then returnS name else throwS (Thrown ''artifact not found''))"

definition as_address :: "'x ethers_env \<Rightarrow> jsval \<Rightarrow> script_error + address" where
  "as_address e v =
     (case v of JAddr a \<Rightarrow> Inr a
      | JStr s \<Rightarrow> (case en_resolve e s of Some a \<Rightarrow> Inr a | None \<Rightarrow> Inl (Thrown ''invalid address''))
      | _ \<Rightarrow> Inl (Thrown ''invalid address''))"

definition as_uint :: "nat \<Rightarrow> jsval \<Rightarrow> script_error + nat" where
  "as_uint n v =
     (case v of JNum k \<Rightarrow> if 0 \<le> k \<and> k < 2 ^ n then Inr (nat k) else Inl (Thrown ''value out-of-bounds'')
      | _ \<Rightarrow> Inl (Thrown ''invalid BigNumberish''))"

definition as_string :: "jsval \<Rightarrow> script_error + string" where
  "as_string v = (case v of JStr s \<Rightarrow> Inr s | _ \<Rightarrow> Inl (Thrown ''invalid string''))"

text \<open>The number of parameters of each constructor.\<close>

definition ctor_arity :: "string \<Rightarrow> nat" where
  "ctor_arity name =
     (if name = ''EnclaveRegistry'' then 1
      else if name = ''EnclaveVerifyingPaymaster'' then 2
      else if name = ''EnclaveVerifyingTokenPaymaster'' then 4
      else if name = ''EnclaveSolverPaymaster'' then 2
      else if name = ''EnclaveSolverPaymasterV1'' then 2
      else if name = ''EnclaveFeeLogicMainnet'' then 2
      else if name = ''EnclaveFeeLogicUniswap'' then 4
      else if name = ''MockUSDC'' then 2
      else if name = ''P256V'' then 1
      else if name = ''TestNFT'' then 2
      else 0)"

definition as_script :: "'a res \<Rightarrow> script_error + 'a" where
  "as_script r = (case r of Inl e \<Rightarrow> Inl (Reverted e) | Inr x \<Rightarrow> Inr x)"

text \<open>
  The contracts a creation at \<open>this\<close> puts on the chain. An account factory creates its
  implementation, at the address its own first creation gets.
\<close>

definition construct ::
    "'x ethers_env \<Rightarrow> address \<Rightarrow> address \<Rightarrow> string \<Rightarrow> jsval list \<Rightarrow> script_error + (address \<times> contract) list" where
  "construct e deployer this name args =
     (if name = ''EntryPoint'' then Inr [(this, CEntryPoint)]
      else if name = ''EnclaveRegistry'' then
        bindR (as_address e (args ! 0)) (\<lambda>ow. Inr [(this, CRegistry (registry_constructor ow))])
      else if name = ''EnclaveVerifyingPaymaster'' then
        bindR (as_address e (args ! 0)) (\<lambda>ep. bindR (as_address e (args ! 1)) (\<lambda>signer.
        Inr [(this, CVerifyingPaymaster ep (verifying_constructor signer))]))
      else if name = ''EnclaveVerifyingTokenPaymaster'' then
        bindR (as_address e (args ! 0)) (\<lambda>ep. bindR (as_address e (args ! 1)) (\<lambda>signer.
        bindR (as_address e (args ! 2)) (\<lambda>token. bindR (as_address e (args ! 3)) (\<lambda>fees.
        Inr [(this, CTokenPaymaster ep (token_constructor signer token fees))]))))
      else if name = ''EnclaveSolverPaymaster'' then
        bindR (as_address e (args ! 0)) (\<lambda>ep. bindR (as_address e (args ! 1)) (\<lambda>signer.
        Inr [(this, CSolverPaymaster ep (solver_constructor signer))]))
      else if name = ''EnclaveSolverPaymasterV1'' then
        bindR (as_address e (args ! 0)) (\<lambda>ep. bindR (as_address e (args ! 1)) (\<lambda>signer.
        Inr [(this, CSolverPaymasterV1 ep (solver_constructor signer))]))
      else if name = ''EnclaveFeeLogicTestnet'' then Inr [(this, CFeeTestnet)]
      else if name = ''EnclaveFeeLogicMainnet'' then
        bindR (as_address e (args ! 0)) (\<lambda>feed. bindR (as_uint 256 (args ! 1)) (\<lambda>d.
        Inr [(this, CFeeMainnet (mainnet_constructor feed (of_nat d)))]))
      else if name = ''EnclaveFeeLogicUniswap'' then
        bindR (as_address e (args ! 0)) (\<lambda>weth. bindR (as_address e (args ! 1)) (\<lambda>fac.
        bindR (as_uint 24 (args ! 2)) (\<lambda>m. bindR (as_uint 24 (args ! 3)) (\<lambda>d.
        Inr [(this, CFeeUniswap (uniswap_constructor weth fac (of_nat m) (of_nat d)))]))))
      else if name = ''MockUSDC'' then
        bindR (as_string (args ! 0)) (\<lambda>n. bindR (as_string (args ! 1)) (\<lambda>symb. Inr [(this, CMockUSDC n symb)]))
      else if name = ''P256Verifier'' then Inr [(this, CP256Verifier)]
      else if name = ''P256V'' then
        bindR (as_address e (args ! 0)) (\<lambda>pre. Inr [(this, CP256V \<lparr>pv_precompile = pre\<rparr>)])
      else if name = ''P256SmartAccountFactory'' then
        bindR (as_script p256_constructor) (\<lambda>impl.
        Inr [(en_create e this 1, CP256Implementation impl), (this, CP256Factory (en_create e this 1))])
      else if name = ''SmartAccountFactory'' then
        bindR (as_script smart_constructor) (\<lambda>impl.
        Inr [(en_create e this 1, CSmartImplementation impl), (this, CSmartFactory (en_create e this 1))])
      else if name = ''EnclaveTokenVaultV0'' then Inr [(this, CVault (vault_constructor deployer))]
      else if name = ''GasNFT'' then Inr [(this, CGasNFT 0 0)]
      else if name = ''TestNFT'' then
        bindR (as_uint 256 (args ! 0)) (\<lambda>price. bindR (as_address e (args ! 1)) (\<lambda>usdc.
        Inr [(this, CTestNFT (of_nat price) usdc)]))
      else Inl (Thrown ''not deployed by a script''))"

text \<open>
  \<open>Factory.deploy(args)\<close>: ethers checks the number of arguments, encodes them, and sends the
  creation from the default signer. Creation at an address that has code fails. The promise
  resolves when the creation is sent; \<open>waitForDeployment\<close> resolves when it is mined, and with it, in the
  order of nonces, every earlier one.
\<close>

definition deploy :: "'x ethers_env \<Rightarrow> string \<Rightarrow> jsval list \<Rightarrow> ('x, address) script" where
  "deploy e name args w =
     (case en_signers e of [] \<Rightarrow> (Inl (Thrown ''no signer''), w)
      | signer # _ \<Rightarrow>
        if length args \<noteq> ctor_arity name then (Inl (Thrown ''incorrect number of arguments to constructor''), w)
        else
          let this = en_create e signer (w_nonce w) in
          (case construct e signer this name args of
             Inl err \<Rightarrow> (Inl err, w)
           | Inr new \<Rightarrow>
               if list_ex (\<lambda>(a, _). w_contracts w a \<noteq> None) new then (Inl (Reverted RevertEmpty), w)
               else (Inr this, w\<lparr>w_contracts := w_contracts w ++ map_of new,
                 w_unmined := (if en_mined e (w_nonce w) then w_unmined w else rev (map fst new) @ w_unmined w),
                 w_nonce := Suc (w_nonce w)\<rparr>)))"

definition waitForDeployment :: "address \<Rightarrow> ('x, unit) script" where
  "waitForDeployment a w = (Inr (), w\<lparr>w_unmined := takeWhile (\<lambda>b. b \<noteq> a) (w_unmined w)\<rparr>)"

text \<open>\<open>const c = await Factory.deploy(args); await c.waitForDeployment();\<close>\<close>

definition deployAndWait :: "'x ethers_env \<Rightarrow> string \<Rightarrow> jsval list \<Rightarrow> ('x, address) script" where
  "deployAndWait e name args =
     bindS (deploy e name args) (\<lambda>a. thenS (waitForDeployment a) (returnS a))"

section \<open>Calls\<close>

text \<open>
  A contract object of ethers: the artifact whose ABI it has, and an address, where anything may be.
  A call with a name or a number of arguments the ABI does not have throws before anything is sent.
\<close>

type_synonym handle = "string \<times> address"

definition abi_functions :: "string \<Rightarrow> (string \<times> nat) list" where
  "abi_functions name =
     (if name = ''EnclaveRegistry'' then
        [(''owner'', 0), (''updateRegistryAddress'', 2), (''getRegistryAddress'', 1)]
      else if name = ''EntryPoint'' then
        [(''deposits'', 1), (''getNonce'', 2), (''getUserOpHash'', 1), (''handleOps'', 2)]
      else if name \<in> {''MockUSDC'', ''ERC20''} then
        [(''balanceOf'', 1), (''allowance'', 2), (''transfer'', 2), (''approve'', 2)] @
        (if name = ''MockUSDC'' then [(''mint'', 2), (''burn'', 2)] else [])
      else if name = ''EnclaveVerifyingPaymaster'' then
        [(''deposit'', 0), (''entryPoint'', 0), (''getHash'', 3), (''verifyingSigner'', 0), (''senderNonce'', 1)]
      else if name = ''EnclaveVerifyingTokenPaymaster'' then
        [(''deposit'', 0), (''entryPoint'', 0), (''getHash'', 3), (''verifyingSigner'', 0), (''senderNonce'', 1),
         (''feeLogic'', 0), (''paymentToken'', 0), (''updateFeeLogic'', 1), (''updatePaymentToken'', 1)]
      else if name \<in> {''EnclaveSolverPaymaster'', ''EnclaveSolverPaymasterV1''} then
        [(''deposit'', 0), (''entryPoint'', 0), (''getHash'', 5), (''verifyingSigner'', 0), (''senderNonce'', 1)]
      else if name = ''EnclaveFeeLogicMainnet'' then [(''calculateFee'', 2)]
      else if name = ''EnclaveFeeLogicUniswap'' then
        [(''markup'', 0), (''markupDenominator'', 0), (''findOptimalPool'', 1), (''calculateFee'', 2),
         (''updateMarkup'', 1), (''updateMarkupDenominator'', 1)]
      else if name = ''P256SmartAccountFactory'' then
        [(''accountImplementation'', 0), (''getAccountAddress'', 3), (''createAccount'', 3)]
      else if name = ''SmartAccountFactory'' then
        [(''accountImplementation'', 0), (''getAccountAddress'', 3), (''createAccount'', 3)]
      else if name = ''P256SmartAccount'' then [(''enclaveRegistry'', 0), (''getNonce'', 0)]
      else if name = ''SmartAccount'' then [(''entryPoint'', 0), (''owner'', 0)]
      else if name = ''EnclaveTokenVaultV0'' then [(''deposits'', 2)]
      else if name = ''P256V'' then [(''precompile'', 0), (''verify'', 4)]
      else if name = ''P256Verifier'' then [(''ecdsa_verify'', 4)]
      else if name = ''GasNFT'' then [(''mintNFT'', 1)]
      else [])"

definition as_pubkey :: "jsval \<Rightarrow> script_error + pubkey" where
  "as_pubkey v =
     (case v of JList [x, y] \<Rightarrow>
        bindR (as_uint 256 x) (\<lambda>x. bindR (as_uint 256 y) (\<lambda>y. Inr (of_nat x, of_nat y)))
      | _ \<Rightarrow> Inl (Thrown ''invalid array''))"

definition as_bytes32 :: "jsval \<Rightarrow> script_error + bytes32" where
  "as_bytes32 v =
     (case v of JBytes bs \<Rightarrow> if length bs = 32 then Inr (load_word bs 0) else Inl (Thrown ''incorrect data length'')
      | _ \<Rightarrow> Inl (Thrown ''invalid BytesLike''))"

definition as_userOp :: "jsval \<Rightarrow> script_error + UserOperation" where
  "as_userOp v = (case v of JUserOp u \<Rightarrow> Inr u | _ \<Rightarrow> Inl (Thrown ''invalid tuple''))"

definition no_function :: "script_error + 'a" where
  "no_function = Inl (Reverted RevertEmpty)"

definition world_staticcall :: "'x ethers_env \<Rightarrow> 'x world \<Rightarrow> address \<Rightarrow> bytes \<Rightarrow> bool \<times> bytes" where
  "world_staticcall e w target input =
     (if w_contracts w target = Some CP256Verifier
      then (case P256Verifier_fallback input of Inl err \<Rightarrow> (False, []) | Inr out \<Rightarrow> (True, out))
      else en_staticcall e target input)"

definition pm_env_at :: "'x ethers_env \<Rightarrow> address \<Rightarrow> pm_env" where
  "pm_env_at e this = \<lparr>pe_crypto = en_crypto e, pe_chainid = en_chainid e, pe_this = this\<rparr>"

definition view_paymaster ::
    "'x ethers_env \<Rightarrow> address \<Rightarrow> address \<Rightarrow> 'p verifying_paymaster_scheme \<Rightarrow>
     (UserOperation \<Rightarrow> uint48 \<Rightarrow> uint48 \<Rightarrow> bytes32) \<Rightarrow> string \<Rightarrow> jsval list \<Rightarrow> script_error + jsval" where
  "view_paymaster e this ep s hash meth args =
     (if meth = ''entryPoint'' then Inr (JAddr ep)
      else if meth = ''verifyingSigner'' then Inr (JAddr (verifyingSigner s))
      else if meth = ''senderNonce'' then
        bindR (as_address e (args ! 0)) (\<lambda>a. Inr (JNum (uint (senderNonce s a))))
      else if meth = ''getHash'' then
        bindR (as_userOp (args ! 0)) (\<lambda>u. bindR (as_uint 48 (args ! 1)) (\<lambda>until.
        bindR (as_uint 48 (args ! 2)) (\<lambda>after. Inr (JBytes (abi_word (hash u (of_nat until) (of_nat after)))))))
      else no_function)"

definition view_solver ::
    "'x ethers_env \<Rightarrow> address \<Rightarrow> address \<Rightarrow> solver_paymaster \<Rightarrow>
     (UserOperation \<Rightarrow> uint48 \<Rightarrow> uint48 \<Rightarrow> address \<Rightarrow> uint256 \<Rightarrow> bytes32) \<Rightarrow> string \<Rightarrow> jsval list \<Rightarrow> script_error + jsval" where
  "view_solver e this ep s hash meth args =
     (if meth = ''entryPoint'' then Inr (JAddr ep)
      else if meth = ''verifyingSigner'' then Inr (JAddr (verifyingSigner s))
      else if meth = ''senderNonce'' then
        bindR (as_address e (args ! 0)) (\<lambda>a. Inr (JNum (uint (senderNonce s a))))
      else if meth = ''getHash'' then
        bindR (as_userOp (args ! 0)) (\<lambda>u. bindR (as_uint 48 (args ! 1)) (\<lambda>until.
        bindR (as_uint 48 (args ! 2)) (\<lambda>after. bindR (as_address e (args ! 3)) (\<lambda>token.
        bindR (as_uint 256 (args ! 4)) (\<lambda>amount.
        Inr (JBytes (abi_word (hash u (of_nat until) (of_nat after) token (of_nat amount)))))))))
      else no_function)"

definition view_uniswap :: "'x ethers_env \<Rightarrow> 'x \<Rightarrow> fee_uniswap \<Rightarrow> string \<Rightarrow> jsval list \<Rightarrow> script_error + jsval" where
  "view_uniswap e x s meth args =
     (if meth = ''markup'' then Inr (JNum (uint (fu_markup s)))
      else if meth = ''markupDenominator'' then Inr (JNum (uint (fu_markupDenominator s)))
      else if meth = ''findOptimalPool'' then
        bindR (as_address e (args ! 0)) (\<lambda>token.
        bindR (as_script (findOptimalPool (en_uniswap e x) s token)) (\<lambda>f. Inr (JNum (uint f))))
      else if meth = ''calculateFee'' then
        bindR (as_address e (args ! 0)) (\<lambda>token. bindR (as_uint 256 (args ! 1)) (\<lambda>g.
        bindR (as_script (uniswap_calculateFee (en_uniswap e x) s (en_gasprice e) token (of_nat g))) (\<lambda>f.
        Inr (JNum (uint f)))))
      else no_function)"

definition view_p256_factory :: "'x ethers_env \<Rightarrow> address \<Rightarrow> address \<Rightarrow> string \<Rightarrow> jsval list \<Rightarrow> script_error + jsval" where
  "view_p256_factory e this impl meth args =
     (if meth = ''accountImplementation'' then Inr (JAddr impl)
      else if meth = ''getAccountAddress'' then
        bindR (as_pubkey (args ! 0)) (\<lambda>pk. bindR (as_address e (args ! 1)) (\<lambda>reg.
        bindR (as_uint 256 (args ! 2)) (\<lambda>salt.
        Inr (JAddr (p256_getAccountAddress (en_crypto e) (en_proxyCode e)
                      \<lparr>fa_this = this, fa_implementation = impl\<rparr> pk reg (of_nat salt))))))
      else no_function)"

definition view_smart_factory :: "'x ethers_env \<Rightarrow> address \<Rightarrow> address \<Rightarrow> string \<Rightarrow> jsval list \<Rightarrow> script_error + jsval" where
  "view_smart_factory e this impl meth args =
     (if meth = ''accountImplementation'' then Inr (JAddr impl)
      else if meth = ''getAccountAddress'' then
        bindR (as_address e (args ! 0)) (\<lambda>ow. bindR (as_address e (args ! 1)) (\<lambda>ep.
        bindR (as_uint 256 (args ! 2)) (\<lambda>salt.
        Inr (JAddr (smart_getAccountAddress (en_crypto e) (en_proxyCode e)
                      \<lparr>fa_this = this, fa_implementation = impl\<rparr> ow ep (of_nat salt))))))
      else no_function)"

text \<open>
  A read of a contract. The inherited functions of the entry point and of the token contracts read
  the rest of the chain; \<open>P256Verifier\<close> has a fallback function, so another call to it returns.
\<close>

definition world_registries :: "'x world \<Rightarrow> registries" where
  "world_registries w a = (case w_contracts w a of Some (CRegistry s) \<Rightarrow> Some s | _ \<Rightarrow> None)"

definition view_p256_account ::
    "'x ethers_env \<Rightarrow> 'x world \<Rightarrow> address \<Rightarrow> p256_account \<Rightarrow> string \<Rightarrow> script_error + jsval" where
  "view_p256_account e w this s meth =
     (if meth = ''enclaveRegistry'' then Inr (JAddr (enclaveRegistry s))
      else if meth = ''getNonce'' then
        bindR (as_script (p256_entryPoint (world_registries w) s)) (\<lambda>ep.
        en_view e ep ''getNonce'' [JAddr this, JNum 0] (w_rest w))
      else no_function)"

definition own_view ::
    "'x ethers_env \<Rightarrow> 'x world \<Rightarrow> address \<Rightarrow> contract \<Rightarrow> string \<Rightarrow> jsval list \<Rightarrow> script_error + jsval" where
  "own_view e w this c meth args =
     (let outside = en_view e this meth args (w_rest w) in
      case c of
        CRegistry s \<Rightarrow>
          (if meth = ''getRegistryAddress'' then
             bindR (as_string (args ! 0)) (\<lambda>k. bindR (as_script (getRegistryAddress k s)) (\<lambda>a. Inr (JAddr a)))
           else if meth = ''owner'' then Inr (JAddr (er_owner s)) else no_function)
      | CVerifyingPaymaster ep s \<Rightarrow> view_paymaster e this ep s (pm_getHash (pm_env_at e this) s) meth args
      | CTokenPaymaster ep s \<Rightarrow>
          (if meth = ''feeLogic'' then Inr (JAddr (tp_feeLogic s))
           else if meth = ''paymentToken'' then Inr (JAddr (tp_paymentToken s))
           else view_paymaster e this ep s (pm_getHash (pm_env_at e this) s) meth args)
      | CSolverPaymaster ep s \<Rightarrow> view_solver e this ep s (solver_getHash_v0 (pm_env_at e this) s) meth args
      | CSolverPaymasterV1 ep s \<Rightarrow> view_solver e this ep s (solver_getHash_v1 (pm_env_at e this) s) meth args
      | CFeeMainnet s \<Rightarrow>
          (if meth = ''calculateFee'' then
             bindR (as_address e (args ! 0)) (\<lambda>token. bindR (as_uint 256 (args ! 1)) (\<lambda>g.
             bindR (as_script (mainnet_calculateFee (en_chainlink e (w_rest w)) s token (of_nat g))) (\<lambda>f.
             Inr (JNum (uint f)))))
           else no_function)
      | CFeeUniswap s \<Rightarrow> view_uniswap e (w_rest w) s meth args
      | CP256Factory impl \<Rightarrow> view_p256_factory e this impl meth args
      | CSmartFactory impl \<Rightarrow> view_smart_factory e this impl meth args
      | CP256Account s \<Rightarrow> view_p256_account e w this s meth
      | CP256Implementation s \<Rightarrow> view_p256_account e w this s meth
      | CSmartAccount s \<Rightarrow>
          (if meth = ''entryPoint'' then bindR (as_script (smart_entryPoint s)) (\<lambda>a. Inr (JAddr a))
           else if meth = ''owner'' then Inr (JAddr (sa_owner s)) else no_function)
      | CSmartImplementation s \<Rightarrow>
          (if meth = ''entryPoint'' then bindR (as_script (smart_entryPoint s)) (\<lambda>a. Inr (JAddr a))
           else if meth = ''owner'' then Inr (JAddr (sa_owner s)) else no_function)
      | CVault s \<Rightarrow>
          (if meth = ''deposits'' then
             bindR (as_address e (args ! 0)) (\<lambda>token. bindR (as_address e (args ! 1)) (\<lambda>user.
             Inr (JNum (uint (deposits s token user)))))
           else no_function)
      | CP256V s \<Rightarrow>
          (if meth = ''precompile'' then Inr (JAddr (pv_precompile s))
           else if meth = ''verify'' then
             bindR (as_bytes32 (args ! 0)) (\<lambda>h. bindR (as_uint 256 (args ! 1)) (\<lambda>r.
             bindR (as_uint 256 (args ! 2)) (\<lambda>sv. bindR (as_pubkey (args ! 3)) (\<lambda>pk.
             bindR (as_script (P256V_verify (world_staticcall e w) s h (of_nat r) (of_nat sv) pk)) (\<lambda>ok.
             Inr (JBool ok))))))
           else no_function)
      | CP256Verifier \<Rightarrow>
          (if meth = ''ecdsa_verify'' then
             bindR (as_bytes32 (args ! 0)) (\<lambda>h. bindR (as_uint 256 (args ! 1)) (\<lambda>r.
             bindR (as_uint 256 (args ! 2)) (\<lambda>sv. bindR (as_pubkey (args ! 3)) (\<lambda>pk.
             bindR (as_script (ecdsa_verify h (of_nat r) (of_nat sv) pk)) (\<lambda>ok. Inr (JBool ok))))))
           else outside)
      | CEntryPoint \<Rightarrow> outside
      | CMockUSDC nm symb \<Rightarrow> outside
      | CGasNFT ids price \<Rightarrow> outside
      | CTestNFT price usdc \<Rightarrow> outside
      | CFeeTestnet \<Rightarrow> no_function)"

text \<open>
  A read sees the latest block. Where a creation is not mined there is no code: the answer is empty,
  and ethers throws because it cannot decode it.
\<close>

definition deployed :: "'x world \<Rightarrow> address \<Rightarrow> contract option" where
  "deployed w a = (if a \<in> set (w_unmined w) then None else w_contracts w a)"

definition latest :: "'x world \<Rightarrow> 'x world" where
  "latest w = w\<lparr>w_contracts := deployed w\<rparr>"

definition viewS :: "'x ethers_env \<Rightarrow> handle \<Rightarrow> string \<Rightarrow> jsval list \<Rightarrow> ('x, jsval) script" where
  "viewS e h meth args w =
     ((if (meth, length args) \<notin> set (abi_functions (fst h)) then Inl (Thrown ''no matching fragment'')
       else case deployed w (snd h) of
              None \<Rightarrow> if snd h \<in> set (w_unmined w) then Inl (Thrown ''could not decode result data'')
                       else en_view e (snd h) meth args (w_rest w)
            | Some c \<Rightarrow> own_view e (latest w) (snd h) c meth args), w)"

text \<open>The part of the world an account factory works on.\<close>

definition p256_chain :: "'x world \<Rightarrow> p256_account chain" where
  "p256_chain w =
     \<lparr>ch_code = (\<lambda>a. w_contracts w a \<noteq> None),
      ch_account = (\<lambda>a. case w_contracts w a of Some (CP256Account s) \<Rightarrow> Some s | _ \<Rightarrow> None)\<rparr>"

definition smart_chain :: "'x world \<Rightarrow> smart_account chain" where
  "smart_chain w =
     \<lparr>ch_code = (\<lambda>a. w_contracts w a \<noteq> None),
      ch_account = (\<lambda>a. case w_contracts w a of Some (CSmartAccount s) \<Rightarrow> Some s | _ \<Rightarrow> None)\<rparr>"

definition put_contract :: "address \<Rightarrow> contract \<Rightarrow> 'x world \<Rightarrow> 'x world" where
  "put_contract a c w = w\<lparr>w_contracts := (w_contracts w)(a \<mapsto> c)\<rparr>"

text \<open>
  A transaction to a contract: the new world, or why it reverts. \<open>deposit\<close> is inherited from the
  library's \<open>BasePaymaster\<close> and moves the value to the entry point; the token contract's \<open>mint\<close> is
  the library's too.
\<close>

definition own_send ::
    "'x ethers_env \<Rightarrow> address \<Rightarrow> address \<Rightarrow> contract \<Rightarrow> string \<Rightarrow> jsval list \<Rightarrow> nat \<Rightarrow> 'x world \<Rightarrow>
     script_error + 'x world" where
  "own_send e signer this c meth args value w =
     (let outside = (\<lambda>args. bindR (en_send e signer this meth args value (w_rest w)) (\<lambda>x. Inr (w\<lparr>w_rest := x\<rparr>)));
          deposit = (\<lambda>ep. if meth = ''deposit'' then outside [JAddr ep] else no_function)
      in case c of
        CRegistry s \<Rightarrow>
          (if meth = ''updateRegistryAddress'' then
             bindR (as_string (args ! 0)) (\<lambda>k. bindR (as_address e (args ! 1)) (\<lambda>a.
             bindR (as_script (updateRegistryAddress signer k a s)) (\<lambda>s. Inr (put_contract this (CRegistry s) w))))
           else no_function)
      | CVerifyingPaymaster ep s \<Rightarrow> deposit ep
      | CTokenPaymaster ep s \<Rightarrow> deposit ep
      | CSolverPaymaster ep s \<Rightarrow> deposit ep
      | CSolverPaymasterV1 ep s \<Rightarrow> deposit ep
      | CFeeUniswap s \<Rightarrow>
          (if meth = ''updateMarkup'' then
             bindR (as_uint 24 (args ! 0)) (\<lambda>m.
             bindR (as_script (updateMarkup (en_onlyOwner e this) signer (of_nat m) s)) (\<lambda>s.
             Inr (put_contract this (CFeeUniswap s) w)))
           else if meth = ''updateMarkupDenominator'' then
             bindR (as_uint 24 (args ! 0)) (\<lambda>m.
             bindR (as_script (uniswap_updateMarkupDenominator (en_onlyOwner e this) signer (of_nat m) s)) (\<lambda>s.
             Inr (put_contract this (CFeeUniswap s) w)))
           else no_function)
      | CP256Factory impl \<Rightarrow>
          (if meth = ''createAccount'' then
             bindR (as_pubkey (args ! 0)) (\<lambda>pk. bindR (as_address e (args ! 1)) (\<lambda>reg.
             bindR (as_uint 256 (args ! 2)) (\<lambda>salt.
             bindR (as_script (p256_createAccount (en_crypto e) (en_proxyCode e)
                      \<lparr>fa_this = this, fa_implementation = impl\<rparr> pk reg (of_nat salt) (p256_chain w))) (\<lambda>(a, ch).
             Inr (if w_contracts w a \<noteq> None then w
                  else case ch_account ch a of None \<Rightarrow> w | Some acc \<Rightarrow> put_contract a (CP256Account acc) w)))))
           else no_function)
      | CSmartFactory impl \<Rightarrow>
          (if meth = ''createAccount'' then
             bindR (as_address e (args ! 0)) (\<lambda>ow. bindR (as_address e (args ! 1)) (\<lambda>ep.
             bindR (as_uint 256 (args ! 2)) (\<lambda>salt.
             bindR (as_script (smart_createAccount (en_crypto e) (en_proxyCode e)
                      \<lparr>fa_this = this, fa_implementation = impl\<rparr> ow ep (of_nat salt) (smart_chain w, []))) (\<lambda>(a, ch, log).
             Inr (if w_contracts w a \<noteq> None then w
                  else case ch_account ch a of None \<Rightarrow> w | Some acc \<Rightarrow> put_contract a (CSmartAccount acc) w)))))
           else no_function)
      | CGasNFT ids price \<Rightarrow>
          (if meth = ''mintNFT'' then
             bindR (as_address e (args ! 0)) (\<lambda>to.
             bindR (as_script (gasNFT_mintNFT (en_erc721 e this) to
                      \<lparr>gn_base = w_rest w, gn_tokenIds = ids, gn_mintPrice = price\<rparr>)) (\<lambda>(tid, n).
             Inr (put_contract this (CGasNFT (gn_tokenIds n) (gn_mintPrice n)) (w\<lparr>w_rest := gn_base n\<rparr>))))
           else no_function)
      | CEntryPoint \<Rightarrow> outside args
      | CMockUSDC nm symb \<Rightarrow> outside args
      | CP256Verifier \<Rightarrow> Inr w
      | _ \<Rightarrow> no_function)"

text \<open>
  A transaction is taken as mined when the script goes on, whether or not the source waits for its
  receipt; the creations sent before it, with lower nonces, are mined by then.
\<close>

definition sendS :: "'x ethers_env \<Rightarrow> handle \<Rightarrow> string \<Rightarrow> jsval list \<Rightarrow> nat \<Rightarrow> ('x, bytes) script" where
  "sendS e h meth args value w =
     (case en_signers e of [] \<Rightarrow> (Inl (Thrown ''no signer''), w)
      | signer # _ \<Rightarrow>
        (case (if (meth, length args) \<notin> set (abi_functions (fst h)) then Inl (Thrown ''no matching fragment'')
               else case w_contracts w (snd h) of
                      None \<Rightarrow> bindR (en_send e signer (snd h) meth args value (w_rest w)) (\<lambda>x. Inr (w\<lparr>w_rest := x\<rparr>))
                    | Some c \<Rightarrow> own_send e signer (snd h) c meth args value w) of
           Inl err \<Rightarrow> (Inl err, w)
         | Inr w' \<Rightarrow> (Inr (en_txHash e signer (w_nonce w)), w'\<lparr>w_unmined := [], w_nonce := Suc (w_nonce w)\<rparr>)))"

text \<open>A plain transfer, \<open>signer.sendTransaction({to, value})\<close>, and a read of the provider.\<close>

definition transferS :: "'x ethers_env \<Rightarrow> address \<Rightarrow> nat \<Rightarrow> ('x, bytes) script" where
  "transferS e to value w =
     (case en_signers e of [] \<Rightarrow> (Inl (Thrown ''no signer''), w)
      | signer # _ \<Rightarrow>
        (case en_send e signer to '''' [] value (w_rest w) of
           Inl err \<Rightarrow> (Inl err, w)
         | Inr x \<Rightarrow> (Inr (en_txHash e signer (w_nonce w)), w\<lparr>w_unmined := [], w_rest := x, w_nonce := Suc (w_nonce w)\<rparr>)))"

definition providerS :: "'x ethers_env \<Rightarrow> string \<Rightarrow> address \<Rightarrow> ('x, jsval) script" where
  "providerS e meth a w = (en_view e a meth [] (w_rest w), w)"

end
