(* ===== verification/DeployScripts.thy ===== *)
theory DeployScripts
  imports Script
begin

text \<open>
  The deployment scripts: one \<open>main\<close> per file, with the source's order of statements. All of them
  wait for each deployment (\<open>deployAndWait\<close>) before they go on. Waiting for a receipt has no effect in
  the model, since a call transaction is taken as mined when the script goes on. An address
  literal of a script is the 160-bit number; the empty string stays a string.
\<close>

section \<open>Scripts that deploy one contract\<close>

definition entryPoint_deploy_main :: "'x ethers_env \<Rightarrow> ('x, unit) script" where
  "entryPoint_deploy_main e =
     bindS (getContractFactory ''EntryPoint'') (\<lambda>EntryPoint.
     bindS (deployAndWait e EntryPoint []) (\<lambda>entryPoint.
     console_log ''Address of entryPoint is '' [JAddr entryPoint]))"

definition deployEntrypoint_main :: "'x ethers_env \<Rightarrow> ('x, unit) script" where
  "deployEntrypoint_main e =
     bindS (getContractFactory ''EntryPoint'') (\<lambda>EntryPoint.
     bindS (deployAndWait e EntryPoint []) (\<lambda>entryPoint.
     console_log ''ENTRY_POINT_ADDRESS='' [JAddr entryPoint]))"

definition p256Verifier_deploy_main :: "'x ethers_env \<Rightarrow> ('x, unit) script" where
  "p256Verifier_deploy_main e =
     bindS (getContractFactory ''P256Verifier'') (\<lambda>P256Verifier.
     bindS (deployAndWait e P256Verifier []) (\<lambda>p256Verifier.
     console_log ''Address of p256Verifier is '' [JAddr p256Verifier]))"

definition deployAccountFactory_main :: "'x ethers_env \<Rightarrow> ('x, unit) script" where
  "deployAccountFactory_main e =
     bindS (getContractFactory ''P256SmartAccountFactory'') (\<lambda>EnclaveSmartAccountFactory.
     bindS (deployAndWait e EnclaveSmartAccountFactory []) (\<lambda>enclaveSmartAccountFactory.
     console_log ''Address of enclaveSmartAccountFactory is '' [JAddr enclaveSmartAccountFactory]))"

definition deployGasNft_main :: "'x ethers_env \<Rightarrow> ('x, unit) script" where
  "deployGasNft_main e =
     thenS (console_log ''Deploying GasNFT contract...'' [])
     (bindS (getContractFactory ''GasNFT'') (\<lambda>GasNFT.
      bindS (deployAndWait e GasNFT []) (\<lambda>gasNFT.
      console_log ''GasNFT deployed to:'' [JAddr gasNFT])))"

definition deployEnclaveVerifyingPaymaster_main :: "'x ethers_env \<Rightarrow> ('x, unit) script" where
  "deployEnclaveVerifyingPaymaster_main e =
     bindS (getContractFactory ''EnclaveVerifyingPaymaster'') (\<lambda>EnclaveVerifyingPaymaster.
     bindS (getSigner e) (\<lambda>signer.
     bindS (deployAndWait e EnclaveVerifyingPaymaster
              [JAddr 0x5FbDB2315678afecb367f032d93F642f64180aa3, JAddr signer]) (\<lambda>paymaster.
     thenS (console_log ''Address of enclaveVerifyingPaymaster is '' [JAddr paymaster])
     (thenS (sendS e (''EnclaveVerifyingPaymaster'', paymaster) ''deposit'' [] 3000000000000000000)
      (returnS ())))))"

definition deployTestNFT :: "'x ethers_env \<Rightarrow> int \<Rightarrow> address \<Rightarrow> ('x, address) script" where
  "deployTestNFT e mintPrice usdc =
     bindS (getContractFactory ''TestNFT'') (\<lambda>TestNFT_factory.
     bindS (deployAndWait e TestNFT_factory [JNum mintPrice, JAddr usdc]) (\<lambda>testNFT.
     thenS (console_log ''TestNFT deployed to: '' [JAddr testNFT])
     (returnS testNFT)))"

definition getTestNFT :: "address \<Rightarrow> ('x, handle) script" where
  "getTestNFT a = bindS (getContractFactory ''TestNFT'') (\<lambda>TestNFT_factory. returnS (TestNFT_factory, a))"

definition deployTestNFT_main :: "'x ethers_env \<Rightarrow> ('x, unit) script" where
  "deployTestNFT_main e =
     thenS (deployTestNFT e 1000000 0x5fd84259d66Cd46123540766Be93DFE6D43130D7) (returnS ())"

section \<open>The complete deployments\<close>

text \<open>
  The updates of the registry at the end of a deployment script, one transaction each.
\<close>

fun update_all :: "'x ethers_env \<Rightarrow> address \<Rightarrow> (string \<times> jsval) list \<Rightarrow> ('x, unit) script" where
  "update_all e registry [] = returnS ()"
| "update_all e registry ((k, v) # kvs) =
     thenS (sendS e (''EnclaveRegistry'', registry) ''updateRegistryAddress'' [JStr k, v] 0)
     (update_all e registry kvs)"

definition deployAll_main :: "'x ethers_env \<Rightarrow> ('x, unit) script" where
  "deployAll_main e =
     bindS (getContractFactory ''EntryPoint'') (\<lambda>EntryPoint.
     bindS (deployAndWait e EntryPoint []) (\<lambda>entryPointAddress.
     thenS (console_log ''ENTRY_POINT_ADDRESS='' [JAddr entryPointAddress])
     (bindS (getContractFactory ''EnclaveVerifyingPaymaster'') (\<lambda>EnclaveVerifyingPaymaster.
     bindS (getSigner e) (\<lambda>signer.
     bindS (deployAndWait e EnclaveVerifyingPaymaster [JAddr entryPointAddress, JAddr signer]) (\<lambda>enclaveVerifyingPaymasterAddress.
     thenS (console_log ''ENCLAVE_VERIFYING_PAYMASTER_ADDRESS='' [JAddr enclaveVerifyingPaymasterAddress])
     (thenS (sendS e (''EnclaveVerifyingPaymaster'', enclaveVerifyingPaymasterAddress) ''deposit'' [] 500000000000000000)
     (bindS (getContractFactory ''EnclaveFeeLogicTestnet'') (\<lambda>Feelogic.
     bindS (deployAndWait e Feelogic []) (\<lambda>feelogicAddress.
     thenS (console_log ''FEELOGIC_ADDRESS='' [JAddr feelogicAddress])
     (bindS (getContractFactory ''MockUSDC'') (\<lambda>MockUSDC.
     bindS (deployAndWait e MockUSDC [JStr ''USDC'', JStr ''USDC'']) (\<lambda>mockUSDCAddress.
     thenS (console_log ''MOCK_USDC_ADDRESS='' [JAddr mockUSDCAddress])
     (bindS (getContractFactory ''EnclaveVerifyingTokenPaymaster'') (\<lambda>EnclaveTokenPaymaster.
     bindS (getSigner e) (\<lambda>signer.
     bindS (deployAndWait e EnclaveTokenPaymaster
              [JAddr entryPointAddress, JAddr signer, JAddr mockUSDCAddress, JAddr feelogicAddress]) (\<lambda>enclaveTokenPaymasterAddress.
     thenS (console_log ''ENCLAVE_TOKEN_PAYMASTER_ADDRESS='' [JAddr enclaveTokenPaymasterAddress])
     (bindS (getContractFactory ''P256Verifier'') (\<lambda>P256Verifier.
     bindS (deployAndWait e P256Verifier []) (\<lambda>p256VerifierAddress.
     thenS (console_log ''P256_VERIFIER_ADDRESS='' [JAddr p256VerifierAddress])
     (bindS (getContractFactory ''P256SmartAccountFactory'') (\<lambda>P256SmartAccountFactory.
     bindS (deployAndWait e P256SmartAccountFactory []) (\<lambda>p256SmartAccountFactoryAddress.
     thenS (console_log ''ENCLAVE_P256_SMART_ACCOUNT_FACTORY_ADDRESS='' [JAddr p256SmartAccountFactoryAddress])
     (bindS (getContractFactory ''EnclaveRegistry'') (\<lambda>EnclaveRegistry.
     bindS (deployAndWait e EnclaveRegistry []) (\<lambda>enclaveRegistryAddress.
     thenS (console_log ''ENCLAVE_REGISTRY_ADDRESS='' [JAddr enclaveRegistryAddress])
     (thenS (update_all e enclaveRegistryAddress
        [(''entryPoint'', JAddr entryPointAddress),
         (''enclaveVerifyingPaymaster'', JAddr enclaveVerifyingPaymasterAddress),
         (''enclaveTokenPaymaster'', JAddr enclaveTokenPaymasterAddress),
         (''paymentToken'', JAddr mockUSDCAddress),
         (''p256Verifier'', JAddr p256VerifierAddress),
         (''p256SmartAccountFactory'', JAddr p256SmartAccountFactoryAddress)])
     (console_log ''Registry updated'' []))))))))))))))))))))))))))))"

text \<open>
  The three scripts for Arbitrum, Optimism and Optimism Sepolia have the same text up to the value of
  the paymaster's deposit and the address of the payment token.
\<close>

definition deployAll_network :: "'x ethers_env \<Rightarrow> nat \<Rightarrow> address \<Rightarrow> ('x, unit) script" where
  "deployAll_network e deposit paymentToken =
     bindS (getSigner e) (\<lambda>verifyingSigner.
     thenS (console_log ''VERIFIER_ADDRESS='' [JAddr verifyingSigner])
     (bindS (getContractFactory ''EntryPoint'') (\<lambda>EntryPoint.
     bindS (deployAndWait e EntryPoint []) (\<lambda>entryPointAddress.
     thenS (console_log ''ENTRY_POINT_ADDRESS='' [JAddr entryPointAddress])
     (bindS (getContractFactory ''EnclaveVerifyingPaymaster'') (\<lambda>EnclaveVerifyingPaymaster.
     bindS (getSigner e) (\<lambda>signer.
     bindS (deployAndWait e EnclaveVerifyingPaymaster [JAddr entryPointAddress, JAddr signer]) (\<lambda>enclaveVerifyingPaymasterAddress.
     thenS (console_log ''ENCLAVE_VERIFYING_PAYMASTER_ADDRESS='' [JAddr enclaveVerifyingPaymasterAddress])
     (thenS (sendS e (''EnclaveVerifyingPaymaster'', enclaveVerifyingPaymasterAddress) ''deposit'' [] deposit)
     (bindS (getContractFactory ''P256Verifier'') (\<lambda>P256Verifier.
     bindS (deployAndWait e P256Verifier []) (\<lambda>p256VerifierAddress.
     thenS (console_log ''P256_VERIFIER_ADDRESS='' [JAddr p256VerifierAddress])
     (bindS (getContractFactory ''P256SmartAccountFactory'') (\<lambda>P256SmartAccountFactory.
     bindS (deployAndWait e P256SmartAccountFactory []) (\<lambda>p256SmartAccountFactoryAddress.
     thenS (console_log ''ENCLAVE_P256_SMART_ACCOUNT_FACTORY_ADDRESS='' [JAddr p256SmartAccountFactoryAddress])
     (bindS (getContractFactory ''EnclaveRegistry'') (\<lambda>EnclaveRegistry.
     bindS (deployAndWait e EnclaveRegistry []) (\<lambda>enclaveRegistryAddress.
     thenS (console_log ''ENCLAVE_REGISTRY_ADDRESS='' [JAddr enclaveRegistryAddress])
     (thenS (update_all e enclaveRegistryAddress
        [(''entryPoint'', JAddr entryPointAddress),
         (''enclaveVerifyingPaymaster'', JAddr enclaveVerifyingPaymasterAddress),
         (''paymaster'', JAddr enclaveVerifyingPaymasterAddress),
         (''paymentToken'', JAddr paymentToken),
         (''p256Verifier'', JAddr p256VerifierAddress),
         (''p256SmartAccountFactory'', JAddr p256SmartAccountFactoryAddress)])
     (console_log ''Registry updated'' []))))))))))))))))))))"

definition deployAllArbMain_main :: "'x ethers_env \<Rightarrow> ('x, unit) script" where
  "deployAllArbMain_main e = deployAll_network e 12000000000000000 0xaf88d065e77c8cC2239327C5EDb3A432268e5831"

definition deployAllOpMain_main :: "'x ethers_env \<Rightarrow> ('x, unit) script" where
  "deployAllOpMain_main e = deployAll_network e 10000000000000000 0x0b2C639c533813f4Aa9D7837CAf62653d097Ff85"

definition deployAllOpSepolia_main :: "'x ethers_env \<Rightarrow> ('x, unit) script" where
  "deployAllOpSepolia_main e = deployAll_network e 20000000000000000 0x5fd84259d66Cd46123540766Be93DFE6D43130D7"

definition deployProd_main :: "'x ethers_env \<Rightarrow> ('x, unit) script" where
  "deployProd_main e =
     (let entryPointAddress = JStr '''' in
     thenS (console_log ''ENTRY_POINT_ADDRESS='' [entryPointAddress])
     (bindS (getContractFactory ''EnclaveVerifyingPaymaster'') (\<lambda>EnclaveVerifyingPaymaster.
     bindS (getSigner e) (\<lambda>signer.
     bindS (deployAndWait e EnclaveVerifyingPaymaster [entryPointAddress, JAddr signer]) (\<lambda>enclaveVerifyingPaymasterAddress.
     thenS (console_log ''ENCLAVE_VERIFYING_PAYMASTER_ADDRESS='' [JAddr enclaveVerifyingPaymasterAddress])
     (thenS (sendS e (''EnclaveVerifyingPaymaster'', enclaveVerifyingPaymasterAddress) ''deposit'' [] 500000000000000000)
     (bindS (getContractFactory ''EnclaveFeeLogicUniswap'') (\<lambda>Feelogic.
     bindS (deployAndWait e Feelogic
              [JAddr 0xa0b86991c6218b36c1d19d4a2e9eb0ce3606eb48, JAddr 0x1f98431c8ad98523631ae4a59f267346ea31f984,
               JNum 1010, JNum 1000]) (\<lambda>feelogicAddress.
     thenS (console_log ''FEELOGIC_ADDRESS='' [JAddr feelogicAddress])
     (let usdcAddress = JStr '''' in
     bindS (getContractFactory ''EnclaveVerifyingTokenPaymaster'') (\<lambda>EnclaveTokenPaymaster.
     bindS (getSigner e) (\<lambda>signer.
     bindS (deployAndWait e EnclaveTokenPaymaster
              [entryPointAddress, JAddr signer, usdcAddress, JAddr feelogicAddress]) (\<lambda>enclaveTokenPaymasterAddress.
     thenS (console_log ''ENCLAVE_TOKEN_PAYMASTER_ADDRESS='' [JAddr enclaveTokenPaymasterAddress])
     (bindS (getContractFactory ''P256Verifier'') (\<lambda>P256Verifier.
     bindS (deployAndWait e P256Verifier []) (\<lambda>p256VerifierAddress.
     thenS (console_log ''P256_VERIFIER_ADDRESS='' [JAddr p256VerifierAddress])
     (bindS (getContractFactory ''P256SmartAccountFactory'') (\<lambda>P256SmartAccountFactory.
     bindS (deployAndWait e P256SmartAccountFactory []) (\<lambda>p256SmartAccountFactoryAddress.
     thenS (console_log ''ENCLAVE_P256_SMART_ACCOUNT_FACTORY_ADDRESS='' [JAddr p256SmartAccountFactoryAddress])
     (bindS (getContractFactory ''EnclaveRegistry'') (\<lambda>EnclaveRegistry.
     bindS (deployAndWait e EnclaveRegistry []) (\<lambda>enclaveRegistryAddress.
     thenS (console_log ''ENCLAVE_REGISTRY_ADDRESS='' [JAddr enclaveRegistryAddress])
     (thenS (update_all e enclaveRegistryAddress
        [(''entryPoint'', entryPointAddress),
         (''enclaveVerifyingPaymaster'', JAddr enclaveVerifyingPaymasterAddress),
         (''enclaveTokenPaymaster'', JAddr enclaveTokenPaymasterAddress),
         (''paymentToken'', usdcAddress),
         (''p256Verifier'', JAddr p256VerifierAddress),
         (''p256SmartAccountFactory'', JAddr p256SmartAccountFactoryAddress)])
     (console_log ''Registry updated'' []))))))))))))))))))))))))"

section \<open>The token paymaster\<close>

definition deployTokenPaymasterArbSepoliaTestnet_main :: "'x ethers_env \<Rightarrow> ('x, unit) script" where
  "deployTokenPaymasterArbSepoliaTestnet_main e =
     bindS (getSigner e) (\<lambda>verifyingSigner.
     bindS (getContractFactory ''EntryPoint'') (\<lambda>entrypointFactory.
     let entryPoint = (entrypointFactory, 0x5FF137D4b0FDCD49DcA30c7CF57E578a026d2789) in
     bindS (getContractFactory ''EnclaveRegistry'') (\<lambda>enclaveRegistryFactory.
     let enclaveRegistry = (enclaveRegistryFactory, 0x959DF35a4bDc25BA125615dfC84621D038A95FA8 :: address) in
     bindS (getContractFactory ''ERC20'') (\<lambda>usdcFactory.
     let usdc = (usdcFactory, 0x75faf114eafb1BDbe2F0316DF893fd58CE46AA4d) in
     bindS (getContractFactory ''EnclaveFeeLogicTestnet'') (\<lambda>feeLogicContractFactory.
     bindS (deployAndWait e feeLogicContractFactory []) (\<lambda>feeLogicContract.
     thenS (console_log ''EnclaveFeeLogicTestnet deployed to: '' [JAddr feeLogicContract])
     (bindS (getContractFactory ''EnclaveVerifyingTokenPaymaster'') (\<lambda>verifyingTokenPaymasterFactory.
     bindS (deployAndWait e verifyingTokenPaymasterFactory
              [JAddr (snd entryPoint), JAddr verifyingSigner, JAddr (snd usdc), JAddr feeLogicContract]) (\<lambda>verifyingTokenPaymaster.
     console_log ''EnclaveVerifyingTokenPaymaster deployed to: '' [JAddr verifyingTokenPaymaster])))))))))"

definition deployTokenPaymasterArbMainnet_main :: "'x ethers_env \<Rightarrow> ('x, unit) script" where
  "deployTokenPaymasterArbMainnet_main e =
     bindS (getSigner e) (\<lambda>verifyingSigner.
     bindS (getContractFactory ''EntryPoint'') (\<lambda>entrypointFactory.
     let entryPoint = (entrypointFactory, 0x10D2b2c1b32b0E47299BFbF6eC078F0E1CE1DbCe :: address) in
     bindS (getContractFactory ''EnclaveRegistry'') (\<lambda>enclaveRegistryFactory.
     let enclaveRegistry = (enclaveRegistryFactory, 0x224e0779e0Ef924f0c0954fe2C886CF58E1a293e :: address) in
     bindS (getContractFactory ''ERC20'') (\<lambda>usdcFactory.
     let usdc = (usdcFactory, 0xaf88d065e77c8cC2239327C5EDb3A432268e5831 :: address) in
     bindS (getContractFactory ''EnclaveFeeLogicMainnet'') (\<lambda>feeLogicContractFactory.
     let feeLogicContract = (feeLogicContractFactory, 0x859F6ac605D36EDDeF68459D3e16cc3BE7401ee5) in
     thenS (console_log ''EnclaveFeeLogicChainlink deployed to: '' [JAddr (snd feeLogicContract)])
     (bindS (viewS e feeLogicContract ''calculateFee'' [JAddr 0, JNum 1000000000000000]) (\<lambda>price.
     thenS (console_log ''Price: '' [price])
     (bindS (getContractFactory ''EnclaveVerifyingTokenPaymaster'') (\<lambda>verifyingTokenPaymasterFactory.
     let verifyingTokenPaymaster = (verifyingTokenPaymasterFactory, 0x55E2A8708a682B2421402fF3184a5915979375Ae) in
     bindS (viewS e verifyingTokenPaymaster ''feeLogic'' []) (\<lambda>feelogicAddress.
     console_log ''1. FeeLogic address: '' [feelogicAddress]))))))))))"

definition deployTokenPaymasterOpMainnet_main :: "'x ethers_env \<Rightarrow> ('x, unit) script" where
  "deployTokenPaymasterOpMainnet_main e =
     bindS (getSigner e) (\<lambda>verifyingSigner.
     bindS (getContractFactory ''EntryPoint'') (\<lambda>entrypointFactory.
     let entryPoint = (entrypointFactory, 0x10D2b2c1b32b0E47299BFbF6eC078F0E1CE1DbCe :: address) in
     bindS (getContractFactory ''EnclaveRegistry'') (\<lambda>enclaveRegistryFactory.
     let enclaveRegistry = (enclaveRegistryFactory, 0x224e0779e0Ef924f0c0954fe2C886CF58E1a293e :: address) in
     bindS (getContractFactory ''ERC20'') (\<lambda>usdcFactory.
     let usdc = (usdcFactory, 0x0b2C639c533813f4Aa9D7837CAf62653d097Ff85) in
     bindS (getContractFactory ''EnclaveFeeLogicMainnet'') (\<lambda>feeLogicContractFactory.
     let feeLogicContract = (feeLogicContractFactory, 0x5C650A69e9dF3aBe9B384c07aB58Fb0fe4E8f4B4) in
     thenS (console_log ''EnclaveFeeLogicChainlink deployed to: '' [JAddr (snd feeLogicContract)])
     (bindS (viewS e feeLogicContract ''calculateFee'' [JAddr 0, JNum 1000000000000000]) (\<lambda>price.
     thenS (console_log ''Price: '' [price])
     (bindS (getContractFactory ''EnclaveVerifyingTokenPaymaster'') (\<lambda>verifyingTokenPaymasterFactory.
     let verifyingTokenPaymaster = (verifyingTokenPaymasterFactory, 0xB94E8384d6b68b28d87Fb216236637c2e8F27109) in
     bindS (viewS e verifyingTokenPaymaster ''feeLogic'' []) (\<lambda>feelogicAddress.
     thenS (console_log ''1. FeeLogic address: '' [feelogicAddress])
     (bindS (viewS e usdc ''allowance''
               [JAddr (snd verifyingTokenPaymaster), JAddr 0x7833eD45069AeE17eA8c84D7F6766CA25D1b8827]) (\<lambda>allowance.
     console_log ''Allowance: '' [allowance]))))))))))))"

definition deployEnclaveRegistry_main :: "'x ethers_env \<Rightarrow> ('x, unit) script" where
  "deployEnclaveRegistry_main e =
     bindS (getContractFactory ''EnclaveRegistry'') (\<lambda>EnclaveRegistry.
     bindS (deployAndWait e EnclaveRegistry []) (\<lambda>enclaveRegistry.
     thenS (console_log ''Address of enclaveRegistry is '' [JAddr enclaveRegistry])
     (let usdcAddress = 0x75faf114eafb1BDbe2F0316DF893fd58CE46AA4d;
          paymasterAddress = 0x166c2b871C6011ae063Cf10feb4efd95eADC6594
      in update_all e enclaveRegistry
           [(''entryPoint'', JAddr 0x5FF137D4b0FDCD49DcA30c7CF57E578a026d2789),
            (''paymaster'', JAddr paymasterAddress), (''paymentToken'', JAddr usdcAddress)])))"

section \<open>The production deployment, step by step\<close>

definition signer_banner :: "'x ethers_env \<Rightarrow> ('x, address) script" where
  "signer_banner e =
     bindS (getSigners e) (\<lambda>signers.
     case signers of [] \<Rightarrow> throwS (Thrown ''TypeError'')
     | signer # _ \<Rightarrow> thenS (console_log ''Signer address:'' [JAddr signer]) (returnS signer))"

definition registry_main :: "'x ethers_env \<Rightarrow> ('x, unit) script" where
  "registry_main e =
     bindS (signer_banner e) (\<lambda>signerAddr.
     let ownerAdd = 0xD02Fd04e15a595019b7c60Eb257B3B7D333F6C00 in
     bindS (getContractFactory ''EnclaveRegistry'') (\<lambda>EnclaveRegistry.
     bindS (deployAndWait e EnclaveRegistry [JAddr ownerAdd]) (\<lambda>enclaveRegistry.
     console_log ''Deployed Registry: '' [JAddr enclaveRegistry])))"

definition accountFactory_main :: "'x ethers_env \<Rightarrow> ('x, unit) script" where
  "accountFactory_main e =
     bindS (signer_banner e) (\<lambda>signerAddr.
     bindS (getContractFactory ''P256SmartAccountFactory'') (\<lambda>P256SmartAccountFactory.
     bindS (deployAndWait e P256SmartAccountFactory []) (\<lambda>p256SmartAccountFactoryAddress.
     thenS (console_log ''ENCLAVE_P256_SMART_ACCOUNT_FACTORY_ADDRESS='' [JAddr p256SmartAccountFactoryAddress])
     (bindS (viewS e (P256SmartAccountFactory, p256SmartAccountFactoryAddress) ''getAccountAddress''
               [JList [JNum 1, JNum 2], JAddr 0xA8E8f8cBD889Fc74882AeDFDcf8323fD7423DB47, JNum 0]) (\<lambda>getDummyAddress.
     console_log ''Dummy Address: '' [getDummyAddress])))))"

definition paymasters_main :: "'x ethers_env \<Rightarrow> ('x, unit) script" where
  "paymasters_main e =
     bindS (signer_banner e) (\<lambda>signerAddr.
     bindS (getContractFactory ''EnclaveVerifyingPaymaster'') (\<lambda>paymasterFactory.
     bindS (deployAndWait e paymasterFactory
              [JAddr 0x5FF137D4b0FDCD49DcA30c7CF57E578a026d2789, JAddr signerAddr]) (\<lambda>paymasterAddr.
     thenS (console_log ''Paymaster='' [JAddr paymasterAddr])
     (thenS (sendS e (paymasterFactory, paymasterAddr) ''deposit'' [] 100000000000000000)
     (thenS (console_log ''deposited in paymaster'' [])
     (bindS (getContractFactory ''EnclaveFeeLogicMainnet'') (\<lambda>feeLogicContractFactory.
     bindS (deployAndWait e feeLogicContractFactory
              [JAddr 0x976B3D034E162d8bD72D6b9C989d545b839003b0, JNum 20]) (\<lambda>feeLogicAddr.
     thenS (console_log ''Fee Logic='' [JAddr feeLogicAddr])
     (bindS (getContractFactory ''EnclaveVerifyingTokenPaymaster'') (\<lambda>tokenPaymasterFactory.
     bindS (deployAndWait e tokenPaymasterFactory
              [JAddr 0x5FF137D4b0FDCD49DcA30c7CF57E578a026d2789, JAddr signerAddr,
               JAddr 0x9702230a8ea53601f5cd2dc00fdbc13d4df4a8c7, JAddr feeLogicAddr]) (\<lambda>tokenPaymaster.
     console_log ''TokenPaymaster='' [JAddr tokenPaymaster])))))))))))"

definition setRegistry_main :: "'x ethers_env \<Rightarrow> ('x, unit) script" where
  "setRegistry_main e =
     bindS (signer_banner e) (\<lambda>signerAddr.
     bindS (getContractFactory ''EnclaveRegistry'') (\<lambda>EnclaveRegistry.
     let enclaveRegistry = (EnclaveRegistry, 0xA8E8f8cBD889Fc74882AeDFDcf8323fD7423DB47) in
     thenS (console_log ''Deployed Registry: '' [JAddr (snd enclaveRegistry)])
     (bindS (viewS e enclaveRegistry ''getRegistryAddress'' [JStr ''entryPoint'']) (\<lambda>verifyValue.
     thenS (console_log ''Res: '' [verifyValue])
     (bindS (viewS e enclaveRegistry ''getRegistryAddress'' [JStr ''p256Verifier'']) (\<lambda>verifyValue2.
     console_log ''Res2: '' [verifyValue2]))))))"

definition account_key :: jsval where
  "account_key =
     JList [JNum 0x440d8eb746e0a6b8da200ed3928ae2db1aa120950200911eca935a05c61ea99a,
            JNum 0x76daad039c44388a531369885b9f65c2d540d0b64726d77077801e1c21bc6c1c]"

definition deployaccount_main :: "'x ethers_env \<Rightarrow> ('x, unit) script" where
  "deployaccount_main e =
     bindS (signer_banner e) (\<lambda>signerAddr.
     bindS (getContractFactory ''P256SmartAccountFactory'') (\<lambda>P256SmartAccountFactory.
     let p256SmartAccountFactory = (P256SmartAccountFactory, 0x502674c8eF6A87A9C485df592033796A5ad71607) in
     bindS (viewS e p256SmartAccountFactory ''getAccountAddress''
              [account_key, JAddr 0xA8E8f8cBD889Fc74882AeDFDcf8323fD7423DB47, JNum 0]) (\<lambda>getDummyAddress.
     thenS (console_log ''Dummy Address: '' [getDummyAddress])
     (bindS (sendS e p256SmartAccountFactory ''createAccount''
               [account_key, JAddr 0xA8E8f8cBD889Fc74882AeDFDcf8323fD7423DB47, JNum 0] 0) (\<lambda>res.
     console_log '''' [JBytes res])))))"

definition P256SmartAccount_deploy_main :: "'x ethers_env \<Rightarrow> ('x, unit) script" where
  "P256SmartAccount_deploy_main e =
     bindS (getContractFactory ''P256SmartAccountFactory'') (\<lambda>P256SmartAccountFactory.
     let pubKeyArg = JList [JNum 0x8c36f69ffec57a20ce5ec75c94f4d1b46bdae751fd90df035d24f4fb54a963ba,
                            JNum 0x93632e668c503f14c6a3a267608326b7bb07f39c7533051d6c6274bc9eb6ab6c];
         enclaveRegistryArg = JAddr 0x959DF35a4bDc25BA125615dfC84621D038A95FA8
     in bindS (deployAndWait e P256SmartAccountFactory []) (\<lambda>p256SmartAccountFactory.
     thenS (console_log ''Address of P256SmartAccountFactory is '' [JAddr p256SmartAccountFactory])
     (bindS (viewS e (P256SmartAccountFactory, p256SmartAccountFactory) ''getAccountAddress''
               [pubKeyArg, enclaveRegistryArg, JNum 0]) (\<lambda>newP256Account.
     thenS (console_log ''New account: '' [newP256Account])
     (bindS (sendS e (P256SmartAccountFactory, p256SmartAccountFactory) ''createAccount''
               [pubKeyArg, enclaveRegistryArg, JNum 0] 0) (\<lambda>tx.
     console_log '''' [JBytes tx]))))))"

end
