(* ===== verification/OpsScripts.thy ===== *)
theory OpsScripts
  imports DeployScripts
begin

text \<open>
  The scripts that read the chain, move value or tokens, or call a deployed contract, and the
  helper \<open>numberToBytes32\<close>. What the clock, the random number generator or the formatter of ethers
  returns is an argument.
\<close>

section \<open>Reading the chain\<close>

fun log_accounts :: "address list \<Rightarrow> ('x, unit) script" where
  "log_accounts [] = returnS ()"
| "log_accounts (a # as) = thenS (console_log '''' [JAddr a]) (log_accounts as)"

definition accounts_main :: "'x ethers_env \<Rightarrow> ('x, unit) script" where
  "accounts_main e = bindS (getSigners e) log_accounts"

definition generateWallet_main :: "address \<Rightarrow> bytes \<Rightarrow> ('x, unit) script" where
  "generateWallet_main walletAddress walletPrivateKey =
     thenS (console_log ''Wallet address:'' [JAddr walletAddress])
     (console_log ''Private key:'' [JBytes walletPrivateKey])"

definition getBalance_main :: "'x ethers_env \<Rightarrow> (jsval \<Rightarrow> string) \<Rightarrow> ('x, unit) script" where
  "getBalance_main e formatEther =
     (let walletAddress = 0xd11b1d18392bEE5a5A95F7e4Abb4bEDfa1Eb6959 in
      bindS (providerS e ''getBalance'' walletAddress) (\<lambda>balance.
      thenS (console_log ''WEI Balance: '' [balance])
      (console_log ''ETH Balance: '' [JStr (formatEther balance)])))"

definition getERC20Balance_main :: "'x ethers_env \<Rightarrow> ('x, unit) script" where
  "getERC20Balance_main e =
     (let walletAddress = 0xd11b1d18392bEE5a5A95F7e4Abb4bEDfa1Eb6959;
          tokenAddress = 0x1CD873d27D145523C0cf2b71D42eE15ba7D91b7b
      in bindS (getContractFactory ''ERC20'') (\<lambda>ERC20.
         bindS (viewS e (ERC20, tokenAddress) ''balanceOf'' [JAddr walletAddress]) (\<lambda>balance.
         console_log ''Balance: '' [balance])))"

definition getNonce_main :: "'x ethers_env \<Rightarrow> ('x, unit) script" where
  "getNonce_main e =
     (let address = 0xFe7bd528ec2375a3d6Bd3fB37E55f6BD7ae229aa in
      bindS (providerS e ''getTransactionCount'' address) (\<lambda>nonce.
      console_log ''Nonce for address:'' [JAddr address, nonce]))"

definition getImplementationFromFactory_main :: "'x ethers_env \<Rightarrow> ('x, unit) script" where
  "getImplementationFromFactory_main e =
     bindS (signer_banner e) (\<lambda>signerAddr.
     bindS (getContractFactory ''P256SmartAccountFactory'') (\<lambda>P256SmartAccountFactory.
     let p256SmartAccount = (P256SmartAccountFactory, 0x502674c8eF6A87A9C485df592033796A5ad71607) in
     bindS (viewS e p256SmartAccount ''accountImplementation'' []) (\<lambda>getDummyAddress.
     console_log ''Dummy Address: '' [getDummyAddress])))"

definition getRegistryAddressFromAccount_main :: "'x ethers_env \<Rightarrow> ('x, unit) script" where
  "getRegistryAddressFromAccount_main e =
     bindS (signer_banner e) (\<lambda>signerAddr.
     bindS (getContractFactory ''P256SmartAccount'') (\<lambda>P256SmartAccountFactory.
     let p256SmartAccount = (P256SmartAccountFactory, 0xc6d57B0843b56995bF1b131cE740407Fe2cd7936) in
     bindS (viewS e p256SmartAccount ''enclaveRegistry'' []) (\<lambda>getDummyAddress.
     console_log ''Dummy Address: '' [getDummyAddress])))"

definition depositPaymaster_main :: "'x ethers_env \<Rightarrow> ('x, unit) script" where
  "depositPaymaster_main e =
     bindS (getSigner e) (\<lambda>verifyingSigner.
     let paymasterAddress = 0xB94E8384d6b68b28d87Fb216236637c2e8F27109;
         entryPointAddress = 0x10D2b2c1b32b0E47299BFbF6eC078F0E1CE1DbCe;
         paymaster = (''EnclaveVerifyingTokenPaymaster'', paymasterAddress);
         entryPoint = (''EntryPoint'', entryPointAddress)
     in bindS (viewS e paymaster ''entryPoint'' []) (\<lambda>ep.
        thenS (console_log '''' [ep])
        (bindS (viewS e entryPoint ''deposits'' [JAddr paymasterAddress]) (\<lambda>deposits.
        console_log '''' [deposits]))))"

definition deployERC20_main :: "'x ethers_env \<Rightarrow> ('x, unit) script" where
  "deployERC20_main e =
     bindS (getContractFactory ''MockUSDC'') (\<lambda>ERC20.
     let erc20 = (ERC20, 0x68B1D87F95878fE05B998F19b66F4baba5De1aed);
         scw_address = 0xeC5A9a343CbD923806Ad1A408496E7410018e637
     in bindS (viewS e erc20 ''balanceOf'' [JAddr scw_address]) (\<lambda>balance.
        console_log ''Balance of contract: '' [balance]))"

definition smartAccountEntrypoint_main :: "'x ethers_env \<Rightarrow> ('x, unit) script" where
  "smartAccountEntrypoint_main e =
     (let smartAccountAddress = 0xd11b1d18392bEE5a5A95F7e4Abb4bEDfa1Eb6959 in
      bindS (getContractFactory ''SmartAccount'') (\<lambda>smartAccountContractFactory.
      let smartAccountContract = (smartAccountContractFactory, smartAccountAddress) in
      bindS (viewS e smartAccountContract ''entryPoint'' []) (\<lambda>entrypoint.
      thenS (console_log ''Entrypoint: '' [entrypoint])
      (bindS (viewS e smartAccountContract ''owner'' []) (\<lambda>owner.
      console_log ''Owner: '' [owner])))))"

section \<open>The registry\<close>

definition setPaymasterAndPaymentToken_main :: "'x ethers_env \<Rightarrow> ('x, unit) script" where
  "setPaymasterAndPaymentToken_main e =
     bindS (getSigner e) (\<lambda>verifyingSigner.
     thenS (console_log ''VERIFIER_ADDRESS='' [JAddr verifyingSigner])
     (bindS (getContractFactory ''EnclaveRegistry'') (\<lambda>EnclaveRegistry.
     let enclaveRegistry = (EnclaveRegistry, 0xB7283976e6084749084f4f0944146E7F168cEe38) in
     thenS (sendS e enclaveRegistry ''updateRegistryAddress''
              [JStr ''entryPoint'', JAddr 0x5FF137D4b0FDCD49DcA30c7CF57E578a026d2789] 0)
     (console_log ''Registry updated'' []))))"

fun log_registry :: "'x ethers_env \<Rightarrow> handle \<Rightarrow> string list \<Rightarrow> ('x, unit) script" where
  "log_registry e registry [] = returnS ()"
| "log_registry e registry (k # ks) =
     bindS (viewS e registry ''getRegistryAddress'' [JStr k]) (\<lambda>v.
     thenS (console_log k [v]) (log_registry e registry ks))"

definition getAllRegistryValues_main :: "'x ethers_env \<Rightarrow> ('x, unit) script" where
  "getAllRegistryValues_main e =
     bindS (getSigner e) (\<lambda>verifyingSigner.
     thenS (console_log ''VERIFIER_ADDRESS='' [JAddr verifyingSigner])
     (bindS (getContractFactory ''EnclaveRegistry'') (\<lambda>EnclaveRegistry.
     let enclaveRegistry = (EnclaveRegistry, 0xB7283976e6084749084f4f0944146E7F168cEe38) in
     thenS (console_log ''Registry values:'' [])
     (log_registry e enclaveRegistry
        [''entryPoint'', ''enclaveVerifyingPaymaster'', ''paymaster'', ''paymentToken'', ''p256Verifier'',
         ''p256SmartAccountFactory'']))))"

definition test_main :: "'x ethers_env \<Rightarrow> ('x, unit) script" where
  "test_main e =
     bindS (getSigner e) (\<lambda>verifyingSigner.
     let usdcAddress = 0x75faf114eafb1BDbe2F0316DF893fd58CE46AA4d;
         paymasterAddress = 0x166c2b871C6011ae063Cf10feb4efd95eADC6594;
         ownerAddress = 0xA38f83d924b9a0e339717714E156dA7f8842366d;
         registry = 0x1705AC759b732Ed198875C7b97853D75325F9A06;
         mockUSDC = (''MockUSDC'', usdcAddress)
     in bindS (viewS e mockUSDC ''allowance'' [JAddr ownerAddress, JAddr paymasterAddress]) (\<lambda>allowance.
        thenS (console_log ''Allowance: '' [allowance])
        (let registryContract = (''EnclaveRegistry'', registry) in
         bindS (viewS e registryContract ''getRegistryAddress'' [JStr ''paymaster'']) (\<lambda>paymasterKey.
         thenS (console_log ''Paymaster key: '' [paymasterKey])
         (bindS (viewS e registryContract ''getRegistryAddress'' [JStr ''paymentToken'']) (\<lambda>paymentToken.
         console_log ''Payment Token: '' [paymentToken]))))))"

section \<open>Moving value and tokens\<close>

definition transferEth_main :: "'x ethers_env \<Rightarrow> ('x, unit) script" where
  "transferEth_main e =
     bindS (getSigners e) (\<lambda>signers.
     if signers = [] then throwS (Thrown ''TypeError'')
     else bindS (transferS e 0xd11b1d18392bEE5a5A95F7e4Abb4bEDfa1Eb6959 1000000000000000) (\<lambda>tx.
          console_log ''Transaction hash:'' [JBytes tx]))"

definition transferEthOpSepolia_main :: "'x ethers_env \<Rightarrow> ('x, unit) script" where
  "transferEthOpSepolia_main e =
     bindS (getSigner e) (\<lambda>verifyingSigner.
     let ownerAddress = 0xD02Fd04e15a595019b7c60Eb257B3B7D333F6C00 in
     bindS (providerS e ''getBalance'' ownerAddress) (\<lambda>ethBalance.
     thenS (console_log ''ETH balance: '' [ethBalance])
     (bindS (transferS e ownerAddress 40000000000000000) (\<lambda>tx.
     console_log ''Transaction hash: '' [JBytes tx]))))"

definition mintNFT_main :: "'x ethers_env \<Rightarrow> ('x, unit) script" where
  "mintNFT_main e =
     bindS (getSigners e) (\<lambda>signers.
     bindS (getContractFactory ''GasNFT'') (\<lambda>gasNFT.
     let contract = (gasNFT, 0x859F6ac605D36EDDeF68459D3e16cc3BE7401ee5) in
     case signers of
       deployer # deployer2 # _ \<Rightarrow>
         thenS (sendS e contract ''mintNFT'' [JAddr deployer2] 0) (console_log ''NFT minted successfully'' [])
     | _ \<Rightarrow> throwS (Thrown ''TypeError'')))"

definition mintUSDC_main :: "'x ethers_env \<Rightarrow> ('x, unit) script" where
  "mintUSDC_main e =
     bindS (getSigner e) (\<lambda>verifyingSigner.
     let usdcAddress = 0xDc64a140Aa3E981100a9becA4E685f962f0cF6C9;
         ownerAddress = 0x649b01D5212a8Ca9B2FfF0D5843346aeedC715C7;
         mockUSDC = (''MockUSDC'', usdcAddress)
     in thenS (transferS e ownerAddress 10000000000000000000)
        (thenS (sendS e mockUSDC ''mint'' [JAddr ownerAddress, JNum 10000000000000000000000000] 0)
        (returnS ())))"

definition deployMockUSDC :: "'x ethers_env \<Rightarrow> ('x, handle) script" where
  "deployMockUSDC e =
     bindS (getContractFactory ''MockUSDC'') (\<lambda>MockUSDC_factory.
     bindS (deployAndWait e MockUSDC_factory [JStr ''USDM'', JStr ''USD Mock'']) (\<lambda>mockUSDC.
     thenS (console_log ''USD Mock deployed to: '' [JAddr mockUSDC])
     (returnS (MockUSDC_factory, mockUSDC))))"

definition getMockUSDC :: "address \<Rightarrow> ('x, handle) script" where
  "getMockUSDC a = bindS (getContractFactory ''MockUSDC'') (\<lambda>MockUSDC_factory. returnS (MockUSDC_factory, a))"

definition fakeUSDC_main :: "'x ethers_env \<Rightarrow> ('x, unit) script" where
  "fakeUSDC_main e =
     (let paymasterAddress = 0x1d4146d4a7d315f96e17a4c0C7deB40D835d0941 in
      bindS (getMockUSDC 0xf09156042741F67F8099D17eB22638F01F97974b) (\<lambda>mockUSDC.
      thenS (sendS e mockUSDC ''mint'' [JAddr paymasterAddress, JNum 1000000000000000000000000000000000000] 0)
      (thenS (console_log ''Minted 10000 USDM to user'' [])
      (bindS (viewS e mockUSDC ''balanceOf'' [JAddr paymasterAddress]) (\<lambda>balance.
      console_log ''Balance of user: '' [balance])))))"

section \<open>The solver balance\<close>

definition deployEntrypoint :: "'x ethers_env \<Rightarrow> ('x, handle) script" where
  "deployEntrypoint e =
     bindS (getContractFactory ''EntryPoint'') (\<lambda>Entrypoint_factory.
     bindS (deployAndWait e Entrypoint_factory []) (\<lambda>entrypoint.
     thenS (console_log ''Entrypoint deployed to:'' [JAddr entrypoint])
     (returnS (Entrypoint_factory, entrypoint))))"

definition getEntrypointContract :: "address \<Rightarrow> ('x, handle) script" where
  "getEntrypointContract a =
     bindS (getContractFactory ''EntryPoint'') (\<lambda>Entrypoint_factory. returnS (Entrypoint_factory, a))"

definition deploySmartAccountFactory :: "'x ethers_env \<Rightarrow> ('x, handle) script" where
  "deploySmartAccountFactory e =
     bindS (getContractFactory ''SmartAccountFactory'') (\<lambda>SmartAccountFactory_factory.
     bindS (deployAndWait e SmartAccountFactory_factory []) (\<lambda>factory.
     thenS (console_log ''SmartAccountFactory deployed to:'' [JAddr factory])
     (returnS (SmartAccountFactory_factory, factory))))"

definition getSmartAccountFactory :: "address \<Rightarrow> ('x, handle) script" where
  "getSmartAccountFactory a =
     bindS (getContractFactory ''SmartAccountFactory'') (\<lambda>SmartAccountFactory_factory.
     returnS (SmartAccountFactory_factory, a))"

definition deploySmartAccount ::
    "'x ethers_env \<Rightarrow> address \<Rightarrow> address \<Rightarrow> address \<Rightarrow> ('x, jsval) script" where
  "deploySmartAccount e factoryAddress ownerAddress entrypointAddress =
     bindS (getSmartAccountFactory factoryAddress) (\<lambda>factory.
     bindS (viewS e factory ''getAccountAddress'' [JAddr ownerAddress, JAddr entrypointAddress, JNum 0]) (\<lambda>contractAddress.
     thenS (console_log ''Contract address:'' [contractAddress])
     (bindS (sendS e factory ''createAccount'' [JAddr ownerAddress, JAddr entrypointAddress] 0) (\<lambda>tx.
     thenS (console_log ''Smart Account deployed to:'' [contractAddress])
     (returnS contractAddress)))))"

definition deploySolverPaymaster :: "'x ethers_env \<Rightarrow> address \<Rightarrow> address \<Rightarrow> ('x, handle) script" where
  "deploySolverPaymaster e entrypointAddress verifyingSignerAddress =
     bindS (getContractFactory ''EnclaveSolverPaymaster'') (\<lambda>SolverPaymaster_factory.
     bindS (deployAndWait e SolverPaymaster_factory [JAddr entrypointAddress, JAddr verifyingSignerAddress]) (\<lambda>paymaster.
     thenS (console_log ''SolverPaymaster deployed to:'' [JAddr paymaster])
     (returnS (SolverPaymaster_factory, paymaster))))"

definition getSolverPaymaster :: "address \<Rightarrow> ('x, handle) script" where
  "getSolverPaymaster a =
     bindS (getContractFactory ''EnclaveSolverPaymaster'') (\<lambda>SolverPaymaster_factory.
     returnS (SolverPaymaster_factory, a))"

definition eoa_account_main :: "'x ethers_env \<Rightarrow> ('x, unit) script" where
  "eoa_account_main e =
     (let paymasterEOA = 0x399e8917Cd7Ce367b06bFfd0863E465B0Fd950dB in
      bindS (deployEntrypoint e) (\<lambda>entrypoint.
      bindS (deploySmartAccountFactory e) (\<lambda>factory.
      bindS (deploySolverPaymaster e (snd entrypoint) paymasterEOA) (\<lambda>solverPaymaster.
      thenS (sendS e solverPaymaster ''deposit'' [] 10000000000000000)
      (console_log ''Deposited to SolverPaymaster'' [])))))"

definition VALID_UNTIL :: "nat \<Rightarrow> nat" where
  "VALID_UNTIL now = (now + 3600000) div 1000"

definition VALID_AFTER :: "nat \<Rightarrow> nat" where
  "VALID_AFTER now = now div 1000"

definition solver_userOp :: UserOperation where
  "solver_userOp =
     \<lparr>sender = 0xd11b1d18392bEE5a5A95F7e4Abb4bEDfa1Eb6959, nonce = 2, initCode = [],
      callData = be_bytes 388 0x47e1da2a000000000000000000000000000000000000000000000000000000000000006000000000000000000000000000000000000000000000000000000000000000a000000000000000000000000000000000000000000000000000000000000000c00000000000000000000000000000000000000000000000000000000000000001000000000000000000000000f09156042741f67f8099d17eb22638f01f97974b0000000000000000000000000000000000000000000000000000000000000000000000000000000000000000000000000000000000000000000000000000000100000000000000000000000000000000000000000000000000000000000000200000000000000000000000000000000000000000000000000000000000000044a9059cbb00000000000000000000000049140bb5ad7c8978af483be9ca9eb40e57da0fdf0000000000000000000000000000000000000000000000000000000000003a9800000000000000000000000000000000000000000000000000000000,
      callGasLimit = 198891, verificationGasLimit = 1000000, preVerificationGas = 300000, maxFeePerGas = 506,
      maxPriorityFeePerGas = 0, paymasterAndData = [], signature = []\<rparr>"

text \<open>The two readings of the clock are arguments, in milliseconds.\<close>

definition print_solver_hash :: "'x ethers_env \<Rightarrow> handle \<Rightarrow> nat \<Rightarrow> nat \<Rightarrow> ('x, unit) script" where
  "print_solver_hash e paymasterContract now1 now2 =
     tryS
       (bindS (viewS e paymasterContract ''getHash''
                 [JUserOp solver_userOp, JNum (int (VALID_UNTIL now1)), JNum (int (VALID_AFTER now2)),
                  JAddr 0xf09156042741F67F8099D17eB22638F01F97974b, JNum 15000]) (\<lambda>hash.
        console_log ''Generated hash:'' [hash]))
       (\<lambda>error. console_log ''Error calling getHash:'' [])"

definition paymasterFunctions_main :: "'x ethers_env \<Rightarrow> nat \<Rightarrow> nat \<Rightarrow> ('x, unit) script" where
  "paymasterFunctions_main e now1 now2 =
     bindS (getContractFactory ''EnclaveSolverPaymaster'') (\<lambda>paymasterContractFactory.
     print_solver_hash e (paymasterContractFactory, 0x1d4146d4a7d315f96e17a4c0C7deB40D835d0941) now1 now2)"

definition paymasterFunctionsV1_main :: "'x ethers_env \<Rightarrow> nat \<Rightarrow> nat \<Rightarrow> ('x, unit) script" where
  "paymasterFunctionsV1_main e now1 now2 =
     bindS (getContractFactory ''EnclaveSolverPaymasterV1'') (\<lambda>paymasterContractFactory.
     bindS (deploy e paymasterContractFactory
              [JAddr 0xF522AA3eC4dA6237a9570021AB6187Ca111aa8b3, JAddr 0x399e8917Cd7Ce367b06bFfd0863E465B0Fd950dB]) (\<lambda>paymasterContract.
     thenS (console_log ''Paymaster contract deployed at:'' [JAddr paymasterContract])
     (bindS (sendS e (paymasterContractFactory, paymasterContract) ''deposit'' [] 10000000000000000) (\<lambda>res.
     thenS (console_log ''Deposit result:'' [JBytes res])
     (print_solver_hash e (paymasterContractFactory, paymasterContract) now1 now2)))))"

definition deployVault :: "'x ethers_env \<Rightarrow> ('x, handle) script" where
  "deployVault e =
     bindS (getContractFactory ''EnclaveTokenVaultV0'') (\<lambda>Vault_factory.
     bindS (deployAndWait e Vault_factory []) (\<lambda>vault.
     thenS (console_log ''Vault deployed to: '' [JAddr vault])
     (returnS (Vault_factory, vault))))"

definition getVault :: "address \<Rightarrow> ('x, handle) script" where
  "getVault a = bindS (getContractFactory ''EnclaveTokenVaultV0'') (\<lambda>Vault_factory. returnS (Vault_factory, a))"

definition vault_proof :: "address \<Rightarrow> bytes" where
  "vault_proof userAddress = abi_encode [AWord (ucast userAddress)]"

definition vault_main :: "'x ethers_env \<Rightarrow> ('x, unit) script" where
  "vault_main e =
     (let userAddress = 0xd11b1d18392bEE5a5A95F7e4Abb4bEDfa1Eb6959;
          proof' = vault_proof userAddress
      in thenS (console_log ''Proof: '' [JBytes proof'])
         (let tokenAddress = 0xf09156042741F67F8099D17eB22638F01F97974b;
              vaultAddress = 0xeBEA90FeD3e2f9130c7e6B39376a110F379c13e7
          in bindS (getVault vaultAddress) (\<lambda>vault.
             thenS (console_log ''Vault deployed to: '' [JAddr vaultAddress])
             (bindS (viewS e vault ''deposits'' [JAddr tokenAddress, JAddr userAddress]) (\<lambda>deposit.
             console_log ''Deposit: '' [deposit])))))"

definition UniFeeLogicNew_main :: "'x ethers_env \<Rightarrow> ('x, unit) script" where
  "UniFeeLogicNew_main e =
     bindS (getSigner e) (\<lambda>verifyingSigner.
     bindS (getContractFactory ''EnclaveFeeLogicUniswap'') (\<lambda>UniswapFeeLogicFactory.
     let uniswapFeeLogic = (UniswapFeeLogicFactory, 0x9C7732875d1d788D4Ebf9492D34043B51e186204) in
     thenS (console_log ''UniswapFeeLogic deployed to:'' [JAddr (snd uniswapFeeLogic)])
     (bindS (sendS e uniswapFeeLogic ''updateMarkup'' [JNum 105] 0) (\<lambda>res1.
     bindS (sendS e uniswapFeeLogic ''updateMarkupDenominator'' [JNum 100] 0) (\<lambda>res2.
     bindS (viewS e uniswapFeeLogic ''markup'' []) (\<lambda>markup.
     bindS (viewS e uniswapFeeLogic ''markupDenominator'' []) (\<lambda>markupDenominator.
     thenS (console_log ''markup: '' [markup, markupDenominator])
     (bindS (viewS e uniswapFeeLogic ''findOptimalPool'' [JAddr 0x0b2c639c533813f4aa9d7837caf62653d097ff85]) (\<lambda>res3.
     thenS (console_log ''OPT POOL: '' [res3])
     (bindS (viewS e uniswapFeeLogic ''calculateFee''
               [JAddr 0x0b2c639c533813f4aa9d7837caf62653d097ff85, JNum 10000000000000000]) (\<lambda>res4.
     console_log ''result: '' [res4])))))))))))"

section \<open>Passkey verification\<close>

text \<open>
  The bytes two of the scripts hash: the client data with the challenge of a signed operation, and
  37 bytes of authenticator data. \<open>crypto\<close> of node computes SHA-256 over them, with the digest as
  bytes.
\<close>

definition quoted :: "string \<Rightarrow> string" where
  "quoted s = [CHR 0x22] @ s @ [CHR 0x22]"

definition client_data_pre :: bytes where
  "client_data_pre =
     ascii (''{'' @ quoted ''type'' @ '':'' @ quoted ''webauthn.get'' @ '','' @ quoted ''challenge'' @ '':'' @ [CHR 0x22])"

definition client_data_post :: bytes where
  "client_data_post =
     ascii ([CHR 0x22] @ '','' @ quoted ''origin'' @ '':'' @ quoted ''http://localhost:8000'' @ '','' @
            quoted ''crossOrigin'' @ '':false}'')"

definition client_data :: "string \<Rightarrow> bytes" where
  "client_data challenge = client_data_pre @ ascii challenge @ client_data_post"

definition authenticator_bytes :: bytes where
  "authenticator_bytes =
     [73, 150,  13, 229, 136,  14, 140, 104, 116,
      52,  23,  15, 100, 118,  96,  91, 143, 228,
      174, 185, 162, 134,  50, 199, 153,  92, 243,
      186, 131,  29, 151,  99,  29,   0,   0,   0,
      0]"

definition sha256_digest :: "'x ethers_env \<Rightarrow> bytes \<Rightarrow> bytes" where
  "sha256_digest e bs = abi_word (sha256 (en_crypto e) bs)"

text \<open>Lines shared by the three verification scripts: the two digests, printed on the way.\<close>

definition passkey_digest :: "'x ethers_env \<Rightarrow> ('x, bytes) script" where
  "passkey_digest e =
     (let clientDataJSON' = client_data ''wWmDIw57b4Wd14S4MkzJoSzrd_rcpvAzMAZDCUmM1MM'';
          clientDataHash = sha256_digest e clientDataJSON'
      in thenS (console_log ''clientDat'' [JBytes clientDataHash])
         (let concatenatedData = authenticator_bytes @ clientDataHash
          in thenS (console_log '''' [JBytes concatenatedData])
             (let hash2Digest = sha256_digest e concatenatedData
              in thenS (console_log ''Yolo: '' [JBytes hash2Digest]) (returnS hash2Digest))))"

definition passkey_key :: jsval where
  "passkey_key =
     JList [JNum 0xb3ef0eb6729d78ff039b7d99dbebef10d15151e12c2750cc3e9906ff18e077dc,
            JNum 0xc5928d1c4b8b56c27e3361afe6c3c9f4b78da21c9a75eedaf41de1503f5ec80f]"

definition passkey_r :: int where
  "passkey_r = 68451300771154902330033335987224646117671067567357512230763650650451954468791"

definition passkey_s :: int where
  "passkey_s = 112777508870135633727467010426564055435309001218801459625679345492236984478291"

definition P256V_main :: "'x ethers_env \<Rightarrow> ('x, unit) script" where
  "P256V_main e =
     bindS (passkey_digest e) (\<lambda>hash2Digest.
     bindS (getContractFactory ''P256V'') (\<lambda>p256VerifierFactory.
     let p256verifier = (p256VerifierFactory, 0x232fCFD3DB08926B387dCF31d00AD23da705402a) in
     thenS (console_log ''P256V deployed to: '' [JAddr (snd p256verifier)])
     (bindS (viewS e p256verifier ''verify''
               [JBytes hash2Digest, JNum passkey_r, JNum passkey_s, passkey_key]) (\<lambda>res.
     console_log ''Res: '' [res]))))"

definition v_main :: "'x ethers_env \<Rightarrow> ('x, unit) script" where
  "v_main e =
     bindS (passkey_digest e) (\<lambda>hash2Digest.
     bindS (getContractFactory ''P256V'') (\<lambda>p256VerifierFactory.
     let p256verifier = (p256VerifierFactory, 0xe4fc1002E56cf8deDCE7b69ba94c88a47feb6500) in
     thenS (console_log ''P256V deployed to: '' [JAddr (snd p256verifier)])
     (bindS (viewS e p256verifier ''precompile'' []) (\<lambda>precompile.
     thenS (console_log ''Precompile: '' [precompile])
     (bindS (viewS e p256verifier ''verify''
               [JBytes hash2Digest, JNum passkey_r, JNum passkey_s, passkey_key]) (\<lambda>res.
     console_log ''Res: '' [res]))))))"

definition P256VerifyTest_main :: "'x ethers_env \<Rightarrow> ('x, unit) script" where
  "P256VerifyTest_main e =
     bindS (passkey_digest e) (\<lambda>hash2Digest.
     bindS (getContractFactory ''P256Verifier'') (\<lambda>p256VerifierFactory.
     bindS (deploy e p256VerifierFactory []) (\<lambda>p256verifier.
     thenS (console_log ''P256Verifier deployed to: '' [JAddr p256verifier])
     (bindS (viewS e (p256VerifierFactory, p256verifier) ''ecdsa_verify''
               [JBytes hash2Digest, JNum passkey_r, JNum passkey_s, passkey_key]) (\<lambda>res.
     console_log ''Res: '' [res])))))"

section \<open>The registry test\<close>

datatype js_number = Whole int | Fractional

text \<open>\<open>toString(16)\<close> and \<open>padStart(64, '0')\<close>.\<close>

definition hex_digit :: "nat \<Rightarrow> char" where
  "hex_digit d = ''0123456789abcdef'' ! d"

fun toString16 :: "nat \<Rightarrow> string" where
  "toString16 n = (if n < 16 then [hex_digit n] else toString16 (n div 16) @ [hex_digit (n mod 16)])"

declare toString16.simps [simp del]

definition padStart :: "nat \<Rightarrow> char \<Rightarrow> string \<Rightarrow> string" where
  "padStart n c s = replicate (n - length s) c @ s"

definition numberToBytes32 :: "js_number \<Rightarrow> script_error + string" where
  "numberToBytes32 num =
     (case num of
        Fractional \<Rightarrow> Inl (Thrown ''Input must be a positive integer'')
      | Whole k \<Rightarrow>
          if k < 0 then Inl (Thrown ''Input must be a positive integer'')
          else let hexString = toString16 (nat k);
                   hexString = padStart 64 (CHR ''0'') hexString
               in Inr (''0x'' @ hexString))"

definition bytes32Zero :: "('x, jsval) script" where
  "bytes32Zero = bindS (liftS (numberToBytes32 (Whole 0))) (\<lambda>s. returnS (JStr s))"

definition registry_address :: "jsval \<Rightarrow> address" where
  "registry_address v = (case v of JAddr a \<Rightarrow> a | _ \<Rightarrow> 0)"

definition deployRegistryTest_main :: "'x ethers_env \<Rightarrow> ('x, unit) script" where
  "deployRegistryTest_main e =
     bindS (signer_banner e) (\<lambda>signerAddr.
     bindS (getContractFactory ''EnclaveRegistryImplementationFactory'') (\<lambda>ImplementationFactory.
     bindS (deployAndWait e ImplementationFactory []) (\<lambda>implementationFactory.
     thenS (console_log ''EnclaveRegistryImplementationFactory deployed to:'' [JAddr implementationFactory])
     (bindS bytes32Zero (\<lambda>salt.
     bindS (viewS e (ImplementationFactory, implementationFactory) ''getImplementationAddress'' [salt]) (\<lambda>implementationAddress.
     thenS (console_log ''EnclaveRegistry implementation address:'' [implementationAddress])
     (bindS bytes32Zero (\<lambda>salt.
     thenS (sendS e (ImplementationFactory, implementationFactory) ''deployImplementation'' [salt] 0)
     (thenS (console_log ''EnclaveRegistry implementation deployed to:'' [implementationAddress])
     (bindS (getContractFactory ''EnclaveRegistryFactory'') (\<lambda>EnclaveRegistryFactory.
     bindS (deployAndWait e EnclaveRegistryFactory [implementationAddress]) (\<lambda>registryFactory.
     thenS (console_log ''EnclaveRegistryFactory deployed to:'' [JAddr registryFactory])
     (bindS bytes32Zero (\<lambda>salt.
     bindS (viewS e (EnclaveRegistryFactory, registryFactory) ''getRegistryAddress'' [JAddr signerAddr, salt]) (\<lambda>predictedRegistryAddress.
     thenS (console_log ''Predicted EnclaveRegistry address:'' [predictedRegistryAddress])
     (bindS bytes32Zero (\<lambda>salt.
     thenS (sendS e (EnclaveRegistryFactory, registryFactory) ''createRegistry'' [JAddr signerAddr, salt] 0)
     (thenS (console_log ''EnclaveRegistry deployed to:'' [predictedRegistryAddress])
     (bindS (getContractFactory ''EnclaveRegistry'') (\<lambda>EnclaveRegistry.
     let registry = (EnclaveRegistry, registry_address predictedRegistryAddress) in
     bindS (viewS e registry ''owner'' []) (\<lambda>owner.
     thenS (console_log ''REGISTRY OWNER: '' [owner])
     (let key = ''testKey''; value = JAddr 0x75B853DdffECAD6192cacF0547ea25140C74FA17 in
     thenS (sendS e registry ''updateRegistryAddress'' [JStr key, value] 0)
     (thenS (console_log ''Set testKey to'' [value])
     (bindS (viewS e registry ''getRegistryAddress'' [JStr key]) (\<lambda>fetchedValue.
     thenS (console_log ''Fetched value for testKey:'' [fetchedValue])
     (if fetchedValue = value then console_log ''Value verification successful!'' []
      else console_log ''Value verification failed!'' []))))))))))))))))))))))))))"

end
