(* ===== verification/UserOpScripts.thy ===== *)
theory UserOpScripts
  imports OpsScripts
begin

text \<open>
  The scripts that build, sponsor, sign and send a user operation: \<open>runTransferPassKey.js\<close>,
  \<open>runTransferPassKeyarb.js\<close> and \<open>runTransferPassKeyfinal.js\<close>. A hexadecimal string is a string; the
  signature functions of the wallet and of \<open>@noble/curves\<close>, the bundler and the private key are
  arguments.
\<close>

section \<open>Helpers\<close>

definition to_hex :: "bytes \<Rightarrow> string" where
  "to_hex bs = ''0x'' @ concat (map (\<lambda>b. [hex_digit (unat b div 16), hex_digit (unat b mod 16)]) bs)"

definition hex_value :: "char \<Rightarrow> nat" where
  "hex_value c =
     (let n = of_char c in
      if 48 \<le> n \<and> n \<le> 57 then n - 48 else if 97 \<le> n \<and> n \<le> 102 then n - 87 else n - 55)"

fun hex_bytes :: "string \<Rightarrow> bytes" where
  "hex_bytes (h # l # cs) = of_nat (16 * hex_value h + hex_value l) # hex_bytes cs"
| "hex_bytes _ = []"

definition from_hex :: "string \<Rightarrow> bytes" where
  "from_hex s = hex_bytes (drop 2 s)"

definition hexConcat :: "string list \<Rightarrow> string" where
  "hexConcat items = foldl (\<lambda>result item. result @ drop 2 item) ''0x'' items"

text \<open>An operation some of whose fields are \<open>null\<close>.\<close>

record partial_op =
  op_sender :: "address option"
  op_nonce :: "uint256 option"
  op_initCode :: "bytes option"
  op_callData :: "bytes option"
  op_callGasLimit :: "uint256 option"
  op_verificationGasLimit :: "uint256 option"
  op_preVerificationGas :: "uint256 option"
  op_maxFeePerGas :: "uint256 option"
  op_maxPriorityFeePerGas :: "uint256 option"
  op_paymasterAndData :: "bytes option"
  op_signature :: "bytes option"

definition DefaultsForUserOp :: UserOperation where
  "DefaultsForUserOp =
     \<lparr>sender = 0, nonce = 0, initCode = [], callData = [], callGasLimit = 0,
      verificationGasLimit = 3000000, preVerificationGas = 10000000, maxFeePerGas = 0,
      maxPriorityFeePerGas = 1000000000, paymasterAndData = [], signature = []\<rparr>"

definition orElse :: "'a option \<Rightarrow> 'a \<Rightarrow> 'a" where
  "orElse v d = (case v of None \<Rightarrow> d | Some x \<Rightarrow> x)"

definition fillUserOpDefaults :: "partial_op \<Rightarrow> UserOperation \<Rightarrow> UserOperation" where
  "fillUserOpDefaults op defaults =
     \<lparr>sender = orElse (op_sender op) (sender defaults),
      nonce = orElse (op_nonce op) (nonce defaults),
      initCode = orElse (op_initCode op) (initCode defaults),
      callData = orElse (op_callData op) (callData defaults),
      callGasLimit = orElse (op_callGasLimit op) (callGasLimit defaults),
      verificationGasLimit = orElse (op_verificationGasLimit op) (verificationGasLimit defaults),
      preVerificationGas = orElse (op_preVerificationGas op) (preVerificationGas defaults),
      maxFeePerGas = orElse (op_maxFeePerGas op) (maxFeePerGas defaults),
      maxPriorityFeePerGas = orElse (op_maxPriorityFeePerGas op) (maxPriorityFeePerGas defaults),
      paymasterAndData = orElse (op_paymasterAndData op) (paymasterAndData defaults),
      signature = orElse (op_signature op) (signature defaults)\<rparr>"

definition packUserOp :: "evm_crypto \<Rightarrow> UserOperation \<Rightarrow> bytes" where
  "packUserOp c userOp =
     abi_encode
       [AWord (ucast (sender userOp)),
        AWord (nonce userOp),
        AWord (keccak256 c (initCode userOp)),
        AWord (keccak256 c (callData userOp)),
        AWord (callGasLimit userOp),
        AWord (verificationGasLimit userOp),
        AWord (preVerificationGas userOp),
        AWord (maxFeePerGas userOp),
        AWord (maxPriorityFeePerGas userOp),
        AWord (keccak256 c (paymasterAndData userOp))]"

definition userOp_message :: "evm_crypto \<Rightarrow> UserOperation \<Rightarrow> address \<Rightarrow> uint256 \<Rightarrow> bytes32" where
  "userOp_message c userOp entryPoint chainId =
     keccak256 c (abi_encode
       [AWord (keccak256 c (packUserOp c userOp)), AWord (ucast entryPoint), AWord chainId])"

text \<open>A number the provider returns, as a word an ABI encoding takes.\<close>

definition as_word :: "jsval \<Rightarrow> ('x, uint256) script" where
  "as_word v = liftS (bindR (as_uint 256 v) (\<lambda>n. Inr (of_nat n)))"

text \<open>The base fee of the latest block is absent on a chain without EIP-1559.\<close>

definition getGasFee :: "'x ethers_env \<Rightarrow> uint256 \<Rightarrow> ('x, uint256 \<times> uint256 \<times> uint256) script" where
  "getGasFee e gasLimit =
     (let verificationGasLimit = gasLimit in
      bindS (providerS e ''getBlock'' 0) (\<lambda>baseFeePerGas.
      let maxPriorityFeePerGas = 0 in
      thenS (console_log ''block'' [])
      (thenS (console_log '''' [baseFeePerGas])
      (bindS (case baseFeePerGas of
                JNum n \<Rightarrow> if n = 0 then returnS maxPriorityFeePerGas else as_word (JNum (2 * n + 0))
              | _ \<Rightarrow> returnS maxPriorityFeePerGas) (\<lambda>maxFeePerGas.
      returnS (maxFeePerGas, maxPriorityFeePerGas, verificationGasLimit))))))"

record js_crypto =
  jc_signMessage :: "address \<Rightarrow> bytes \<Rightarrow> bytes"
  jc_sign :: "bytes \<Rightarrow> bytes \<Rightarrow> uint256 \<times> uint256"
  jc_verify :: "uint256 \<times> uint256 \<Rightarrow> bytes \<Rightarrow> bytes \<Rightarrow> bool"

section \<open>Sponsoring\<close>

text \<open>
  The paymaster's hash of the operation, its signature by the default signer, and the operation's
  \<open>paymasterAndData\<close>.
\<close>

definition view_bytes :: "jsval \<Rightarrow> ('x, bytes) script" where
  "view_bytes v = (case v of JBytes bs \<Rightarrow> returnS bs | _ \<Rightarrow> throwS (Thrown ''invalid BytesLike''))"

definition sponsor ::
    "'x ethers_env \<Rightarrow> js_crypto \<Rightarrow> handle \<Rightarrow> nat \<Rightarrow> nat \<Rightarrow> UserOperation \<Rightarrow> ('x, UserOperation) script" where
  "sponsor e jc paymaster now1 now2 userOp =
     (let until = VALID_UNTIL now1; after = VALID_AFTER now2 in
      bindS (viewS e paymaster ''getHash'' [JUserOp userOp, JNum (int until), JNum (int after)]) (\<lambda>h.
      bindS (view_bytes h) (\<lambda>pmHash.
      bindS (getSigner e) (\<lambda>signer.
      let paymasterSignature = jc_signMessage jc signer pmHash in
      thenS (console_log '''' [JBytes paymasterSignature])
      (let encoded = abi_encode [AWord (of_nat until), AWord (of_nat after)] in
      thenS (console_log '''' [JBytes encoded])
      (returnS (userOp\<lparr>paymasterAndData :=
          from_hex (hexConcat [to_hex (be_bytes 20 (unat (snd paymaster))), to_hex encoded, to_hex paymasterSignature])\<rparr>)))))))"

definition sign_userOp :: "js_crypto \<Rightarrow> bytes32 \<Rightarrow> bytes \<Rightarrow> UserOperation \<Rightarrow> UserOperation" where
  "sign_userOp jc message privKey userOp =
     (let (r, s) = jc_sign jc (abi_word message) privKey in
      userOp\<lparr>signature := abi_encode [AWord r, AWord s]\<rparr>)"

definition mint_call :: "evm_crypto \<Rightarrow> address \<Rightarrow> bytes" where
  "mint_call c account = selector c ''mint(address,uint256)'' @ abi_encode [AWord (ucast account), AWord 100000000]"

definition execute_call :: "evm_crypto \<Rightarrow> address \<Rightarrow> bytes \<Rightarrow> bytes" where
  "execute_call c dest data =
     selector c ''execute(address,uint256,bytes)'' @ abi_encode [AWord (ucast dest), AWord 0, ABytes data]"

text \<open>
  The operation before it is sponsored: the call, the fees of the latest block, the gas the
  provider estimates and the account's nonce.
\<close>

definition prepare_userOp :: "'x ethers_env \<Rightarrow> handle \<Rightarrow> handle \<Rightarrow> address \<Rightarrow> ('x, UserOperation) script" where
  "prepare_userOp e account entryPoint token =
     (let usdcEncodedData = mint_call (en_crypto e) (snd account);
          executeEncodedData = execute_call (en_crypto e) token usdcEncodedData
      in bindS (getGasFee e 3000000) (\<lambda>(maxFee, maxPriority, gasLimit).
         let op = \<lparr>op_sender = Some (snd account), op_nonce = None, op_initCode = None,
                    op_callData = Some executeEncodedData, op_callGasLimit = None,
                    op_verificationGasLimit = Some gasLimit, op_preVerificationGas = Some 1000000,
                    op_maxFeePerGas = Some maxFee, op_maxPriorityFeePerGas = Some maxPriority,
                    op_paymasterAndData = Some [], op_signature = Some []\<rparr>
         in bindS (\<lambda>w. (en_view e (snd account) ''estimateGas'' [JAddr (snd entryPoint), JBytes executeEncodedData] (w_rest w), w)) (\<lambda>g.
            bindS (as_word g) (\<lambda>execEstimatedGas.
            let op = op\<lparr>op_callGasLimit := Some execEstimatedGas\<rparr> in
            bindS (viewS e account ''getNonce'' []) (\<lambda>n.
            thenS (console_log '''' [n])
            (thenS (console_log '''' [n])
            (bindS (as_word n) (\<lambda>accountNonce.
            let op = op\<lparr>op_nonce := Some accountNonce\<rparr> in
            returnS (fillUserOpDefaults op DefaultsForUserOp)))))))))"

section \<open>Sending\<close>

text \<open>The public key of the test account, compressed and as coordinates.\<close>

definition account_pubKey :: bytes where
  "account_pubKey =
     [2, 140,  54, 246, 159, 254, 197, 122,
      32, 206,  94, 199,  92, 148, 244, 209,
      180, 107, 218, 231,  81, 253, 144, 223,
      3,  93,  36, 244, 251,  84, 169,  99,
      186]"

definition account_publicKey :: jsval where
  "account_publicKey =
     JList [JNum 0x8c36f69ffec57a20ce5ec75c94f4d1b46bdae751fd90df035d24f4fb54a963ba,
            JNum 0x93632e668c503f14c6a3a267608326b7bb07f39c7533051d6c6274bc9eb6ab6c]"

definition runTransferPassKey_main ::
    "'x ethers_env \<Rightarrow> js_crypto \<Rightarrow> bytes \<Rightarrow> nat \<Rightarrow> nat \<Rightarrow> ('x, unit) script" where
  "runTransferPassKey_main e jc privKey now1 now2 =
     bindS (getContractFactory ''P256SmartAccount'') (\<lambda>EnclaveSmartAccount.
     let enclaveSmartAccount = (EnclaveSmartAccount, 0xa0Dbb12cbb991f91C76E5D1af6e4349f8B8C08f5) in
     bindS (getContractFactory ''EntryPoint'') (\<lambda>EntryPoint.
     let entryPoint = (EntryPoint, 0x5FbDB2315678afecb367f032d93F642f64180aa3) in
     bindS (getContractFactory ''MockUSDC'') (\<lambda>MockUSDC.
     bindS (prepare_userOp e enclaveSmartAccount entryPoint 0x2279B7A0a67DB372996a5FaB50D91eAA73d2eBe6) (\<lambda>userOp.
     bindS (getContractFactory ''EnclaveVerifyingPaymaster'') (\<lambda>Paymaster.
     let paymaster = (Paymaster, 0x0165878A594ca255338adfa4d48449f69242Eb8F) in
     bindS (sponsor e jc paymaster now1 now2 userOp) (\<lambda>userOp.
     let message = userOp_message (en_crypto e) userOp (snd entryPoint) 31337 in
     thenS (console_log '''' [JBytes (abi_word message)])
     (bindS (viewS e entryPoint ''getUserOpHash'' [JUserOp userOp]) (\<lambda>userOpHash.
     thenS (console_log '''' [userOpHash])
     (thenS (console_log '''' [JUserOp userOp])
     (let (r, s) = jc_sign jc (abi_word message) privKey in
     thenS (console_log '''' [JNum (uint r), JNum (uint s)])
     (let userOp = sign_userOp jc message privKey userOp in
     thenS (console_log '''' [JUserOp userOp])
     (thenS (console_log '''' [JBool (jc_verify jc (r, s) (abi_word message) account_pubKey)])
     (bindS (getContractFactory ''P256Verifier'') (\<lambda>P256Verifier.
     bindS (viewS e (P256Verifier, 0x8A791620dd6260079BF849Dc5567aDC3F2FdC318) ''ecdsa_verify''
              [JBytes (abi_word message), JNum (uint r), JNum (uint s), account_publicKey]) (\<lambda>ok.
     thenS (console_log '''' [ok])
     (bindS (getSigner e) (\<lambda>signer.
     bindS (sendS e entryPoint ''handleOps'' [JList [JUserOp userOp], JAddr signer] 0) (\<lambda>tx1.
     console_log '''' [JBytes tx1]))))))))))))))))))"

text \<open>The bundler's estimate for an operation: call, verification and pre-verification gas.\<close>

type_synonym bundler = "UserOperation \<Rightarrow> script_error + (uint256 \<times> uint256 \<times> uint256)"

definition arb_estimate :: "bundler \<Rightarrow> UserOperation \<Rightarrow> ('x, UserOperation) script" where
  "arb_estimate bundler userOp =
     bindS (liftS (bundler userOp)) (\<lambda>(callGas, verificationGas, preGas).
     thenS (console_log '''' [JNum (uint callGas), JNum (uint verificationGas), JNum (uint preGas)])
     (returnS (userOp\<lparr>callGasLimit := callGas, verificationGasLimit := verificationGas, preVerificationGas := preGas\<rparr>)))"

text \<open>The estimate changes the operation, so it is sponsored and signed a second time.\<close>

definition arb_resign ::
    "'x ethers_env \<Rightarrow> js_crypto \<Rightarrow> bytes \<Rightarrow> nat \<Rightarrow> nat \<Rightarrow> handle \<Rightarrow> handle \<Rightarrow> UserOperation \<Rightarrow>
     ('x, UserOperation \<times> bytes32 \<times> uint256 \<times> uint256) script" where
  "arb_resign e jc privKey now3 now4 entryPoint paymaster userOp =
     bindS (sponsor e jc paymaster now3 now4 userOp) (\<lambda>userOp.
     let newMessage = userOp_message (en_crypto e) userOp (snd entryPoint) 421614;
         (r, s) = jc_sign jc (abi_word newMessage) privKey
     in thenS (console_log '''' [JNum (uint r), JNum (uint s)])
        (returnS (sign_userOp jc newMessage privKey userOp, newMessage, r, s)))"

definition runTransferPassKeyarb_main ::
    "'x ethers_env \<Rightarrow> js_crypto \<Rightarrow> bundler \<Rightarrow> bytes \<Rightarrow> nat \<Rightarrow> nat \<Rightarrow> nat \<Rightarrow> nat \<Rightarrow> ('x, unit) script" where
  "runTransferPassKeyarb_main e jc bundler privKey now1 now2 now3 now4 =
     bindS (getContractFactory ''P256SmartAccount'') (\<lambda>EnclaveSmartAccount.
     let enclaveSmartAccount = (EnclaveSmartAccount, 0x05B24532A7523d788C095501A8D41361f551F236) in
     bindS (getContractFactory ''EntryPoint'') (\<lambda>EntryPoint.
     let entryPoint = (EntryPoint, 0x5FF137D4b0FDCD49DcA30c7CF57E578a026d2789) in
     bindS (getContractFactory ''MockUSDC'') (\<lambda>MockUSDC.
     bindS (prepare_userOp e enclaveSmartAccount entryPoint 0x4fdaD6f3Ad2AaC8DA5E777d3D5DcB3Fb3aE59D5B) (\<lambda>userOp.
     bindS (getContractFactory ''EnclaveVerifyingPaymaster'') (\<lambda>Paymaster.
     let paymaster = (Paymaster, 0x930Af90BbaFC8996102B070fdeBC954331294c40) in
     bindS (sponsor e jc paymaster now1 now2 userOp) (\<lambda>userOp.
     let message = userOp_message (en_crypto e) userOp (snd entryPoint) 421614 in
     thenS (console_log '''' [JBytes (abi_word message)])
     (bindS (viewS e entryPoint ''getUserOpHash'' [JUserOp userOp]) (\<lambda>userOpHash.
     thenS (console_log '''' [userOpHash])
     (thenS (console_log '''' [JUserOp userOp])
     (let (r, s) = jc_sign jc (abi_word message) privKey in
     thenS (console_log '''' [JNum (uint r), JNum (uint s)])
     (bindS (arb_estimate bundler (sign_userOp jc message privKey userOp)) (\<lambda>userOp.
     bindS (arb_resign e jc privKey now3 now4 entryPoint paymaster userOp) (\<lambda>(userOp, newMessage, r', s').
     thenS (console_log '''' [JUserOp userOp])
     (thenS (console_log '''' [JBool (jc_verify jc (r', s') (abi_word newMessage) account_pubKey)])
     (bindS (getContractFactory ''P256Verifier'') (\<lambda>P256Verifier.
     bindS (viewS e (P256Verifier, 0xf4Bd13DEA635266Ee82d8d5bE06a7df9E83C5B40) ''ecdsa_verify''
              [JBytes (abi_word message), JNum (uint r), JNum (uint s), account_publicKey]) (\<lambda>ok.
     thenS (console_log '''' [ok])
     (bindS (getSigner e) (\<lambda>signer.
     bindS (sendS e entryPoint ''handleOps'' [JList [JUserOp userOp], JAddr signer] 0) (\<lambda>tx1.
     console_log '''' [JBytes tx1]))))))))))))))))))))"

text \<open>
  The last script returns after it has printed the decoded signature; the validation and the
  transaction below its \<open>return\<close> are never reached.
\<close>

definition final_signature :: bytes where
  "final_signature = be_bytes 512 0x5d2613792e97707c16a1ed3cce56e167900d5d457018eacf9df94b86d3c58935d85ea4c55aedb7b7deab8eb4548450b5afa334dc0d8c092a84134902388e49be05a22b308a1165541c0d59f8cdcfcd9af2d78127cb15febc5322526064a39f7600000000000000000000000000000000000000000000000000000000000000e0000000000000000000000000000000000000000000000000000000000000014000000000000000000000000000000000000000000000000000000000000001a00000000000000000000000005fbdb2315678afecb367f032d93f642f64180aa3000000000000000000000000000000000000000000000000000000000000002549960de5880e8c687434170f6476605b8fe4aeb9a28632c7995cf3ba831d9763050000000400000000000000000000000000000000000000000000000000000000000000000000000000000000000000000000000000000000000000000000247b2274797065223a22776562617574686e2e676574222c226368616c6c656e6765223a22000000000000000000000000000000000000000000000000000000000000000000000000000000000000000000000000000000000000000000000037222c226f726967696e223a22687474703a2f2f6c6f63616c686f73743a35313733222c2263726f73734f726967696e223a66616c73657d000000000000000000"

definition final_userOp :: UserOperation where
  "final_userOp =
     \<lparr>sender = 0xe793e73E5380AefcE3b638677755964bd28cC0bC, nonce = 0, initCode = [],
      callData = be_bytes 228 0xb61d27f6000000000000000000000000610178da211fef7d417bc0e6fed39f05609ad78800000000000000000000000000000000000000000000000000000000000000000000000000000000000000000000000000000000000000000000000000000060000000000000000000000000000000000000000000000000000000000000004440c10f19000000000000000000000000d2a0f788c20c26eaec355b92da0d99cbb547cac20000000000000000000000000000000000000000000000000000000005f5e10000000000000000000000000000000000000000000000000000000000,
      callGasLimit = 79476, verificationGasLimit = 200000, preVerificationGas = 1000000,
      maxFeePerGas = 249916756, maxPriorityFeePerGas = 0,
      paymasterAndData = be_bytes 149 0x2279B7A0a67DB372996a5FaB50D91eAA73d2eBe600000000000000000000000000000000000000000000000000000000664a2a4300000000000000000000000000000000000000000000000000000000664a1c33776cc8cae68500ee8c733f3c21b99d963979d5eda5075fa35889e0499f58134d478a7ccafef468e43d3952f90ed30a77fc2431a108297930eef7a9427c62cf9b1b,
      signature = final_signature\<rparr>"

definition final_types :: "abi_ty list" where
  "final_types = [TUint 256, TUint 256, TUint 256, TBytes, TBytes, TBytes, TUint 160]"

definition abi_jsval :: "abi_val \<Rightarrow> jsval" where
  "abi_jsval v = (case v of AWord w \<Rightarrow> JNum (uint w) | ABytes bs \<Rightarrow> JBytes bs
     | AWords ws \<Rightarrow> JList (map (\<lambda>w. JNum (uint w)) ws))"

definition runTransferPassKeyfinal_main :: "'x ethers_env \<Rightarrow> ('x, unit) script" where
  "runTransferPassKeyfinal_main e =
     bindS (getContractFactory ''EntryPoint'') (\<lambda>EntryPoint.
     bindS (getSigner e) (\<lambda>signer.
     bindS (getContractFactory ''SmartAccount'') (\<lambda>EnclaveSmartAccount.
     case abi_decode final_types (signature final_userOp) of
       Inl err \<Rightarrow> throwS (Thrown ''BUFFER_OVERRUN'')
     | Inr decoded \<Rightarrow> console_log '''' (map abi_jsval decoded))))"

section \<open>A fresh key pair\<close>

definition getMessageHash :: "'x ethers_env \<Rightarrow> (string \<Rightarrow> bytes) \<Rightarrow> ('x, string) script" where
  "getMessageHash e decodeBase64 =
     (let clientDataJSON' =
            client_data_pre @ ascii ''JuFWdIR6III19kve1w96Tr6WPFuGx2UnTybH1mJbcJM'' @
            ascii ([CHR 0x22] @ '','' @ quoted ''origin'' @ '':'' @ quoted ''http://localhost:8000'' @ '','' @
                   quoted ''crossOrigin'' @ '':false,'' @ quoted ''other_keys_can_be_added_here'' @ '':'' @
                   quoted ''do not compare clientDataJSON against a template. See https://goo.gl/yabPex'' @ ''}'');
          authdata2 = decodeBase64 ''SZYN5YgOjGh0NBcPZHZgW4_krrmihjLHmVzzuoMdl2MdAAAAAA''
      in thenS (console_log '''' [JBytes authdata2])
         (let clientDataHash = sha256_digest e clientDataJSON' in
          thenS (console_log ''clientDat'' [JBytes clientDataHash])
          (let concatenatedData = authdata2 @ clientDataHash in
           thenS (console_log '''' [JBytes concatenatedData])
           (let hash2Digest = sha256_digest e concatenatedData in
            thenS (console_log ''Yolo: '' [JBytes hash2Digest])
            (returnS (drop 2 (to_hex hash2Digest)))))))"

text \<open>The two coordinates of an uncompressed key: \<open>slice(2, 66)\<close> and \<open>slice(-64)\<close> of its hexadecimal form.\<close>

definition key_coordinates :: "string \<Rightarrow> string \<times> string" where
  "key_coordinates hex = (''0x'' @ take 64 (drop 2 hex), ''0x'' @ drop (length hex - 64) hex)"

definition createPublicKey_main ::
    "'x ethers_env \<Rightarrow> js_crypto \<Rightarrow> (string \<Rightarrow> bytes) \<Rightarrow> (bytes \<Rightarrow> bytes) \<Rightarrow> (bytes \<Rightarrow> string) \<Rightarrow> bytes \<Rightarrow> ('x, unit) script" where
  "createPublicKey_main e jc decodeBase64 getPublicKey uncompressed privKey =
     thenS (console_log ''privKey'' [JBytes privKey])
     (let pub = getPublicKey privKey in
      thenS (console_log ''PubKey : '' [JBytes pub])
      (let hex = uncompressed pub in
       thenS (console_log ''privKey2'' [])
       (thenS (console_log ''PublicKey2 Hex: '' [JStr hex])
       (let publicKey = key_coordinates hex in
        thenS (console_log '''' [JStr (fst publicKey), JStr (snd publicKey)])
        (thenS (console_log '''' [JBytes pub])
        (bindS (getMessageHash e decodeBase64) (\<lambda>msgHash.
        thenS (console_log '''' [JStr msgHash])
        (let signed = hex_bytes (drop 2 msgHash);
             signature = jc_sign jc signed privKey
         in thenS (console_log '''' [JNum (uint (fst signature)), JNum (uint (snd signature))])
            (console_log '''' [JBool (jc_verify jc signature signed pub)])))))))))"

end
