(* ===== verification/ScriptSpec.thy ===== *)
theory ScriptSpec
  imports UserOpScripts
begin

text \<open>
  What the scripts do to the chain. Three judgements on a script, each with rules for the
  statements a script is made of: it never succeeds, it keeps every registry, it sends nothing.
  The locale \<open>world_property\<close> is the part of the rules the last two share.
\<close>

section \<open>Scripts that never succeed\<close>

definition fails :: "('x, 'a) script \<Rightarrow> bool" where
  "fails m \<longleftrightarrow> (\<forall>w. \<exists>err w'. m w = (Inl err, w'))"

lemma bindS_cases:
  obtains (failed) err w' where "m w = (Inl err, w')" "bindS m f w = (Inl err, w')"
    | (returned) x w' where "m w = (Inr x, w')" "bindS m f w = f x w'"
proof (cases "m w")
  case (Pair r w')
  then show ?thesis using that by (cases r) (simp_all add: bindS_def)
qed

lemma fails_bind: "fails m \<Longrightarrow> fails (bindS m f)"
  unfolding fails_def by (metis bindS_cases old.prod.inject sum.distinct(1))

lemma fails_bind_later: "(\<And>x. fails (f x)) \<Longrightarrow> fails (bindS m f)"
  unfolding fails_def by (metis bindS_cases)

lemma fails_then: "fails m \<Longrightarrow> fails (thenS m k)" "fails k \<Longrightarrow> fails (thenS m k)"
  by (simp_all add: thenS_def fails_bind fails_bind_later)

lemma fails_throw: "fails (throwS err)"
  by (simp add: fails_def throwS_def)

lemma fails_deploy_arity: "length args \<noteq> ctor_arity name \<Longrightarrow> fails (deploy e name args)"
  by (auto simp: fails_def deploy_def split: list.split)

lemma fails_send_abi: "(meth, length args) \<notin> set (abi_functions (fst h)) \<Longrightarrow> fails (sendS e h meth args value)"
  by (auto simp: fails_def sendS_def split: list.split)

lemma run_catch_fails: "fails m \<Longrightarrow> fst (run_catch m w) = 1"
  by (auto simp: fails_def run_catch_def dest: spec [of _ w])

section \<open>Properties of the world that a script keeps\<close>

definition keeps :: "('x world \<Rightarrow> 'v) \<Rightarrow> ('x, 'a) script \<Rightarrow> bool" where
  "keeps view m \<longleftrightarrow> (\<forall>w. view (snd (m w)) = view w)"

named_theorems keeps_intros \<open>statements that keep a view of the world\<close>

lemma keeps_bind [keeps_intros]:
  assumes "keeps view m" "\<And>x. keeps view (f x)"
  shows "keeps view (bindS m f)"
  unfolding keeps_def
proof
  fix w show "view (snd (bindS m f w)) = view w"
  proof (cases rule: bindS_cases [of m w f])
    case (failed err w')
    then show ?thesis using assms(1) unfolding keeps_def by (metis snd_conv)
  next
    case (returned x w')
    then show ?thesis using assms unfolding keeps_def by (metis snd_conv)
  qed
qed

lemma keeps_then [keeps_intros]: "keeps view m \<Longrightarrow> keeps view k \<Longrightarrow> keeps view (thenS m k)"
  by (simp add: thenS_def keeps_bind)

lemma keeps_bind_fails: "fails m \<Longrightarrow> keeps view m \<Longrightarrow> keeps view (bindS m f)"
  unfolding keeps_def fails_def by (metis bindS_cases old.prod.inject snd_conv sum.distinct(1))

lemma keeps_basic [keeps_intros]:
  "keeps view (returnS x)" "keeps view (throwS err)" "keeps view (liftS r)"
  "keeps view (getContractFactory name)" "keeps view (getSigner e)" "keeps view (getSigners e)"
  "keeps view (viewS e h meth args)" "keeps view (providerS e meth a)" "keeps view (as_word v)"
  "keeps view (view_bytes v)"
  by (auto simp: keeps_def returnS_def throwS_def liftS_def getContractFactory_def getSigner_def getSigners_def
      viewS_def providerS_def as_word_def view_bytes_def split: list.split jsval.split)

lemma keeps_try [keeps_intros]: "keeps view m \<Longrightarrow> (\<And>err. keeps view (h err)) \<Longrightarrow> keeps view (tryS m h)"
  by (auto simp: keeps_def tryS_def split: prod.split sum.split) (metis snd_conv)+

lemma keeps_deploy_arity: "length args \<noteq> ctor_arity name \<Longrightarrow> keeps view (deployAndWait e name args)"
  unfolding deployAndWait_def
  by (rule keeps_bind_fails [OF fails_deploy_arity]) (auto simp: keeps_def deploy_def split: list.split)

text \<open>A view that does not look at the console.\<close>

locale world_property =
  fixes view :: "'x world \<Rightarrow> 'v"
  assumes console: "view (w\<lparr>w_console := c\<rparr>) = view w"
begin

lemma keeps_console: "keeps view (console_log label vals)"
  by (simp add: keeps_def console_log_def console)

lemma keeps_getGasFee: "keeps view (getGasFee e g)"
  unfolding getGasFee_def Let_def
  by (intro keeps_intros keeps_console) (auto intro!: keeps_intros split: jsval.split)

lemma keeps_banner: "keeps view (signer_banner e)"
  unfolding signer_banner_def by (intro keeps_intros) (auto intro!: keeps_intros keeps_console split: list.split)

lemma keeps_sponsor: "keeps view (sponsor e jc pm n1 n2 op)"
  unfolding sponsor_def Let_def by (intro keeps_intros keeps_console)

lemma keeps_passkey_digest: "keeps view (passkey_digest e)"
  unfolding passkey_digest_def Let_def by (intro keeps_intros keeps_console)

lemma keeps_log_registry: "keeps view (log_registry e h ks)"
  by (induction ks) (auto intro!: keeps_intros keeps_console)

lemma keeps_log_accounts: "keeps view (log_accounts as)"
  by (induction as) (auto intro!: keeps_intros keeps_console)

lemma keeps_run_catch: "keeps view m \<Longrightarrow> view (snd (run_catch m w)) = view w"
  by (auto simp: keeps_def run_catch_def console split: prod.split sum.split) (metis snd_conv)+

lemmas keeps_rules = keeps_intros keeps_console keeps_getGasFee keeps_banner keeps_sponsor keeps_passkey_digest
  keeps_log_registry keeps_log_accounts

end

text \<open>The registries of the world.\<close>

interpretation registries: world_property world_registries
  by unfold_locales (simp add: world_registries_def fun_eq_iff)

text \<open>Everything but the console.\<close>

definition on_chain :: "'x world \<Rightarrow> (address \<Rightarrow> contract option) \<times> address list \<times> nat \<times> 'x" where
  "on_chain w = (w_contracts w, w_unmined w, w_nonce w, w_rest w)"

interpretation on_chain: world_property on_chain
  by unfold_locales (simp add: on_chain_def)

section \<open>Deployments and transactions that keep the registries\<close>

lemma construct_no_registry:
  assumes "construct e d this name args = Inr new" "name \<noteq> ''EnclaveRegistry''" "(a, c) \<in> set new"
  shows "c \<noteq> CRegistry s"
  using assms unfolding construct_def by (auto simp: bindR_eq_Inr split: if_splits)

lemma registries_deploy: "name \<noteq> ''EnclaveRegistry'' \<Longrightarrow> keeps world_registries (deployAndWait e name args)"
proof -
  assume name: "name \<noteq> ''EnclaveRegistry''"
  have new: "world_registries (w\<lparr>w_contracts := w_contracts w ++ map_of new, w_unmined := u, w_nonce := k\<rparr>) = world_registries w"
    if c: "construct e d this name args = Inr new" and f: "\<not> list_ex (\<lambda>(a, _). w_contracts w a \<noteq> None) new"
    for d this new u and w :: "'a world" and k
  proof
    fix a
    have "w_contracts w a = None \<and> c' \<noteq> CRegistry s" if "map_of new a = Some c'" for c' s
      using that f construct_no_registry [OF c name] map_of_SomeD [OF that] by (fastforce simp: list_ex_iff)
    then show "world_registries (w\<lparr>w_contracts := w_contracts w ++ map_of new, w_unmined := u, w_nonce := k\<rparr>) a = world_registries w a"
      by (auto simp: world_registries_def map_add_def split: option.split contract.split)
  qed
  then have "keeps world_registries (deploy e name args)"
    by (auto simp: keeps_def deploy_def Let_def split: list.split sum.split)
  moreover have "keeps world_registries (waitForDeployment a)" for a
    by (simp add: keeps_def waitForDeployment_def world_registries_def fun_eq_iff)
  ultimately show ?thesis unfolding deployAndWait_def by (intro keeps_intros)
qed

lemma registries_put:
  "w_contracts w a = None \<or> (\<forall>s. w_contracts w a \<noteq> Some (CRegistry s)) \<Longrightarrow> (\<And>s. c \<noteq> CRegistry s) \<Longrightarrow>
   world_registries (put_contract a c w) = world_registries w"
  by (auto simp: world_registries_def put_contract_def fun_eq_iff split: option.split contract.split)

lemma registries_more [simp]:
  "world_registries (w\<lparr>w_rest := x\<rparr>) = world_registries w"
  "world_registries (w\<lparr>w_nonce := n\<rparr>) = world_registries w"
  "world_registries (w\<lparr>w_unmined := u\<rparr>) = world_registries w"
  by (simp_all add: world_registries_def fun_eq_iff)

lemma registries_own_send:
  assumes "own_send e signer this c meth args v w = Inr w'" "w_contracts w this = Some c"
    "meth \<noteq> ''updateRegistryAddress''"
  shows "world_registries w' = world_registries w"
proof (cases c)
  case (CP256Factory impl)
  then show ?thesis
    using assms by (auto simp: own_send_def bindR_eq_Inr no_function_def registries_put split: if_splits option.splits)
next
  case (CSmartFactory impl)
  then show ?thesis
    using assms by (auto simp: own_send_def bindR_eq_Inr no_function_def registries_put split: if_splits option.splits)
next
  case (CGasNFT ids price)
  then show ?thesis
    using assms by (auto simp: own_send_def bindR_eq_Inr no_function_def registries_put split: if_splits)
qed (use assms in \<open>auto simp: own_send_def Let_def bindR_eq_Inr no_function_def registries_put split: if_splits\<close>)

lemma registries_send: "meth \<noteq> ''updateRegistryAddress'' \<Longrightarrow> keeps world_registries (sendS e h meth args v)"
  using registries_own_send
  by (fastforce simp: keeps_def sendS_def bindR_eq_Inr split: list.split sum.split if_splits option.splits)

lemma registries_transfer: "keeps world_registries (transferS e a v)"
  by (auto simp: keeps_def transferS_def world_registries_def fun_eq_iff split: list.split sum.split)

section \<open>The deployments without an owner for the registry\<close>

lemma bindS_return [simp]: "bindS (returnS x) f = f x"
  by (simp add: fun_eq_iff bindS_def returnS_def)

lemma bindS_throw [simp]: "bindS (throwS err) f = throwS err"
  by (simp add: fun_eq_iff bindS_def throwS_def)

lemma bindS_assoc: "bindS (bindS m f) g = bindS m (\<lambda>x. bindS (f x) g)"
proof
  fix w show "bindS (bindS m f) g w = bindS m (\<lambda>x. bindS (f x) g) w"
    by (cases rule: bindS_cases [of m w f]) (simp_all add: bindS_def)
qed

lemma factory_bind:
  "name \<in> set artifacts \<Longrightarrow> bindS (getContractFactory name) f = f name"
  by (simp add: getContractFactory_def)

lemma factories [simp]:
  "bindS (getContractFactory ''EntryPoint'') f = f ''EntryPoint''"
  "bindS (getContractFactory ''EnclaveRegistry'') f = f ''EnclaveRegistry''"
  "bindS (getContractFactory ''EnclaveVerifyingPaymaster'') f = f ''EnclaveVerifyingPaymaster''"
  "bindS (getContractFactory ''EnclaveVerifyingTokenPaymaster'') f = f ''EnclaveVerifyingTokenPaymaster''"
  "bindS (getContractFactory ''EnclaveFeeLogicTestnet'') f = f ''EnclaveFeeLogicTestnet''"
  "bindS (getContractFactory ''EnclaveFeeLogicMainnet'') f = f ''EnclaveFeeLogicMainnet''"
  "bindS (getContractFactory ''EnclaveFeeLogicUniswap'') f = f ''EnclaveFeeLogicUniswap''"
  "bindS (getContractFactory ''MockUSDC'') f = f ''MockUSDC''"
  "bindS (getContractFactory ''P256Verifier'') f = f ''P256Verifier''"
  "bindS (getContractFactory ''P256V'') f = f ''P256V''"
  "bindS (getContractFactory ''P256SmartAccount'') f = f ''P256SmartAccount''"
  "bindS (getContractFactory ''P256SmartAccountFactory'') f = f ''P256SmartAccountFactory''"
  "bindS (getContractFactory ''SmartAccountFactory'') f = f ''SmartAccountFactory''"
  by (rule factory_bind; simp add: artifacts_def)+

definition broken_deployments :: "'x ethers_env \<Rightarrow> ('x, unit) script list" where
  "broken_deployments e =
     [deployAll_main e, deployAllArbMain_main e, deployAllOpMain_main e, deployAllOpSepolia_main e,
      deployProd_main e, deployEnclaveRegistry_main e]"

lemma no_owner: "fails (deployAndWait e ''EnclaveRegistry'' [])" "keeps view (deployAndWait e ''EnclaveRegistry'' [])"
  by (simp add: deployAndWait_def fails_bind fails_deploy_arity ctor_arity_def)
    (rule keeps_deploy_arity, simp add: ctor_arity_def)

lemmas broken_defs = deployAll_main_def deployAll_network_def deployAllArbMain_main_def deployAllOpMain_main_def
  deployAllOpSepolia_main_def deployProd_main_def deployEnclaveRegistry_main_def factories Let_def

lemmas fails_rules = fails_bind [OF no_owner(1)] fails_then(2) fails_bind_later

lemma broken_fails:
  "fails (deployAll_main e)" "fails (deployAll_network e d t)" "fails (deployProd_main e)"
  "fails (deployEnclaveRegistry_main e)"
  unfolding broken_defs by (rule fails_rules)+

lemma broken_keeps:
  "keeps world_registries (deployAll_main e)" "keeps world_registries (deployAll_network e d t)"
  "keeps world_registries (deployProd_main e)" "keeps world_registries (deployEnclaveRegistry_main e)"
  unfolding broken_defs
  by (rule keeps_bind_fails [OF no_owner] registries.keeps_rules | rule registries_deploy registries_send, simp)+

lemma broken_deployments_outcome:
  assumes "m \<in> set (broken_deployments e)"
  shows "fails m" "keeps world_registries m"
  using assms broken_fails broken_keeps
  by (auto simp: broken_deployments_def deployAllArbMain_main_def deployAllOpMain_main_def deployAllOpSepolia_main_def)

section \<open>Scripts that only read\<close>

definition reading_scripts :: "'x ethers_env \<Rightarrow> (jsval \<Rightarrow> string) \<Rightarrow> nat \<Rightarrow> nat \<Rightarrow> ('x, unit) script list" where
  "reading_scripts e formatEther now1 now2 =
     [accounts_main e, getBalance_main e formatEther, getERC20Balance_main e, getNonce_main e,
      getImplementationFromFactory_main e, getRegistryAddressFromAccount_main e, depositPaymaster_main e,
      deployERC20_main e, smartAccountEntrypoint_main e, getAllRegistryValues_main e, test_main e,
      deployTokenPaymasterArbMainnet_main e, deployTokenPaymasterOpMainnet_main e, setRegistry_main e,
      paymasterFunctions_main e now1 now2, vault_main e, P256V_main e, v_main e, runTransferPassKeyfinal_main e,
      deployRegistryTest_main e]"

lemma missing_factory [simp]:
  "bindS (getContractFactory ''EnclaveRegistryImplementationFactory'') f = throwS (Thrown ''artifact not found'')"
  by (simp add: getContractFactory_def artifacts_def)

lemma keeps_decoded: "keeps on_chain (case abi_decode ts bs of Inl err \<Rightarrow> throwS (Thrown msg) | Inr vs \<Rightarrow> console_log l (f vs))"
  by (auto intro: on_chain.keeps_rules split: sum.split)

lemmas reading_defs = accounts_main_def getBalance_main_def getERC20Balance_main_def getNonce_main_def
  getImplementationFromFactory_main_def getRegistryAddressFromAccount_main_def depositPaymaster_main_def
  deployERC20_main_def smartAccountEntrypoint_main_def getAllRegistryValues_main_def test_main_def
  deployTokenPaymasterArbMainnet_main_def deployTokenPaymasterOpMainnet_main_def setRegistry_main_def
  paymasterFunctions_main_def print_solver_hash_def vault_main_def getVault_def P256V_main_def v_main_def
  runTransferPassKeyfinal_main_def deployRegistryTest_main_def

lemma reading_keeps: "list_all (keeps on_chain) (reading_scripts e formatEther now1 now2)"
  unfolding reading_scripts_def list.pred_inject reading_defs Let_def missing_factory
  by (intro conjI) (rule keeps_decoded on_chain.keeps_rules | simp only: list.pred_inject(1))+

lemma deployRegistryTest_fails: "fails (deployRegistryTest_main e)"
  unfolding deployRegistryTest_main_def missing_factory by (rule fails_bind_later fails_throw)+

section \<open>The script that forgets the salt\<close>

lemma deploySmartAccount_fails: "fails (deploySmartAccount e f ow ep)"
proof -
  have "fails (sendS e (''SmartAccountFactory'', a) ''createAccount'' [JAddr ow, JAddr ep] 0)" for a
    by (rule fails_send_abi) (simp add: abi_functions_def)
  then show ?thesis
    unfolding deploySmartAccount_def getSmartAccountFactory_def factories bindS_return
    by (intro fails_bind_later fails_then(2) fails_bind)
qed

lemma deploySmartAccount_keeps: "keeps on_chain (deploySmartAccount e f ow ep)"
proof -
  have s: "keeps view (sendS e (''SmartAccountFactory'', a) ''createAccount'' [JAddr ow, JAddr ep] 0)" for a and view :: "'a world \<Rightarrow> 'v"
    by (auto simp: keeps_def sendS_def abi_functions_def split: list.split)
  show ?thesis
    unfolding deploySmartAccount_def getSmartAccountFactory_def factories bindS_return
    by (rule s on_chain.keeps_rules)+
qed

section \<open>Printing the registry\<close>

text \<open>The keys of the list up to the first one that has no entry, with their entries.\<close>

definition registry_lines :: "enclave_registry \<Rightarrow> string list \<Rightarrow> log_line list" where
  "registry_lines s ks = map (\<lambda>k. (k, [JAddr (er_registry s k)])) (takeWhile (\<lambda>k. er_registry s k \<noteq> 0) ks)"

lemma viewS_registry:
  assumes "deployed w a = Some (CRegistry s)"
  shows "viewS e (''EnclaveRegistry'', a) ''getRegistryAddress'' [JStr k] w =
    ((if er_registry s k \<noteq> 0 then Inr (JAddr (er_registry s k))
      else Inl (Reverted (Revert ''Registry: Entry doesn't exist''))), w)"
  using assms
  by (simp add: viewS_def abi_functions_def own_view_def as_string_def getRegistryAddress_def as_script_def require_def)

lemma log_registry_run:
  assumes "deployed w a = Some (CRegistry s)"
  shows "log_registry e (''EnclaveRegistry'', a) ks w =
    ((if \<forall>k\<in>set ks. er_registry s k \<noteq> 0 then Inr ()
      else Inl (Reverted (Revert ''Registry: Entry doesn't exist''))),
     w\<lparr>w_console := w_console w @ registry_lines s ks\<rparr>)"
  using assms
proof (induction ks arbitrary: w)
  case Nil
  show ?case by (simp add: returnS_def registry_lines_def)
next
  case (Cons k ks)
  let ?w = "w\<lparr>w_console := w_console w @ [(k, [JAddr (er_registry s k)])]\<rparr>"
  have "deployed ?w a = Some (CRegistry s)" using Cons.prems by (simp add: deployed_def split: if_splits)
  from Cons.IH [OF this] show ?case
    using viewS_registry [OF Cons.prems, of e k]
    by (simp add: bindS_def thenS_def console_log_def registry_lines_def)
qed

section \<open>Deployments that work\<close>

lemma deploy_run:
  assumes "en_signers e = signer # rest" "length args = ctor_arity name"
    "construct e signer (en_create e signer (w_nonce w)) name args = Inr new"
    "list_all (\<lambda>(a, _). w_contracts w a = None) new"
  shows "deploy e name args w =
    (Inr (en_create e signer (w_nonce w)), w\<lparr>w_contracts := w_contracts w ++ map_of new,
       w_unmined := (if en_mined e (w_nonce w) then w_unmined w else rev (map fst new) @ w_unmined w),
       w_nonce := Suc (w_nonce w)\<rparr>)"
  using assms by (simp add: deploy_def list_ex_iff list_all_iff split_beta)

text \<open>Whenever the creation is mined: the contract is there when the script goes on.\<close>

lemma deployAndWait_run:
  assumes "en_signers e = signer # rest" "length args = ctor_arity name"
    "construct e signer (en_create e signer (w_nonce w)) name args = Inr new"
    "list_all (\<lambda>(a, _). w_contracts w a = None) new" "w_unmined w = []" "new = new' @ [(en_create e signer (w_nonce w), c)]"
  shows "deployAndWait e name args w =
    (Inr (en_create e signer (w_nonce w)), w\<lparr>w_contracts := w_contracts w ++ map_of new, w_nonce := Suc (w_nonce w)\<rparr>)"
  using deploy_run [OF assms(1-4)] assms(5,6)
  by (simp add: deployAndWait_def bindS_def thenS_def waitForDeployment_def returnS_def)

lemma banner_run:
  "en_signers e = signer # rest \<Longrightarrow>
   signer_banner e w = (Inr signer, w\<lparr>w_console := w_console w @ [(''Signer address:'', [JAddr signer])]\<rparr>)"
  by (simp add: signer_banner_def getSigners_def thenS_def bindS_def console_log_def returnS_def)

text \<open>The first step of the production deployment.\<close>

definition production_owner :: address where
  "production_owner = 0xD02Fd04e15a595019b7c60Eb257B3B7D333F6C00"

lemma registry_main_run:
  assumes "en_signers e = signer # rest" "w_contracts w (en_create e signer (w_nonce w)) = None" "w_unmined w = []"
  shows "registry_main e w =
    (Inr (), w\<lparr>w_contracts := (w_contracts w)(en_create e signer (w_nonce w) \<mapsto> CRegistry (registry_constructor production_owner)),
       w_nonce := Suc (w_nonce w),
       w_console := w_console w @ [(''Signer address:'', [JAddr signer]),
         (''Deployed Registry: '', [JAddr (en_create e signer (w_nonce w))])]\<rparr>)"
proof -
  let ?a = "en_create e signer (w_nonce w)"
  let ?w = "w\<lparr>w_console := w_console w @ [(''Signer address:'', [JAddr signer])]\<rparr>"
  have "deployAndWait e ''EnclaveRegistry'' [JAddr production_owner] ?w =
      (Inr ?a, ?w\<lparr>w_contracts := w_contracts w ++ map_of [(?a, CRegistry (registry_constructor production_owner))],
         w_nonce := Suc (w_nonce w)\<rparr>)"
    using deployAndWait_run [OF assms(1), of "[JAddr production_owner]" "''EnclaveRegistry''" ?w] assms(2,3)
    by (simp add: ctor_arity_def construct_def as_address_def)
  then show ?thesis
    unfolding registry_main_def factories Let_def
    using banner_run [OF assms(1), of w]
    by (simp add: bindS_def console_log_def production_owner_def [symmetric] map_add_def fun_eq_iff)
qed

lemma update_run:
  assumes "en_signers e = signer # rest" "w_contracts w a = Some (CRegistry s)"
  shows "sendS e (''EnclaveRegistry'', a) ''updateRegistryAddress'' [JStr k, JAddr v] 0 w =
    (case updateRegistryAddress signer k v s of
       Inl err \<Rightarrow> (Inl (Reverted err), w)
     | Inr s' \<Rightarrow> (Inr (en_txHash e signer (w_nonce w)),
                 (put_contract a (CRegistry s') w)\<lparr>w_unmined := [], w_nonce := Suc (w_nonce w)\<rparr>))"
  using assms
  by (simp add: sendS_def abi_functions_def own_send_def as_string_def as_address_def as_script_def split: sum.split)

section \<open>Creating an account\<close>

definition factory_at :: "address \<Rightarrow> address \<Rightarrow> factory" where
  "factory_at a impl = \<lparr>fa_this = a, fa_implementation = impl\<rparr>"

definition predicted :: "'x ethers_env \<Rightarrow> address \<Rightarrow> address \<Rightarrow> pubkey \<Rightarrow> address \<Rightarrow> nat \<Rightarrow> address" where
  "predicted e a impl pk reg salt =
     p256_getAccountAddress (en_crypto e) (en_proxyCode e) (factory_at a impl) pk reg (of_nat salt)"

lemma view_account_address:
  assumes "deployed w a = Some (CP256Factory impl)" "as_pubkey k = Inr pk" "salt < 2 ^ 256"
  shows "viewS e (''P256SmartAccountFactory'', a) ''getAccountAddress'' [k, JAddr reg, JNum (int salt)] w =
    (Inr (JAddr (predicted e a impl pk reg salt)), w)"
  using assms
  by (simp add: viewS_def abi_functions_def own_view_def view_p256_factory_def as_address_def as_uint_def
      predicted_def factory_at_def)

lemma send_create_account:
  assumes "en_signers e = signer # rest" "w_contracts w a = Some (CP256Factory impl)" "w_contracts w impl \<noteq> None"
    "as_pubkey k = Inr pk" "salt < 2 ^ 256"
  shows "sendS e (''P256SmartAccountFactory'', a) ''createAccount'' [k, JAddr reg, JNum (int salt)] 0 w =
    (Inr (en_txHash e signer (w_nonce w)),
     (if w_contracts w (predicted e a impl pk reg salt) = None
      then put_contract (predicted e a impl pk reg salt) (CP256Account (p256_created impl pk reg)) w else w)
     \<lparr>w_unmined := [], w_nonce := Suc (w_nonce w)\<rparr>)"
proof -
  have "p256_createAccount (en_crypto e) (en_proxyCode e) (factory_at a impl) pk reg (of_nat salt) (p256_chain w) =
      Inr (predicted e a impl pk reg salt,
        if w_contracts w (predicted e a impl pk reg salt) = None
        then (p256_chain w)\<lparr>ch_code := (ch_code (p256_chain w))(predicted e a impl pk reg salt := True),
          ch_account := (ch_account (p256_chain w))(predicted e a impl pk reg salt \<mapsto> p256_created impl pk reg)\<rparr>
        else p256_chain w)"
    using assms(3) by (simp add: p256_createAccount_eq predicted_def Let_def p256_chain_def factory_at_def)
  then show ?thesis
    using assms
    by (simp add: sendS_def abi_functions_def own_send_def as_address_def as_uint_def as_script_def factory_at_def)
qed

section \<open>Hexadecimal strings\<close>

lemma hex_value_digit: "d < 16 \<Longrightarrow> hex_value (hex_digit d) = d"
proof -
  have "list_all (\<lambda>d. hex_value (hex_digit d) = d) [0..<16]" by code_simp
  then show "d < 16 \<Longrightarrow> ?thesis" by (simp add: list_all_iff)
qed

lemma hex_bytes_digits:
  "hex_bytes (concat (map (\<lambda>b. [hex_digit (unat b div 16), hex_digit (unat b mod 16)]) bs) @ cs) = bs @ hex_bytes cs"
proof (induction bs)
  case (Cons b bs)
  have "unat b < 256" using unat_lt_8 [of b] by simp
  then have "hex_value (hex_digit (unat b div 16)) = unat b div 16" "hex_value (hex_digit (unat b mod 16)) = unat b mod 16"
    by (simp_all add: hex_value_digit less_mult_imp_div_less)
  then show ?case using Cons by simp
qed simp

lemma hex_bytes_to_hex: "hex_bytes (drop 2 (to_hex bs) @ cs) = bs @ hex_bytes cs"
  using hex_bytes_digits [of bs cs] by (simp add: to_hex_def)

lemma drop_2_hexConcat: "drop 2 (hexConcat items) = concat (map (drop 2) items)"
proof -
  have "foldl (\<lambda>result item. result @ drop 2 item) r items = r @ concat (map (drop 2) items)" for r
    by (induction items arbitrary: r) simp_all
  then show ?thesis by (simp add: hexConcat_def)
qed

lemma from_hex_hexConcat: "from_hex (hexConcat (map to_hex bss)) = concat bss"
proof -
  have "hex_bytes (concat (map (drop 2 \<circ> to_hex) bss)) = concat bss"
    by (induction bss) (simp_all add: hex_bytes_to_hex)
  then show ?thesis by (simp add: from_hex_def drop_2_hexConcat)
qed

definition from_hex_nat :: "string \<Rightarrow> nat" where
  "from_hex_nat s = foldl (\<lambda>n c. 16 * n + hex_value c) 0 s"

lemma from_hex_nat_toString16: "foldl (\<lambda>n c. 16 * n + hex_value c) 0 (toString16 n) = n"
proof (induction n rule: toString16.induct)
  case (1 n)
  then show ?case
    by (cases "n < 16") (subst toString16.simps, simp add: hex_value_digit)+
qed

lemma from_hex_nat_pad: "foldl (\<lambda>n c. 16 * n + hex_value c) 0 (replicate k (CHR ''0'') @ s) =
    foldl (\<lambda>n c. 16 * n + hex_value c) 0 s"
proof -
  have "hex_value (CHR ''0'') = 0" by (simp add: hex_value_def)
  then have "foldl (\<lambda>n c. 16 * n + hex_value c) 0 (replicate k (CHR ''0'')) = 0" by (induction k) simp_all
  then show ?thesis by simp
qed

lemma length_toString16: "0 < k \<Longrightarrow> n < 16 ^ k \<Longrightarrow> length (toString16 n) \<le> k"
proof (induction k arbitrary: n)
  case (Suc k)
  show ?case
  proof (cases "n < 16")
    case False
    then have "0 < k" using Suc.prems(2) by (cases k) simp_all
    moreover have "n div 16 < 16 ^ k" using Suc.prems(2) by (simp add: less_mult_imp_div_less mult.commute)
    ultimately show ?thesis using Suc.IH False by (subst toString16.simps) simp
  qed (subst toString16.simps, simp)
qed simp

lemma numberToBytes32_ok:
  assumes "n < 2 ^ 256"
  shows "\<exists>s. numberToBytes32 (Whole (int n)) = Inr s \<and> length s = 66 \<and> take 2 s = ''0x'' \<and> from_hex_nat (drop 2 s) = n"
proof -
  have "n < 16 ^ 64" using assms by simp
  then have "length (toString16 n) \<le> 64" by (rule length_toString16 [rotated]) simp
  then show ?thesis
    by (simp add: numberToBytes32_def padStart_def Let_def from_hex_nat_def from_hex_nat_pad from_hex_nat_toString16
        del: foldl_append)
qed

section \<open>Sponsoring\<close>

lemma packUserOp_eq: "packUserOp c op = UserOperationLib_pack c op"
  by (simp add: packUserOp_def UserOperationLib_pack_def getSender_def calldataKeccak_def)

lemma of_nat_ucast_48: "n < 2 ^ 48 \<Longrightarrow> (of_nat n :: uint256) = ucast (of_nat n :: uint48)"
proof -
  assume "n < 2 ^ 48"
  then have "unat (of_nat n :: uint48) = n" by (simp add: unat_of_nat)
  moreover have "n < 2 ^ 256" using \<open>n < 2 ^ 48\<close> by simp
  then have "unat (of_nat n :: uint256) = n" by (simp add: unat_of_nat)
  ultimately show ?thesis by (simp add: word_unat_eq_iff unat_ucast_up)
qed

definition sponsored ::
    "'x ethers_env \<Rightarrow> js_crypto \<Rightarrow> address \<Rightarrow> address \<Rightarrow> verifying_paymaster \<Rightarrow> nat \<Rightarrow> nat \<Rightarrow> UserOperation \<Rightarrow> UserOperation" where
  "sponsored e jc signer pm s now1 now2 op =
     op\<lparr>paymasterAndData := build_paymasterAndData (be_bytes 20 (unat pm))
          (of_nat (VALID_UNTIL now1)) (of_nat (VALID_AFTER now2))
          (jc_signMessage jc signer (abi_word (pm_getHash (pm_env_at e pm) s op
             (of_nat (VALID_UNTIL now1)) (of_nat (VALID_AFTER now2)))))\<rparr>"

lemma sponsor_returns:
  assumes "en_signers e = signer # rest" "deployed w pm = Some (CVerifyingPaymaster ep s)"
    "VALID_UNTIL now1 < 2 ^ 48" "VALID_AFTER now2 < 2 ^ 48"
  shows "\<exists>w'. sponsor e jc (''EnclaveVerifyingPaymaster'', pm) now1 now2 op w =
    (Inr (sponsored e jc signer pm s now1 now2 op), w') \<and> on_chain w' = on_chain w"
proof -
  let ?u = "of_nat (VALID_UNTIL now1) :: uint48" and ?a = "of_nat (VALID_AFTER now2) :: uint48"
  let ?h = "abi_word (pm_getHash (pm_env_at e pm) s op ?u ?a)"
  have view: "viewS e (''EnclaveVerifyingPaymaster'', pm) ''getHash''
      [JUserOp op, JNum (int (VALID_UNTIL now1)), JNum (int (VALID_AFTER now2))] w = (Inr (JBytes ?h), w)"
    using assms(2-4)
    by (simp add: viewS_def abi_functions_def own_view_def view_paymaster_def as_userOp_def as_uint_def)
  have "from_hex (hexConcat [to_hex p, to_hex q, to_hex r]) = p @ q @ r" for p q r
    using from_hex_hexConcat [of "[p, q, r]"] by simp
  then show ?thesis
    using view assms(1)
    by (simp add: sponsor_def Let_def bindS_def thenS_def view_bytes_def getSigner_def returnS_def console_log_def
        sponsored_def build_paymasterAndData_def of_nat_ucast_48 [OF assms(3)] of_nat_ucast_48 [OF assms(4)] on_chain_def)
qed

lemma request_hash_paymasterAndData:
  "request_hash e n (op\<lparr>paymasterAndData := d\<rparr>) u a = request_hash e n op u a"
  by (simp add: request_hash_def pm_preimage_def pm_pack_def)

lemma sponsored_accepted:
  assumes "length (jc_signMessage jc signer (abi_word h)) = 65"
    "ECDSA_recover (en_crypto e) (toEthSignedMessageHash (en_crypto e) h) (jc_signMessage jc signer (abi_word h)) =
       Inr (verifyingSigner s)"
    "h = pm_getHash (pm_env_at e pm) s op (of_nat (VALID_UNTIL now1)) (of_nat (VALID_AFTER now2))"
    "senderNonce s (sender op) \<noteq> - 1"
  shows "verifying_validatePaymasterUserOp (pm_env_at e pm) (sponsored e jc signer pm s now1 now2 op) pf s =
    Inr (([], packValidationData False (of_nat (VALID_UNTIL now1)) (of_nat (VALID_AFTER now2))),
      s\<lparr>senderNonce := (senderNonce s)(sender op := senderNonce s (sender op) + 1)\<rparr>)"
proof -
  let ?op = "sponsored e jc signer pm s now1 now2 op"
  have "paymasterAndData ?op = build_paymasterAndData (be_bytes 20 (unat pm)) (of_nat (VALID_UNTIL now1))
      (of_nat (VALID_AFTER now2)) (jc_signMessage jc signer (abi_word h))" "sender ?op = sender op"
    by (simp_all add: sponsored_def assms(3))
  moreover have "request_hash (pm_env_at e pm) n ?op u a = request_hash (pm_env_at e pm) n op u a" for n u a
    by (simp add: sponsored_def request_hash_paymasterAndData)
  moreover have "request_hash (pm_env_at e pm) (senderNonce s (sender op)) op (of_nat (VALID_UNTIL now1)) (of_nat (VALID_AFTER now2)) =
      toEthSignedMessageHash (en_crypto e) h"
    by (simp add: request_hash_def assms(3) pm_getHash_def getSender_def pm_env_at_def)
  ultimately show ?thesis
    using verifying_outcome [of "be_bytes 20 (unat pm)" ?op] assms(1,2,4) by (simp add: pm_env_at_def)
qed

text \<open>What the script relies on of the wallet: a message signature has 65 bytes and recovers to the signer.\<close>

definition signMessage_ok :: "evm_crypto \<Rightarrow> js_crypto \<Rightarrow> address \<Rightarrow> bool" where
  "signMessage_ok c jc signer \<longleftrightarrow>
     (\<forall>h. length (jc_signMessage jc signer (abi_word h)) = 65 \<and>
        ECDSA_recover c (toEthSignedMessageHash c h) (jc_signMessage jc signer (abi_word h)) = Inr signer)"

lemma signed_userOp_rejected:
  "p256_validateSignature c regs vs a (sign_userOp jc m key op) h = Inl RevertEmpty"
proof -
  have "length (signature (sign_userOp jc m key op)) = 64"
    by (simp add: sign_userOp_def split_beta length_two_words)
  then show ?thesis by (simp add: p256_validateSignature_def decode_signature_short)
qed

section \<open>The passkey digests\<close>

definition passkey_challenge :: bytes32 where
  "passkey_challenge = 0xc16983230e7b6f859dd784b8324cc9a12ceb77fadca6f03330064309498cd4c3"

definition passkey_digest_value :: "'x ethers_env \<Rightarrow> bytes32" where
  "passkey_digest_value e =
     sha256 (en_crypto e) (authenticator_bytes @
       abi_word (sha256 (en_crypto e) (client_data ''wWmDIw57b4Wd14S4MkzJoSzrd_rcpvAzMAZDCUmM1MM'')))"

text \<open>The challenge in the script is the Base64URL encoding of an operation hash, so the digest is the account's.\<close>

lemma challenge_bytes:
  "abi_word passkey_challenge =
   [0xc1, 0x69, 0x83, 0x23, 0x0e, 0x7b, 0x6f, 0x85, 0x9d, 0xd7, 0x84, 0xb8, 0x32, 0x4c, 0xc9, 0xa1,
    0x2c, 0xeb, 0x77, 0xfa, 0xdc, 0xa6, 0xf0, 0x33, 0x30, 0x06, 0x43, 0x09, 0x49, 0x8c, 0xd4, 0xc3]"
  (is "_ = ?bs")
proof -
  have "unat passkey_challenge = be_nat ?bs" by (simp add: be_nat_def passkey_challenge_def)
  moreover have "be_bytes 32 (be_nat ?bs) = ?bs" by (rule be_bytes_length) simp
  ultimately show ?thesis by (simp add: abi_word_def)
qed

lemma alphabet_values:
  "url_alphabet =
     [65, 66, 67, 68, 69, 70, 71, 72, 73, 74, 75, 76, 77, 78, 79, 80, 81, 82, 83, 84, 85, 86,
      87, 88, 89, 90, 97, 98, 99, 100, 101, 102, 103, 104, 105, 106, 107, 108, 109, 110, 111, 112, 113, 114,
      115, 116, 117, 118, 119, 120, 121, 122, 48, 49, 50, 51, 52, 53, 54, 55, 56, 57, 45, 95]"
  by (simp add: url_alphabet_def ascii_def)

lemma challenge_encoded:
  "Base64URL_encode (abi_word passkey_challenge) = ascii ''wWmDIw57b4Wd14S4MkzJoSzrd_rcpvAzMAZDCUmM1MM''"
  by (simp add: Base64URL_encode_ref challenge_bytes Let_def url_sym_def alphabet_values ascii_def)

lemma passkey_digest_is_account_hash:
  "passkey_digest_value e =
     passkey_hash (en_crypto e) authenticator_bytes client_data_pre client_data_post passkey_challenge"
  by (simp add: passkey_digest_value_def passkey_hash_def clientDataJSON_def client_data_def challenge_encoded)

lemma passkey_digest_run:
  "\<exists>w'. passkey_digest e w = (Inr (abi_word (passkey_digest_value e)), w') \<and> on_chain w' = on_chain w"
  by (simp add: passkey_digest_def passkey_digest_value_def sha256_digest_def thenS_def bindS_def console_log_def
      returnS_def Let_def on_chain_def)

lemma as_passkey: "as_pubkey passkey_key =
    Inr (0xb3ef0eb6729d78ff039b7d99dbebef10d15151e12c2750cc3e9906ff18e077dc,
         0xc5928d1c4b8b56c27e3361afe6c3c9f4b78da21c9a75eedaf41de1503f5ec80f)"
  by (simp add: as_pubkey_def passkey_key_def as_uint_def)

lemma as_bytes32_word [simp]: "as_bytes32 (JBytes (abi_word v)) = Inr v"
  using load_word_abi [of v "[]"] by (simp add: as_bytes32_def)

text \<open>
  The verifier test does not wait for its deployment. On a network that has mined it by the next
  step the script prints the verdict, otherwise its read finds no code.
\<close>

lemma verify_test_run:
  assumes "en_signers e = signer # rest" "w_contracts w (en_create e signer (w_nonce w)) = None" "w_unmined w = []"
  shows "\<exists>w'. w_contracts w' = (w_contracts w)(en_create e signer (w_nonce w) \<mapsto> CP256Verifier) \<and>
    (if en_mined e (w_nonce w)
     then \<exists>ok. ecdsa_verify (passkey_digest_value e) (of_nat (nat passkey_r)) (of_nat (nat passkey_s))
            (0xb3ef0eb6729d78ff039b7d99dbebef10d15151e12c2750cc3e9906ff18e077dc,
             0xc5928d1c4b8b56c27e3361afe6c3c9f4b78da21c9a75eedaf41de1503f5ec80f) = Inr ok \<and>
          P256VerifyTest_main e w = (Inr (), w') \<and> last (w_console w') = (''Res: '', [JBool ok])
     else P256VerifyTest_main e w = (Inl (Thrown ''could not decode result data''), w') \<and>
          last (w_console w') = (''P256Verifier deployed to: '', [JAddr (en_create e signer (w_nonce w))]))"
proof -
  let ?a = "en_create e signer (w_nonce w)"
  let ?args = "[JBytes (abi_word (passkey_digest_value e)), JNum passkey_r, JNum passkey_s, passkey_key]"
  obtain ok where ok: "ecdsa_verify (passkey_digest_value e) (of_nat (nat passkey_r)) (of_nat (nat passkey_s))
      (0xb3ef0eb6729d78ff039b7d99dbebef10d15151e12c2750cc3e9906ff18e077dc,
       0xc5928d1c4b8b56c27e3361afe6c3c9f4b78da21c9a75eedaf41de1503f5ec80f) = Inr ok"
    using ecdsa_verify_returns by blast
  obtain w1 where w1: "passkey_digest e w = (Inr (abi_word (passkey_digest_value e)), w1)" "on_chain w1 = on_chain w"
    using passkey_digest_run by blast
  then have same: "w_contracts w1 = w_contracts w" "w_nonce w1 = w_nonce w" "w_unmined w1 = []"
    using assms(3) by (simp_all add: on_chain_def)
  define w2 where "w2 = w1\<lparr>w_contracts := w_contracts w1 ++ map_of [(?a, CP256Verifier)],
    w_unmined := (if en_mined e (w_nonce w) then [] else [?a]), w_nonce := Suc (w_nonce w1)\<rparr>"
  have dep: "deploy e ''P256Verifier'' [] w1 = (Inr ?a, w2)"
    using deploy_run [OF assms(1), of "[]" "''P256Verifier''" w1] assms(2)
    by (simp add: ctor_arity_def construct_def same w2_def)
  define w3 where "w3 = w2\<lparr>w_console := w_console w2 @ [(''P256Verifier deployed to: '', [JAddr ?a])]\<rparr>"
  have cs: "w_contracts w3 = (w_contracts w)(?a \<mapsto> CP256Verifier)"
    by (simp add: w3_def w2_def same map_add_def fun_eq_iff)
  show ?thesis
  proof (cases "en_mined e (w_nonce w)")
    case True
    then have "deployed w3 ?a = Some CP256Verifier" by (simp add: deployed_def w3_def w2_def)
    then have view: "viewS e (''P256Verifier'', ?a) ''ecdsa_verify'' ?args w3 = (Inr (JBool ok), w3)"
      using ok
      by (simp add: viewS_def abi_functions_def own_view_def as_passkey as_script_def as_uint_def passkey_r_def passkey_s_def)
    have "P256VerifyTest_main e w =
        (Inr (), w3\<lparr>w_console := w_console w3 @ [(''Res: '', [JBool ok])]\<rparr>)"
      unfolding P256VerifyTest_main_def factories
      using w1(1) dep view by (simp add: bindS_def thenS_def console_log_def flip: w3_def)
    then show ?thesis using True ok cs by simp
  next
    case False
    then have "?a \<in> set (w_unmined w3)" by (simp add: w3_def w2_def)
    then have view: "viewS e (''P256Verifier'', ?a) ''ecdsa_verify'' ?args w3 =
        (Inl (Thrown ''could not decode result data''), w3)"
      by (simp add: viewS_def abi_functions_def deployed_def)
    have "P256VerifyTest_main e w = (Inl (Thrown ''could not decode result data''), w3)"
      unfolding P256VerifyTest_main_def factories
      using w1(1) dep view by (simp add: bindS_def thenS_def console_log_def flip: w3_def)
    moreover have "last (w_console w3) = (''P256Verifier deployed to: '', [JAddr ?a])" by (simp add: w3_def)
    ultimately show ?thesis using False cs by (simp only: if_False) blast
  qed
qed

section \<open>The account scripts\<close>

definition account_keys :: pubkey where
  "account_keys = (0x440d8eb746e0a6b8da200ed3928ae2db1aa120950200911eca935a05c61ea99a,
                   0x76daad039c44388a531369885b9f65c2d540d0b64726d77077801e1c21bc6c1c)"

lemma as_account_key: "as_pubkey account_key = Inr account_keys"
  by (simp add: as_pubkey_def account_key_def as_uint_def account_keys_def)

lemma deployaccount_run:
  fixes a :: address
  defines "a \<equiv> 0x502674c8eF6A87A9C485df592033796A5ad71607"
  assumes "en_signers e = signer # rest" "deployed w a = Some (CP256Factory impl)" "w_contracts w impl \<noteq> None"
  defines "acc \<equiv> predicted e a impl account_keys 0xA8E8f8cBD889Fc74882AeDFDcf8323fD7423DB47 0"
  shows "\<exists>w'. deployaccount_main e w = (Inr (), w') \<and>
    (''Dummy Address: '', [JAddr acc]) \<in> set (w_console w') \<and>
    w_contracts w' = (if w_contracts w acc = None
      then (w_contracts w)(acc \<mapsto> CP256Account (p256_created impl account_keys 0xA8E8f8cBD889Fc74882AeDFDcf8323fD7423DB47))
      else w_contracts w)"
proof -
  define w1 where "w1 = w\<lparr>w_console := w_console w @ [(''Signer address:'', [JAddr signer])]\<rparr>"
  define w2 where "w2 = w1\<lparr>w_console := w_console w1 @ [(''Dummy Address: '', [JAddr acc])]\<rparr>"
  have c1: "deployed w1 a = Some (CP256Factory impl)" and c2: "w_contracts w2 a = Some (CP256Factory impl)"
    and i2: "w_contracts w2 impl \<noteq> None" and same: "w_contracts w2 = w_contracts w"
    using assms(3,4) by (simp_all add: w1_def w2_def deployed_def split: if_splits)
  note v = view_account_address [OF c1 as_account_key, of 0 e "0xA8E8f8cBD889Fc74882AeDFDcf8323fD7423DB47", folded acc_def]
  note s = send_create_account [OF assms(2) c2 i2 as_account_key, of 0 "0xA8E8f8cBD889Fc74882AeDFDcf8323fD7423DB47", folded acc_def]
  show ?thesis
    unfolding deployaccount_main_def factories Let_def a_def [symmetric]
    using banner_run [OF assms(2), of w] v s same
    by (simp add: bindS_def thenS_def console_log_def put_contract_def w2_def flip: w1_def)
qed

end
