(* ===== verification/SignatureModules.thy ===== *)
theory SignatureModules
  imports Factories PaymasterSpec P256
begin

text \<open>
  The two signature modules beside the account: \<open>MultichainValidator.sol\<close>, which validates an
  operation against a signed Merkle root of operations for several chains, and
  \<open>P256VerifierYul.sol\<close>, a wrapper of a verifier written in Yul. The Merkle proof library is an
  argument, \<open>merkle_verify\<close>; so are the verifier contracts, the accounts and the storage they read.
\<close>

section \<open>Multichain validator\<close>

definition module_types :: "abi_ty list" where
  "module_types = [TUint 48, TUint 48, TUint 256, TWords, TBytes]"

definition decode_module :: "bytes \<Rightarrow> (uint48 \<times> uint48 \<times> bytes32 \<times> bytes32 list \<times> bytes) res" where
  "decode_module bs =
     bindR (abi_decode module_types bs) (\<lambda>vs.
     case vs of [AWord u, AWord a, AWord root, AWords proof_path, ABytes sig] \<Rightarrow>
         Inr (ucast u, ucast a, root, proof_path, sig)
     | _ \<Rightarrow> Inl RevertEmpty)"

definition decode_module_signature :: "bytes \<Rightarrow> bytes res" where
  "decode_module_signature bs =
     bindR (abi_decode [TBytes, TUint 160] bs) (\<lambda>vs.
     case vs of [ABytes b, AWord a] \<Rightarrow> Inr b | _ \<Rightarrow> Inl RevertEmpty)"

definition multichain_leaf :: "evm_crypto \<Rightarrow> uint48 \<Rightarrow> uint48 \<Rightarrow> bytes32 \<Rightarrow> bytes32" where
  "multichain_leaf c vUntil vAfter userOpHash =
     keccak256 c (be_bytes 6 (unat vUntil) @ be_bytes 6 (unat vAfter) @ abi_word userOpHash)"

definition account_pubKey_at :: "(address \<Rightarrow> p256_account option) \<Rightarrow> address \<Rightarrow> pubkey res" where
  "account_pubKey_at accounts a = (case accounts a of None \<Rightarrow> Inl RevertEmpty | Some s \<Rightarrow> Inr (pubKey s))"

definition multichain_verifySignature ::
    "evm_crypto \<Rightarrow> registries \<Rightarrow> verifiers \<Rightarrow> (address \<Rightarrow> p256_account option) \<Rightarrow> address \<Rightarrow> address \<Rightarrow>
     bytes \<Rightarrow> bytes \<Rightarrow> bytes \<Rightarrow> bytes32 \<Rightarrow> uint256 \<Rightarrow> uint256 \<Rightarrow> bool res" where
  "multichain_verifySignature c regs ecdsa accounts reg caller authenticatorData pre post userOpHash r s =
     (let sigHash = passkey_hash c authenticatorData pre post userOpHash in
     bindR (registry_lookup regs reg ''p256Verifier'') (\<lambda>v.
     bindR (account_pubKey_at accounts caller) (\<lambda>pk.
     ecdsa v sigHash r s pk)))"

definition multichain_validateUserOp ::
    "(bytes32 list \<Rightarrow> bytes32 \<Rightarrow> bytes32 \<Rightarrow> bool) \<Rightarrow> evm_crypto \<Rightarrow> registries \<Rightarrow> verifiers \<Rightarrow>
     (address \<Rightarrow> p256_account option) \<Rightarrow> address \<Rightarrow> address \<Rightarrow> UserOperation \<Rightarrow> bytes32 \<Rightarrow> uint256 res" where
  "multichain_validateUserOp merkle_verify c regs ecdsa accounts reg caller userOp userOpHash =
     bindR (decode_module_signature (signature userOp)) (\<lambda>moduleSignature.
     bindR (decode_module moduleSignature) (\<lambda>(vUntil, vAfter, merkleTreeRoot, merkleProof, multichainSignature).
     let leaf = multichain_leaf c vUntil vAfter userOpHash in
     if \<not> merkle_verify merkleProof merkleTreeRoot leaf then Inl (Revert ''Invalid UserOp'')
     else
       bindR (decode_signature multichainSignature) (\<lambda>(k, r, s, ad, pre, post).
       bindR (multichain_verifySignature c regs ecdsa accounts reg caller ad pre post merkleTreeRoot r s) (\<lambda>ok.
       Inr (if ok then 0 else 1)))))"

text \<open>The bytes a wallet puts into the operation, and what becomes of them.\<close>

definition encode_module :: "uint48 \<Rightarrow> uint48 \<Rightarrow> bytes32 \<Rightarrow> bytes32 list \<Rightarrow> bytes \<Rightarrow> address \<Rightarrow> bytes" where
  "encode_module u a root proof_path sig validator =
     abi_encode [ABytes (abi_encode [AWord (ucast u), AWord (ucast a), AWord root, AWords proof_path, ABytes sig]),
                 AWord (ucast validator)]"

lemma decode_encode_module:
  assumes "length (encode_module u a root path sig validator) < 2 ^ 64"
  defines "inner \<equiv> abi_encode [AWord (ucast u), AWord (ucast a), AWord root, AWords path, ABytes sig]"
  shows "decode_module_signature (encode_module u a root path sig validator) = Inr inner"
    and "decode_module inner = Inr (u, a, root, path, sig)" and "length sig < 2 ^ 64"
proof -
  have "length inner \<le> length (encode_module u a root path sig validator)"
    by (simp add: encode_module_def length_abi_encode [of "[ABytes b, w]" for b w] inner_def pad32_def)
  then have small: "length inner < 2 ^ 64" using assms(1) by simp
  have "abi_decode [TBytes, TUint 160] (encode_module u a root path sig validator) =
      Inr [ABytes inner, AWord (ucast validator)]"
    unfolding encode_module_def inner_def
    by (rule abi_decode_encode)
      (use assms(1) in \<open>simp_all only: list_all2_Cons list_all2_Nil abi_has_ty.simps unat_ucast_160 unat_lt_160 encode_module_def simp_thms\<close>)
  then show "decode_module_signature (encode_module u a root path sig validator) = Inr inner"
    by (simp add: decode_module_signature_def)
  have "abi_decode module_types inner = Inr [AWord (ucast u), AWord (ucast a), AWord root, AWords path, ABytes sig]"
    unfolding inner_def module_types_def
    by (rule abi_decode_encode)
      (use small in \<open>simp_all only: list_all2_Cons list_all2_Nil abi_has_ty.simps unat_ucast_48 unat_lt_48 unat_lt_256 inner_def simp_thms\<close>)
  then show "decode_module inner = Inr (u, a, root, path, sig)" by (simp add: decode_module_def)
  show "length sig < 2 ^ 64"
    using small length_pad32 [of sig] by (simp add: inner_def length_abi_encode)
qed

lemma multichain_outcome:
  assumes "signature userOp = encode_module u a root path (encode_signature k r s ad pre post) validator"
    and "length (signature userOp) < 2 ^ 64"
    and "registry_lookup regs reg ''p256Verifier'' = Inr v" and "accounts caller = Some acc"
  shows "multichain_validateUserOp mv c regs (\<lambda>_. ecdsa_verify) accounts reg caller userOp h =
    (if mv path root (multichain_leaf c u a h)
     then bindR (ecdsa_verify (passkey_hash c ad pre post root) r s (pubKey acc)) (\<lambda>ok. Inr (if ok then 0 else 1))
     else Inl (Revert ''Invalid UserOp''))"
proof -
  note d = decode_encode_module [of u a root path "encode_signature k r s ad pre post" validator, folded assms(1), OF assms(2)]
  show ?thesis
    using d(1,2) decode_encode_signature [OF d(3)] assms(3,4)
    by (simp add: multichain_validateUserOp_def multichain_verifySignature_def account_pubKey_at_def assms(1) Let_def)
qed

lemma multichain_values:
  "multichain_validateUserOp mv c regs ecdsa accounts reg caller userOp h = Inr v \<Longrightarrow> v = 0 \<or> v = 1"
  by (auto simp: multichain_validateUserOp_def res_simps Let_def split: if_splits)

section \<open>P256VerifierYul\<close>

text \<open>
  \<open>verifierContract\<close> is immutable, so the contract has no storage of its own; \<open>storage\<close> is what
  \<open>sload\<close> reads. The variables \<open>input\<close> and \<open>result\<close> are zero and serve as memory pointers: the request
  is the memory from 0 to 160, and the answer goes to memory and never into the variable \<open>result\<close>.
  The third word of the request overwrites Solidity's free memory pointer with \<open>s\<close>; what the memory
  behind it costs is gas and not modelled, so a result of the model may run out of gas on chain.
\<close>

definition yul_ecdsa_verify ::
    "(address \<Rightarrow> bytes \<Rightarrow> bool \<times> bytes) \<Rightarrow> (uint256 \<Rightarrow> uint256) \<Rightarrow> address \<Rightarrow> bytes32 \<Rightarrow> uint256 \<Rightarrow> uint256 \<Rightarrow>
     pubkey \<Rightarrow> bool res" where
  "yul_ecdsa_verify staticcall storage verifierContract h r s pk =
     (let result = (0 :: bytes32);
          yulAddress = (ucast verifierContract :: uint256);
          memory = abi_word h @ abi_word r @ abi_word s @ abi_word (fst pk) @ abi_word (snd pk)
      in case staticcall (ucast (storage yulAddress)) (take 160 memory) of (success, output) \<Rightarrow>
         bindR (require success ''P256 verify call failed'') (\<lambda>_.
         Inr (abi_word result ! 31 = 0x01)))"

definition yul_fallback ::
    "(address \<Rightarrow> bytes \<Rightarrow> bool \<times> bytes) \<Rightarrow> (uint256 \<Rightarrow> uint256) \<Rightarrow> address \<Rightarrow> bytes \<Rightarrow> bytes res" where
  "yul_fallback staticcall storage verifierContract input =
     (if length input \<noteq> 160 then Inr (abi_word 0)
      else
        let hash = load_word input 0;
            r = load_word input 32;
            s = load_word input 64;
            x = load_word input 96;
            y = load_word input 128
        in bindR (yul_ecdsa_verify staticcall storage verifierContract hash r s (x, y)) (\<lambda>ok.
           Inr (abi_word (if ok then 1 else 0))))"

lemma abi_word_zero: "abi_word 0 = replicate 32 0"
  by (simp add: abi_word_def be_bytes_zero)

lemma yul_never_accepts:
  "yul_ecdsa_verify sc storage vc h r s pk =
    (if fst (sc (ucast (storage (ucast vc))) (abi_word h @ abi_word r @ abi_word s @ abi_word (fst pk) @ abi_word (snd pk)))
     then Inr False else Inl (Revert ''P256 verify call failed''))"
  by (simp add: yul_ecdsa_verify_def Let_def abi_word_zero split: prod.splits)

lemma yul_fallback_values: "yul_fallback sc storage vc input = Inr out \<Longrightarrow> out = abi_word 0"
  by (auto simp: yul_fallback_def Let_def yul_never_accepts split: if_splits)

end
