(* ===== verification/Montgomery.thy ===== *)
theory Montgomery
  imports Prelude
begin

text \<open>
  The modular arithmetic of \<open>P256VERIFY.yul\<close>: Montgomery reduction, the operations on numbers in
  Montgomery form, and the binary extended Euclidean algorithm that inverts them. Yul's truth values
  are used as conditions only, so they are \<open>bool\<close> here; \<open>mul_high\<close>, the instruction behind
  \<open>getHighestHalfOfMultiplication\<close>, is the upper half of the product of two words. The loops of the
  inversion are partial functions: \<open>None\<close> is a loop that does not end.
\<close>

unbundle bit_operations_syntax

section \<open>Definitions\<close>

definition overflowingAdd :: "uint256 \<Rightarrow> uint256 \<Rightarrow> uint256 \<times> bool" where
  "overflowingAdd augend addend = (let sum = augend + addend in (sum, sum < augend))"

definition getHighestHalfOfMultiplication :: "uint256 \<Rightarrow> uint256 \<Rightarrow> uint256" where
  "getHighestHalfOfMultiplication multiplicand multiplier = word_of_int (uint multiplicand * uint multiplier div 2 ^ 256)"

definition halve_mod :: "uint256 \<Rightarrow> uint256 \<Rightarrow> uint256" where
  "halve_mod modulus b =
     (let mask = 57896044618658097711785492504343953926634992332820282019728792003956564819968;
          modulusHasSpareBits = (modulus AND mask = 0)
      in if b AND 1 = 0 then drop_bit 1 b
         else let (newB, carry) = overflowingAdd b modulus;
                  b = drop_bit 1 newB
              in if \<not> modulusHasSpareBits \<and> carry then b OR mask else b)"

partial_function (option) halving :: "uint256 \<Rightarrow> uint256 \<Rightarrow> uint256 \<Rightarrow> (uint256 \<times> uint256) option" where
  "halving modulus u b =
     (if u AND 1 = 0 then halving modulus (drop_bit 1 u) (halve_mod modulus b) else Some (u, b))"

definition sub_mod :: "uint256 \<Rightarrow> uint256 \<Rightarrow> uint256 \<Rightarrow> uint256" where
  "sub_mod modulus b c = (let b = (if b < c then b + modulus else b) in b - c)"

partial_function (option) euclid_loop ::
    "uint256 \<Rightarrow> uint256 \<Rightarrow> uint256 \<Rightarrow> uint256 \<Rightarrow> uint256 \<Rightarrow> uint256 option" where
  "euclid_loop modulus u v b c =
     (if u \<noteq> 1 \<and> v \<noteq> 1
      then Option.bind (halving modulus u b) (\<lambda>(u, b).
           Option.bind (halving modulus v c) (\<lambda>(v, c).
           if \<not> u < v then euclid_loop modulus (u - v) v (sub_mod modulus b c) c
           else euclid_loop modulus u (v - u) b (sub_mod modulus c b)))
      else Some (if u = 1 then b else c))"

declare halving.simps [code] euclid_loop.simps [code]

definition binaryExtendedEuclideanAlgorithm :: "uint256 \<Rightarrow> uint256 \<Rightarrow> uint256 \<Rightarrow> uint256 option" where
  "binaryExtendedEuclideanAlgorithm base modulus r2 = euclid_loop modulus base modulus r2 0"

definition REDC :: "uint256 \<Rightarrow> uint256 \<Rightarrow> uint256 \<Rightarrow> uint256 \<Rightarrow> uint256" where
  "REDC TLo THi n nPrime =
     (let m = TLo * nPrime;
          (tHi, tHiOverflowed1) = overflowingAdd THi (getHighestHalfOfMultiplication m n);
          (aLo, aLoOverflowed) = overflowingAdd TLo (m * n);
          (tHi, tHiOverflowed2) = (if aLoOverflowed then overflowingAdd tHi 1 else (tHi, False))
      in if (tHiOverflowed1 \<or> tHiOverflowed2) \<or> \<not> tHi < n then tHi - n else tHi)"

definition intoMontgomeryForm :: "uint256 \<Rightarrow> uint256 \<Rightarrow> uint256 \<Rightarrow> uint256 \<Rightarrow> uint256" where
  "intoMontgomeryForm a n nPrime r2 =
     (let hi = getHighestHalfOfMultiplication a r2; lo = a * r2 in REDC lo hi n nPrime)"

definition outOfMontgomeryForm :: "uint256 \<Rightarrow> uint256 \<Rightarrow> uint256 \<Rightarrow> uint256" where
  "outOfMontgomeryForm m n nPrime = (let hi = 0; lo = m in REDC lo hi n nPrime)"

definition montgomeryAdd :: "uint256 \<Rightarrow> uint256 \<Rightarrow> uint256 \<Rightarrow> uint256" where
  "montgomeryAdd augend addend n = addmod augend addend n"

definition montgomerySub :: "uint256 \<Rightarrow> uint256 \<Rightarrow> uint256 \<Rightarrow> uint256" where
  "montgomerySub minuend subtrahend n = montgomeryAdd minuend (n - subtrahend) n"

definition montgomeryMul :: "uint256 \<Rightarrow> uint256 \<Rightarrow> uint256 \<Rightarrow> uint256 \<Rightarrow> uint256" where
  "montgomeryMul multiplicand multiplier n nPrime =
     (let hi = getHighestHalfOfMultiplication multiplicand multiplier;
          lo = multiplicand * multiplier
      in REDC lo hi n nPrime)"

definition montgomeryModularInverse :: "uint256 \<Rightarrow> uint256 \<Rightarrow> uint256 \<Rightarrow> uint256 option" where
  "montgomeryModularInverse a n r2 = binaryExtendedEuclideanAlgorithm a n r2"

section \<open>Reduction\<close>

text \<open>The radix is kept abstract, so that the simplifier does not compute with it.\<close>

definition radix :: int where "radix = 2 ^ 256"

lemma radix_pos: "0 < radix" "1 < radix"
  by (simp_all add: radix_def)

lemma uint_bounds: "0 \<le> uint (x :: uint256)" "uint (x :: uint256) < radix"
  using uint_lt2p [of x] by (simp_all add: radix_def)

lemma uint_arith_radix:
  fixes x y :: uint256
  shows "uint (x + y) = (uint x + uint y) mod radix" "uint (x - y) = (uint x - uint y) mod radix"
    "uint (x * y) = uint x * uint y mod radix"
  by (simp_all add: uint_word_ariths radix_def)

lemma uint_one_256: "uint (1 :: uint256) = 1"
  by simp

lemma mod_once:
  fixes a m :: int
  shows "0 \<le> a \<Longrightarrow> a < 2 * m \<Longrightarrow> a mod m = (if a < m then a else a - m)"
  using mod_pos_pos_trivial [of "a - m" m] mod_add_self2 [of "a - m" m] by auto

lemma overflow_iff: "a + b < a \<longleftrightarrow> radix \<le> uint a + uint b" for a b :: uint256
  using uint_bounds [of a] uint_bounds [of b] unfolding word_less_def uint_arith_radix
  by (subst mod_once) auto

lemma overflowingAdd_eq: "overflowingAdd a b = (a + b, radix \<le> uint a + uint b)"
  by (simp add: overflowingAdd_def Let_def overflow_iff)

lemma uint_high_half: "uint (getHighestHalfOfMultiplication a b) = uint a * uint b div radix"
proof -
  have "uint a * uint b \<le> radix * uint b" using uint_bounds [of a] uint_bounds [of b] by (intro mult_right_mono) auto
  then have "uint a * uint b div radix \<le> uint b" using radix_pos by (simp add: zdiv_mono1 order.trans [OF zdiv_mono1])
  then have "0 \<le> uint a * uint b div radix" "uint a * uint b div radix < radix"
    using uint_bounds [of a] uint_bounds [of b] radix_pos by (auto simp: pos_imp_zdiv_nonneg_iff)
  then show ?thesis by (simp add: getHighestHalfOfMultiplication_def uint_word_of_int radix_def)
qed

text \<open>The two halves of a product, as \<open>REDC\<close> takes them.\<close>

lemma product_halves: "uint (getHighestHalfOfMultiplication a b) * radix + uint (a * b) = uint a * uint b"
  by (simp add: uint_high_half uint_arith_radix)

text \<open>The quotient of the reduction, before the final subtraction.\<close>

definition redc_quotient :: "uint256 \<Rightarrow> uint256 \<Rightarrow> uint256 \<Rightarrow> uint256 \<Rightarrow> int" where
  "redc_quotient TLo THi n nPrime =
     uint THi + uint (TLo * nPrime) * uint n div radix + (if TLo = 0 then 0 else 1)"

lemma redc_low:
  fixes TLo n nPrime :: uint256
  assumes "n * nPrime = - 1"
  shows "TLo + TLo * nPrime * n = 0"
proof -
  have "TLo + TLo * nPrime * n = TLo * (1 + n * nPrime)" by (simp add: algebra_simps)
  then show ?thesis by (simp add: assms)
qed

lemma redc_quotient_exact:
  assumes "n * nPrime = - 1"
  shows "redc_quotient TLo THi n nPrime * radix = uint THi * radix + uint TLo + uint (TLo * nPrime) * uint n"
proof -
  let ?m = "TLo * nPrime"
  have "(uint TLo + uint (?m * n)) mod radix = 0"
    using redc_low [OF assms] by (metis uint_arith_radix(1) unsigned_0)
  then have "uint TLo + uint (?m * n) = (if TLo = 0 then 0 else radix)"
    using uint_bounds [of TLo] uint_bounds [of "?m * n"]
    by (subst (asm) mod_once) (auto simp: uint_0_iff add_nonneg_eq_0_iff split: if_splits)
  moreover have "uint ?m * uint n = uint ?m * uint n div radix * radix + uint (?m * n)"
    using product_halves [of ?m n] by (simp add: uint_high_half)
  ultimately show ?thesis by (auto simp: redc_quotient_def algebra_simps)
qed

lemma uint_REDC:
  assumes "n * nPrime = - 1" "uint THi * radix + uint TLo < uint n * radix"
  defines "t \<equiv> redc_quotient TLo THi n nPrime"
  shows "uint (REDC TLo THi n nPrime) = (if t < uint n then t else t - uint n)" and "0 \<le> t" and "t < 2 * uint n"
proof -
  let ?m = "TLo * nPrime" and ?hi = "getHighestHalfOfMultiplication (TLo * nPrime) n"
  have "0 \<le> uint THi * radix" using uint_bounds(1) [of THi] radix_pos by simp
  then have "0 < uint n * radix" using assms(2) uint_bounds(1) [of TLo] by linarith
  then have n: "0 < uint n" using radix_pos by (simp add: zero_less_mult_iff)
  have "uint ?m * uint n < radix * uint n" using uint_bounds(2) [of ?m] n by simp
  then have "t * radix < (2 * uint n) * radix"
    using assms(2) unfolding t_def redc_quotient_exact [OF assms(1)] by (simp add: algebra_simps)
  then show t: "t < 2 * uint n" using radix_pos by simp
  have hi: "uint ?hi = uint ?m * uint n div radix" by (rule uint_high_half)
  show t0: "0 \<le> t" using uint_bounds(1) [of THi] uint_bounds(1) [of ?hi] by (simp add: t_def redc_quotient_def hi)
  define a where "a = uint THi + uint ?hi"
  have "t = a + (if TLo = 0 then 0 else 1)" by (simp only: t_def redc_quotient_def a_def hi)
  then have a: "t = (if TLo = 0 then a else a + 1)" by simp
  have carry: "radix \<le> uint TLo + uint (?m * n) \<longleftrightarrow> TLo \<noteq> 0"
    unfolding overflow_iff [symmetric] redc_low [OF assms(1)] by (simp add: word_gt_0)
  define w where "w = THi + ?hi + (if TLo = 0 then 0 else 1)"
  define ov where "ov \<longleftrightarrow> radix \<le> t"
  have "uint (THi + ?hi) = a mod radix" by (simp add: uint_arith_radix a_def)
  then have w: "uint w = t mod radix"
    by (simp add: w_def uint_arith_radix a mod_add_left_eq)
  have ba: "a < 2 * radix" "0 \<le> a" using uint_bounds [of THi] uint_bounds [of ?hi] by (simp_all add: a_def)
  have "REDC TLo THi n nPrime = (if ov \<or> \<not> w < n then w - n else w)"
  proof (cases "TLo = 0")
    case True
    then show ?thesis
      unfolding REDC_def Let_def overflowingAdd_eq prod.case carry w_def ov_def a a_def by simp
  next
    case False
    have "(radix \<le> a \<or> radix \<le> a mod radix + 1) \<longleftrightarrow> radix \<le> a + 1"
      using ba by (subst mod_once) auto
    then show ?thesis
      using False \<open>uint (THi + ?hi) = a mod radix\<close>
      unfolding REDC_def Let_def overflowingAdd_eq prod.case carry w_def ov_def a a_def by auto
  qed
  moreover have "uint n < radix" by (rule uint_bounds)
  ultimately show "uint (REDC TLo THi n nPrime) = (if t < uint n then t else t - uint n)"
    using t t0 n by (auto simp: uint_arith_radix w word_less_def ov_def mod_diff_left_eq)
qed

section \<open>Montgomery form\<close>

text \<open>The word \<open>v\<close> is the Montgomery form of the number \<open>k\<close> modulo \<open>n\<close>.\<close>

definition is_mont :: "uint256 \<Rightarrow> uint256 \<Rightarrow> int \<Rightarrow> bool" where
  "is_mont n v k \<longleftrightarrow> v < n \<and> uint v mod uint n = k * radix mod uint n"

locale montgomery =
  fixes n nPrime r2 :: uint256
  assumes nPrime_inverse: "n * nPrime = - 1"
    and r2_square: "uint r2 = radix * radix mod uint n"
    and n_gt_1: "1 < uint n"
begin

lemma odd_n: "odd (uint n)"
proof
  assume "even (uint n)"
  then have "even (uint n * uint nPrime)" by simp
  moreover have "uint (n * nPrime) = radix - 1" unfolding nPrime_inverse by (simp add: radix_def unsigned_minus_1_eq_mask mask_eq_exp_minus_1)
  then have "(uint n * uint nPrime) mod radix = radix - 1" by (simp only: uint_arith_radix)
  moreover have "even radix" by (simp add: radix_def)
  ultimately have "even (radix - 1)" using dvd_mod [of 2 "uint n * uint nPrime" radix] by simp
  then show False using \<open>even radix\<close> by simp
qed

lemma coprime_radix: "coprime (uint n) radix"
  using odd_n unfolding radix_def by (simp only: coprime_power_right_iff coprime_right_2_iff_odd simp_thms)

lemma cancel_radix: "a * radix mod uint n = b * radix mod uint n \<longleftrightarrow> a mod uint n = b mod uint n"
  using coprime_radix by (simp add: mod_eq_dvd_iff coprime_dvd_mult_left_iff flip: left_diff_distrib)

lemma REDC_ok:
  assumes "uint THi * radix + uint TLo < uint n * radix"
  shows "REDC TLo THi n nPrime < n"
    and "uint (REDC TLo THi n nPrime) * radix mod uint n = (uint THi * radix + uint TLo) mod uint n"
proof -
  define t where "t = redc_quotient TLo THi n nPrime"
  note redc = uint_REDC [OF nPrime_inverse assms, folded t_def]
  show "REDC TLo THi n nPrime < n" using redc by (simp add: word_less_def)
  have "uint (REDC TLo THi n nPrime) mod uint n = t mod uint n"
    using redc mod_once [OF redc(2,3)] by simp
  then have "uint (REDC TLo THi n nPrime) * radix mod uint n = t * radix mod uint n" by (rule mod_mult_cong) (rule refl)
  then show "uint (REDC TLo THi n nPrime) * radix mod uint n = (uint THi * radix + uint TLo) mod uint n"
    by (simp add: t_def redc_quotient_exact [OF nPrime_inverse])
qed

lemma REDC_product:
  assumes "uint a * uint b < uint n * radix"
  shows "REDC (a * b) (getHighestHalfOfMultiplication a b) n nPrime < n"
    and "uint (REDC (a * b) (getHighestHalfOfMultiplication a b) n nPrime) * radix mod uint n = uint a * uint b mod uint n"
  using REDC_ok [of "getHighestHalfOfMultiplication a b" "a * b"] assms by (simp_all add: product_halves)

lemma into_form: "is_mont n (intoMontgomeryForm a n nPrime r2) (uint a)"
proof -
  have "uint r2 < uint n" using n_gt_1 by (simp add: r2_square)
  then have "uint a * uint r2 < radix * uint n"
    using uint_bounds [of a] uint_bounds [of r2] n_gt_1 radix_pos by (intro mult_strict_mono) auto
  then have "uint a * uint r2 < uint n * radix" by (simp only: mult.commute)
  note redc = REDC_product [OF this]
  have "uint a * uint r2 mod uint n = uint a * radix * radix mod uint n"
    by (simp add: r2_square mod_mult_right_eq mult.assoc)
  then show ?thesis using redc by (simp add: is_mont_def intoMontgomeryForm_def Let_def cancel_radix)
qed

lemma out_of_form: "is_mont n v k \<Longrightarrow> uint (outOfMontgomeryForm v n nPrime) = k mod uint n"
proof -
  assume v: "is_mont n v k"
  then have "uint v < uint n" by (simp add: is_mont_def word_less_def)
  also have "uint n \<le> uint n * radix" using radix_pos n_gt_1 by simp
  finally have "uint (0 :: uint256) * radix + uint v < uint n * radix" by simp
  note redc = REDC_ok [OF this]
  then have "uint (outOfMontgomeryForm v n nPrime) * radix mod uint n = k * radix mod uint n"
    using v by (simp add: is_mont_def outOfMontgomeryForm_def)
  then have "uint (outOfMontgomeryForm v n nPrime) mod uint n = k mod uint n" by (simp only: cancel_radix)
  moreover have "uint (outOfMontgomeryForm v n nPrime) < uint n"
    using redc(1) by (simp add: outOfMontgomeryForm_def word_less_def)
  ultimately show ?thesis by simp
qed

lemma form_add: "is_mont n v k \<Longrightarrow> is_mont n w l \<Longrightarrow> is_mont n (montgomeryAdd v w n) (k + l)"
proof -
  assume vw: "is_mont n v k" "is_mont n w l"
  have "0 < n" using n_gt_1 by (simp add: word_less_def)
  then have u: "uint (montgomeryAdd v w n) = (uint v + uint w) mod uint n" by (simp add: montgomeryAdd_def uint_addmod)
  have "(uint v + uint w) mod uint n = (k * radix + l * radix) mod uint n"
    by (rule mod_add_cong) (use vw in \<open>simp_all only: is_mont_def\<close>)
  then show ?thesis
    using \<open>0 < n\<close> u n_gt_1 by (simp add: is_mont_def word_less_def distrib_right)
qed

lemma form_minus: "w < n \<Longrightarrow> uint (n - w) = uint n - uint w"
  unfolding word_less_def uint_arith_radix
  using uint_bounds [of n] uint_bounds [of w] by (intro mod_pos_pos_trivial) linarith+

lemma form_sub: "is_mont n v k \<Longrightarrow> is_mont n w l \<Longrightarrow> is_mont n (montgomerySub v w n) (k - l)"
proof -
  assume vw: "is_mont n v k" "is_mont n w l"
  have "0 < n" using n_gt_1 by (simp add: word_less_def)
  then have u: "uint (montgomerySub v w n) = (uint v + (uint n - uint w)) mod uint n"
    by (simp add: montgomerySub_def montgomeryAdd_def uint_addmod form_minus vw(2) [unfolded is_mont_def])
  also have "\<dots> = (uint v - uint w) mod uint n" using mod_add_self2 [of "uint v - uint w"] by (simp add: algebra_simps)
  also have "\<dots> = (k * radix - l * radix) mod uint n" by (rule mod_diff_cong) (use vw in \<open>simp_all only: is_mont_def\<close>)
  finally show ?thesis
    using \<open>0 < n\<close> u n_gt_1 by (simp add: is_mont_def word_less_def left_diff_distrib)
qed

lemma form_mul: "is_mont n v k \<Longrightarrow> is_mont n w l \<Longrightarrow> is_mont n (montgomeryMul v w n nPrime) (k * l)"
proof -
  assume vw: "is_mont n v k" "is_mont n w l"
  then have "uint v * uint w < uint n * radix"
    using uint_bounds [of v] uint_bounds [of w] n_gt_1 by (intro mult_strict_mono) (auto simp: is_mont_def word_less_def)
  note redc = REDC_product [OF this]
  have "uint v * uint w mod uint n = (k * radix) * (l * radix) mod uint n" by (rule mod_mult_cong) (use vw in \<open>simp_all only: is_mont_def\<close>)
  also have "\<dots> = (k * l * radix) * radix mod uint n" by (simp add: mult_ac)
  finally show ?thesis
    using redc by (simp add: is_mont_def montgomeryMul_def Let_def cancel_radix)
qed

lemma form_eq_iff: "is_mont n v k \<Longrightarrow> is_mont n w l \<Longrightarrow> v = w \<longleftrightarrow> k mod uint n = l mod uint n"
  unfolding is_mont_def word_less_def word_uint_eq_iff by (metis cancel_radix mod_pos_pos_trivial uint_bounds(1))

lemma form_exists: "v < n \<Longrightarrow> \<exists>k. is_mont n v k"
proof -
  assume "v < n"
  then have "uint (0 :: uint256) * radix + uint v < uint n * radix"
    using mult_strict_mono [of "uint v" "uint n" 1 radix] radix_pos n_gt_1 uint_bounds [of v] by (simp add: word_less_def)
  from REDC_ok(2) [OF this] \<open>v < n\<close> have "is_mont n v (uint (REDC v 0 n nPrime))" by (simp add: is_mont_def)
  then show ?thesis by (rule exI)
qed

end

section \<open>Inversion\<close>

lemma and_one_iff: "(x :: uint256) AND 1 = 0 \<longleftrightarrow> even (uint x)"
  by (simp add: and_one_eq word_uint_eq_iff uint_mod_distrib even_iff_mod_2_eq_zero)

lemma uint_half: "uint (drop_bit 1 (x :: uint256)) = uint x div 2"
  by (simp add: drop_bit_eq_div uint_div_distrib)

lemma double_half: "even (uint x) \<Longrightarrow> 2 * uint (drop_bit 1 (x :: uint256)) = uint x"
  by (simp only: uint_half dvd_mult_div_cancel)

lemma uint_diff: "v \<le> u \<Longrightarrow> uint (u - v) = uint u - uint v" for u v :: uint256
  by (simp only: uint_minus_simple_alt)

lemma mask_iff: "(x :: uint256) AND 2 ^ 255 = 0 \<longleftrightarrow> 2 * uint x < radix"
proof -
  have "x AND 2 ^ 255 = 0 \<longleftrightarrow> even (uint x div 2 ^ 255)"
    using bit_uint_iff [of x 255] by (simp add: and_exp_eq_0_iff_not_bit bit_iff_odd del: power_numeral)
  moreover have "uint x div 2 ^ 255 < 2" using uint_bounds [of x] by (simp add: radix_def)
  moreover have "0 \<le> uint x div 2 ^ 255" by (simp add: pos_imp_zdiv_nonneg_iff)
  ultimately have "x AND 2 ^ 255 = 0 \<longleftrightarrow> uint x div 2 ^ 255 = 0"
    by (metis dvd_0_right int_one_le_iff_zero_less linorder_not_less odd_one order_le_less verit_la_disequality zle_add1_eq_le one_add_one)
  also have "\<dots> \<longleftrightarrow> 2 * uint x < radix"
    using uint_bounds [of x] by (auto simp: radix_def zdiv_eq_0_iff)
  finally show ?thesis .
qed

lemma uint_or_mask: "2 * uint (x :: uint256) < radix \<Longrightarrow> 2 * uint (x OR 2 ^ 255) = 2 * uint x + radix"
proof -
  assume x: "2 * uint x < radix"
  then have "x + 2 ^ 255 = x OR 2 ^ 255" by (intro disjunctive_add_eq_or) (simp only: mask_iff)
  moreover have "2 * uint (2 ^ 255 :: uint256) = radix" by (simp add: radix_def)
  moreover have "uint (x + 2 ^ 255) = uint x + uint (2 ^ 255 :: uint256)"
    using x calculation(2) uint_bounds [of x] unfolding uint_arith_radix by (intro mod_pos_pos_trivial) linarith+
  ultimately show ?thesis by simp
qed

lemma halve_mod_ok:
  assumes "odd (uint m)" "b < m"
  shows "halve_mod m b < m" and "2 * uint (halve_mod m b) mod uint m = uint b mod uint m"
proof -
  have mask: "(57896044618658097711785492504343953926634992332820282019728792003956564819968 :: uint256) = 2 ^ 255" by simp
  have b: "0 \<le> uint b" "uint b < uint m" "uint m < radix" using assms(2) uint_bounds by (simp_all add: word_less_def)
  have even_radix: "even radix" by (simp add: radix_def)
  have "2 * uint (halve_mod m b) = (if even (uint b) then uint b else uint b + uint m)"
  proof (cases "even (uint b)")
    case True
    then have "halve_mod m b = drop_bit 1 b" by (simp add: halve_mod_def and_one_iff)
    then show ?thesis using True double_half [OF True] by simp
  next
    case False
    let ?s = "uint b + uint m" and ?h = "drop_bit 1 (b + m)"
    have even: "even ?s" using False assms(1) by simp
    have h: "2 * uint ?h = (if radix \<le> ?s then ?s - radix else ?s)"
      using even even_radix b unfolding uint_half uint_arith_radix by (subst mod_once) auto
    have "\<not> m AND 2 ^ 255 = 0" if "radix \<le> ?s" using that b unfolding mask_iff by linarith
    then have "halve_mod m b = (if radix \<le> ?s then ?h OR 2 ^ 255 else ?h)"
      using False unfolding halve_mod_def mask by (simp add: and_one_iff overflowingAdd_eq)
    then show ?thesis
      using h False uint_or_mask [of ?h] b by (auto split: if_splits)
  qed
  note h = this
  have "2 * uint (halve_mod m b) \<le> uint b + uint m" using h b by (auto split: if_splits)
  then have "uint (halve_mod m b) < uint m" using b by linarith
  then show "halve_mod m b < m" by (simp add: word_less_def)
  show "2 * uint (halve_mod m b) mod uint m = uint b mod uint m" using h by simp
qed

lemma sub_mod_ok:
  assumes "b < m" "c < m"
  shows "sub_mod m b c < m" and "uint (sub_mod m b c) mod uint m = (uint b - uint c) mod uint m"
proof -
  have bc: "0 \<le> uint b" "0 \<le> uint c" "uint b < uint m" "uint c < uint m" "uint m < radix"
    using assms uint_bounds by (simp_all add: word_less_def)
  have "uint (sub_mod m b c) = (uint b - uint c) mod radix" if "\<not> b < c"
    using that by (simp add: sub_mod_def uint_arith_radix)
  moreover have "uint (sub_mod m b c) = (uint b + uint m - uint c) mod radix" if "b < c"
    using that by (simp add: sub_mod_def uint_arith_radix mod_diff_left_eq)
  ultimately have u: "uint (sub_mod m b c) = (if b < c then uint b + uint m - uint c else uint b - uint c)"
    using bc by (auto simp: word_less_def mod_pos_pos_trivial)
  have "uint (sub_mod m b c) < uint m"
  proof (cases "b < c")
    case True
    then have "uint (sub_mod m b c) = uint b + uint m - uint c" "uint b < uint c" using u by (simp_all add: word_less_def)
    then show ?thesis by linarith
  next
    case False
    then have "uint (sub_mod m b c) = uint b - uint c" using u by simp
    then show ?thesis using bc by linarith
  qed
  then show "sub_mod m b c < m" by (simp add: word_less_def)
  have "(uint b + uint m - uint c) mod uint m = (uint b - uint c) mod uint m"
    using mod_add_self2 [of "uint b - uint c" "uint m"] by (simp add: algebra_simps)
  then show "uint (sub_mod m b c) mod uint m = (uint b - uint c) mod uint m" using u by simp
qed

text \<open>The invariant of the algorithm, for each of the two pairs: \<open>b\<close> is \<open>u * r2 / base\<close>.\<close>

definition ratio :: "uint256 \<Rightarrow> int \<Rightarrow> int \<Rightarrow> uint256 \<Rightarrow> uint256 \<Rightarrow> bool" where
  "ratio m base r2 u b \<longleftrightarrow> b < m \<and> uint b * base mod uint m = r2 * uint u mod uint m"

lemma cancel_two: "odd m \<Longrightarrow> 2 * a mod m = 2 * b mod m \<Longrightarrow> a mod m = b mod m" for a b m :: int
proof -
  assume "odd m" "2 * a mod m = 2 * b mod m"
  then have "m dvd 2 * (a - b)" by (simp add: mod_eq_dvd_iff right_diff_distrib)
  moreover have "coprime m 2" using \<open>odd m\<close> by simp
  ultimately have "m dvd a - b" by (simp only: coprime_dvd_mult_right_iff)
  then show ?thesis by (simp add: mod_eq_dvd_iff)
qed

lemma ratio_halve:
  assumes "odd (uint m)" "ratio m base r2 u b" "even (uint u)"
  shows "ratio m base r2 (drop_bit 1 u) (halve_mod m b)"
proof -
  have b: "b < m" using assms(2) by (simp add: ratio_def)
  have "2 * (uint (halve_mod m b) * base) mod uint m = uint b * base mod uint m"
    using mod_mult_cong [OF halve_mod_ok(2) [OF assms(1) b] refl, of base] by (simp add: mult.assoc)
  also have "\<dots> = 2 * (r2 * uint (drop_bit 1 u)) mod uint m"
    using assms(2) unfolding ratio_def double_half [OF assms(3), symmetric] by (simp add: mult.left_commute)
  finally have "uint (halve_mod m b) * base mod uint m = r2 * uint (drop_bit 1 u) mod uint m"
    by (rule cancel_two [OF assms(1)])
  then show ?thesis using halve_mod_ok(1) [OF assms(1) b] by (simp add: ratio_def)
qed

lemma halving_ok:
  assumes "odd (uint m)" "ratio m base r2 u b" "0 < uint u"
  shows "\<exists>u' b'. halving m u b = Some (u', b') \<and> ratio m base r2 u' b' \<and> odd (uint u') \<and>
    uint u' dvd uint u \<and> (odd (uint u) \<longrightarrow> u' = u)"
  using assms(2,3)
proof (induction "nat (uint u)" arbitrary: u b rule: less_induct)
  case less
  show ?case
  proof (cases "even (uint u)")
    case True
    let ?u = "drop_bit 1 u"
    have u: "uint u = 2 * uint ?u" using double_half [OF True] by simp
    then have "nat (uint ?u) < nat (uint u)" "0 < uint ?u" using less.prems(2) by linarith+
    from less.hyps [OF this(1) ratio_halve [OF assms(1) less.prems(1) True] this(2)]
    show ?thesis using True u by (subst halving.simps) (auto simp: and_one_iff)
  next
    case False
    then show ?thesis using less.prems by (subst halving.simps) (auto simp: and_one_iff)
  qed
qed

lemma ratio_sub:
  assumes "ratio m base r2 u b" "ratio m base r2 v c" "v \<le> u"
  shows "ratio m base r2 (u - v) (sub_mod m b c)"
proof -
  have bc: "b < m" "c < m" using assms by (simp_all add: ratio_def)
  have "uint (sub_mod m b c) * base mod uint m = (uint b * base - uint c * base) mod uint m"
    using mod_mult_cong [OF sub_mod_ok(2) [OF bc] refl, of base] by (simp add: left_diff_distrib)
  also have "\<dots> = (r2 * uint u - r2 * uint v) mod uint m"
    using assms by (intro mod_diff_cong) (simp_all add: ratio_def)
  also have "\<dots> = r2 * uint (u - v) mod uint m"
    using assms(3) by (simp add: uint_diff right_diff_distrib)
  finally show ?thesis using sub_mod_ok(1) [OF bc] by (simp add: ratio_def)
qed

lemma euclid_ok:
  assumes "odd (uint m)" "ratio m base r2 u b" "ratio m base r2 v c" "0 < uint u" "0 < uint v" "coprime (uint u) (uint v)"
  shows "\<exists>w. euclid_loop m u v b c = Some w \<and> ratio m base r2 1 w"
  using assms(2-)
proof (induction "nat (uint u + uint v)" arbitrary: u v b c rule: less_induct)
  case less
  show ?case
  proof (cases "u = 1 \<or> v = 1")
    case True
    then show ?thesis using less.prems by (subst euclid_loop.simps) auto
  next
    case False
    obtain u' b' where u: "halving m u b = Some (u', b')" "ratio m base r2 u' b'" "odd (uint u')"
        "uint u' dvd uint u" "odd (uint u) \<longrightarrow> u' = u"
      using halving_ok [OF assms(1) less.prems(1,3)] by blast
    obtain v' c' where v: "halving m v c = Some (v', c')" "ratio m base r2 v' c'" "odd (uint v')"
        "uint v' dvd uint v" "odd (uint v) \<longrightarrow> v' = v"
      using halving_ok [OF assms(1) less.prems(2,4)] by blast
    have le: "uint u' \<le> uint u" "uint v' \<le> uint v" using u(4) v(4) less.prems(3,4) by (simp_all add: zdvd_imp_le)
    have pos: "0 < uint u'" "0 < uint v'" using u(3) v(3) uint_bounds(1) [of u'] uint_bounds(1) [of v'] by (auto simp: order_le_less)
    have cop: "coprime (uint u') (uint v')" using less.prems(5) u(4) v(4) by (meson coprime_divisors)
    have ne: "uint u' \<noteq> uint v'"
    proof
      assume "uint u' = uint v'"
      then have "is_unit (uint u')" using cop by simp
      then have "uint u' = 1" "uint v' = 1" using pos \<open>uint u' = uint v'\<close> by auto
      then have "even (uint u)" "even (uint v)" using False u(5) v(5) by (auto simp: word_uint_eq_iff)
      then show False using less.prems(5) by (meson coprime_common_divisor odd_one)
    qed
    show ?thesis
    proof (cases "u' < v'")
      case True
      then have lt: "u' \<le> v'" "uint u' < uint v'" by (simp_all add: word_less_def word_le_def)
      have eq: "uint (v' - u') = uint v' - uint u'" by (rule uint_diff [OF lt(1)])
      have "coprime (uint u') (uint (v' - u'))"
        using cop gcd_diff1 [of "uint v'" "uint u'"] by (simp add: eq coprime_iff_gcd_eq_1 gcd.commute)
      moreover have "nat (uint u' + uint (v' - u')) < nat (uint u + uint v)" using le pos lt eq less.prems(3,4) by linarith
      ultimately have "\<exists>w. euclid_loop m u' (v' - u') b' (sub_mod m c' b') = Some w \<and> ratio m base r2 1 w"
        using pos lt eq by (intro less.hyps u(2) ratio_sub v(2)) simp_all
      then show ?thesis using False True u(1) v(1) by (subst euclid_loop.simps) simp
    next
      case F: False
      then have lt: "v' \<le> u'" "uint v' < uint u'" using ne by (simp_all add: word_less_def word_le_def)
      have eq: "uint (u' - v') = uint u' - uint v'" by (rule uint_diff [OF lt(1)])
      have "coprime (uint (u' - v')) (uint v')"
        using cop gcd_diff1 [of "uint u'" "uint v'"] by (simp add: eq coprime_iff_gcd_eq_1)
      moreover have "nat (uint (u' - v') + uint v') < nat (uint u + uint v)" using le pos lt eq less.prems(3,4) by linarith
      ultimately have "\<exists>w. euclid_loop m (u' - v') v' (sub_mod m b' c') c' = Some w \<and> ratio m base r2 1 w"
        using pos lt eq by (intro less.hyps u(2) ratio_sub v(2)) simp_all
      then show ?thesis using False F u(1) v(1) by (subst euclid_loop.simps) simp
    qed
  qed
qed

context montgomery
begin

lemma form_inverse:
  assumes "is_mont n v k" "coprime k (uint n)"
  shows "\<exists>w l. montgomeryModularInverse v n r2 = Some w \<and> is_mont n w l \<and> k * l mod uint n = 1"
proof -
  have v: "v < n" "uint v mod uint n = k * radix mod uint n" using assms(1) by (simp_all add: is_mont_def)
  have "coprime (k * radix) (uint n)" using assms(2) coprime_radix by (simp add: coprime_commute)
  then have cop: "coprime (uint v) (uint n)"
    using v(2) by (metis coprime_mod_left_iff gcd_0_int n_gt_1 not_one_less_zero)
  then have "0 < uint v" using n_gt_1 uint_bounds(1) [of v] by (auto simp: order_le_less)
  moreover have "ratio n (uint v) (uint r2) v r2"
    using n_gt_1 by (simp add: ratio_def word_less_def r2_square)
  moreover have "ratio n (uint v) (uint r2) n 0" using n_gt_1 by (simp add: ratio_def word_less_def)
  ultimately obtain w where w: "euclid_loop n v n r2 0 = Some w" "ratio n (uint v) (uint r2) 1 w"
    using euclid_ok [OF odd_n, of "uint v" "uint r2" v r2 n 0] cop n_gt_1 by auto
  obtain l where l: "is_mont n w l" using form_exists w(2) by (auto simp: ratio_def)
  have "(l * radix) * (k * radix) mod uint n = uint w * uint v mod uint n"
    using l v(2) by (intro mod_mult_cong) (simp_all add: is_mont_def)
  also have "\<dots> = 1 * radix * radix mod uint n" using w(2) by (simp add: ratio_def r2_square)
  finally have "k * l * radix * radix mod uint n = 1 * radix * radix mod uint n" by (simp add: mult_ac)
  then have "k * l mod uint n = 1 mod uint n" by (simp only: cancel_radix)
  then show ?thesis
    using w(1) l n_gt_1 by (auto simp: montgomeryModularInverse_def binaryExtendedEuclideanAlgorithm_def)
qed

end

end
