(* ===== verification/Primality.thy ===== *)
theory Primality
  imports Prelude
begin

text \<open>
  Primes over the integers, Fermat's little theorem, and the test of Pocklington in the form of
  Brillhart, Lehmer and Selfridge: a number \<open>N = F * R + 1\<close> is prime when the prime factors of \<open>F\<close>
  have a witness each, \<open>F\<close> is larger than the cube root of \<open>N\<close>, and a discriminant is no square.
  The curve theories use it for the field prime of secp256r1.
\<close>

section \<open>Primes\<close>

definition prime_int :: "int \<Rightarrow> bool" where
  "prime_int p \<longleftrightarrow> 1 < p \<and> (\<forall>d. 0 < d \<longrightarrow> d dvd p \<longrightarrow> d = 1 \<or> d = p)"

lemma prime_coprime:
  assumes "prime_int p" "\<not> p dvd a"
  shows "coprime p a"
proof -
  have "0 < gcd p a" using assms(1) by (auto simp: prime_int_def)
  then have "gcd p a = 1 \<or> gcd p a = p" using assms(1) by (auto simp: prime_int_def)
  then show ?thesis using assms(2) gcd_dvd2 [of p a] by (metis coprime_iff_gcd_eq_1)
qed

lemma prime_dvd_mult: "prime_int p \<Longrightarrow> p dvd a * b \<Longrightarrow> p dvd a \<or> p dvd b"
  using prime_coprime by (metis coprime_dvd_mult_right_iff)

lemma prime_dvd_power: "prime_int p \<Longrightarrow> p dvd a ^ n \<Longrightarrow> p dvd a"
proof (induction n)
  case 0
  then show ?case using zdvd_imp_le [of p 1] by (auto simp: prime_int_def)
qed (use prime_dvd_mult in auto)

lemma prime_divisor_exists:
  assumes "1 < n"
  shows "\<exists>r. prime_int r \<and> r dvd n"
  using assms
proof (induction "nat n" arbitrary: n rule: less_induct)
  case less
  show ?case
  proof (cases "prime_int n")
    case False
    then obtain d where d: "0 < d" "d dvd n" "d \<noteq> 1" "d \<noteq> n" using less.prems by (auto simp: prime_int_def)
    then have "d < n" using zdvd_imp_le [of d n] less.prems by simp
    then obtain r where "prime_int r" "r dvd d" using less.hyps [of d] d by auto
    then show ?thesis using d(2) dvd_trans by blast
  qed auto
qed

lemma prime_by_trial:
  assumes "1 < q" "q < (B + 1) * (B + 1)" "0 \<le> B" "list_all (\<lambda>d. q mod d \<noteq> 0) [2..B]"
  shows "prime_int q"
proof (rule ccontr)
  assume "\<not> prime_int q"
  then obtain d where d: "0 < d" "d dvd q" "d \<noteq> 1" "d \<noteq> q" using assms(1) by (auto simp: prime_int_def)
  then obtain e where e: "q = d * e" by auto
  then have "0 < e" using assms(1) d(1) by (metis less_trans zero_less_mult_pos zero_less_one)
  have no: "\<not> x dvd q" if "1 < x" "x \<le> B" for x
    using assms(4) that by (auto simp: list_all_iff dvd_eq_mod_eq_0)
  have "e \<noteq> 1" using d(4) e by auto
  have "B < d" using no [of d] d by linarith
  moreover have "B < e" using no [of e] \<open>0 < e\<close> \<open>e \<noteq> 1\<close> e by fastforce
  ultimately have "(B + 1) * (B + 1) \<le> d * e" using assms(3) by (intro mult_mono) auto
  then show False using assms(2) e by simp
qed

section \<open>Fermat's little theorem\<close>

lemma fermat_little:
  assumes p: "prime_int p" and a: "\<not> p dvd a"
  shows "a ^ nat (p - 1) mod p = 1"
proof -
  let ?S = "{1..<p}" and ?f = "\<lambda>i. a * i mod p"
  have p1: "1 < p" using p by (simp add: prime_int_def)
  have nd: "\<not> p dvd i" if "i \<in> ?S" for i using that zdvd_not_zless by auto
  have "inj_on ?f ?S"
  proof (rule inj_onI)
    fix i j assume ij: "i \<in> ?S" "j \<in> ?S" "?f i = ?f j"
    then have "p dvd a * (i - j)" by (simp add: mod_eq_dvd_iff right_diff_distrib)
    then have "p dvd (i - j)" using prime_dvd_mult [OF p] a by blast
    then have "i mod p = j mod p" by (simp add: mod_eq_dvd_iff)
    then show "i = j" using ij by simp
  qed
  moreover have "?f ` ?S \<subseteq> ?S"
  proof (rule image_subsetI)
    fix i assume "i \<in> ?S"
    then have "\<not> p dvd a * i" using prime_dvd_mult [OF p] a nd by blast
    then have "a * i mod p \<noteq> 0" by (simp add: dvd_eq_mod_eq_0)
    moreover have "0 \<le> a * i mod p" "a * i mod p < p" using p1 by simp_all
    ultimately show "?f i \<in> ?S" by simp
  qed
  ultimately have bij: "?f ` ?S = ?S" "inj_on ?f ?S" by (simp_all add: endo_inj_surj)
  have "\<Prod>?S mod p = (\<Prod>i\<in>?S. ?f i) mod p" using bij prod.reindex [of ?f ?S "\<lambda>x. x"] by (simp add: o_def)
  also have "\<dots> = (\<Prod>i\<in>?S. a * i) mod p" by (rule mod_prod_eq)
  also have "\<dots> = (a ^ nat (p - 1) * \<Prod>?S) mod p" by (simp add: prod.distrib)
  finally have "p dvd (a ^ nat (p - 1) - 1) * \<Prod>?S" by (metis left_diff_distrib mod_eq_dvd_iff mult_1)
  moreover have "coprime p (\<Prod>?S)" using nd prime_coprime [OF p] by (intro prod_coprime_right) blast
  ultimately have "p dvd (a ^ nat (p - 1) - 1)" by (simp add: coprime_dvd_mult_left_iff)
  then show ?thesis using p1 by (simp add: mod_eq_dvd_iff [symmetric])
qed

section \<open>The test\<close>

lemma order_divides:
  assumes r: "prime_int r" and q: "prime_int q" and x: "x ^ nat q mod r = 1" and ne: "\<not> r dvd x - 1"
  shows "q dvd r - 1"
proof (rule ccontr)
  assume "\<not> q dvd r - 1"
  then have "coprime q (r - 1)" by (rule prime_coprime [OF q])
  have pos: "1 < r" "1 < q" using r q by (simp_all add: prime_int_def)
  then have "coprime (nat q) (nat (r - 1))" using \<open>coprime q (r - 1)\<close> by (simp flip: coprime_int_iff)
  then obtain u v where uv: "nat q * u = nat (r - 1) * v + 1"
    using bezout_nat [of "nat q" "nat (r - 1)"] pos by (auto simp: coprime_iff_gcd_eq_1)
  have "\<not> r dvd x"
  proof
    assume "r dvd x"
    moreover have "x dvd x ^ nat q" using pos by simp
    ultimately have "r dvd x ^ nat q" by (rule dvd_trans)
    then show False using x by simp
  qed
  have one: "y ^ n mod r = 1" if "y mod r = 1" for y n using that pos by (metis mod_pos_pos_trivial power_mod power_one zero_le_one)
  have "x ^ (nat q * u) mod r = 1" using one [OF x, of u] by (simp add: power_mult)
  moreover have "x ^ (nat (r - 1) * v) mod r = 1"
    using one [OF fermat_little [OF r \<open>\<not> r dvd x\<close>], of v] by (simp add: power_mult)
  then have "x ^ (nat (r - 1) * v + 1) mod r = x mod r" by (metis mod_mult_left_eq mult_1 power_add power_one_right)
  ultimately have "x mod r = 1 mod r" using uv pos by simp
  then show False using ne by (simp add: mod_eq_dvd_iff)
qed

lemma witness_divides:
  assumes "prime_int q" "x ^ nat q mod N = 1" "(x - 1) * y mod N = 1" "prime_int r" "r dvd N"
  shows "q dvd r - 1"
proof (rule order_divides [OF assms(4,1)])
  have r: "1 < r" using assms(4) by (simp add: prime_int_def)
  show "x ^ nat q mod r = 1" using assms(2,5) r by (metis mod_mod_cancel mod_pos_pos_trivial zero_le_one)
  show "\<not> r dvd x - 1"
  proof
    assume "r dvd x - 1"
    then have "(x - 1) * y mod r = 0" by simp
    moreover have "(x - 1) * y mod r = 1" using assms(3,5) r by (metis mod_mod_cancel mod_pos_pos_trivial zero_le_one)
    ultimately show False by simp
  qed
qed

lemma divisor_residue:
  assumes "\<And>r. prime_int r \<Longrightarrow> r dvd N \<Longrightarrow> F dvd r - 1" "0 < d" "d dvd N"
  shows "F dvd d - 1"
  using assms(2,3)
proof (induction "nat d" arbitrary: d rule: less_induct)
  case less
  show ?case
  proof (cases "d = 1")
    case False
    then obtain r where r: "prime_int r" "r dvd d" using prime_divisor_exists [of d] less.prems by auto
    then obtain e where e: "d = r * e" by auto
    have "1 < r" using r(1) by (simp add: prime_int_def)
    then have "0 < e" "e < d" using e less.prems(1) by (auto simp: zero_less_mult_iff)
    then have "F dvd e - 1" using less e by auto
    moreover have "F dvd r - 1" using assms(1) r less.prems(2) dvd_trans by blast
    moreover have "d - 1 = (r - 1) * e + (e - 1)" using e by (simp add: left_diff_distrib)
    ultimately show ?thesis by (metis dvd_add dvd_mult2)
  qed simp
qed

lemma prime_by_factors:
  assumes N: "N = F * R + 1" and F: "0 < F" "R < F * (F - 1)" and N1: "1 < N"
    and res: "\<And>r. prime_int r \<Longrightarrow> r dvd N \<Longrightarrow> F dvd r - 1"
    and disc: "s * s < (R mod F) * (R mod F) - 4 * (R div F)"
      "(R mod F) * (R mod F) - 4 * (R div F) < (s + 1) * (s + 1)" and s: "0 \<le> s"
  shows "prime_int N"
proof (rule ccontr)
  assume "\<not> prime_int N"
  then obtain d where d: "0 < d" "d dvd N" "d \<noteq> 1" "d \<noteq> N" using N1 by (auto simp: prime_int_def)
  then obtain e where e: "N = d * e" by auto
  then have "0 < d * e" using N1 by simp
  then have e': "0 < e" "e dvd N" "e \<noteq> 1" using d e by (auto simp: zero_less_mult_iff)
  obtain a where "d - 1 = F * a" using divisor_residue [OF res d(1,2)] by auto
  moreover obtain b where "e - 1 = F * b" using divisor_residue [OF res e'(1,2)] by auto
  ultimately have ab: "d = F * a + 1" "e = F * b + 1" by simp_all
  have "0 < F * a" "0 < F * b" using ab d(1,3) e'(1,3) by linarith+
  then have pos: "1 \<le> a" "1 \<le> b" using F(1) by (simp_all add: zero_less_mult_iff)
  have "F * R = F * (F * (a * b) + (a + b))" using N e ab by (simp add: algebra_simps)
  then have R: "R = F * (a * b) + (a + b)" using F(1) by simp
  have "F * (a * b) < F * (F - 1)" using R F(2) pos by linarith
  then have "a * b < F - 1" using F(1) by (simp add: mult_less_cancel_left_pos)
  moreover have "a + b \<le> a * b + 1"
  proof -
    have "0 \<le> (a - 1) * (b - 1)" using pos by simp
    then show ?thesis by (simp add: algebra_simps)
  qed
  ultimately have "0 \<le> a + b" "a + b < F" using pos by linarith+
  then have "R mod F = a + b" "R div F = a * b" using R by simp_all
  then have eq: "(R mod F) * (R mod F) - 4 * (R div F) = \<bar>a - b\<bar> * \<bar>a - b\<bar>" by (simp add: algebra_simps flip: abs_mult)
  have "\<not> \<bar>a - b\<bar> \<le> s"
  proof
    assume "\<bar>a - b\<bar> \<le> s"
    then have "\<bar>a - b\<bar> * \<bar>a - b\<bar> \<le> s * s" by (intro mult_mono) (use s in auto)
    then show False using disc(1) eq by linarith
  qed
  then have "(s + 1) * (s + 1) \<le> \<bar>a - b\<bar> * \<bar>a - b\<bar>" using s by (intro mult_mono) auto
  then show False using disc(2) eq by linarith
qed

lemma prime_by_large_factor:
  assumes "prime_int q" "N < (q + 1) * (q + 1)" "1 < N" "x ^ nat q mod N = 1" "(x - 1) * y mod N = 1"
  shows "prime_int N"
proof (rule ccontr)
  have q: "1 < q" using assms(1) by (simp add: prime_int_def)
  have res: "q dvd d - 1" if "0 < d" "d dvd N" for d
    using divisor_residue [OF witness_divides [OF assms(1,4,5)]] that by blast
  assume "\<not> prime_int N"
  then obtain d where d: "0 < d" "d dvd N" "d \<noteq> 1" "d \<noteq> N" using assms(3) by (auto simp: prime_int_def)
  then obtain e where e: "N = d * e" by auto
  then have "0 < d * e" using assms(3) by simp
  then have e': "0 < e" "e dvd N" "e \<noteq> 1" using d e by (auto simp: zero_less_mult_iff)
  have "q \<le> d - 1" "q \<le> e - 1" using zdvd_imp_le [OF res [OF d(1,2)]] zdvd_imp_le [OF res [OF e'(1,2)]] d e' by linarith+
  then have "(q + 1) * (q + 1) \<le> d * e" using q by (intro mult_mono) auto
  then show False using assms(2) e by simp
qed

text \<open>Powers by repeated squaring, for the small primes.\<close>

fun small_power :: "int \<Rightarrow> int \<Rightarrow> num \<Rightarrow> int" where
  "small_power N x num.One = x mod N"
| "small_power N x (num.Bit0 n) = (let y = small_power N x n in y * y mod N)"
| "small_power N x (num.Bit1 n) = (let y = small_power N x n in y * y mod N * x mod N)"

lemma small_power_eq: "small_power N x n = x ^ numeral n mod N"
proof (induction n)
  case (Bit0 n)
  have "x ^ numeral (num.Bit0 n) = x ^ numeral n * x ^ numeral n" by (simp only: numeral_Bit0 power_add)
  then show ?case by (simp add: Let_def Bit0 mod_mult_eq)
next
  case (Bit1 n)
  have "x ^ numeral (num.Bit1 n) = x ^ numeral n * x ^ numeral n * x"
    by (simp only: numeral_Bit1 power_add power_one_right)
  moreover have "(y mod N) * (y mod N) mod N * x mod N = y * y * x mod N" for y
    using mod_mult_eq [of y N y] mod_mult_left_eq [of "y * y" N x] by (simp only:)
  ultimately show ?case by (simp only: small_power.simps Let_def Bit1)
qed simp

end
