(* ===== verification/BinaryNumerals.thy ===== *)
theory BinaryNumerals
  imports Main
begin

text \<open>
  Arithmetic on binary numerals that the rewriting engine evaluates in few steps: addition with an
  explicit carry, multiplication by four bits at a time from a table of odd multiples, and shifts by
  32 places. The certificates of \<open>CurvePrimes\<close> and \<open>CurveOrder\<close> are checked with it.
\<close>

section \<open>Addition\<close>

definition add_num :: "num \<Rightarrow> num \<Rightarrow> num" where
  "add_num m n = m + n"

definition add_carry :: "num \<Rightarrow> num \<Rightarrow> num" where
  "add_carry m n = m + n + num.One"

lemma num_eq_int: "(a :: num) = b \<longleftrightarrow> (numeral a :: int) = numeral b"
  by simp

lemma add_num_code [code]:
  "add_num num.One num.One = num.Bit0 num.One"
  "add_num num.One (num.Bit0 n) = num.Bit1 n"
  "add_num (num.Bit0 n) num.One = num.Bit1 n"
  "add_num num.One (num.Bit1 n) = num.Bit0 (Num.inc n)"
  "add_num (num.Bit1 n) num.One = num.Bit0 (Num.inc n)"
  "add_num (num.Bit0 m) (num.Bit0 n) = num.Bit0 (add_num m n)"
  "add_num (num.Bit0 m) (num.Bit1 n) = num.Bit1 (add_num m n)"
  "add_num (num.Bit1 m) (num.Bit0 n) = num.Bit1 (add_num m n)"
  "add_num (num.Bit1 m) (num.Bit1 n) = num.Bit0 (add_carry m n)"
  "add_carry num.One num.One = num.Bit1 num.One"
  "add_carry num.One (num.Bit0 n) = num.Bit0 (Num.inc n)"
  "add_carry (num.Bit0 n) num.One = num.Bit0 (Num.inc n)"
  "add_carry num.One (num.Bit1 n) = num.Bit1 (Num.inc n)"
  "add_carry (num.Bit1 n) num.One = num.Bit1 (Num.inc n)"
  "add_carry (num.Bit0 m) (num.Bit0 n) = num.Bit1 (add_num m n)"
  "add_carry (num.Bit0 m) (num.Bit1 n) = num.Bit0 (add_carry m n)"
  "add_carry (num.Bit1 m) (num.Bit0 n) = num.Bit0 (add_carry m n)"
  "add_carry (num.Bit1 m) (num.Bit1 n) = num.Bit1 (add_carry m n)"
  by (simp_all only: add_num_def add_carry_def add_One [symmetric] add_num_simps)

section \<open>Multiplication\<close>

text \<open>The table holds the odd multiples of a number, so every four bits cost one addition.\<close>

fun window :: "num \<Rightarrow> num \<Rightarrow> num \<Rightarrow> num \<Rightarrow> num \<Rightarrow> num \<Rightarrow> num \<Rightarrow> num \<Rightarrow> num \<Rightarrow> num" where
  "window a1 a3 a5 a7 a9 a11 a13 a15 num.One = a1"
| "window a1 a3 a5 a7 a9 a11 a13 a15 (num.Bit0 num.One) = num.Bit0 a1"
| "window a1 a3 a5 a7 a9 a11 a13 a15 (num.Bit1 num.One) = a3"
| "window a1 a3 a5 a7 a9 a11 a13 a15 (num.Bit0 (num.Bit0 num.One)) = num.Bit0 (num.Bit0 a1)"
| "window a1 a3 a5 a7 a9 a11 a13 a15 (num.Bit1 (num.Bit0 num.One)) = a5"
| "window a1 a3 a5 a7 a9 a11 a13 a15 (num.Bit0 (num.Bit1 num.One)) = num.Bit0 a3"
| "window a1 a3 a5 a7 a9 a11 a13 a15 (num.Bit1 (num.Bit1 num.One)) = a7"
| "window a1 a3 a5 a7 a9 a11 a13 a15 (num.Bit0 (num.Bit0 (num.Bit0 num.One))) = num.Bit0 (num.Bit0 (num.Bit0 a1))"
| "window a1 a3 a5 a7 a9 a11 a13 a15 (num.Bit1 (num.Bit0 (num.Bit0 num.One))) = a9"
| "window a1 a3 a5 a7 a9 a11 a13 a15 (num.Bit0 (num.Bit1 (num.Bit0 num.One))) = num.Bit0 a5"
| "window a1 a3 a5 a7 a9 a11 a13 a15 (num.Bit1 (num.Bit1 (num.Bit0 num.One))) = a11"
| "window a1 a3 a5 a7 a9 a11 a13 a15 (num.Bit0 (num.Bit0 (num.Bit1 num.One))) = num.Bit0 (num.Bit0 a3)"
| "window a1 a3 a5 a7 a9 a11 a13 a15 (num.Bit1 (num.Bit0 (num.Bit1 num.One))) = a13"
| "window a1 a3 a5 a7 a9 a11 a13 a15 (num.Bit0 (num.Bit1 (num.Bit1 num.One))) = num.Bit0 a7"
| "window a1 a3 a5 a7 a9 a11 a13 a15 (num.Bit1 (num.Bit1 (num.Bit1 num.One))) = a15"
| "window a1 a3 a5 a7 a9 a11 a13 a15 (num.Bit0 (num.Bit0 (num.Bit0 (num.Bit0 n)))) =
     num.Bit0 (num.Bit0 (num.Bit0 (num.Bit0 (window a1 a3 a5 a7 a9 a11 a13 a15 n))))"
| "window a1 a3 a5 a7 a9 a11 a13 a15 (num.Bit1 (num.Bit0 (num.Bit0 (num.Bit0 n)))) =
     add_num a1 (num.Bit0 (num.Bit0 (num.Bit0 (num.Bit0 (window a1 a3 a5 a7 a9 a11 a13 a15 n)))))"
| "window a1 a3 a5 a7 a9 a11 a13 a15 (num.Bit0 (num.Bit1 (num.Bit0 (num.Bit0 n)))) =
     add_num (num.Bit0 a1) (num.Bit0 (num.Bit0 (num.Bit0 (num.Bit0 (window a1 a3 a5 a7 a9 a11 a13 a15 n)))))"
| "window a1 a3 a5 a7 a9 a11 a13 a15 (num.Bit1 (num.Bit1 (num.Bit0 (num.Bit0 n)))) =
     add_num a3 (num.Bit0 (num.Bit0 (num.Bit0 (num.Bit0 (window a1 a3 a5 a7 a9 a11 a13 a15 n)))))"
| "window a1 a3 a5 a7 a9 a11 a13 a15 (num.Bit0 (num.Bit0 (num.Bit1 (num.Bit0 n)))) =
     add_num (num.Bit0 (num.Bit0 a1)) (num.Bit0 (num.Bit0 (num.Bit0 (num.Bit0 (window a1 a3 a5 a7 a9 a11 a13 a15 n)))))"
| "window a1 a3 a5 a7 a9 a11 a13 a15 (num.Bit1 (num.Bit0 (num.Bit1 (num.Bit0 n)))) =
     add_num a5 (num.Bit0 (num.Bit0 (num.Bit0 (num.Bit0 (window a1 a3 a5 a7 a9 a11 a13 a15 n)))))"
| "window a1 a3 a5 a7 a9 a11 a13 a15 (num.Bit0 (num.Bit1 (num.Bit1 (num.Bit0 n)))) =
     add_num (num.Bit0 a3) (num.Bit0 (num.Bit0 (num.Bit0 (num.Bit0 (window a1 a3 a5 a7 a9 a11 a13 a15 n)))))"
| "window a1 a3 a5 a7 a9 a11 a13 a15 (num.Bit1 (num.Bit1 (num.Bit1 (num.Bit0 n)))) =
     add_num a7 (num.Bit0 (num.Bit0 (num.Bit0 (num.Bit0 (window a1 a3 a5 a7 a9 a11 a13 a15 n)))))"
| "window a1 a3 a5 a7 a9 a11 a13 a15 (num.Bit0 (num.Bit0 (num.Bit0 (num.Bit1 n)))) =
     add_num (num.Bit0 (num.Bit0 (num.Bit0 a1))) (num.Bit0 (num.Bit0 (num.Bit0 (num.Bit0 (window a1 a3 a5 a7 a9 a11 a13 a15 n)))))"
| "window a1 a3 a5 a7 a9 a11 a13 a15 (num.Bit1 (num.Bit0 (num.Bit0 (num.Bit1 n)))) =
     add_num a9 (num.Bit0 (num.Bit0 (num.Bit0 (num.Bit0 (window a1 a3 a5 a7 a9 a11 a13 a15 n)))))"
| "window a1 a3 a5 a7 a9 a11 a13 a15 (num.Bit0 (num.Bit1 (num.Bit0 (num.Bit1 n)))) =
     add_num (num.Bit0 a5) (num.Bit0 (num.Bit0 (num.Bit0 (num.Bit0 (window a1 a3 a5 a7 a9 a11 a13 a15 n)))))"
| "window a1 a3 a5 a7 a9 a11 a13 a15 (num.Bit1 (num.Bit1 (num.Bit0 (num.Bit1 n)))) =
     add_num a11 (num.Bit0 (num.Bit0 (num.Bit0 (num.Bit0 (window a1 a3 a5 a7 a9 a11 a13 a15 n)))))"
| "window a1 a3 a5 a7 a9 a11 a13 a15 (num.Bit0 (num.Bit0 (num.Bit1 (num.Bit1 n)))) =
     add_num (num.Bit0 (num.Bit0 a3)) (num.Bit0 (num.Bit0 (num.Bit0 (num.Bit0 (window a1 a3 a5 a7 a9 a11 a13 a15 n)))))"
| "window a1 a3 a5 a7 a9 a11 a13 a15 (num.Bit1 (num.Bit0 (num.Bit1 (num.Bit1 n)))) =
     add_num a13 (num.Bit0 (num.Bit0 (num.Bit0 (num.Bit0 (window a1 a3 a5 a7 a9 a11 a13 a15 n)))))"
| "window a1 a3 a5 a7 a9 a11 a13 a15 (num.Bit0 (num.Bit1 (num.Bit1 (num.Bit1 n)))) =
     add_num (num.Bit0 a7) (num.Bit0 (num.Bit0 (num.Bit0 (num.Bit0 (window a1 a3 a5 a7 a9 a11 a13 a15 n)))))"
| "window a1 a3 a5 a7 a9 a11 a13 a15 (num.Bit1 (num.Bit1 (num.Bit1 (num.Bit1 n)))) =
     add_num a15 (num.Bit0 (num.Bit0 (num.Bit0 (num.Bit0 (window a1 a3 a5 a7 a9 a11 a13 a15 n)))))"

definition num_int :: "num \<Rightarrow> int" where
  "num_int n = numeral n"

lemma num_int_simps:
  "num_int num.One = 1" "num_int (num.Bit0 n) = 2 * num_int n" "num_int (num.Bit1 n) = 2 * num_int n + 1"
  "num_int (add_num m n) = num_int m + num_int n"
  unfolding num_int_def add_num_def mult_2 by (rule numeral_One numeral_Bit0 numeral_Bit1 numeral_add)+

lemma window_times:
  assumes "num_int a3 = 3 * num_int a1" "num_int a5 = 5 * num_int a1" "num_int a7 = 7 * num_int a1"
    "num_int a9 = 9 * num_int a1" "num_int a11 = 11 * num_int a1" "num_int a13 = 13 * num_int a1"
    "num_int a15 = 15 * num_int a1"
  shows "num_int (window a1 a3 a5 a7 a9 a11 a13 a15 n) = num_int a1 * num_int n"
  using assms
  by (induction a1 a3 a5 a7 a9 a11 a13 a15 n rule: window.induct) (simp_all add: num_int_simps algebra_simps)

definition times_num :: "num \<Rightarrow> num \<Rightarrow> num" where
  "times_num a b =
     (let d = num.Bit0 a; a3 = add_num a d; a5 = add_num a3 d; a7 = add_num a5 d; a9 = add_num a7 d;
          a11 = add_num a9 d; a13 = add_num a11 d; a15 = add_num a13 d
      in window a a3 a5 a7 a9 a11 a13 a15 b)"

lemma num_int_times: "num_int (times_num a b) = num_int a * num_int b"
  unfolding times_num_def Let_def by (rule window_times) (simp_all add: num_int_simps)

lemmas numeral_times_num = num_int_times [unfolded num_int_def]

text \<open>The product of two integers; on positive ones the rewriting engine uses the table.\<close>

definition product :: "int \<Rightarrow> int \<Rightarrow> int" where
  "product a b = a * b"

lemma product_code [code]: "product (Int.Pos a) (Int.Pos b) = Int.Pos (times_num a b)"
  by (simp only: product_def Int.Pos_def numeral_times_num)

section \<open>Shifts\<close>

definition shift32 :: "num \<Rightarrow> num" where
  "shift32 n =
     num.Bit0 (num.Bit0 (num.Bit0 (num.Bit0 (num.Bit0 (num.Bit0 (num.Bit0 (num.Bit0 (num.Bit0 (num.Bit0
     (num.Bit0 (num.Bit0 (num.Bit0 (num.Bit0 (num.Bit0 (num.Bit0 (num.Bit0 (num.Bit0 (num.Bit0 (num.Bit0
     (num.Bit0 (num.Bit0 (num.Bit0 (num.Bit0 (num.Bit0 (num.Bit0 (num.Bit0 (num.Bit0 (num.Bit0 (num.Bit0
     (num.Bit0 (num.Bit0 n)))))))))))))))))))))))))))))))"

lemma numeral_shift32: "(numeral (shift32 n) :: int) = 2 ^ 32 * numeral n"
proof -
  define t :: int where "t = 2"
  have t: "(numeral (num.Bit0 m) :: int) = t * numeral m" for m unfolding t_def mult_2 by (rule numeral_Bit0)
  have "(numeral (shift32 n) :: int) = t ^ 32 * numeral n"
    unfolding shift32_def t by (simp add: eval_nat_numeral mult.assoc)
  then show ?thesis by (simp only: t_def)
qed

end
