(* ===== verification/CurvePrimes.thy ===== *)
theory CurvePrimes
  imports Primality BinaryNumerals
begin

text \<open>
  The field prime and the group order of secp256r1 are prime. The factors 257, 641, 1531, 65537,
  490463 and 6700417 of the predecessor of the field prime have a product above its cube root, and so
  has one factor of the predecessor of the order. Each factor has an element of that order as its
  witness, whose power is computed by a chain of squarings and multiplications with their quotients,
  which the kernel checks step by step.
\<close>

section \<open>Chains\<close>

definition field_prime :: int where
  "field_prime = 0xFFFFFFFF00000001000000000000000000000000FFFFFFFFFFFFFFFFFFFFFFFF"

definition group_order :: int where
  "group_order = 0xFFFFFFFF00000000FFFFFFFFFFFFFFFFBCE6FAADA7179E84F3B9CAC2FC632551"

text \<open>\<open>M x k r\<close> checks that \<open>r\<close> is the remainder and \<open>k\<close> the quotient of \<open>x\<close> by a modulus \<open>N\<close>.\<close>

definition divides_out :: "int \<Rightarrow> (int \<Rightarrow> int \<Rightarrow> int \<Rightarrow> bool) \<Rightarrow> bool" where
  "divides_out N M \<longleftrightarrow> (\<forall>x k r. M x k r \<longrightarrow> x = N * k + r)"

fun power_chain ::
    "(int \<Rightarrow> int \<Rightarrow> int \<Rightarrow> bool) \<Rightarrow> int \<Rightarrow> int \<times> int \<Rightarrow> (bool \<times> int \<times> int) list \<Rightarrow> (int \<times> int) option" where
  "power_chain M c (v, e) [] = Some (v, e)"
| "power_chain M c (v, e) ((m, k, r) # steps) =
     (if M (product v (if m then c else v)) k r
      then power_chain M c (r, if m then e + 1 else 2 * e) steps else None)"

text \<open>The value of a chain is a power of its base.\<close>

definition power_value :: "int \<Rightarrow> int \<Rightarrow> int \<times> int \<Rightarrow> bool" where
  "power_value N c ve \<longleftrightarrow> 0 \<le> snd ve \<and> fst ve mod N = c ^ nat (snd ve) mod N"

lemma power_value_start: "power_value N c (c, 1)"
  by (simp add: power_value_def)

lemma power_value_square:
  assumes "power_value N c (v, e)" "r mod N = v * v mod N"
  shows "power_value N c (r, 2 * e)"
proof -
  have "nat (2 * e) = nat e + nat e" using assms(1) by (simp add: power_value_def nat_mult_distrib)
  then have "c ^ nat (2 * e) = c ^ nat e * c ^ nat e" by (simp only: power_add)
  then show ?thesis using assms by (simp add: power_value_def) (metis mod_mult_eq)
qed

lemma power_value_times:
  assumes "power_value N c (v, e)" "r mod N = v * c mod N"
  shows "power_value N c (r, e + 1)"
proof -
  have "nat (e + 1) = nat e + 1" using assms(1) by (simp add: power_value_def nat_add_distrib)
  then have "c ^ nat (e + 1) = c ^ nat e * c" by simp
  then show ?thesis using assms by (simp add: power_value_def) (metis mod_mult_left_eq)
qed

lemma divides_out_residue: "divides_out N M \<Longrightarrow> M x k r \<Longrightarrow> r mod N = x mod N"
  by (fastforce simp: divides_out_def)

lemma power_chain_value:
  "divides_out N M \<Longrightarrow> power_chain M c ve steps = Some ve' \<Longrightarrow> power_value N c ve \<Longrightarrow> power_value N c ve'"
proof (induction M c ve steps rule: power_chain.induct)
  case (2 M c v e m k r steps)
  then show ?case
    using power_value_times [OF "2.prems"(3), of r] power_value_square [OF "2.prems"(3), of r]
    by (auto simp: product_def dest: divides_out_residue split: if_splits)
qed simp

lemma power_value_unit: "power_value N c (1, e) \<Longrightarrow> 1 < N \<Longrightarrow> c ^ nat e mod N = 1"
  by (simp add: power_value_def)

section \<open>Computing with binary numerals\<close>

text \<open>
  The field prime is a sum of five powers of two, so its multiples need shifts and additions only;
  the upper half of the order is of that form, too.
\<close>

definition exact_division :: "int \<Rightarrow> int \<Rightarrow> int \<Rightarrow> int \<Rightarrow> bool" where
  "exact_division N x k r \<longleftrightarrow> x = product N k + r"

definition field_division :: "int \<Rightarrow> int \<Rightarrow> int \<Rightarrow> bool" where
  "field_division = exact_division field_prime"

definition order_division :: "int \<Rightarrow> int \<Rightarrow> int \<Rightarrow> bool" where
  "order_division = exact_division group_order"

lemma divides_out_exact [simp]:
  "divides_out N (exact_division N)" "divides_out field_prime field_division" "divides_out group_order order_division"
  by (simp_all add: divides_out_def exact_division_def product_def field_division_def order_division_def)

lemma field_division_code [code]:
  "field_division (Int.Pos x) (Int.Pos k) (Int.Pos r) \<longleftrightarrow>
     add_num x (add_num k (shift32 (shift32 (shift32 (shift32 (shift32 (shift32 (shift32 k)))))))) =
     add_num r (shift32 (shift32 (shift32 (add_num k (shift32 (shift32 (shift32
       (add_num k (shift32 (shift32 k))))))))))"
proof -
  have arith: "a + (b + 2 ^ 32 * (2 ^ 32 * (2 ^ 32 * (2 ^ 32 * (2 ^ 32 * (2 ^ 32 * (2 ^ 32 * b))))))) =
      c + 2 ^ 32 * (2 ^ 32 * (2 ^ 32 * (b + 2 ^ 32 * (2 ^ 32 * (2 ^ 32 * (b + 2 ^ 32 * (2 ^ 32 * b))))))) \<longleftrightarrow>
      a = field_prime * b + c" for a b c by (simp add: field_prime_def)
  show ?thesis
    unfolding field_division_def exact_division_def product_def num_eq_int add_num_def numeral_add numeral_shift32 Int.Pos_def
    by (rule arith [symmetric])
qed

lemma order_division_code [code]:
  "order_division (Int.Pos x) (Int.Pos k) (Int.Pos r) \<longleftrightarrow>
     add_num x (shift32 (shift32 (shift32 (shift32 (add_num k (shift32 (shift32 (shift32 k)))))))) =
     add_num r (add_num (times_num (num.Bit1 (num.Bit0 (num.Bit0 (num.Bit0 (num.Bit1 (num.Bit0 (num.Bit1 (num.Bit0 (num.Bit1 (num.Bit0 (num.Bit1 (num.Bit0 (num.Bit0 (num.Bit1 (num.Bit0 (num.Bit0 (num.Bit1 (num.Bit1 (num.Bit0 (num.Bit0 (num.Bit0 (num.Bit1 (num.Bit1 (num.Bit0 (num.Bit0 (num.Bit0 (num.Bit1 (num.Bit1 (num.Bit1 (num.Bit1 (num.Bit1 (num.Bit1 (num.Bit0 (num.Bit1 (num.Bit0 (num.Bit0 (num.Bit0 (num.Bit0 (num.Bit1 (num.Bit1 (num.Bit0 (num.Bit1 (num.Bit0 (num.Bit1 (num.Bit0 (num.Bit0 (num.Bit1 (num.Bit1 (num.Bit1 (num.Bit0 (num.Bit0 (num.Bit1 (num.Bit1 (num.Bit1 (num.Bit0 (num.Bit1 (num.Bit1 (num.Bit1 (num.Bit0 (num.Bit0 (num.Bit1 (num.Bit1 (num.Bit1 (num.Bit1 (num.Bit0 (num.Bit0 (num.Bit1 (num.Bit0 (num.Bit0 (num.Bit0 (num.Bit0 (num.Bit1 (num.Bit0 (num.Bit1 (num.Bit1 (num.Bit1 (num.Bit1 (num.Bit0 (num.Bit0 (num.Bit1 (num.Bit1 (num.Bit1 (num.Bit1 (num.Bit0 (num.Bit1 (num.Bit0 (num.Bit0 (num.Bit0 (num.Bit1 (num.Bit1 (num.Bit1 (num.Bit0 (num.Bit0 (num.Bit1 (num.Bit0 (num.Bit1 (num.Bit1 (num.Bit0 (num.Bit1 (num.Bit1 (num.Bit0 (num.Bit1 (num.Bit0 (num.Bit1 (num.Bit0 (num.Bit1 (num.Bit0 (num.Bit1 (num.Bit1 (num.Bit1 (num.Bit1 (num.Bit1 (num.Bit0 (num.Bit1 (num.Bit1 (num.Bit0 (num.Bit0 (num.Bit1 (num.Bit1 (num.Bit1 (num.Bit0 (num.Bit0 (num.Bit1 (num.Bit1 (num.Bit1 (num.Bit1 (num.Bit0 num.One))))))))))))))))))))))))))))))))))))))))))))))))))))))))))))))))))))))))))))))))))))))))))))))))))))))))))))))))))))))))))))))) k)
       (shift32 (shift32 (shift32 (shift32 (shift32 (shift32 (add_num k (shift32 (shift32 k))))))))))"
proof -
  have arith: "a + 2 ^ 32 * (2 ^ 32 * (2 ^ 32 * (2 ^ 32 * (b + 2 ^ 32 * (2 ^ 32 * (2 ^ 32 * b)))))) =
      c + (0xBCE6FAADA7179E84F3B9CAC2FC632551 * b +
        2 ^ 32 * (2 ^ 32 * (2 ^ 32 * (2 ^ 32 * (2 ^ 32 * (2 ^ 32 * (b + 2 ^ 32 * (2 ^ 32 * b)))))))) \<longleftrightarrow>
      a = group_order * b + c" for a b c by (simp add: group_order_def)
  show ?thesis
    unfolding order_division_def exact_division_def product_def num_eq_int add_num_def numeral_add numeral_times_num
      numeral_shift32 Int.Pos_def
    by (rule arith [symmetric])
qed

section \<open>The witnesses\<close>

lemma witness_unit:
  assumes "divides_out N M" "M (product w y) k 1" "w = x - 1" "1 < N"
  shows "(x - 1) * y mod N = 1"
  using divides_out_residue [OF assms(1,2)] assms(3,4) by (simp add: product_def)

lemma witness_factor:
  assumes "prime_int q" "power_value N x (1, q)" "divides_out N M" "M (product w y) k 1" "w = x - 1" "1 < N"
    "prime_int r" "r dvd N"
  shows "q dvd r - 1"
  by (rule witness_divides [OF assms(1) power_value_unit [OF assms(2,6)] witness_unit [OF assms(3-6)] assms(7,8)])

lemma prime_17449: "prime_int 17449"
  by (rule prime_by_trial [where B = 132]) (simp, simp, simp, code_simp)

lemma prime_257: "prime_int 257"
  by (rule prime_by_trial [where B = 16]) (simp, simp, simp, code_simp)

lemma prime_641: "prime_int 641"
  by (rule prime_by_trial [where B = 25]) (simp, simp, simp, code_simp)

lemma prime_1531: "prime_int 1531"
  by (rule prime_by_trial [where B = 39]) (simp, simp, simp, code_simp)

lemma prime_65537: "prime_int 65537"
  by (rule prime_by_trial [where B = 256]) (simp, simp, simp, code_simp)

lemma prime_490463: "prime_int 490463"
  by (rule prime_by_trial [where B = 700]) (simp, simp, simp, code_simp)

lemma prime_155317: "prime_int 155317"
  by (rule prime_by_trial [where B = 394]) (simp, simp, simp, code_simp)

lemma chain_17449:
  "power_chain (exact_division 6700417) 5846540 (5846540, 1)
    [(False, 5101478, 55274),
     (False, 455, 6525341),
     (False, 6354839, 3898418),
     (False, 2268166, 4877502),
     (True, 4255930, 4820270),
     (False, 3467695, 344085),
     (False, 17669, 4819252),
     (False, 3466230, 3421594),
     (False, 1747250, 1897586),
     (False, 537404, 1729928),
     (True, 1509472, 1399296),
     (False, 292224, 6638208),
     (False, 6576576, 3819072),
     (True, 3332383, 1507169),
     (False, 339017, 3124472),
     (False, 1456972, 5321460),
     (False, 4226294, 4367002),
     (True, 3810487, 1)] =
    Some (1, 17449)"
  by code_simp

lemma inverse_17449:
  "(exact_division 6700417)
    (product 5846539 4499094)
    3925745 1"
  by code_simp

lemmas value_17449 = power_chain_value [OF divides_out_exact(1) chain_17449 power_value_start]

lemma prime_6700417: "prime_int 6700417"
  by (rule prime_by_large_factor [OF prime_17449 _ _ power_value_unit [OF value_17449] witness_unit [OF divides_out_exact(1) inverse_17449]]) simp_all

section \<open>The field prime\<close>

lemma chain_257:
  "power_chain field_division 0xB443083BFAF62D0E04511E80C83C6F2953E0757093FCA73349974A16FDD93CC9 (0xB443083BFAF62D0E04511E80C83C6F2953E0757093FCA73349974A16FDD93CC9, 1)
    [(False, 0x7EEE55222781AF15FA4B10C3F25FF3457CBA5DD55D955423AFB48BF68A779C27, 0x2EDB964D0EABBF352A6FEC3E42D0B4A6668C11110A8071FC3B044CFFEFA871F8),
     (False, 0x893A65E39EEDD5189CC9B31630F735B867208B9096BFDC86993CE7C242D2353, 0xEE6D40B49262F9E92A0609B63280C44EE5BC4EB2614965FF9EEE0E2EFC6A0393),
     (False, 0xDE0F52F0C85ECC75F0D98CF08F4C686C69E9C3B5D9B5A620882C8CEA12924880, 0xB37CA1498BBA31200C5D600F2F589F81BD0A5E742B4A20BDE8DECCAE705B0EE9),
     (False, 0x7DD78639FC1ADA2D14D7EF561D296B085FBB06935F1145CFF9A591DAF0C8B29F, 0x65F60BABC2D43321BC1F197D3FF4A263A330E94FBBC9ECBC329CFC066B4D02B0),
     (False, 0x289C11B01EFA27D6F1CBAEA87CF1757932F86055272A1B8F559BDDBD7F8CF6A6, 0xAE07355C17B0EED39EC2451596E44FD231EE2524B7740C602DFBF5673D742FA6),
     (False, 0x764DCCBD9CAAE0022E0064D7862E177B9CA57708447C4782C430AAC8BB6AC2FF, 0xF84CA358300E53F74AB7B9BD007EB5C007FE2B9631D3B3DB752751CD0EB922A3),
     (False, 0xF0D4936D32864A308F160F2B312F4BFFE5CD34AD29606C80F5B6A6ACD5B5F22D, 0x29B17D3A089E98FDC6C75EF23AD9FC7023136E333556BF063EA60B67BDFBA5F6),
     (False, 0x6CA552B050EC70EA06CA0EC5358CD0BD45D630460A1D9378537C06E8D7C0FC6, 0x9C4E893D7B6470C5C17EC0028016731E84C8E2A1326D0FDBF5FFFACEA577182A),
     (True, 0x6E102614A7889EAFA59621B9AB477CD05E20176976AE6EB2288C78872E3A2F07, 1)] =
    Some (1, 257)"
  by code_simp

lemma inverse_257:
  "field_division
    (product 0xB443083BFAF62D0E04511E80C83C6F2953E0757093FCA73349974A16FDD93CC8 0x89B140B70A98898234F9FD095DF33E246C14010D54D6399A3003443C5490855A)
    0x60F4AF52D12ADA34D29ED320E5D82C334FCCB9F7B5E84340E5B09105148CB9B1 1"
  by code_simp

lemmas value_257 = power_chain_value [OF divides_out_exact(2) chain_257 power_value_start]

lemma chain_641:
  "power_chain field_division 0xEC975956F3E7C47B6AD269C4432D2EDB1979754EDB8BA6202BE74B667686B8A (0xEC975956F3E7C47B6AD269C4432D2EDB1979754EDB8BA6202BE74B667686B8A, 1)
    [(False, 0xDAA76633B01C07001AB83C0F993BBCEAC55569D422AFAF53C2BBCF2DFCE165, 0x633B3E2BC8233172FF3F62112807546AD615C13C244E7DB2F04DE527C74987C9),
     (False, 0x2676DFCBBA8994B134BCB454A3AE8D642ED919B37FBB384449682735E659D19F, 0x482B330D40F3EE9AFD97B6773D5C5A82D8A5C898F3CA4754B8CA86AD1D016D70),
     (True, 0x42B27DBB1F69C7709F62CDB9CA721A29634BAD6EE04E560D12D6DEB8A2D3CA9, 0x7ADD38D5917F235715E9264679DA18CD09A84A2AE5EB4FC0CF5E4B994B300B09),
     (False, 0x3AF79956F7001E5BD0FEBFB94EA432736368D3BA14E633D9E8A294CC7F9EA587, 0xF738026284258AF1A8D5CFDD274E733D67C6A26F62CA6653AD383B09E9786BD8),
     (False, 0xEEBD20DC14DD13604AC74B9F2ED821311B881E3C990889DBED7F28899E50C036, 0x1C6CE3F606F622E92A7DB212A1836C0E575E2290CB6F105CCD18BAAE163F0676),
     (False, 0x328002EF741F4494D465CDF474F06ECA1FD3A25C90EF2FD971DBA53FF3F7E31, 0xDBFCE9A46DCDD9C3BA2B92F96C77CEB879B024E1BDE4E2AD9E3CDF5C757D3C95),
     (False, 0xBD0AB19CE1DDCAF353EE69378F50290CB557345B78F88744CDEC4ECF3E0B26FF, 0x5A08A3567B8F3B53C110A339F3140CD679FAFA65E5DB5C37F73F268BA7E355B8),
     (False, 0x1FAA13238C29C05DAAE6E84FC9274C890B31B4F57B6F07D6E5EF296FE66CE37E, 0xF0E002609993BFC7AB3891AE5DFAF6D259E1A79A5A0D303B62EB42F7177097BE),
     (False, 0xE2A4C87A2BAC3979216E0A149D74A128052E9914AA218F889881093A62463724, 0xD9389943C4D60E06975290A0721FECC915AEE0D1E3565494F2FD3EA7A677E828),
     (False, 0xB8510059056C14FE18AEF2BDCC868BC20C746108F90600DAB1EA1AAC80CFBC75, 0x2FC6725C72EB4319799B95F723EEDD6ECE82703BEC540D73E21E181A088842B5),
     (True, 0x2C273027129109134640950A9C9DEED7964D02D1E95F8C8884265868622636F, 1)] =
    Some (1, 641)"
  by code_simp

lemma inverse_641:
  "field_division
    (product 0xEC975956F3E7C47B6AD269C4432D2EDB1979754EDB8BA6202BE74B667686B89 0x6E5EF365F21629053C21C4A96D4B4AD207A4D5A69855ED6E886A70692741869)
    0x6600C8E871FB44A167043122C9A70E9B4C802C480AD2501F01BAA2F0030CD0 1"
  by code_simp

lemmas value_641 = power_chain_value [OF divides_out_exact(2) chain_641 power_value_start]

lemma chain_1531:
  "power_chain field_division 0x8E25F1ACB8D5BA2A169DB6CE3B6A328C98FC5E70EA0CDD6EDB65EE28903DB030 (0x8E25F1ACB8D5BA2A169DB6CE3B6A328C98FC5E70EA0CDD6EDB65EE28903DB030, 1)
    [(False, 0x4EEE1DBBAC0F4E952B8C066C490F2E9EC1BAACDCAEDA1201346A4E1641142C0C, 0x185E2750932FDAD91099A3BD02EF3CDFA2D478A69AEB2A0072701229B136350C),
     (False, 0x251CA0003208062528A9EEA8E8A01719A03E06DBF81A4C7CB2C6CD7E2D10A8C, 0x7D628B5E9E6C1AAE85078CA1262D75C9E1F9222C648ACF2AC32B1B84E6DF031C),
     (True, 0x459F3EEB441D54660B5A8EC3D23C082BB1EC37BC50C815522B4794041F946B58, 0xB1F975CD88C6D8E7DD72BB65ACD082FCD59DA2149A494F594C9914EC39344098),
     (False, 0x7BBAE7FD12E776C9444133CD78E3DCDAEB4901D0F038C0DCA7F380EDD0F439DB, 0x6993146A5F307CD1A63A25AFF96D5AF74E8054BDF324A445CCDAA89BCF00941B),
     (True, 0x3A9F3B3FE00F98653D3D3CD081DA868CCBBC490CBA5A60611EF9A98456CF9047, 0x115255CBEFD995316681DD207F249CFCBAC0156A15DE489216E449B6072CE557),
     (False, 0x12C09E02A6DA6D10D61EF6C2D8DACC857D9D1CF85D4075D86E7AD56EA36BCF2, 0x9DB8372BFC14208BA8455649B7541B8567B9964FA9A05F82CCB4DF754F938083),
     (True, 0x57938F1F8C57B690FB787C6B3415D227028B529DC91E7546674DA07936FDACF4, 0x260A932985CC1C287F261D037C69573DB5336B3A21FEAD0FB3C3FA14DA36D584),
     (False, 0x5A724202D36E6D2EA1E41478164C5B0BC0F276D19A6D4E60D988D02BFD868AD, 0xC3FA129D73A67E886639C0A2129066837EFA218B9BD21C63D8492906559D54BD),
     (True, 0x6CD1C27B18C3EA5AA156F531321B558874160C9BBA8B5EBBDC9F157BD3693DD6, 0x938DDC67957009F42016C8624B9AB5A1E397F6E613D64404D023FB378C341146),
     (False, 0x550C39BBD287B556F9C0350CA46B5204F49B96FA84ED2774383434DC1DD167A2, 0xC53CEB46BAA70C315141B424B8FF9AA3E19DBC3EC04DCCEE565FE26BB36BC6C6),
     (True, 0x6D850683171AC6E0BADDA9CFA699F8430FD3B1316781BA3EA9492356B1F851B5, 0xF9ABD8ECD8E3CDE5C0F94F9E794A40A8A255F4E063035BCD594526502C03B6D5),
     (False, 0xF37FBF5935A52F574BB2C55BBE6EFF9C868FA918AD1915C0CB8E6DE85506EAE9, 0x7DB16494BA377431C4C4A7BAAE140CC5730A257141938A30188B35EF58987822),
     (True, 0x45CB07171C34BB14B1452EABD6A11EB2A7B4B04D7CF8BDBFBEB39B356079CE13, 0xD5391201A556B04A5F7B41648B9FDC19BF1BD2FCE3D62C729CAC86368FC1B473),
     (False, 0xB19804B074BA21E8ED646F89C664877FA3017BA37A4FF27F7572D40BE31F7C9B, 0xAFD424442BF93CAE1820548D2ED536EE9962CD27DA029B41D75552B9F1B76844),
     (False, 0x78C3B961C2EE8DA94C85DDBC1790DF7CB2E258CE0613529197E489A263559296, 0xEA2127197A148B7B7AA67A0C0B8BAB0929B131E6ACC0D7EFCB27A1A0A704E4A6),
     (True, 0x820117827787AED665FDF99E7DE40D4189D762A1C55FEFD85D59FFBC3CB23323, 0xC1E2CB44036C26847708D52EA9196EA2A05BEC3D4F643A1271F55B66C65D3243),
     (False, 0x92D7BF68A57BCBEF2697CB4E219A666441FD372C92B1D32233ABAF916A2B8E0E, 0x523D6BC6FA60A291349BA064A8D4C7AEDE795101F636F987B9DAAA29CB7CB97),
     (True, 0x2DAA424C6F699635540C26EBCBAAA27994328C27D765D3470A849DBCE9703B1, 1)] =
    Some (1, 1531)"
  by code_simp

lemma inverse_1531:
  "field_division
    (product 0x8E25F1ACB8D5BA2A169DB6CE3B6A328C98FC5E70EA0CDD6EDB65EE28903DB02F 0x211568E65480BF265A20F140F12178D53518B827223A428D67E1D00609E0000D)
    0x125EC783788EBAB91A3468DF1ABBED9C4DA6C8825B01E8ABC85B35AADCBE0D9E 1"
  by code_simp

lemmas value_1531 = power_chain_value [OF divides_out_exact(2) chain_1531 power_value_start]

lemma chain_65537:
  "power_chain field_division 0xC4F6D2F887035179EA2B301308DC5E7C5CC6916A22782D64283E130863060446 (0xC4F6D2F887035179EA2B301308DC5E7C5CC6916A22782D64283E130863060446, 1)
    [(False, 0x978AE10749C81EF1466BCAE5AD19ED88DCF8B1AD4CE09F9073F3FFB1DC1C8AAE, 0xFE94C5025AE521010BB547E1982CD1BC1AA4B21B3920A979A12C4F843376CDD2),
     (False, 0xFD2B8D660BDFF3BB7BCBB2E6328EA4CCE5B4EAE5E775D1F2579EC15E0F209167, 0x10CE00CD66389C3CBA787E4DFD19A6C473C0BC118E3A237ABB32B121E3291AB),
     (False, 0x11A65DEF872A14EDFDEC76CB010A42E4FF61277442DA52AEE937B403C0322, 0x4CA3F01A35DB48A88E87C71863B36F17B5739AB54D8A11DE91AC65A88DEB2B5B),
     (False, 0x16F1BF8B497DAF97F1ED6491659AB53A2EEADCBF4BB519799751D25FD1C033DB, 0xB6647827C56733D6647CBDC2807042C27C1F5FA2DB13EB6313256D9AB029E634),
     (False, 0x81F30247261947DA78C8EDC268D7BE38E911A30C5778592F62FD7E8277E5E853, 0x126177F3FD97E5DC4FCB9CA9C24AAAC8159EDB6D7C06192BBFB06075838F62E3),
     (False, 0x151D9FA701621B83C382AF79A4D7CF710AD56D6F2B3BE15DBC7198894A8EDBB, 0xCB9BACC9A03FD504D62F8EFFE13AED1FEA18178ED1107FAB9CBDCC8A86758304),
     (False, 0xA1F042B316DD19F6E3427D3D99A7E3D41998A7EA2F24AC9805D36701C25CF872, 0xD4188C9E3010E21C878B8E421ED4AF6F5738FEFDCC767E60DFDA426AF7121082),
     (False, 0xAFB8AB415A3B0B3C25879322ACBA26F96C3F9F13B58E31ABA07A2E40686D6E8F, 0x77579E00284FF4838CBEC56A482FA65C005A6DA9BD0C22C913CEBF0997C5F093),
     (False, 0x37A292E122BC804E218869BD668BFAEAC052BCE31C5D9BDB0390250AD09943D4, 0x7BB59F341651EE29136D1901EA71A9472339A9A10F6763CB6505843A5EEB383D),
     (False, 0x3BC807D6CBE410DFA7EE4D4F1C50F5DFD9B3DB857365901E295C11281F2C779E, 0xA978FD4FCADFB2B788ED271BCF697B1648C8D0F0CE7F7D9E35840A3937853627),
     (False, 0x7030F7A23F81532CAC3EB2EF8CEEBF2B0E84AB6E8C3813C1D19E02DE494DEA24, 0xE57C4DFC272DEFEF671F94C455CCD49B2A3392EBE6A1F0D1FD6DAED25B486415),
     (False, 0xCDB79FE18FD76B924B4F9D254D4D8561826A571BEC57F4A09C33F06EE546109D, 0x2E9F2341DDF97BB1A776D93FC294D5E6DAF2B71B718E3151A3733A8246367A56),
     (False, 0x87D939884F00B98AC4B4A690EBD5CA6789C79413715825102ABDCCB72BC9852, 0x9E02CA35115574A49FC2B0AD312BF5B0590B7533A79F979481F4EAA2517AAD36),
     (False, 0x618771A1AB78FD4D5C5AEB1A2966FC77E672DD92B45B15689C7DC81A8A947610, 0x8576DD57912E6F27E06B0ABF53B4628F119991FAF2332822B54694D8433E7D74),
     (False, 0x4594B92E0E891E19DCB689AF2BA92C50BC258C6FF4FC1EC14F4A5E935ABE395F, 0xCA1131FAE02D5D8C945E25B7C01AAE23C126B21B30E79995BEE5F73F1468B5EF),
     (False, 0x9F7F2408365A815BD86598787B2F13FF7245FC6C710CA67465CEB1B63921E417, 0x301C15FE7073E0DA41A26E1EB9ADEC3E08424D5A39AAD6FBC3A1F699E49DB938),
     (True, 0x2503E379D43C20F4156EA6C8150E315AD76E81CFF898BA26399ADE4606AA7AB1, 1)] =
    Some (1, 65537)"
  by code_simp

lemma inverse_65537:
  "field_division
    (product 0xC4F6D2F887035179EA2B301308DC5E7C5CC6916A22782D64283E130863060445 0x8CDDD685DC5F642F29092BF732036591A2FA3C03E82B1F3EB20172B4575AE479)
    0x6C61A981C8E8E5E2DB389AF3B38DC058F5AD8B51E05005D4DAB4F2C2E3188764 1"
  by code_simp

lemmas value_65537 = power_chain_value [OF divides_out_exact(2) chain_65537 power_value_start]

lemma chain_490463_1:
  "power_chain field_division 0xFA40CBF814202988ACAD396929034046E860B6C32ADB409731A885C4ACC880D4 (0xFA40CBF814202988ACAD396929034046E860B6C32ADB409731A885C4ACC880D4, 1)
    [(False, 0xF4A29EC81A7EE04CDD393173E7F87BAA7BEA0987860639B3A02E43AB82ED11FF, 0x657880336EF081F47501905533B54F7571222A5FB7DDAEE73BEDDA71EF01C18F),
     (True, 0x63315C2B8CC31B8B1513E3F1E9E1470272CE36797E2E78781F31B0FE510F0B77, 0xBCE6E80D62602E2AAB3A27640FFC44552982CA20AE0019772EBAF2C06B02D5E3),
     (False, 0x8B63F519FE4640BC8A4B30266A05D8A0483F662DB2805A03692AE6432869D6FC, 0x173FE4F9800DCD8274FF768A2CDC2414D9D81A3F1D2A68FBD8644596F4A95E45),
     (True, 0x16BA481B2E735A24A06AADE4330C6331D75F080C1470955707F0AEEAB857CA37, 0xC0221BDEA6DE5505A6B612CF4C4794E99B71F7D59D8268C38A04BFBE05A45B5B),
     (False, 0x90332E59F4ADB9C9305BAE559F27F5901A34391D254AE19CBEA0945C450CEA3B, 0x3D6F449876A99C73820944C083101D2C729FE02C19F6775755E1CE87003EBC94),
     (False, 0xEBE370D45E34C892AD0372305DB60EE2A04B7F7DC7A414A60A26269165317F0, 0xE04473691C1824B783BEFC7E153A3E0FB6E9C89E04F5A8FA5E7385E0F8ECCD80),
     (True, 0xDB3B9C81F667E37531AB19D7414C05AA169F21913BCC6D1CD9748AF1B4DA98A0, 0x3EB11718ECD0E15859EDAD99DBB8C031F219B1A77A9F3AAE8B224EC8CBB4C6A0),
     (False, 0xF5A41B1149C64AA37B7885D25C96F78CEDCBF847D3876C1A5150FB6905713F1, 0xB4FE51540D83CC2BF28853BA36C7834383D3C39C9E825D993D2D1C603B72F7F1),
     (True, 0xB0EE2B362A3B4D32217E88107439CAB78E95D8C0B0A365E0F7FC51C51B413CB5, 0x705CCA81E773BA41F83CE84122751F9239121A1AFCFEDE4C18A5A91B72B71049),
     (False, 0x315152D4096634292688790542C9404706FD325FDED20714B4C55B666EB2178E, 0x13FD485BD9746EB3CA82A8365CFED90B7364C7241737C1DC7C64BA35BC194C5F),
     (True, 0x138A67E9142DB418B30675F6D2773317A9C20E866F21845244AD5A4D731DDD91, 0x6A8C5A7E85F4DD3C0CAF5FC5F4CED917D25BAEB3617AB907AEF233A95C789C3D),
     (False, 0x2C5887E40DA707A3E42DF2FF3096942DE4D843F4CF1D4309688351C53BC7B6C7, 0x7D1A7CE035310D97B6BCB989C7793B11C2733E2043FDABACFEBCD16DEC521D50),
     (True, 0x7A4B883FE2CF48878CD5633542A95613F4D709899669A5F1D069C9C0C52A4CAB, 0x62D079A99D9B9808F82E14EC868C52F934AE59CFCF90BC6BCABEFC0A2E5292EB),
     (False, 0x262446EBF0414B8844E305031E2EB901661277FE888B6847B1A3200CBB94F449, 0xFC0D8BA9EE736EE820E1617566EA9455CE67C10404167EC0DA8B09D7A271D802),
     (False, 0xF82AABAF01121F7E5A29DB06FCC7189A67CECA21E6A39DB038B958D5B5B3A189, 0x610A49BFC11560E08AF3D5A63DF132A24DEC869CC396C34276629834A5BB018D),
     (True, 0x5EDC9BE9436F40860CB8AD38FC43C4CC3D5941548ACFC67A1FC227F92CFD5581, 0xD969089BF6608E4E5A48F9BEFA801C80286D48C2E2E70A98CA811687DEC91E45),
     (False, 0xB8A33BB1308D2690582EA0914E557F2F66C55CDF67ECB048E27BEE06CCCB644B, 0x85E9C0207E9A25297A247B394FF5BDE2786128F5442393159339254D04B9A2E4),
     (True, 0x82E82AC266FD53690CC203EF3AEE47E3F7436637E8E1962E4AD64196998F37F1, 0x9B24413DBBFF976B7B7A21EA21BF5348AE6E2A881B7FE04645893CC3C6DC1CC1),
     (False, 0x5E04EC2389A9B5BCD6278D5740B676A13D17DC34CFEE772BDC24EB013C45FADB, 0x8251DF0848377D4E14FE9230636C5A870749A44A147CABE67FE6AC33738C45C),
     (True, 0x7F64F01B8D67946FCEF22A1E5374018AD93CE1F5D293CDDAA428067F57B236F, 0x2DF6D1684CD9D05A8B4B1C8B873D0C3ACA155E7B34D29B4ACDCBF0654A8BBF9F),
     (False, 0x840B395D304716C3BFF0844CA18FB51D188BEBA2A6C5442B7C51BB7510D324F, 0x5FF089B70F1E8C174A9EEA7450B1EC5F407D6AA1D1E3C48F3333863EE325D710),
     (True, 0x5DC92F1046153639CE4A579D51EB0B0E567C8DFA06ED273921E31B8EA8E3308F, 0x9F281F98B3F5B70F92FB7EEF20E83D81913B8FD8A6D0C37431A09384744149CF),
     (False, 0x62F2DD89F61CAA63D53CD50DB661E38CD9C930496E949836A29FCB955E93D7D2, 0x30725ECC80B8148A7B867764F2D8B2463F2313EE13A487B73642DE9786F98D33),
     (False, 0x92B16A54AAD94301059F66698E05030D23C38BE027518E4195FCABB947E92DA, 0x2FEF2C1526AB67D156E5BE6FAA60F5EDCCB411C81E1EC9D5BE1F03FAF395CB03)] =
    Some (0x2FEF2C1526AB67D156E5BE6FAA60F5EDCCB411C81E1EC9D5BE1F03FAF395CB03, 30652)"
  by code_simp

lemma chain_490463_2:
  "power_chain field_division 0xFA40CBF814202988ACAD396929034046E860B6C32ADB409731A885C4ACC880D4 (0x2FEF2C1526AB67D156E5BE6FAA60F5EDCCB411C81E1EC9D5BE1F03FAF395CB03, 30652)
    [(True, 0x2EDBB308F754F08A9C290E94EF36EC3844D1020471A0D2DF6E938E27696E25D9, 0x5B3BB01DD494F4B4013EB498202117C3898DF3CDAE90A7753817427CA553C455),
     (False, 0x20837D1FFC8E67874AA410272FAB01F8B2ACF99519E23FC1B96FF372F71446CB, 0xA71EFF9CCE39EFCE981E1BFD0C6D2F51B15FF2E27A397855F5DD10496EC48B04),
     (True, 0xA35E928733D3179761C93629218A9BE75FB0F257007BDD1A9BCD2DF5A60CD0D6, 0x341073F289FC199005E43C07F3C4AD7E7E15C3A69ACD0896B8217C2AF171F026),
     (False, 0xA96B029457A27D0994071C6BDA4A0D6B254AAFAE3A29DF91DA81D9B97957103, 0x9988D25E68733901FD964D19B36B7081874CACF143661432253372F10668B6A7),
     (True, 0x961679F9A71FBF2E5EE801104A195141A84E98402C3268153E2FF39AA7E05BB2, 0x5B9CCE39EEB1E7CFA8A285C468A1A79CEC68AC5FE1CBCAADA6879DCB38631DFE),
     (False, 0x20C8DAA94D37878BCE4272964F12D350B957DD98212F63D569BA179F49CBB493, 0xC3897364D75E7F02E0F2CA40111E6CBB25D785952A07AD0C8004B7F29FC33C97),
     (True, 0xBF25B8D98DB5E6E5A70B427CFB5E6A6BD333C773DC30D91127984DAD5572E5F4, 0x3AE902DB1696BFDEDA5A2978F93D2C5F363D57B85E502D40AA6AC6540B649300),
     (False, 0xD8E696186A1FE95BA97EC913881DCEC284496F10057D49F435A98F5CE730986, 0xADF8AA2DD6EDD1173ABB4FD05D0B2B1801C28A3264B0745C0D40DD1AFADC0986),
     (True, 0xAA10DEF8BEEF570E6472092A5CAB40B75636D82D6AD184AA72C1AD54C4551D09, 1)] =
    Some (1, 490463)"
  by code_simp

lemma inverse_490463:
  "field_division
    (product 0xFA40CBF814202988ACAD396929034046E860B6C32ADB409731A885C4ACC880D3 0x5A6CFB04B241C1FE2BDE9B937895761E8631745614622CBB352EFE9F68D76974)
    0x5865506DBB61DE1E6782534922FD1AF9F04A00C9B52067D50D23CA3C8F1A1565 1"
  by code_simp

lemmas value_490463 = power_chain_value [OF divides_out_exact(2) chain_490463_2 power_chain_value [OF divides_out_exact(2) chain_490463_1 power_value_start]]

lemma chain_6700417_1:
  "power_chain field_division 0x78CB4ADDA5FA3D7F9776E7E1793F3F35F57659A8E65458BD11F84DE2965179BC (0x78CB4ADDA5FA3D7F9776E7E1793F3F35F57659A8E65458BD11F84DE2965179BC, 1)
    [(False, 0x38FF379FD603F0016C96E2179E6865F6C6076FF9BA341DA4C0B9D3DE09D6F351, 0xBFFA78CE420C77B39DB63FC6ABA64CDD4153BAB77C3F443E585370649CB23561),
     (True, 0x5A95DC6373B8161E1D7A7EC7096587D494740AF7DE2BCB0A3B6DC5C1BC95915B, 0x92E00749B0D11C7CAAF2448893D74D11565BA6396174159422D32A00C4609D97),
     (False, 0x54444C5D231D5BAE9CF1CFE2E12B0EC7BE322BF22B177B527D8389919793E2DE, 0xFCE14C8F06525A13F5545EF8445EBB7BF6AAEFBECBD2197AAAC72B5761D671EF),
     (False, 0xF9CC5502388CCEC3D67845B6458ED116D06D3AC806ED98EB7C5923B6FF135541, 0xB8A7A18867FF399A7B3F5A61F88722D5E89363B896D0421FB9571422CB5C3262),
     (False, 0x853165F8C094D34123FC2DD3E55FCAB35B2B28A75C9A8D97F6E4EF3E32C64AD1, 0xF18B20C3E8C7A67A89978FA27FC4D5A316F36194D9503750E768FA61DF20B855),
     (True, 0x71F907529B9EE61915E15B03B047EB579AA835A61AE61FB7C2E910F99D4FA801, 0xA248E79403F7EE86401B7BD7E71FF0E30AB745E6452BD4A3EDBA44B6115C336D),
     (False, 0x66E059DAD0A4D3F0859D24E9A303D41929788685D56E53B359AD54C324B7E26F, 0x3CA9BFFFEDC78403AB114F62A4E9E54F4844CE00B5C9846991A9BBC89F647ED8),
     (True, 0x1C9FBE58EB6641344A4FA36716FF9C78ADC38C98C9F0B6B0E484D7DD7A98BC9D, 0xE936A9A1C9D0D006D96D83CAF331C4B43EFB954714337F1A38EAD657BAB1FB3D),
     (False, 0xD4748C75567ACDEDE71B9A41224C242BA7D6A065F620249C65CF726A390CC1F5, 0xF15AD63A17D9F6156A7FF597858320721ABC98B40961A87C5E7D4EB23DF76E7E),
     (False, 0xE38C279598927B3947025590CCEDEF090C5094E99F796AEDA6FA690B1E561980, 0x7AD0E27FBB146F2D71A077C986B8EB3D15304901D77127A11870B211912A9F84),
     (False, 0x3AEBC252D1310389CBB43FE9BA7FB594041A4C4E4E3A9D091A9BD459BD2B08F5, 0x26BEB37EDD306F3420C65A90450E6E9FFD6C3145036CEB594DE9E3ADFFE04505),
     (False, 0x5DD2B589DB28871593DECB9888A16EA7191FE89D7D6DEC9C48FFBF16E97891F, 0xA314CE83E8319DA2F564685A9C4F575C5AB065DC3DCC411F8EEB0AC3FF33B38),
     (True, 0x4CF341FF1AC7DED2E9F816EA4A43FA4B141CC9EF3FC7BC56310A366C994EF6A, 0x92E2DC77F9346D323A4EF6C9C65DB31F48782CFF6A9B70E08B9EAC3843E9E48A),
     (False, 0x54478C832E39C62CAE261EA5906ECE6B234AF95B99C88D2345E80B9C6345D486, 0x2CE18A97BADC1D2E06148116F8987B60F0CE1D80453CB9274FB1BB4E6E7FEEEA),
     (True, 0x152D5CF028F37585FAA729C3DC2D5CEAD93F96FC5177453E1FBEA13D60054E64, 0x1FF6DE83F6EDCB7797559F0931B17F5783DAEE9724A07DCCE4D97A1CB1EF5C3C),
     (False, 0x3FDB7F460D304896FC2687084163B85AEC80EDE77DE950C800CCFEDB91E5D7B, 0xC039E870B4DEC7FF998F3C8BC21806CC0A108B1254438D9149B70A660A618B8B),
     (True, 0x5AB3CB17ACAB1C9F814098EC5D9E5C17190C5B91B296F2F13A7DC90F2B457309, 0xB616FD9D08DCAB77E1FFC2509C1CEB95E2CEE31747205E13DFF0173D7ED7A01D),
     (False, 0x8184B2AC5C5BC03FD2AD5C80DAF3076DDED6148A320748C1341BAC9DD9937A5D, 0x1A618A5B4312BF91EBD8070E3B2ED33356F4E40B3543F1DE60DC27AABA6DBDA6),
     (True, 0xC72ABEA938F1F857C410BDCF268EA402867D6EADEAF94DC7443CB629484478B, 0xC6954D4446EBFA82E4447DDA6EA65739D104C3D326C24B1B90AE4345A1450373),
     (False, 0x9A0B4A99408D05AC71AF1EDB82F0EBADCD2C3B496108B7D2DB1A8C5E4297C4BA, 0xA13D96073CD1B1AE048970E08E10F29AFA8BC13D0DAB372160087B4DC4A1AA63),
     (False, 0x658E8586576DBE6B9EA4DE42004D65B85A230D9EAC39A993DD189CA8F8BA2FCF, 0xC7D796C4177F906AF6D39955EAE4C58767EE0391C7197D91FD4C313652A7D218),
     (True, 0x5E4BC1122F1151B639EABDD8E2BD7BBF0B5B0EF53B87137C582C9467DB32EC45, 0x9DE9C66EC43412A083BC2ED47460A0C1E06DEBBACA61716D579A92C16A568DE5),
     (False, 0x616892DF0D811FEF35CD3FE3A83802F41A6FF5ACABB1600AC0EE17211A1954C2, 0xE767F187F8359148BEFF0575A1208832A32E92DCE950530D5AF90930629B639B),
     (True, 0x6D307C5116F06CCB55FF50CD1DE933AC1C89811319CE2117840FA7164EADB034, 0x52E2ACCF631154D4BD44E91571A22965477C9B49FF6F7708DDAC129780EA1908)] =
    Some (0x52E2ACCF631154D4BD44E91571A22965477C9B49FF6F7708DDAC129780EA1908, 52347)"
  by code_simp

lemma chain_6700417_2:
  "power_chain field_division 0x78CB4ADDA5FA3D7F9776E7E1793F3F35F57659A8E65458BD11F84DE2965179BC (0x52E2ACCF631154D4BD44E91571A22965477C9B49FF6F7708DDAC129780EA1908, 52347)
    [(False, 0x1AD5FF6A891F597D258324377C72CD5CC53032D696431F4297432F6D77C430CB, 0xFA6D9D52B6DBD8DC24E3C5A7499F0213832EB08F7E9D31564A9CC5F73CD6C10B),
     (False, 0xF4FA4635DB3DEFFCD93A3934D1649073DEA56C4358EE0A157E8631F009F41677, 0x7E2D75DD9DE4A2A528B86B035EAFF3922400CF61D830B33819E701CE81E9ACF0),
     (False, 0x3E30C8190BCBACC18A8EC2E700D999FAEF534160BB2D4963DA3B20662E5B64CB, 0xBA8D8204DA65351817AD34674C5372C0269A98BFCB51ED79FCB4A83C500EC5CB),
     (False, 0x87F1EF2810AE81B15F14FEB7C215086E97C77A0A95063684CCEA7600DB986A1F, 0x2C8166FEF191BD711DA716988510F1A672343BD17AA9EFE19DF2D9A1F69E7918),
     (False, 0x7BCBCD0A1267134CBB8D04C7BC11584AAD88F335C6F3DFC8308C01E3462A82F, 0x742B31E72778E307C5F4B7F464BAF4B6F262175B5E8388E1AE9CB322074A5A6F),
     (False, 0x34B72C837DDE4AB32252252BD8D7976F6936DC3886A232DB844CC89A609F9979, 0xE6246C794687A9C659A5F57573C4F477E3BDFD2879BFAA3E8A012EA0DABDD59A),
     (False, 0xCEE5781969B3A046FA99E5CB64C2AA373EEFDA731650934044AF286837E87F02, 0x13D2B017CD3810DD7B5E3D9BF883F91F73A3D9764B55254C58D95D7797861FA6),
     (True, 0x95A8068E50F95A6CF29B8FACA8E161D4B92BF29185570A792D56F070D054C19, 1)] =
    Some (1, 6700417)"
  by code_simp

lemma inverse_6700417:
  "field_division
    (product 0x78CB4ADDA5FA3D7F9776E7E1793F3F35F57659A8E65458BD11F84DE2965179BB 0x465C86DBE42F62C6CCE986FFFE2C7CA703298243031009FBA8429DD2787ED318)
    0x21333F29CF01CD026B702E7C78BC84526C8B1C88BD1A9B71BBD7394D2EFD7579 1"
  by code_simp

lemmas value_6700417 = power_chain_value [OF divides_out_exact(2) chain_6700417_2 power_chain_value [OF divides_out_exact(2) chain_6700417_1 power_value_start]]

theorem prime_field_prime: "prime_int field_prime"
proof (rule prime_by_factors [where F = "0x2CEEBD62626262623573A5" and R = "0x5B28A75EC44538FFB229D32FE8FE1D6A6F930FF87A6" and s = "0x2138E471A2E40A94C375D0"])
  fix r :: int assume r: "prime_int r" "r dvd field_prime"
  have d257: "257 dvd r - 1"
    by (rule witness_factor [OF prime_257 value_257 divides_out_exact(2) inverse_257 _ _ r]) (simp_all add: field_prime_def)
  have d641: "641 dvd r - 1"
    by (rule witness_factor [OF prime_641 value_641 divides_out_exact(2) inverse_641 _ _ r]) (simp_all add: field_prime_def)
  have d1531: "1531 dvd r - 1"
    by (rule witness_factor [OF prime_1531 value_1531 divides_out_exact(2) inverse_1531 _ _ r]) (simp_all add: field_prime_def)
  have d65537: "65537 dvd r - 1"
    by (rule witness_factor [OF prime_65537 value_65537 divides_out_exact(2) inverse_65537 _ _ r]) (simp_all add: field_prime_def)
  have d490463: "490463 dvd r - 1"
    by (rule witness_factor [OF prime_490463 value_490463 divides_out_exact(2) inverse_490463 _ _ r]) (simp_all add: field_prime_def)
  have d6700417: "6700417 dvd r - 1"
    by (rule witness_factor [OF prime_6700417 value_6700417 divides_out_exact(2) inverse_6700417 _ _ r]) (simp_all add: field_prime_def)
  have "257 * 641 dvd r - 1" by (rule divides_mult [OF d257 d641]) code_simp
  then have m641: "164737 dvd r - 1" by simp
  have "164737 * 1531 dvd r - 1" by (rule divides_mult [OF m641 d1531]) code_simp
  then have m1531: "252212347 dvd r - 1" by simp
  have "252212347 * 65537 dvd r - 1" by (rule divides_mult [OF m1531 d65537]) code_simp
  then have m65537: "0xF088383747B dvd r - 1" by simp
  have "16529240585339 * 490463 dvd r - 1" by (rule divides_mult [OF m65537 d490463]) code_simp
  then have m490463: "0x7081C832E7D69025 dvd r - 1" by simp
  have "8106980925207121957 * 6700417 dvd r - 1" by (rule divides_mult [OF m490463 d6700417]) code_simp
  then have m6700417: "0x2CEEBD62626262623573A5 dvd r - 1" by simp
  show "0x2CEEBD62626262623573A5 dvd r - 1" by (rule m6700417)
qed (simp_all add: field_prime_def)

section \<open>The group order\<close>

lemma chain_155317_1:
  "power_chain (exact_division 191039911) 76243073 (76243073, 1)
    [(False, 30428229, 20435710),
     (False, 2186026, 30720414),
     (False, 4940034, 180634422),
     (True, 72090294, 73134972),
     (False, 27997940, 163657444),
     (False, 140199808, 134076048),
     (True, 53509080, 34323624),
     (False, 6166832, 128061424),
     (True, 51108673, 157267849),
     (False, 129466016, 154922225),
     (True, 61828685, 30350390),
     (False, 4821747, 55407583),
     (True, 22112889, 48909680),
     (False, 12521764, 117579396),
     (False, 72366629, 194797),
     (True, 77742, 97130219),
     (False, 49383814, 11587407),
     (False, 702826, 184495163),
     (True, 73631096, 154083443),
     (False, 124276164, 96752845),
     (True, 38613576, 101860949),
     (False, 54311441, 76258850),
     (False, 30440823, 86635747),
     (True, 34575893, 61465008)] =
    Some (61465008, 38829)"
  by code_simp

lemma chain_155317_2:
  "power_chain (exact_division 191039911) 76243073 (61465008, 38829)
    [(False, 19775696, 4637008),
     (False, 112551, 110169103),
     (True, 43967938, 1)] =
    Some (1, 155317)"
  by code_simp

lemma inverse_155317:
  "(exact_division 191039911)
    (product 76243072 69522358)
    27746025 1"
  by code_simp

lemmas value_155317 = power_chain_value [OF divides_out_exact(1) chain_155317_2 power_chain_value [OF divides_out_exact(1) chain_155317_1 power_value_start]]

lemma prime_191039911: "prime_int 191039911"
  by (rule prime_by_large_factor [OF prime_155317 _ _ power_value_unit [OF value_155317] witness_unit [OF divides_out_exact(1) inverse_155317]]) simp_all

lemma chain_191039911_1:
  "power_chain (exact_division 0x2E3802C35C7ED3B) 0x13EB608199212C2 (0x13EB608199212C2, 1)
    [(False, 0x895BC9F0908A82, 0x28A0882740F950E),
     (False, 0x23B63D03FE6C967, 0xF3044B39B78707),
     (True, 0x68BC57F6B9BD06, 0xB600E75719B2EC),
     (False, 0x2CCB4BB606689E, 0xFEA055EBFEA726),
     (True, 0x6DBD3D0A3F2186, 0xC952D92CA78EEA),
     (False, 0x36CF12A6CFBC90, 0x2D123800DB2A8B4),
     (False, 0x2BF3B8BF40A3C90, 0x2F0863B51F7960),
     (True, 0x14452F2FD63DB2, 0x7F0207E446B8BA),
     (False, 0x15D03A2F82F8B0, 0x1268CFE6C9A694),
     (True, 0x7EF22701AB792, 0x1F7901608562B82),
     (False, 0x156E6A8BFBD4E8B, 0x2629A5C1B5824FB),
     (False, 0x1F82C301A38C124, 0x1C43AE73708B6CD),
     (False, 0x1148DE35C68954E, 0x28A333DB162812F),
     (False, 0x23BAEF242E65CBA, 0x396AEEE1A6D5C3),
     (True, 0x18BEF79F7B0966, 0x26BD02D9A531B44),
     (False, 0x2077F3CCAAA6CA0, 0x12F149674C84130),
     (True, 0x829F3DA44F3992, 0x3DB66240AA57BA),
     (False, 0x526661412CDC3, 0xDD88C646B00033),
     (False, 0x425D9A8D56FCC9, 0x1BBD07F1CEB2D6),
     (False, 0x10A5B6B0D6793, 0x26A470132175503),
     (False, 0x204ECFA027C861B, 0x1D81E3BDDEE16D0),
     (False, 0x12D69DC707C8BA5, 0x1D500AA9C8978F9),
     (True, 0xCA21A4610E5CD1, 0x2DA334183FD4D87),
     (False, 0x2D104487C868149, 0x2BCEAACA8E11C5E)] =
    Some (0x2BCEAACA8E11C5E, 186562)"
  by code_simp

lemma chain_191039911_2:
  "power_chain (exact_division 0x2E3802C35C7ED3B) 0x13EB608199212C2 (0x2BCEAACA8E11C5E, 186562)
    [(False, 0x298588AB081E84A, 0x24C5D546ADDA776),
     (False, 0x1D41DF64C758EF0, 0x167AC42064B0914),
     (True, 0x9B03285C6A53F4, 0x1D239F3AA020BEC),
     (False, 0x125F004A7AB8B41, 0x41883B7742DC95),
     (True, 0x1C3E3EA12DC2D8, 0xCA3517BD51C322),
     (False, 0x374A87AD537EFB, 0x1A6D74859572DAB),
     (False, 0xF1C6FC4CE7C8AD, 0x2073D3DAB1275A),
     (True, 0xDFC84F9861E80, 0x265A16388B29EB4),
     (False, 0x1FD2F3CEC105312, 0x2DF9E78309DF6A),
     (False, 0x2DBC1FB75120C, 0x20676061B699320),
     (False, 0x16B7DB23B676193, 0x20032C1660301F),
     (True, 0xDCBF79214B2D7, 0x236EB24D47D62F1),
     (False, 0x1B29CEECA80BF7F, 0x2797B00E9E9B19C),
     (True, 0x11104B11027F94D, 0x60C5F3C1AFD279),
     (False, 0xCA9FE2A0B2DDE, 0x2BB03FA38DCA507),
     (True, 0x12D434182E5E717, 1)] =
    Some (1, 191039911)"
  by code_simp

lemma inverse_191039911:
  "(exact_division 0x2E3802C35C7ED3B)
    (product 0x13EB608199212C1 0x1DB8CF470F45437)
    0xCCF4175E547302 1"
  by code_simp

lemmas value_191039911 = power_chain_value [OF divides_out_exact(1) chain_191039911_2 power_chain_value [OF divides_out_exact(1) chain_191039911_1 power_value_start]]

theorem prime_208150935158385979: "prime_int 0x2E3802C35C7ED3B"
proof (rule prime_by_factors [where F = "191039911" and R = "1089567798" and s = "134368242"])
  fix r :: int assume r: "prime_int r" "r dvd 0x2E3802C35C7ED3B"
  have d191039911: "191039911 dvd r - 1"
    by (rule witness_factor [OF prime_191039911 value_191039911 divides_out_exact(1) inverse_191039911 _ _ r]) (simp_all)
  show "191039911 dvd r - 1" by (rule d191039911)
qed (simp_all)

lemma chain_208150935158385979_1:
  "power_chain (exact_division 0x87B23E9D09D3E637B2AA341) 0x7ABDBDCD50B580E230E79 (0x7ABDBDCD50B580E230E79, 1)
    [(False, 0x6F05DE70755868E7C12, 0x4176F414A47023B4DC67E9F),
     (False, 0x1F951C195F16C8D8AAB64FF, 0x770190754E741E054EBE502),
     (True, 0x6BA4FAAC50BF53CDCEB6E, 0x743836039C7B937DD408904),
     (False, 0x6389D49901121F4F4F74C4B, 0x5A367CFC83BE0267DA92805),
     (True, 0x5199A0FE15E71B54528C5, 0x85B565A272DA0B0FCFC6758),
     (False, 0x83C000C8A2E27538135A8C9, 0x6DE217CA5BDE736A1E61837),
     (True, 0x63647A697D2A76DB2D608, 0x3E53E11CEDEF4BCBE9A03F7),
     (False, 0x1CA0D008B97006E6160506F, 0x74E97154AC203ECD55A9F22),
     (False, 0x64BA52484075007A23CA464, 0x8762A058F8C65BB0859D720),
     (False, 0x871330CBF72A60CB27FB467, 0x1D82692E657AC6290D660D9),
     (False, 0x66AD52A9FDB675F556F5BC, 0x5121A2C5271976AE10C5F35),
     (True, 0x4962BBA628D09EDF27481, 0x64934306575E74613652E4C),
     (False, 0x4A8B5542D3BDE96E1F73EAC, 0x21EDF956E4B4E0C1F70F8E4),
     (True, 0x1EB0B69B1FF46DAE76D4A, 0x5DA4C215196286A1DB13DFA),
     (False, 0x409F873F107DBF29C9B579D, 0x11B32AB7CE4872CEBB8E247),
     (True, 0x1002921D83CA04B52A02B, 0x58761572EAEA761AC73C9A4),
     (False, 0x39AB207834678892B3AABB9, 0x144F739D0482193C3948C17),
     (False, 0x30A3A88A1AD16E485F7F8B, 0x5CE6C85E7FB503E6CFE46C6),
     (False, 0x3F9A5D411985DD1CFC99FAB, 0x4FB04D147E006B0168F75B9),
     (False, 0x2ECC3BCCC002331362FDDA5, 0xDF66128A94ADD9A67749CC),
     (False, 0x16FC8D70A520624AEC9808, 0x62EFDCD5333D83CCBE4888),
     (False, 0x4822B2587793F79327BD6, 0x19D8D1BFB3ECD6570A614EA),
     (False, 0x4EC593E1B9BB13D5B41D47, 0x16A88805BF6C3820527C1DD),
     (False, 0x3C890053EA9E90AD7BBBA4, 0x6C0345BE60F9320DC58E825)] =
    Some (0x6C0345BE60F9320DC58E825, 378624)"
  by code_simp

lemma chain_208150935158385979_2:
  "power_chain (exact_division 0x87B23E9D09D3E637B2AA341) 0x7ABDBDCD50B580E230E79 (0x6C0345BE60F9320DC58E825, 378624)
    [(False, 0x55FA1E3E918FD02963CFB75, 0x1EBEA99A08A0ABD9229BDA4),
     (False, 0x6F7429B29E9918104CE8F4, 0x3CA2836CD6276E0CB210F1C),
     (True, 0x36D88F51180B62961185F, 0xB614BC3A50EB5A7185FF1D),
     (False, 0xF452412B299E5B1D572A9, 0x498923A70A1DBBA9A6F1160),
     (False, 0x27D99B04C2B7415E05DECAE, 0x33CA56A0E584DC35E5601D2),
     (True, 0x2ED88C65ED0B24A134E5F, 0x571507DD1B96F8D6C12F523),
     (False, 0x37E2665F597AA22613DD38D, 0x3FFB8D1E0DBADD5692084FC),
     (True, 0x39DFC67548EAB3546632C, 0x187D7A1839CB95BACDC70F0),
     (False, 0x46B80208E25E09FF2ABA23, 0x34EA955FC8308387537551D),
     (False, 0x14A2A5EEBF4062AE1BA7B93, 0x409D714924DC8043C9C4BF6),
     (False, 0x1EC49A1144A7815BC0D7A6C, 0x50E429EC863AAAAC4336F8),
     (False, 0x30388D29E9A1C34F591FE, 0x40497F25427075845A2C4C2),
     (False, 0x1E74DBEA2ED1D447B2F0BF4, 0x5E24AD73B97649C32B3E10),
     (True, 0x5527C18CFB06C442172C, 0x727A3412C8A65AC1E444F64),
     (False, 0x609392ED871B300AD0EA0CA, 0x47A2F514F3E441405836DC6),
     (True, 0x40CC1D4A37A87309B0B8C, 0x3505DF3FB286D666881A40A),
     (False, 0x14B7F3DDED4245200AE770D, 0xD787D99CBD43CBD1F54F17),
     (False, 0x156558B3152A7B5329B012, 0x5D20180D62F8004D6D0097F),
     (True, 0x543C0CFAD6C0A4438A4D8, 0x314295EADDCD94F06F0C2F),
     (False, 0x11E1DC85C955346B3C700, 0x665FE186EEFE4169FFBE9A1),
     (False, 0x4D3C3E4AB88DCFE58688167, 0x4D684A37D7510C04019071A),
     (True, 0x4604677A574B834937F3E, 0x5E5ED8704E37B902121FE8C),
     (False, 0x41A15C9C430741BA6BD8499, 0x4A069B4BE4CD87B6F8C06B7),
     (True, 0x42F55E6827D9EE75B1312, 0xC3EBAC4A98A123CC59E0ED)] =
    Some (0xC3EBAC4A98A123CC59E0ED, 0x5C700586B)"
  by code_simp

lemma chain_208150935158385979_3:
  "power_chain (exact_division 0x87B23E9D09D3E637B2AA341) 0x7ABDBDCD50B580E230E79 (0xC3EBAC4A98A123CC59E0ED, 0x5C700586B)
    [(False, 0x11ADF9ED6D39A74B21A4A5, 0x443A98CC5FCB11618F7BE84),
     (True, 0x3DB70A0D4ADCDD0167503, 0x67B8C143C68F3A8D7DDA5A1),
     (False, 0x4F480A30D9091B6A4F83E30, 0x3C7733DA5F8C7D69AA29511),
     (False, 0x1AF176321A094D7384CEB80, 0x49B903FF3BA91420BD67FA1),
     (False, 0x280D8FADABC04B351EFB36E, 0xEB9982DD8C50EEBFA58A53),
     (False, 0x1990E0100CB5C8099A3810, 0x41CDFB56A12C172EF412AD9),
     (True, 0x3B85ACD1CEB95AC7CA878, 0x3AFF75D4DA8869FE934F019),
     (False, 0x19A6AAF571D9D9211F3446F, 0x148B9E51434A2D1EAC9D542),
     (True, 0x129579E516D114C518813, 0x3E1198C4F0417EA089FC25F),
     (False, 0x1C640CB35093965E0321CE8, 0x502D3D669431D12EA651059),
     (True, 0x4885AB790AE227DCC6058, 0x64965E0D529365B422819B9),
     (False, 0x4A8FEFD8EC5366AB30D6141, 0x850340B27DE1FE945699330),
     (True, 0x7850566779F3460660705, 0x3A96AF8661A3A5056513A6B),
     (False, 0x194BE04E2015314736B2BEA, 0x757952AAB71790ABB7A844F),
     (True, 0x6A422F82B501B9D62727B, 0x5E12105351EE68632E0791C),
     (False, 0x4136BC37ABBB8A7F269657A, 0x108A68952DE883B2DE80916),
     (True, 0xEF624F15AFC7FCD0B4C8, 0x7247A81EAD497120044409E),
     (False, 0x603E5CB4EA54191017B481C, 0x561108F65FE6DF43C703E68),
     (False, 0x3696A516B0C9134ACFD345D, 0x725923D89B61C87FF5307A3),
     (True, 0x676E65AB4CB84C82984E2, 0x627533E3D65DED388B7E2A9),
     (False, 0x477043FD63D9CDB25B807AB, 0x1A8392E851D49D53AA30026),
     (True, 0x17FB8E4814B60B5464704, 0x2A17FC61D47852C618791F2),
     (False, 0xD0EC47420AC1A4312CDB62, 0x65F2255FE77BBEA8448EEE2),
     (False, 0x4C9703691C610787DA49C68, 0x3C396379C8EE550F697111C)] =
    Some (0x3C396379C8EE550F697111C, 0x2E3802C35C7EC)"
  by code_simp

lemma chain_208150935158385979_4:
  "power_chain (exact_division 0x87B23E9D09D3E637B2AA341) 0x7ABDBDCD50B580E230E79 (0x3C396379C8EE550F697111C, 0x2E3802C35C7EC)
    [(True, 0x367978AF37C2753A8DD6A, 0x2D743BE682427A2AAEBE852),
     (False, 0xF39C6FD816374AA9F3639E, 0x1BAB60784A2FCA8E03AD526),
     (False, 0x5A459EC493C763C98A8EEB, 0x325604C1A59987705F456F9),
     (False, 0x12AC04E7F139BC0836B8D13, 0x15DCDC41D6C7BC482F4535E),
     (True, 0x13C6856D3810672C4377A, 0x649E13822A93C9500BBC774),
     (False, 0x4A9B5E01EF3E66D746A805E, 0x725D1B190C7365A66AB1AB2),
     (True, 0x6771FBFE57C8871EB8DBF, 0x2497E9078EE6A975645BFA3),
     (False, 0x9DE41DC5069607B8962DD7, 0x7FDEDBCAFF1BEC011BB1932),
     (True, 0x73A99F02D92F3AD1D9AF5, 0x6137BDEA165C6BED9454D6D),
     (False, 0x45A67BC2474660BFDD0BD0D, 0x42DE6D18B1E5D0F00AB791C),
     (False, 0x20F3AC99644AE7BDEEE8985, 0x8380ADB0B903C1911C0E14B),
     (True, 0x76F2AB84982E0E00C0DB3, 0x6567A02B7F2CEC207972300),
     (False, 0x4BC76E3B1B985A327C4CAF7, 0x414614E24CF7511EF103249),
     (True, 0x3B0ABFDA54D611842A280, 1)] =
    Some (1, 0x2E3802C35C7ED3B)"
  by code_simp

lemma inverse_208150935158385979:
  "(exact_division 0x87B23E9D09D3E637B2AA341)
    (product 0x7ABDBDCD50B580E230E78 0x693DE961C10A589C336A85A)
    0x5F31BBE910222CA6ACD6F 1"
  by code_simp

lemmas value_208150935158385979 = power_chain_value [OF divides_out_exact(1) chain_208150935158385979_4 power_chain_value [OF divides_out_exact(1) chain_208150935158385979_3 power_chain_value [OF divides_out_exact(1) chain_208150935158385979_2 power_chain_value [OF divides_out_exact(1) chain_208150935158385979_1 power_value_start]]]]

lemma prime_2624747550333869278416773953: "prime_int 0x87B23E9D09D3E637B2AA341"
  by (rule prime_by_large_factor [OF prime_208150935158385979 _ _ power_value_unit [OF value_208150935158385979] witness_unit [OF divides_out_exact(1) inverse_208150935158385979]]) simp_all

lemma chain_2624747550333869278416773953_1:
  "power_chain order_division 0xC0915601E1A4A1534A1B5BB0F18A5BE8C8606856C8892723C90C7158D2E5BAAF (0xC0915601E1A4A1534A1B5BB0F18A5BE8C8606856C8892723C90C7158D2E5BAAF, 1)
    [(False, 0x90DA5385EE58259F3390D485047059B429C010DB4A36CBA21CA13D4838BAA8E8, 0x92C59530E863439E2EEC20B420F28E96C720826BBF1FE21812DBF86E0207CA39),
     (False, 0x5425F6AB116ED06CC125F5760464EB18D1A722F8DC46DEC80D83CE28AAAAE698, 0xD2EE8F53ED3B3DA32CFCF6CBAE3D2422E7BF82276C917D40A781529412AD1299),
     (False, 0xADCC41752F4D6B46B1D4D6F9F0359268ED368095FBFB3DCAF39FCDDCDBD1E7C8, 0x2152E5F89DB30DE5109C11B75B74C22F04CD3127FF77CD4814FC29FB41E1A129),
     (False, 0x4567A223EDA66007276A4399E310498068910D3CF18A4921ED25C0111CB999E, 0x31A996AA839AD5CB7F12EB00D91E46229946106ABDE420484D44DC8082CD2793),
     (False, 0x9A25C0595D1A818395890A65DB6C76DB3039FB07F9B78391934E0930EFF51E7, 0x37ACF5129F6F30501F97EE93AFE9F34D0E9153E6FCD2BBF29D3B737CFD97D152),
     (True, 0x29E1537974150D99FA52A710C4B40D1849DE77B4625EF3CBE69F6B35C5BB9637, 0x67DF05B59151590112B0C921C6F18018FB21D358C70B7D45DF013EB642E230A7),
     (False, 0x2A2538E3378872AEF74B328F55553FF20C86A0CFDC33BE1C39C5941137640A9A, 0xBDEA16FB3366C74CAE5C9831437993D1AFE1B0A1A3ED54C04164B11C5E5D7037),
     (True, 0x8EDB62A202B7EF6916D8F35FE7CEB9947392E36218277F732FE994EB77AFBB05, 0x372F01F6A0A9EC29D0777813584018E1868AC597AA8CB97021DE80D96109C604),
     (False, 0xBE53B79BD811832DFC8CA2B0B804315C21B5CF88F16AC238371713B9381A638, 0xA8177A4443F03201DA7783240D3CE4FD0CEAC72592FA1DAC1CEDD9D8BCBE8058),
     (True, 0x7E7109791162CE8B0630EB3A2F3D264D3EA4C1066E120038910BD9AFEDE1E3C4, 0xA8C0A8D88A8D05A5A79D022164B1C55C2CA4D3585576BA6E34E28B187F014724),
     (False, 0x6F3D6E9A5943468EFEDEA19268EAF235C4A67152DEBAD6DAF5C26B6ACD2F8B01, 0x19142C1508C83641DF0CDECBB981EB576230D6F349E265F9BD4EFFEAD187DCBF),
     (True, 0x12DD5DE9C75B9882B4D12F50C21BC277FB54117BC0FED4138624D0AC2E6AF03D, 0x6D146C0020B7E6AB8924DABF9E0DCDEFCB02DEE7B5CB17C7A5334EC5FEF7D844),
     (False, 0x2E7A659957EC385E75D7DC4C0C65BB8F08135EF99E20CCDD78474C6CE7B78AC8, 0xCE950F0010980D4E7BE256B11A9BC617C9CD8B9108AB9A09452D9A7967100C8),
     (False, 0xA6B43AEF385D434A31080FD70D2FB20FF5D8C207FDD4AA7916705961A78D3D, 0x8F3E8C483E2F5C1FD522BFAA7DAA624BAD09E2F9233604F2C7C25F49488C1AF3),
     (True, 0x6BC03BC41FEFE27D371B412BE323007A2781580CDA29D813B88654BDCD2797A2, 0x9E3FDBFC86339323FE929928AE7DEE7CFCB1DB971848533C7FCB70BA16A295DB),
     (False, 0x61D2E37A1ACEA1314C934BC6714263C177BD5363278B709BCB3437F3119356D5, 0x40D57909A2C52D2116EE913371A68281797C7C37535CB389D9B230EE895A66F4),
     (True, 0x30C4E97929F203B69561D24B7F3687608C719D62A8FB6EF861D983E84FA7AD6D, 0x434D52DC47F5695877A56088482C95E0FA8585684589EA67B28D45E00698084F),
     (False, 0x11B190BA52B12B24E85BECD3748F2A3B99A4F8454C359D003056C65CF9E6FAD1, 0xF24906E9B65A1873C334C9B88A2B3B09A2C0BF8D8B6EA7EB28AA67C962EC7740),
     (False, 0xE54E25E7B38A456D485B6B5B221FBF7C98D742F0666E9B5958E4F6F633EB636B, 0xA664E5A3EAE6AAF3E785CA35EFD8F4FBCFF23D44A4BDE0E493E65FD6DC52A425),
     (False, 0x6C27019536D856B450A0470EBACA214B0ED1909B43E623276CC3B1156E50F27F, 0xB039C4C59E4FE6725245DEEEE69D26FC3E7AE47B2DD28120543C95AEC32D582A),
     (True, 0x848F5F81E2E2398E81BE6A5CC3387ACC3CBDF2CFEA7C42BFCD1430F686DE0208, 0x947AD9B9EEFA7EA251A73A35D23F07F6D35798F589CC58A36E4432F43FDFC2E),
     (False, 0x561E46B390D46E0F8BA643A69917153EAD45934B9E0C3F02E243FE64B24242, 0x5CDA150A4B41DB5212BDF8D271331DF4C92C5AD60A41C0F0C2459EA847D61762),
     (False, 0x21AD78E75F07AB7687DAE9E204D118AA6A2D08FE136682582FF8A46C95D70D8E, 0xB8EF0A62409C215BD6D54634D7A51B5FD50C4BE3DEB494075AA26F81F20FF196),
     (False, 0x85987E222659645DA981C4604C4784510DC3CED1B4FF4DC81081363F5FB60EBF, 0x3022A9BB9075FE49673A29CFBAE736A6B5E1F6C9993B7B787F38435D7AF67E75)] =
    Some (0x3022A9BB9075FE49673A29CFBAE736A6B5E1F6C9993B7B787F38435D7AF67E75, 138952)"
  by code_simp

lemma chain_2624747550333869278416773953_2:
  "power_chain order_division 0xC0915601E1A4A1534A1B5BB0F18A5BE8C8606856C8892723C90C7158D2E5BAAF (0x3022A9BB9075FE49673A29CFBAE736A6B5E1F6C9993B7B787F38435D7AF67E75, 138952)
    [(False, 0x90D0457E594D133166065F8CC0CD106726394F4800B0AE261D28C177044A649, 0x57B1F29E573E919B9092741EEFDC98A560C4186CD71169F6AB1AAAAE2F573760),
     (True, 0x41F73F37DB94864A2518C4DCE55811514EAE431B35987BB60DCE1DBABADF9E15, 0x4F9714CBD3DDD0CF440C516B0DDB1A4F1B440ECD659FB340F1C261D0C3018CFB),
     (False, 0x18BE97FF6FA5E9EFF12A247852F6E90EA80499C9B301AA68944DCAD7BEB57FBE, 0x2C8CE5BD47ED62C75AE6716933A79B460F909BE9A9A1B1AA839629E9C83B9CFB),
     (True, 0x2182F713E0A9B6C6E1E42851D7918451040E38ECE27FFEF95ACF17208CCB049B, 0x35614F078DDAC9A98B5088FB1EAD750BAE5853435ACD5558E77D2B85437DD18A),
     (False, 0xB216FB627FD30C93C0F153507191A1BB1743B75368C9D5EF64E97BD29D69AFE, 0xCB7554AB497584023B2741692501EF466729AF7327BEB2FECF1085F64EBEDE06),
     (True, 0x990B8150EE6416065042F8A4BCE0B5015655FF301E49435C7230B45370F7C1CD, 0x14D72A138B5BCC6B131C54D720ADDA66E062B48357F054A515AF33D9BD7A2F3D),
     (False, 0x1B2536AC3372AC4F2EBA943AE4EE8CF9DEA9B2375F21397A11AEE6C3798230A, 0x5FA41BE2EF29B8F267799ACB76C6DEC0E10560B36205AD8475E13F4D27C9EC5F),
     (True, 0x47F161001C29387BFB6E1D0EB2312A8BB5A3304BFCEFD2131DDA76BC39A69020, 0x9E2229A172F11C8F59D2CF8CD705E52DE457955D719EE35C3EE4068BAD860D1),
     (False, 0x61AE2FF2C13773E1EA84CFBB1ADC7804F5EE8EE2296A2BD8921BB130350B43, 0x3E529D42C1930DC702FD88F1F0FFD1EC731BCF6457B9A1CF0E7CABFBFEFB2B6E),
     (True, 0x2EE157AD88F5010238DF2E9E33A7F631EE9B4CC9E2151A0260C97D406CDDA067, 0xA55E91A2261924CAE6B977A401921F7E1563B89C2998118D4D8B3BDCFA82F89B),
     (False, 0x6AD30AAAB5DC846B96A1E1BCB4E9E8058BD70C6AF2F2AA11CF6E32BDA19BAD85, 0xA65F4DDA491275360B3EF9DA140CA70C526382BC6347978C4E8927CF82138DC4),
     (False, 0x6C1FBC726292F23CADF2E58B1A77E5DA126F3E447DFC6E015DFD1DE1D1152989, 0xA997DE2F9991AA3227642A27CFEEFCC60F7C19328D2DCCBE60537CE246EB8CB7),
     (True, 0x7F922EA34F6CD0023914FB0D5C8A520B6EB10B982B13A8BBAAC53D42F7B76F95, 0x2470A31805B1AC020645201A1576ED7307156D15ED9B85B9C8520791E62B4FF4),
     (False, 0x52FDF6DE3B66CC6448ABB406425DCD41D8F9600AA8C321E692669B4020EDC95, 0x3309FED8F5F388CE26EB003B3C923004B588A1210BDC5B5B5DA227599EBC2C6B),
     (False, 0xA2CFBEE65208F7F57AFEED228D930D48D3A53747CC6C9BD9E2ED946A26EE94C, 0x15E33A7DC7E373D42CCDD605AE2FBE789B39078A93CAEAE553B99694E3A927AD),
     (False, 0x1DF11496D181C098588EE92176CECCF7096F6D8DAC18C3E9A4FE637D999EDD3, 0xE3B5451233B6520D832DEE1B54C74C6006E6B883B9B84BA9E26FB98270E36C26),
     (True, 0xAB4939FB02FF658EBC43B946450E446207C2187ABE6CF546B2B3F206FB5D2ACE, 0x5A8614D5C9C8D2653DA2FF8333DB9996C549059A157DD95D83D79596FCB438CC),
     (False, 0x20028CE04365191C5CD0948E464A62D7BAF070A3021C51DF950422C5601B47F8, 0x4E1EC6F9E94530E50CE84CD1AAC01A14ED53AEFE61F498DBD3788F153C894518),
     (True, 0x3AC36EE9471678F09349E4391761B7AADACD14E992D8206F9795F6535ED4AFF0, 0xE793DB7E77AD0CC5BA0CCB6025E33CD472B3D333F81C34F971C19CD293F85078),
     (False, 0xD17C2B84DCE58889A665548CFDB296C23C19EF81C03B28B2DD94960FB97B2427, 0x4E18E7BAE87C8BE73B9CF615D627189C0F169E1885907BF508888399F68624E9),
     (True, 0x3ABF04249AC1EA4896AB3CAE922B18A9528E9F5E87273CDACECC613F4BE08984, 0x578C146D25B0B3A5DF005E254F02A59CB963F1E4782EFC0E6E4444818EF9EE83),
     (False, 0x1DF08288A69112547DB62C2D95476E78737EEDD5C1FD9F3FADE5BDD75C698892, 0xE7A808347ABE041DBBE78B8556290DD769CC2BF8BEDF8B4B3F69AD3E267686D7),
     (False, 0xD1A0AD1A4C48045A831705BB3963BFCCF33B922AFE8901924D03F5BF4AD46F5B, 0xB202547EB675B6CB6DBC79F3DE6F8C1D50E59A8DC903A1A2D1C7A6FA63B965C6),
     (True, 0x85E6CE7F81CFDBFD3A44BFB2EEB5E67D017D32A453E86E1B112FCBDCC99B0E0D, 0x42F0FC80AD07B8F876BD04C1BB7DF363D874D9D77F342C5A6F1CD35EE7AE1B3D)] =
    Some (0x42F0FC80AD07B8F876BD04C1BB7DF363D874D9D77F342C5A6F1CD35EE7AE1B3D, 2276605597)"
  by code_simp

lemma chain_2624747550333869278416773953_3:
  "power_chain order_division 0xC0915601E1A4A1534A1B5BB0F18A5BE8C8606856C8892723C90C7158D2E5BAAF (0x42F0FC80AD07B8F876BD04C1BB7DF363D874D9D77F342C5A6F1CD35EE7AE1B3D, 2276605597)
    [(False, 0x1181250CD50B243C6377AA82B0734163B3A727A26AA9FA64B16BA91C2E7997EF, 0x240F4A00E843E4469AD674EC149A1805D37CEDB85BBFC0BC28E04207D2F64EEA),
     (False, 0x5144DBA07E7242AB1593DB9FFA7EDBCFDCE0B89D6540D6C0FDC67A428EA7A42, 0x8632F8292BDF6BAB35FF3B1BECACA04E3CB3665975752672DF2D1D5A94A93502),
     (False, 0x465965F140EC398E3BAC23CF6168812AEA1965D017921605D6D94ED74E60A565, 0x87A0A1790F97F16D43DEA7FC00C62D46B76798EEC7730FE173B6435C3112E60F),
     (False, 0x47DACF18337A0C83CE09BA0B16B07EF852DC4A0D09D79E34E77E2D362EF9BA82, 0x35A3F4016838869B599EBFCB3AF30609199994399F8974A8A8BA66A0D99C27BF),
     (False, 0xB3D4C0942C21A6EAFEBD3DE84C784BFE4996FA80F5692DAAD88343633E2A0B4, 0x61BEBE1B25DEA5AD35A8481C5E24084D7226857045D7D6C15716AB7EC368E38D),
     (True, 0x49868C751F115986EECA7A1D9B874E6DCF3693C31026A9A8667F9463050C55DC, 0x3949AEE0532FEF37848864F2C0C4BC5A1035823551488DB614BD9E85DBC508C7),
     (False, 0xCD1E51525426499173909AAAC06A90D44EADCA35170CD227EC51B7BBD2640BD, 0x650E1193556DF917932CA5454518EFF3F911F0CB3EC40C719E07E43487063DE4),
     (False, 0x27E41AA4569F1F5BDB53C148EC34B6F5E41115040EA46AB54E7B1B2555831D40, 0x44CF3EAF6B3756D693AF648E619A0D27F732CCE0E95357FD0D4910E21C2FF1D0),
     (False, 0x127EC113B27CFAD69E163447D9524C0121CA90D9FEBB16FC06683E8571CBA586, 0x6D8C6952B3268EC2FA5958A414EB01E0C1A1848D19A743707031C337D39B8B9A),
     (True, 0x52678053FA18F14C81E96B1197A219CEA1766301D4220C90D6B6525D3CA499C3, 0x968807A84DE4E7F88A292FACA874A69A11347D75D597372E295C74737ACD7C93),
     (False, 0x5883B141B6D95737F124439455D5FA0A9D4057117795AB29597D959510F6A7A4, 0xF03172FE710FCA0BA4F2725ECE07429DE7BC957D01837CB10EA9F570935AFD85),
     (True, 0xB4AD72F40C202E83CDF244E6430B78BA1F53698F649F885F9334BBAEE05EF76C, 0x91F1FA1A4A80C51D2D4ED3BB7D27D54D0BAE777B670736E754F5413602CC0ABF),
     (False, 0x5334020AF57183FF8953D55F5B5D14D2C06CF30E404C959EAAB10EF102F727F3, 0x67EFA5954E7991E3840CEC1B49153AA638921B6876EB4E40496C54A2CCE8B79E),
     (True, 0x4E2EBDD857C7A39E498778A6F879AF3A138D0D02DF6A666253B614AF0F656417, 0x2A68A7BCFD2FF4A815064D3F5726F388C4FC0472D07700C804D4987F256352BB),
     (False, 0x70681D2C19012EA140B2C6BF1ABCD3C9EF20C70CFBA617E9606BA1F8D1A0D04, 0x9977799F493B4353A054CDC07106597715C0DDCF116AECC7C3F053B1C3B2A255),
     (False, 0x5C0007230D66E90B5100D83EB3253F9BBBB1D9408D57DB7C1424F9DEA0554EE9, 0x1B5EB572FFCEA18B8147D6A11FD5837F8C87AD32FDFFFE60643A59A3B3A30B80),
     (True, 0x149691ED1F079DE75DBD96603F5375BB693C11476A1326780B62D315DB20FF90, 0x6BB00282387B39A707F2D4FC24E586F6B7B9481A37F74965A446A4A9DD3F2FF0),
     (False, 0x2D4C9B1C7B9791DC8B1E30FD15FD2941F32217C337A81FF7F90CF2721797CF8F, 0xC3F83C531944A0881AC6CF4D593F759C1D24CFACBA8B88E065AA0F5690C4A9C1),
     (False, 0x96041C9C1DBAACF37873AFE7A6D6C101DC8A87A2057BDEE1BC35C0BFFE3C744E, 0xA1E0821BB62B6081FD4475489F165CCDD6B484C6C66369111E442418FFE50D3),
     (False, 0x665C288B341DABDB2E98EBD9E9647277A4FD5CD8DF5811130C81C581ED3AA0, 0x91311207927E46A228D011E37C014070E8A08FCA42D275483B01E51DA4CFE149),
     (True, 0x6D373B18DE99069D5DF1DB14DF6B1AE16DF1B1C26BC7253664562E4EB655E6D1, 0xE2F5A9F7BB555BA89E03ECC254C7B1552DC9741089F4EA5A88A6D9CB01B9CDC6),
     (False, 0xC936ABD8F4FEF8210E56FE32D2CE4E3ABE7A1031B1BDCF0AAAE0E080C909CE64, 0xCCCBA5D24776DB84AF261369007455B47E5B4C7EC8761EE8A676A2EF51F7F380),
     (True, 0x9A0D008526C399915B8DCC7DCED263A6E7E8286076C0A6F5BA8206A9251CF10B, 0xFD57AE180207F23634790D1FA343229E1FD36BCDC300011F1E63720308AA9905),
     (False, 0xFAB66C243970274C320BE2E5CE4C270810E833F448168DDE7CFAE4B3D4917CD1, 0xA8111464CD358B05E44006D86EB2941A9BFA81EB96CEDCC5EC6FDF3B9C3546F8)] =
    Some (0xA8111464CD358B05E44006D86EB2941A9BFA81EB96CEDCC5EC6FDF3B9C3546F8, 0x10F647D3A13A6)"
  by code_simp

lemma chain_2624747550333869278416773953_4:
  "power_chain order_division 0xC0915601E1A4A1534A1B5BB0F18A5BE8C8606856C8892723C90C7158D2E5BAAF (0xA8111464CD358B05E44006D86EB2941A9BFA81EB96CEDCC5EC6FDF3B9C3546F8, 0x10F647D3A13A6)
    [(True, 0x7E6C396F9E7AA6232871ACEC1CD18E5C7EA7BDA74352AC32A8D1FDBE4F675074, 0xF5B2046FBE151A354097E2F6C7B51D4330554C4466A4E4B794EA839F0EA67AD4),
     (False, 0xEBCE3848F91AA081793EACB397ADE054B6612E4517E9BB0D22E1653EE7BCFCAB, 0x362697D61305376EEA32DEDE214452F83A55F5326F883124EB59FE41086D1675),
     (True, 0x28BBAFEE14239FFBA40ECAE9E1DFD050A38103A0528AB8FB848500205F495115, 0xCE37944AD8E4F9B402B7270CCE53BE3FAE0EEB8264DCE7555D19B0B44F82AB56),
     (False, 0xA61D7EBA293DD3A55FB3F3D971D88455DC18F9B9E5A06E619CDE2FBDE82C7630, 0x4C368FE81AFECB6A3561AE1EFDC53B35695717E59F04E1C961018DD3B24DABB4),
     (True, 0x39543070B3C613C159A4A37888FA9AEAAC3FC2C9C7D7A379F7209AB6DA0B3130, 0xA38B4A033134EB9CBF902167FBC6F02A2A8E9991EAA26C0E03A994F9B0A6A7DC),
     (False, 0x687AAC09EE015807C699AE9AECB02374AFED08C3BFA77504721FFC63E5ED3150, 0x29CFD56CE2AED7486E8D382386A60B6390CB128B7A154B81F29D4B88C5439AC0),
     (False, 0x6D43B17BF75325411AA5432020EEB5ACA226CEA359005C669228F09E937EA83, 0xE6A34F5613B132301189E1DBF381A0362A67A716CEBEDF6A99E8086F59CC6D8D),
     (False, 0xCFC9DABD9B5F91A9ADDAF9915F1372FE46421E65282CB25B92F252859C998AC0, 0xF5B3579E21F24C8D3411243A3E8CAEDD60A953F9E5E4AEA5922CD2526BB6B8E9),
     (True, 0xB8D1FED8008C0B3FE9EECAB2233422B4AE722F164C0D521C16342F391E7DA658, 0xB9C8E161F4CA0521A73AFB4F90F204CF604195A72591F1507B6224542BDA576F),
     (False, 0x86D3F3610A1BC039B3BF1CE4FDE69DF50CA18322BEC1ECFA0BD18CAD3E3DC214, 0xD9DD559F1585EE92D2AFEB110C6301A8B3D62D1E151F84AAB914678AF49555CD),
     (True, 0xA3E1AFC767C9BDC1D74227FEA6EE1E6FFB842EF466D66BED2C3E874FD3528E92, 0x643E854B12936B2E5CF88A62175D931D84AD0358C81D512915216D6BF69D62F1),
     (False, 0x2740E767A38829DCB07680B0394F47D8D77A35255D0A5750008B23BBDA955BC8, 0x51A46B4895781DFEA5628C08C48793D735C66BF147D28C27776269AC8FF97499),
     (False, 0x1A09757DAA94BBE5F760520D3BA6BACD33D51214A270EB32BBCE1276F40892E0, 0xAFA6AE64DEACB6BB57A6D9499263CED5CB04DAF22365778D059AEC61342C2A91),
     (False, 0x78854EF502937F3727DF68ACCAC60EF253F02902FA58FB121AACFEBD25D4E4CE, 0x124064A9D011D999AACE1269AD4FE854B919D673A1FD0DF1325A7FCF8FD3BAF3),
     (False, 0x14D1E5A5F0CC51319486585A2D5D1190276393F21554375ADF0EF000C53547B, 0xED0245DBF42204A242EE4562DC63C9BFB2AEA75D905AAE0220F0298E7DF380BE),
     (True, 0xB248424FBC58A1235A9DC5FB124D2C6F9763A313685B3B5365034352B6332C6D, 0xFC44DA4A17CFBE478F03B4D92455A377D960D4D69F5AFC0A27E1B60885313E65),
     (False, 0xF897A04788F78B401E560EB3474308F8B1B79F836802BDD567ED797D5B09B507, 0xD48222F721A67BF26310C2EFFBBBAFF12C471DA14A5F74DE5D95AF89C8EDC9A2),
     (True, 0x9FDA3F550EA15DE0133FAE4AC15EC9C25301190D9BD2CC8323D2CD0EA5FF7100, 0x13D061A59249A8E3C1B518610F2FB39112DA90D40A88CF92EC2172543CCEC8BE),
     (False, 0x188981D678C22D35F679AD47802F6C18D870105CE5BEF5695FCA0D038A281A7, 0x8BB0CB17096EEFEE801CDC53F2306102DAABB5291131BDBB554AAB8CF74442D),
     (False, 0x4C3976A3314272C26EE4D40BFB83F809F4DF8BA751C8B39FC9178E89727413, 0x763EA1D81BCCD7BE28E35E2EF12F91E699D06612C40595993BD12BDC019976E6),
     (True, 0x58F21A960209CD7BE1F114EEAEBF5FD45F32EAF9756864FAD54ECD8A518377C8, 0x98FBB1449BC1222C4E242CC54086927D60706C07EB24ADA895F0FF92A2C894F2),
     (False, 0x5B6BD9F6EBAA91085E89C3D9356981DC5F01CFD4F96F6A981614AC62F138F243, 0x30922E612A2F22867DAADD15B172EF53979075EC54EFC86835DED54226D75E91),
     (True, 0x248935E6C02BFE0FE0CA7749AACA279327FFC38A6CD547CBC7CF1B14E78679F6, 0x9374A45BE834B8C4C83412C14BC3E8CD0EF52DC02C7423460B87BCF48E54DA49),
     (False, 0x54EF29E73E6C0862CE95315FD990FC9678EDE851AFAD4D8FD3AA9E91B7CBCF28, 0x37AC16F53CA23846D7A7F4226C443E94062826D16421C7AC957D15B8DD231529)] =
    Some (0x37AC16F53CA23846D7A7F4226C443E94062826D16421C7AC957D15B8DD231529, 0x87B23E9D09D3E636)"
  by code_simp

lemma chain_2624747550333869278416773953_5:
  "power_chain order_division 0xC0915601E1A4A1534A1B5BB0F18A5BE8C8606856C8892723C90C7158D2E5BAAF (0x37AC16F53CA23846D7A7F4226C443E94062826D16421C7AC957D15B8DD231529, 0x87B23E9D09D3E636)
    [(True, 0x29E0AC6550B635517AFC74A17BF22E10DC3249DEA13F237848E23B731B96E80A, 0x9963CAC218858E027431AA3066C1D5AB2A922E72E901F8419DDABB1E19E163DD),
     (False, 0x5BE86F42CFEDEC2929AF2421A4FB7B4119834B219BF7286108639F79DA1B44D7, 0xC4D51F0B962A0E1B42A86CC6F70D7CF2FAFCDF143C579E2833FAFE6CA4B5D1C2),
     (True, 0x940F9620E50016DF9C47F1B5F3EC16DC06E1AB0DE7CB106CF9C2BE865003774B, 0xD255F66F2485F329719F4AD5489B7BD264459614D156547FCD1973ABB1E3C1E3),
     (False, 0xACD1252C97C4F38183950FAB6C82C80902CDE26DAAC01C72B86E8D0B5FBAD3FA, 0x5F6D34766524FC1C78475E510889A13F42B462146AD6DA5FA6E89931F4FBDB2F),
     (False, 0x23923B85BA361FF9D4A1789CC710D62488DB4BBDD4727B3B4A733C6BF9BC07DA, 0x602B192DA3A2074A297A0D0E03215C8DC7B8F174EC03CF05E106CBAF4EE474A7),
     (True, 0x4856EB9AF54E475621DD2B0EAF37772217DE02975F64BFB353BC3647A02CDEF6, 0x2FADCBFC49BAA2966CF0CE51FFEC39CC0F94B858C52E8142B58BB08DB6C1FA53),
     (False, 0x8E146E401798A662E6E8E71F90841B685F8D8F9A01C320D451938DFDFF2E079, 0x5A5B36DD1C12DC17C95ED11081BE5E905B6EB86885E8C8E371A1A28D88D6B3A0),
     (True, 0x43F7B52B7AB085CF67CA4397CE0474E38626DD9D490E2550BB6B31AE2444F241, 0x5FC19224908CFAC9070673B23D18B8E9E6EBCEF35A4BE021668732D95B6FFECF),
     (False, 0x23D13CD4F5A98DA1EF7E6EB8752962380CF801B4707337CC1B2AF46A1B0A4A62, 0xFDFF19AAB16830DF32B3FD9C61CA47072CA9CFADD45137C56D80B321D839B85F),
     (False, 0xFC0236F0834A5D908104AACD35EED9F335123352CD1B82C98C70A5C81B808FFC, 0x7763AEA244C774B4D88953A72F20C4A06BB5730E4702621A192250EBE825B885),
     (False, 0x37ADD32B9C41704A0B52DFBE051B7B2FFC6351A532627B446B725767050E9949, 0x71EE80AE046820BB03BAB55B78A990228B2FC6778ED6815F7206A5FF12706800),
     (True, 0x55B38EE0B127003F992A28F29F3CD1FA6BDAFA06B1CED28B8CF1C77A8AE8A3C4, 0x65109DD9C8BDAB308FE64F7C93573A3853C15B31377F7476CC5FF1127653F2FC),
     (False, 0x27E61DA21CD9B7EA3F8002A0E97357312E6E7A4A2AC39596217A17EFBE18D59B, 0xD72270B67EFBA8248A0C340076F48B29F53FF9A71ABD88923DB6C64DDA5D6B05),
     (False, 0xB4CADDF5602F7E6FB4E988B7017D6F419AAA3C37551C1B13ED60FF87CE2E008B, 0x41D626FFD108ECAA09B9C35D41A4633C0CD492EC874EA54BA346C2EF85FBEB1E),
     (True, 0x3185FDAA9229BB65B167D7F84C7A66CE515C954E6A8E88A93C03FE9C2D9412C1, 0x4472E0E224F159F53853254FE5735042B80E3878F4DF477ED226D5A17EACB171),
     (False, 0x124D3B0544E2E22F33CCB96A0739024615EC21466BC7780D48C2AB006ED7C305, 0x9F7669EBBC5DFA34C57FA4E998123C05C78AE665D50F448D612084F08E72064C),
     (False, 0x63544E590875EB61517F0E7109DE739D87B5CE4B454BAA754F33B50FEEC67E5F, 0xB6666DE98AA11298546931954B947E49C3C911C67EF95447D806D3924C08EF81),
     (True, 0x89345FBBB28CE88F076679E2AE2639F14392AE75569FC118CE369CC5697FABB1, 0x67A1D8EBF5FED6BC79CC3654227A5F0020B26722538EFA3EA03227D511DB8B2E),
     (False, 0x29F3A2E09A8126D1CC3F1AC9072BBA980D08960A8C9FE57ACA383652E04129DE, 0x1810A13095788B6336838FD5CADAD05B1E1B5D336C0C4E7270AB94076FD9A706),
     (False, 0x2431F4DA9DA8DBBB20384A27B895711016750C59325848C9E16F167594C2B3F, 0x4FEDE51BCA339F2B7E8DB1967A2014EF7B07E532699E6599198439D7C86E0A35),
     (True, 0x3C1FCC6E59DCC337D6D61F0140BB32E0FF4251974973918ABE83E137823AB973, 0x4C05CA9501245BFB0AB00A9E62C072DFCBF1B47A4E2ADA448BCB0D5CF5312FD8),
     (False, 0x1693706A19628EFA5E729CB8F14D4F0DF66ECC48EB48CE24665B10223A3D3134, 0x7028097C281A686AED77BCECB8D79FAC9FF285C244DD8F54C52161864D0BF0CC),
     (False, 0x31230E8FCB60A93686A5850428C7AA3001CEC675514969AC66A0548B82BE7F39, 0x6D87C01A052B2C1D999D3AE36B505FE29315751BB43B1E15BD387AD61652A487),
     (True, 0x5263FEC40D9C8AF862EE715784ED72D12E9B344EE0BB3767E27A264B12AD616A, 0x87A51809143A9157F0CCC1837DC1C6BE3D2128E68C945300BF941A243CDD69BF)] =
    Some (0x87A51809143A9157F0CCC1837DC1C6BE3D2128E68C945300BF941A243CDD69BF, 0x43D91F4E84E9F31BD955)"
  by code_simp

lemma chain_2624747550333869278416773953_6:
  "power_chain order_division 0xC0915601E1A4A1534A1B5BB0F18A5BE8C8606856C8892723C90C7158D2E5BAAF (0x87A51809143A9157F0CCC1837DC1C6BE3D2128E68C945300BF941A243CDD69BF, 0x43D91F4E84E9F31BD955)
    [(False, 0x47DF89D1D92B16B91597D2629D3B51E5592FBEEC4B3CBEE001CEE8CE4CBB5B50, 0xF2B184C70772FC1B20A31644BF826B517DEC321EDD05E4C4EECB2B74DC09C831),
     (False, 0xE6141A22103FA6303A5A6CF0D7F917F82038E78FE7BFE369B26281731E498502, 0x74D0E5132BF96557B668F7DD4A5C4824299698A6FC5BD6BDFEA2A52E4ABC39BF),
     (False, 0x354DFA0EA14AC14655B604C9AA74DC2E5A4B14B369D84A3FE973527C3C653E63, 0x68877E5411623614968693479116903514542384D2DB4F8E3D3BDACAF738902E),
     (False, 0x2AAE5E5AF3CF5C98A4030A629C09F24B9034AB1EAE5861D5BC98102EEBBF92B5, 0xE0A78D537B201ED5D59BD141113991C4229AD56A451E3B8E0D5D6DBAF98333FF),
     (True, 0xA8FD346041C35D811583D71604C19D7169E4C9D0C94232CB8464B7C68DEB37E4, 0x8C31785734ED18C44AE8380604491908D93E27C987674C38F57F95ADA1E62E2D),
     (False, 0x4CC6252EF89D9A5C243A28A46D3C4B09922B92A180255F3586CF811068CCCCB9, 0xCC1B8C78F3D329639A24991B7983779EBD36BD739A04D41ED4A4AB9B9141B060),
     (True, 0x99888988A21CAA4B1879AF513E1AD1CFCD4AD0B4E5F0A4148B6801463D5642B2, 0x29D9B1CDB7A255F12D1FFE33DD1CED6EB465CB2891E376C0373CFB55A9287D4E),
     (False, 0x6D77412D5E8E20DDAF2D01CC925C91228DE55D63889F3498C373064FDB09BBA, 0x2847D31B544C4A79BD809B44C74F2559101EE44E24350E9D4093017A45641BEA),
     (False, 0x656861F57ED2F9752F482FFC4DA43BDDF8245E27EE68B6A4A74D59DA801048F, 0xA6E6CF9A9C9887CD6212496EAED507864FFBB308A9AE3831A747E9D0209315A5),
     (True, 0x7D8BDC82CD51E67877444EF4FFA88E905EEB4994E54861D8E5BA933DC863FFCB, 0x6BC746B8DE1D774817BF9CC7FD3960BD4C76B61D5F5C69607400A52C3DC16790),
     (False, 0x2D60303DBDFFC2BB6EDCAE56D1BF1F5B589EBDFEAA6B84670F19C3A3713E0D41, 0xDD13647C7942FC7CDCFA747EA78C3629F6715F4119A73A9DFE513B9608559A6F),
     (False, 0xBEEA7CF7BA33A01A12F0E74140C2CC4B6A2612666ACB011E0E4F1EB5AB45E363, 0x90B920FF319C35EEC6584EA111FF3A19443EB94C24B92AEE50C32A3C2C9C7ACE),
     (False, 0x51D0CB001EB7063D4B708E906BA5DC82B78D7502971F88DC08A31052EA5367CA, 0x4CEA6B085F800DADD6318FAA86C525C84EB9462AB1250B46C17C68D28876F4DA),
     (False, 0x171C0634E7DEA48830CC145AB16C7DF836DC374A681FF8F6AA68B8691E98B5C9, 0xB2BE2C2ECA3B79DD63F707966AF89AA3AEB46E8249A3FA9C090F621559D5B80B),
     (False, 0x7CCD02B72B1C068930F8BD1E151899463A1DB690CBABFA6E42390F3D2AF3E2DF, 0xE3677BE592ED7D2B3AE08A74ADFB43C3E8F1C82632D8C699E89AADFF556BCCEA),
     (False, 0xCA00AF8EDB447FB3DBF49F60C049EE73555AAA7335F25753815DCE8302F0FF03, 0x873753A57BE30C001D3F4191247AE4A70B9BB616CF9FFDE0CEA3FE43FE5CA6F1),
     (True, 0x65B6428077DB378987A59ADFF32FB92D41F902A1B395B5F93A485AA69398F55E, 1)] =
    Some (1, 0x87B23E9D09D3E637B2AA341)"
  by code_simp

lemma inverse_2624747550333869278416773953:
  "order_division
    (product 0xC0915601E1A4A1534A1B5BB0F18A5BE8C8606856C8892723C90C7158D2E5BAAE 0x72CA5F0D48545C9059C0D962203775545C6248BF5EC7809BBA828EC3264E8033)
    0x5658F27AF704B48F20DF8130D6D5E1616F124512BC9C2AC4ADA8778EA6A3DFD9 1"
  by code_simp

lemmas value_2624747550333869278416773953 = power_chain_value [OF divides_out_exact(3) chain_2624747550333869278416773953_6 power_chain_value [OF divides_out_exact(3) chain_2624747550333869278416773953_5 power_chain_value [OF divides_out_exact(3) chain_2624747550333869278416773953_4 power_chain_value [OF divides_out_exact(3) chain_2624747550333869278416773953_3 power_chain_value [OF divides_out_exact(3) chain_2624747550333869278416773953_2 power_chain_value [OF divides_out_exact(3) chain_2624747550333869278416773953_1 power_value_start]]]]]]

theorem prime_group_order: "prime_int group_order"
proof (rule prime_by_factors [where F = "0x87B23E9D09D3E637B2AA341" and R = "0x1E2F6018E5D57B5F98BBC79DC38587FB30A494E150" and s = "0x599CA035CE0842B9F8AEB2E"])
  fix r :: int assume r: "prime_int r" "r dvd group_order"
  have d2624747550333869278416773953: "0x87B23E9D09D3E637B2AA341 dvd r - 1"
    by (rule witness_factor [OF prime_2624747550333869278416773953 value_2624747550333869278416773953 divides_out_exact(3) inverse_2624747550333869278416773953 _ _ r]) (simp_all add: group_order_def)
  show "0x87B23E9D09D3E637B2AA341 dvd r - 1" by (rule d2624747550333869278416773953)
qed (simp_all add: group_order_def)

end
