(* ===== verification/PrimeField.thy ===== *)
theory PrimeField
  imports CurvePrimes P256
begin

text \<open>
  The field of secp256r1 as a type of class \<open>field\<close>, and the words of the contracts as
  representatives of its elements: \<open>mulmod\<close> and \<open>addmod\<close> are its operations, and the modular
  exponentiation of \<open>P256Verifier\<close> is its inverse.
\<close>

section \<open>The field\<close>

typedef fp = "{0..<field_prime}"
proof
  show "0 \<in> {0..<field_prime}" by (simp add: field_prime_def)
qed

setup_lifting type_definition_fp

lemma field_prime_gt_1: "1 < field_prime"
  by (simp add: field_prime_def)

lemma mod_field_prime: "k mod field_prime \<in> {0..<field_prime}"
  using field_prime_gt_1 by simp

lift_definition fp_of_int :: "int \<Rightarrow> fp" is "\<lambda>k. k mod field_prime"
  by (rule mod_field_prime)

lemma fp_of_int_eq_iff: "fp_of_int k = fp_of_int l \<longleftrightarrow> k mod field_prime = l mod field_prime"
  by transfer (rule refl)

lemma fp_cases: "\<exists>k. 0 \<le> k \<and> k < field_prime \<and> a = fp_of_int k"
  by transfer (auto intro: exI [where x = "_ :: int"])

instantiation fp :: field
begin

lift_definition zero_fp :: fp is "0" using field_prime_gt_1 by simp

lift_definition one_fp :: fp is "1" using field_prime_gt_1 by simp

lift_definition plus_fp :: "fp \<Rightarrow> fp \<Rightarrow> fp" is "\<lambda>k l. (k + l) mod field_prime" by (rule mod_field_prime)

lift_definition minus_fp :: "fp \<Rightarrow> fp \<Rightarrow> fp" is "\<lambda>k l. (k - l) mod field_prime" by (rule mod_field_prime)

lift_definition uminus_fp :: "fp \<Rightarrow> fp" is "\<lambda>k. (- k) mod field_prime" by (rule mod_field_prime)

lift_definition times_fp :: "fp \<Rightarrow> fp \<Rightarrow> fp" is "\<lambda>k l. (k * l) mod field_prime" by (rule mod_field_prime)

lift_definition inverse_fp :: "fp \<Rightarrow> fp" is "\<lambda>k. k ^ nat (field_prime - 2) mod field_prime" by (rule mod_field_prime)

definition divide_fp :: "fp \<Rightarrow> fp \<Rightarrow> fp" where "divide_fp a b = a * inverse b"

instance
proof
  fix a b c :: fp
  show "a * b * c = a * (b * c)" by transfer (simp add: mod_mult_left_eq mod_mult_right_eq mult.assoc)
  show "a * b = b * a" by transfer (simp add: mult.commute)
  show "1 * a = a" by transfer simp
  show "a + b + c = a + (b + c)" by transfer (simp add: mod_add_left_eq mod_add_right_eq add.assoc)
  show "a + b = b + a" by transfer (simp add: add.commute)
  show "0 + a = a" by transfer simp
  show "- a + a = 0" by transfer (simp add: mod_add_left_eq)
  show "a - b = a + - b" by transfer (simp add: mod_add_right_eq)
  show "(a + b) * c = a * c + b * c" by transfer (simp add: mod_mult_left_eq mod_add_eq distrib_right)
  show "(0 :: fp) \<noteq> 1" by transfer simp
  show "a div b = a * inverse b" by (rule divide_fp_def)
  show "inverse (0 :: fp) = 0" by transfer (simp add: power_0_left field_prime_def)
  show "a \<noteq> 0 \<Longrightarrow> inverse a * a = 1"
  proof transfer
    fix k assume k: "k \<in> {0..<field_prime}" "k \<noteq> 0"
    then have "\<not> field_prime dvd k" by (auto dest: zdvd_imp_le)
    then have "k ^ nat (field_prime - 1) mod field_prime = 1" by (rule fermat_little [OF prime_field_prime])
    moreover have "nat (field_prime - 1) = Suc (nat (field_prime - 2))"
      by (simp only: field_prime_def)
    then have "k ^ nat (field_prime - 1) = k ^ nat (field_prime - 2) * k" by (simp only: power_Suc2)
    ultimately show "k ^ nat (field_prime - 2) mod field_prime * k mod field_prime = 1"
      by (simp only: mod_mult_left_eq)
  qed
qed

end

section \<open>Representatives\<close>

lemma fp_of_int_ring:
  "fp_of_int 0 = 0" "fp_of_int 1 = 1" "fp_of_int (k + l) = fp_of_int k + fp_of_int l"
  "fp_of_int (k - l) = fp_of_int k - fp_of_int l" "fp_of_int (k * l) = fp_of_int k * fp_of_int l"
  "fp_of_int (- k) = - fp_of_int k"
  using field_prime_gt_1
  by (transfer; simp add: mod_add_eq mod_diff_eq mod_mult_eq mod_minus_eq)+

lemma fp_of_nat: "fp_of_int (of_nat n) = of_nat n"
  by (induction n) (simp_all add: fp_of_int_ring)

lemma fp_of_int_eq: "fp_of_int k = of_int k"
  by (cases k rule: int_cases) (simp_all only: fp_of_nat fp_of_int_ring of_int_of_nat_eq of_int_minus)

lemma of_int_fp_eq_iff: "(of_int k :: fp) = of_int l \<longleftrightarrow> k mod field_prime = l mod field_prime"
  using fp_of_int_eq_iff by (simp only: fp_of_int_eq)

lemma of_int_fp_eq_0_iff: "(of_int k :: fp) = 0 \<longleftrightarrow> field_prime dvd k"
  using of_int_fp_eq_iff [of k 0] by (simp add: dvd_eq_mod_eq_0)

lemma field_prime_P256_p: "field_prime = uint P256_p"
  by (simp add: field_prime_def P256_p_def)

definition fp_word :: "uint256 \<Rightarrow> fp" where
  "fp_word w = of_int (uint w)"

lemma rep_iff_fp: "rep w k \<longleftrightarrow> fp_word w = of_int k"
  by (simp only: rep_iff fp_word_def of_int_fp_eq_iff field_prime_P256_p)

lemma fp_word_inj: "v < P256_p \<Longrightarrow> w < P256_p \<Longrightarrow> fp_word v = fp_word w \<longleftrightarrow> v = w"
  unfolding fp_word_def of_int_fp_eq_iff field_prime_P256_p word_less_def word_uint_eq_iff by simp

lemma fp_word_0_iff: "w < P256_p \<Longrightarrow> fp_word w = 0 \<longleftrightarrow> w = 0"
  using fp_word_inj [of w 0] P256_p_pos by (simp add: fp_word_def)

lemma fp_word_simps [simp]: "fp_word 0 = 0" "fp_word 1 = 1" "fp_word 2 = 2"
  by (simp_all add: fp_word_def)

lemma fp_word_mulmod: "fp_word (mulmod v w P256_p) = fp_word v * fp_word w"
  using rep_mulmod [OF rep_uint rep_uint, of v w] by (simp add: rep_iff_fp fp_word_def)

lemma fp_word_addmod: "fp_word (addmod v w P256_p) = fp_word v + fp_word w"
  using rep_addmod [OF rep_uint rep_uint, of v w] by (simp add: rep_iff_fp fp_word_def)

text \<open>The exponentiation of the contract is the inverse of the field.\<close>

lemma fp_word_pModInv: "fp_word (pModInv w) = inverse (fp_word w)"
proof -
  have "P256_p \<noteq> 0" using P256_p_pos by auto
  have exp: "unat minus_2modp = nat (field_prime - 2)" by (simp add: minus_2modp_def field_prime_def)
  have "uint (pModInv w) = uint w ^ nat (field_prime - 2) mod field_prime"
    using unat_modInv [OF \<open>P256_p \<noteq> 0\<close>, of w minus_2modp]
    unfolding pModInv_def exp field_prime_P256_p
    by (metis nat_int of_nat_mod of_nat_power uint_nat)
  then have "fp_word (pModInv w) = fp_of_int (uint w ^ nat (field_prime - 2))"
    by (simp add: fp_word_def fp_of_int_eq of_int_fp_eq_iff flip: of_int_power)
  also have "\<dots> = inverse (fp_of_int (uint w))" by transfer (simp only: power_mod mod_mod_trivial)
  finally show ?thesis by (simp only: fp_of_int_eq fp_word_def)
qed

end
