(* ===== verification/CurveGroup.thy ===== *)
theory CurveGroup
  imports PrimeField
begin

text \<open>
  The curve secp256r1 with the chord and tangent law in affine coordinates, as textbooks and FIPS 186
  give it, and the proof that it is an abelian group. A chord and a tangent are treated alike: both
  have a slope that satisfies the two equations of \<open>slope\<close>, and the slope determines the sum.
\<close>

section \<open>The chord and tangent law\<close>

datatype point = Infinity | Point fp fp

definition curve_a :: fp where "curve_a = fp_word P256_a"

definition curve_b :: fp where "curve_b = fp_word P256_b"

fun on_curve :: "point \<Rightarrow> bool" where
  "on_curve Infinity \<longleftrightarrow> True"
| "on_curve (Point x y) \<longleftrightarrow> y ^ 2 = x ^ 3 + curve_a * x + curve_b"

fun ec_double :: "point \<Rightarrow> point" where
  "ec_double Infinity = Infinity"
| "ec_double (Point x y) =
     (if y = 0 then Infinity
      else let l = (3 * x ^ 2 + curve_a) / (2 * y); x3 = l ^ 2 - 2 * x in Point x3 (l * (x - x3) - y))"

fun ec_add :: "point \<Rightarrow> point \<Rightarrow> point" where
  "ec_add Infinity Q = Q"
| "ec_add P Infinity = P"
| "ec_add (Point x1 y1) (Point x2 y2) =
     (if x1 = x2 then if y1 = y2 then ec_double (Point x1 y1) else Infinity
      else let l = (y2 - y1) / (x2 - x1); x3 = l ^ 2 - x1 - x2 in Point x3 (l * (x1 - x3) - y1))"

fun ec_neg :: "point \<Rightarrow> point" where
  "ec_neg Infinity = Infinity"
| "ec_neg (Point x y) = Point x (- y)"

lemma ec_add_Infinity [simp]: "ec_add P Infinity = P"
  by (cases P) simp_all

lemma ec_neg_neg [simp]: "ec_neg (ec_neg P) = P"
  by (cases P) simp_all

lemma on_curve_neg [simp]: "on_curve (ec_neg P) = on_curve P"
  by (cases P) simp_all

lemma fp_two: "(2 :: fp) \<noteq> 0" "(4 :: fp) \<noteq> 0" "(8 :: fp) \<noteq> 0"
  using of_int_fp_eq_0_iff [of 2] of_int_fp_eq_0_iff [of 4] of_int_fp_eq_0_iff [of 8]
  by (auto simp: field_prime_def dest: zdvd_imp_le)

section \<open>Slopes\<close>

definition slope :: "fp \<Rightarrow> fp \<Rightarrow> fp \<Rightarrow> fp \<Rightarrow> fp \<Rightarrow> bool" where
  "slope x1 y1 x2 y2 l \<longleftrightarrow>
     y2 - y1 = l * (x2 - x1) \<and> l * (y1 + y2) = x1 ^ 2 + x1 * x2 + x2 ^ 2 + curve_a"

definition line_sum :: "fp \<Rightarrow> fp \<Rightarrow> fp \<Rightarrow> fp \<Rightarrow> point" where
  "line_sum x1 y1 x2 l = (let x3 = l ^ 2 - x1 - x2 in Point x3 (l * (x1 - x3) - y1))"

lemma same_x:
  assumes "on_curve (Point x y)" "on_curve (Point x y')"
  shows "y' = y \<or> y' = - y"
proof -
  have "(y' - y) * (y' + y) = 0" using assms by (simp add: algebra_simps power2_eq_square)
  then show ?thesis by (auto simp: eq_neg_iff_add_eq_0)
qed

lemma slope_exists:
  assumes "on_curve (Point x1 y1)" "on_curve (Point x2 y2)" "Point x2 y2 \<noteq> ec_neg (Point x1 y1)"
  shows "\<exists>l. slope x1 y1 x2 y2 l"
proof (cases "x1 = x2")
  case True
  then have "y2 = y1" "y1 \<noteq> 0" using same_x [of x1 y1 y2] assms by auto
  then show ?thesis
    using True fp_two by (intro exI [of _ "(3 * x1 ^ 2 + curve_a) / (2 * y1)"]) (simp add: slope_def field_simps power2_eq_square)
next
  case False
  have "(y2 - y1) * (y1 + y2) = (x2 - x1) * (x1 ^ 2 + x1 * x2 + x2 ^ 2 + curve_a)"
    using assms(1,2) by (simp add: algebra_simps power2_eq_square power3_eq_cube)
  then show ?thesis
    using False by (intro exI [of _ "(y2 - y1) / (x2 - x1)"]) (simp add: slope_def field_simps)
qed

lemma ec_add_slope:
  assumes "slope x1 y1 x2 y2 l" "Point x2 y2 \<noteq> ec_neg (Point x1 y1)"
  shows "ec_add (Point x1 y1) (Point x2 y2) = line_sum x1 y1 x2 l"
proof (cases "x1 = x2")
  case True
  then have "y2 = y1" using assms(1) by (simp add: slope_def)
  then have "y1 \<noteq> 0" using assms(2) True by auto
  have l: "(3 * x1 ^ 2 + curve_a) / (2 * y1) = l"
    using assms(1) True \<open>y2 = y1\<close> \<open>y1 \<noteq> 0\<close> fp_two by (simp add: slope_def field_simps power2_eq_square)
  have "l ^ 2 - 2 * x1 = l ^ 2 - x1 - x1" by simp
  then show ?thesis
    using True [symmetric] \<open>y2 = y1\<close> \<open>y1 \<noteq> 0\<close>
    by (simp only: ec_add.simps ec_double.simps l line_sum_def if_True if_False Let_def refl)
next
  case False
  then have "(y2 - y1) / (x2 - x1) = l" using assms(1) by (simp add: slope_def field_simps)
  then show ?thesis using False by (simp only: ec_add.simps line_sum_def if_False Let_def)
qed

lemma ec_add_cases:
  assumes "on_curve (Point x1 y1)" "on_curve (Point x2 y2)" "Point x2 y2 \<noteq> ec_neg (Point x1 y1)"
  obtains l where "slope x1 y1 x2 y2 l" "ec_add (Point x1 y1) (Point x2 y2) = line_sum x1 y1 x2 l"
  using slope_exists [OF assms] ec_add_slope assms(3) by blast

lemma ec_add_neg: "ec_add P (ec_neg P) = Infinity"
proof (cases P)
  case (Point x y)
  have "y = - y \<longleftrightarrow> y = 0" using fp_two(1) by (metis add.inverse_neutral eq_neg_iff_add_eq_0 mult_2 mult_eq_0_iff)
  then show ?thesis by (simp add: Point)
qed simp

lemma slope_sym: "slope x1 y1 x2 y2 l \<Longrightarrow> slope x2 y2 x1 y1 l"
  unfolding slope_def by (auto simp: algebra_simps) 

lemma line_sum_sym: "slope x1 y1 x2 y2 l \<Longrightarrow> line_sum x1 y1 x2 l = line_sum x2 y2 x1 l"
  by (simp add: line_sum_def slope_def Let_def algebra_simps)

lemma line_sum_on_curve:
  assumes "on_curve (Point x1 y1)" "slope x1 y1 x2 y2 l"
  shows "on_curve (line_sum x1 y1 x2 l)"
proof -
  have 1: "y1 ^ 2 = x1 ^ 3 + curve_a * x1 + curve_b" using assms(1) by simp
  have 2: "y2 = y1 + l * (x2 - x1)" and 3: "l * (y1 + y2) = x1 ^ 2 + x1 * x2 + x2 ^ 2 + curve_a"
    using assms(2) by (simp_all add: slope_def algebra_simps)
  have 4: "curve_a = l * (2 * y1 + l * (x2 - x1)) - x1 ^ 2 - x1 * x2 - x2 ^ 2"
    using 3 unfolding 2 by (simp add: algebra_simps)
  have 5: "curve_b = y1 ^ 2 - x1 ^ 3 - curve_a * x1" using 1 by simp
  show ?thesis unfolding line_sum_def Let_def on_curve.simps 5 4 by algebra
qed

lemma ec_add_comm: "on_curve P \<Longrightarrow> on_curve Q \<Longrightarrow> ec_add P Q = ec_add Q P"
proof (cases "P = Infinity \<or> Q = Infinity \<or> Q = ec_neg P")
  case True
  then show ?thesis using ec_add_neg [of P] ec_add_neg [of "ec_neg P"] by auto
next
  case False
  assume c: "on_curve P" "on_curve Q"
  from False obtain x1 y1 x2 y2 where P: "P = Point x1 y1" "Q = Point x2 y2" by (meson point.exhaust)
  have ne: "Point x2 y2 \<noteq> ec_neg (Point x1 y1)" "Point x1 y1 \<noteq> ec_neg (Point x2 y2)" using False P by auto
  obtain l where "slope x1 y1 x2 y2 l" using slope_exists c ne(1) unfolding P by blast
  then show ?thesis
    unfolding P using ec_add_slope ne slope_sym line_sum_sym by metis
qed

lemma ec_add_on_curve: "on_curve P \<Longrightarrow> on_curve Q \<Longrightarrow> on_curve (ec_add P Q)"
proof (cases "P = Infinity \<or> Q = Infinity \<or> Q = ec_neg P")
  case True
  assume "on_curve P" "on_curve Q"
  then show ?thesis using True ec_add_neg [of P] by auto
next
  case False
  assume c: "on_curve P" "on_curve Q"
  from False obtain x1 y1 x2 y2 where P: "P = Point x1 y1" "Q = Point x2 y2" by (meson point.exhaust)
  have "Point x2 y2 \<noteq> ec_neg (Point x1 y1)" using False P by auto
  then show ?thesis using ec_add_cases [of x1 y1 x2 y2] c line_sum_on_curve unfolding P by metis
qed

lemma ec_add_not_Infinity:
  "on_curve P \<Longrightarrow> on_curve Q \<Longrightarrow> ec_add P Q = Infinity \<longleftrightarrow> Q = ec_neg P"
proof (cases "P = Infinity \<or> Q = Infinity")
  case True
  then show ?thesis by (cases P; cases Q) auto
next
  case False
  assume c: "on_curve P" "on_curve Q"
  from False obtain x1 y1 x2 y2 where P: "P = Point x1 y1" "Q = Point x2 y2" by (meson point.exhaust)
  show ?thesis
    using ec_add_cases [of x1 y1 x2 y2] c ec_add_neg [of P] unfolding P line_sum_def Let_def by (metis point.distinct(1))
qed

section \<open>Inverses\<close>

text \<open>The curve has no singular point.\<close>

lemma curve_a_eq: "curve_a = - 3"
proof -
  have "(of_int (uint P256_a) :: fp) = of_int (- 3)"
    unfolding of_int_fp_eq_iff by (simp add: P256_a_def field_prime_def)
  then show ?thesis by (simp add: curve_a_def fp_word_def)
qed

lemma curve_b_not_2: "curve_b \<noteq> 2" "curve_b \<noteq> - 2"
proof -
  have "(of_int (uint P256_b) :: fp) \<noteq> of_int 2" "(of_int (uint P256_b) :: fp) \<noteq> of_int (- 2)"
    unfolding of_int_fp_eq_iff by (simp_all add: P256_b_def field_prime_def)
  then show "curve_b \<noteq> 2" "curve_b \<noteq> - 2" by (simp_all only: curve_b_def fp_word_def of_int_minus of_int_numeral not_False_eq_True)
qed

lemma fp_three: "(3 :: fp) \<noteq> 0"
  using of_int_fp_eq_0_iff [of 3] by (auto simp: field_prime_def dest: zdvd_imp_le)

lemma nonsingular:
  assumes "on_curve (Point x 0)"
  shows "3 * x ^ 2 + curve_a \<noteq> 0"
proof
  assume "3 * x ^ 2 + curve_a = 0"
  then have "3 * ((x - 1) * (x + 1)) = 0" unfolding curve_a_eq by algebra
  then have "x = 1 \<or> x = - 1" using fp_three by (auto simp: eq_neg_iff_add_eq_0)
  moreover have "0 = x ^ 3 + - 3 * x + curve_b" using assms by (simp add: curve_a_eq)
  then have "curve_b = 3 * x - x ^ 3" by algebra
  ultimately show False using curve_b_not_2 by (auto simp: power3_eq_cube)
qed

lemma fp_eq_neg_iff: "y = - y \<longleftrightarrow> y = 0" for y :: fp
  using fp_two(1) by (metis add.inverse_neutral eq_neg_iff_add_eq_0 mult_2 mult_eq_0_iff)

lemma slope_back:
  assumes "slope x1 y1 x2 y2 l" and x3: "x3 = l ^ 2 - x1 - x2" and y3: "y3 = l * (x1 - x3) - y1"
  shows "slope x1 (- y1) x3 y3 (- l)" "line_sum x1 (- y1) x3 (- l) = Point x2 y2"
proof -
  have 1: "y2 = y1 + l * (x2 - x1)" and 2: "l * (y1 + y2) = x1 ^ 2 + x1 * x2 + x2 ^ 2 + curve_a"
    using assms(1) by (simp_all add: slope_def algebra_simps)
  show "line_sum x1 (- y1) x3 (- l) = Point x2 y2"
    unfolding line_sum_def Let_def point.inject x3 1 by (simp add: algebra_simps)
  have a: "curve_a = l * (2 * y1 + l * (x2 - x1)) - x1 ^ 2 - x1 * x2 - x2 ^ 2" using 2 unfolding 1 by algebra
  show "slope x1 (- y1) x3 y3 (- l)" unfolding slope_def a y3 x3 by (simp add: algebra_simps power2_eq_square)
qed

lemma ec_add_cancel:
  assumes "on_curve P" "on_curve Q"
  shows "ec_add (ec_neg P) (ec_add P Q) = Q"
proof (cases "P = Infinity \<or> Q = Infinity \<or> Q = ec_neg P")
  case True
  then show ?thesis using ec_add_neg [of P] ec_add_neg [of "ec_neg P"] ec_add_comm assms by auto
next
  case False
  then obtain x1 y1 x2 y2 where P: "P = Point x1 y1" "Q = Point x2 y2" by (meson point.exhaust)
  have "Point x2 y2 \<noteq> ec_neg (Point x1 y1)" using False P by auto
  then obtain l where l: "slope x1 y1 x2 y2 l" "ec_add P Q = line_sum x1 y1 x2 l"
    using ec_add_cases [of x1 y1 x2 y2] assms unfolding P by blast
  define x3 y3 where "x3 = l ^ 2 - x1 - x2" and "y3 = l * (x1 - x3) - y1"
  note bk = slope_back [OF l(1) x3_def y3_def]
  have "Point x3 y3 \<noteq> ec_neg (Point x1 (- y1))"
  proof
    assume "Point x3 y3 = ec_neg (Point x1 (- y1))"
    then have eq: "x3 = x1" "y3 = y1" by simp_all
    then have "y1 = 0" using y3_def fp_eq_neg_iff by simp
    moreover have "3 * x1 ^ 2 + curve_a = 0" using bk(1) eq \<open>y1 = 0\<close> by (simp add: slope_def power2_eq_square)
    ultimately show False using nonsingular assms(1) P by metis
  qed
  from ec_add_slope [OF bk(1) this] show ?thesis
    unfolding l(2) line_sum_def [of x1 y1] Let_def x3_def [symmetric] y3_def [symmetric] by (simp add: P bk(2))
qed

section \<open>Associativity\<close>

lemma three_slopes:
  assumes l: "slope x1 y1 x2 y2 l" and m: "slope x2 y2 x3 y3 m" and "l \<noteq> m" and k: "k * (l - m) = x1 - x3"
    and x4: "x4 = l ^ 2 - x1 - x2" and y4: "y4 = l * (x1 - x4) - y1"
  shows "slope x4 y4 x3 y3 (k - l)"
proof -
  have y1: "y1 = y2 - l * (x2 - x1)" and y3: "y3 = y2 + m * (x3 - x2)"
    using l m by (simp_all add: slope_def algebra_simps)
  have a: "curve_a = l * (2 * y2 - l * (x2 - x1)) - x1 ^ 2 - x1 * x2 - x2 ^ 2"
    using l unfolding slope_def y1 by algebra
  have "m * (2 * y2 + m * (x3 - x2)) = x2 ^ 2 + x2 * x3 + x3 ^ 2 + curve_a"
    using m unfolding slope_def y3 by algebra
  then have y2: "2 * y2 * (l - m) = (x1 - x2) * (x1 + x2 + x3 - l ^ 2) - (x3 - x2) * (x1 + x2 + x3 - m ^ 2)"
    unfolding a by algebra
  have x1: "x1 = x3 + k * (l - m)" using k by (simp add: algebra_simps)
  have "(l - m) * (y3 - y4 - (k - l) * (x3 - x4)) = 0"
    using y2 unfolding y4 x4 y3 y1 x1 by algebra
  then have 1: "y3 - y4 = (k - l) * (x3 - x4)" using \<open>l \<noteq> m\<close> by simp
  have "(l - m) * ((k - l) * (y4 + y3) - (x4 ^ 2 + x4 * x3 + x3 ^ 2 + curve_a)) = 0"
    using y2 unfolding a y4 x4 y3 y1 x1 by algebra
  then have "(k - l) * (y4 + y3) = x4 ^ 2 + x4 * x3 + x3 ^ 2 + curve_a" using \<open>l \<noteq> m\<close> by simp
  with 1 show ?thesis by (simp add: slope_def)
qed

lemma three_sums:
  assumes l: "slope x1 y1 x2 y2 l" and m: "slope x2 y2 x3 y3 m" and k: "k * (l - m) = x1 - x3"
    and x4: "x4 = l ^ 2 - x1 - x2" and y4: "y4 = l * (x1 - x4) - y1" and x5: "x5 = m ^ 2 - x2 - x3"
    and meet: "y3 - y4 = (k - l) * (x3 - x4)"
  shows "line_sum x4 y4 x3 (k - l) = line_sum x1 y1 x5 (k - m)"
proof -
  have y1: "y1 = y2 - l * (x2 - x1)" and y3: "y3 = y2 + m * (x3 - x2)"
    using l m by (simp_all add: slope_def algebra_simps)
  have x1: "x1 = x3 + k * (l - m)" using k by (simp add: algebra_simps)
  have X: "(k - l) ^ 2 - x4 - x3 = (k - m) ^ 2 - x1 - x5" unfolding x4 x5 x1 by algebra
  have "(k - l) * (x4 - ((k - l) ^ 2 - x4 - x3)) - y4 = (k - m) * (x1 - ((k - l) ^ 2 - x4 - x3)) - y1"
    using meet unfolding x4 y3 y1 x1 by algebra
  then show ?thesis unfolding line_sum_def Let_def X by simp
qed

text \<open>Equal slopes put the three points on one line; then two of them agree or the sum is infinity.\<close>

lemma collinear:
  assumes l: "slope x1 y1 x2 y2 l" and m: "slope x2 y2 x3 y3 l" and "Point x1 y1 \<noteq> Point x3 y3"
  shows "line_sum x1 y1 x2 l = ec_neg (Point x3 y3)"
proof -
  have y1: "y1 = y2 - l * (x2 - x1)" and y3: "y3 = y2 + l * (x3 - x2)"
    using l m by (simp_all add: slope_def algebra_simps)
  have "x1 \<noteq> x3" using assms(3) unfolding y1 y3 by (auto simp: algebra_simps)
  have a: "curve_a = l * (2 * y2 - l * (x2 - x1)) - x1 ^ 2 - x1 * x2 - x2 ^ 2"
    using l unfolding slope_def y1 by algebra
  have "l * (2 * y2 + l * (x3 - x2)) = x2 ^ 2 + x2 * x3 + x3 ^ 2 + curve_a"
    using m unfolding slope_def y3 by algebra
  then have "(x1 - x3) * (l ^ 2 - x1 - x2 - x3) = 0" unfolding a by algebra
  then have x3: "l ^ 2 - x1 - x2 = x3" using \<open>x1 \<noteq> x3\<close> by simp
  show ?thesis unfolding line_sum_def Let_def x3 y1 y3 by (simp add: algebra_simps)
qed

lemma ec_neg_add: "on_curve P \<Longrightarrow> on_curve Q \<Longrightarrow> ec_neg (ec_add P Q) = ec_add (ec_neg P) (ec_neg Q)"
proof (cases "P = Infinity \<or> Q = Infinity \<or> Q = ec_neg P")
  case True
  then show ?thesis using ec_add_neg [of P] ec_add_neg [of "ec_neg P"] by auto
next
  case False
  assume c: "on_curve P" "on_curve Q"
  from False obtain x1 y1 x2 y2 where P: "P = Point x1 y1" "Q = Point x2 y2" by (meson point.exhaust)
  have ne: "Point x2 y2 \<noteq> ec_neg (Point x1 y1)" "Point x2 (- y2) \<noteq> ec_neg (Point x1 (- y1))" using False P by auto
  obtain l where l: "slope x1 y1 x2 y2 l" "ec_add P Q = line_sum x1 y1 x2 l"
    using ec_add_cases [OF _ _ ne(1)] c unfolding P by blast
  have "slope x1 (- y1) x2 (- y2) (- l)" using l(1) by (simp add: slope_def algebra_simps)
  from ec_add_slope [OF this ne(2)] show ?thesis
    unfolding l(2) by (simp add: P line_sum_def Let_def algebra_simps)
qed

lemma ec_assoc_generic:
  assumes c: "on_curve (Point x1 y1)" "on_curve (Point x2 y2)" "on_curve (Point x3 y3)"
    and P: "P = Point x1 y1" and Q: "Q = Point x2 y2" and R: "R = Point x3 y3"
    and ne: "Q \<noteq> ec_neg P" "R \<noteq> ec_neg Q" "R \<noteq> ec_neg (ec_add P Q)" "ec_add Q R \<noteq> ec_neg P"
  shows "ec_add (ec_add P Q) R = ec_add P (ec_add Q R)"
proof -
  obtain l where l: "slope x1 y1 x2 y2 l" "ec_add P Q = line_sum x1 y1 x2 l"
    using ec_add_cases [OF c(1,2)] ne(1) unfolding P Q by blast
  obtain m where m: "slope x2 y2 x3 y3 m" "ec_add Q R = line_sum x2 y2 x3 m"
    using ec_add_cases [OF c(2,3)] ne(2) unfolding Q R by blast
  show ?thesis
  proof (cases "l = m")
    case True
    have "R = P"
    proof (rule ccontr)
      assume "R \<noteq> P"
      then have "ec_add P Q = ec_neg R" unfolding l(2) R
        using collinear [OF l(1) m(1) [folded True]] P R by (simp del: point.inject)
      then show False using ne(3) by simp
    qed
    have "on_curve P" "on_curve Q" using c P Q by simp_all
    then show ?thesis
      using \<open>R = P\<close> ec_add_comm [of P Q] ec_add_comm [of "ec_add P Q" P] ec_add_on_curve by metis
  next
    case False
    define k where "k = (x1 - x3) / (l - m)"
    have k: "k * (l - m) = x1 - x3" "k * (m - l) = x3 - x1" using False by (simp_all add: k_def field_simps)
    define x4 y4 where "x4 = l ^ 2 - x1 - x2" and "y4 = l * (x1 - x4) - y1"
    define x5 y5 where "x5 = m ^ 2 - x2 - x3" and "y5 = m * (x2 - x5) - y2"
    have S: "ec_add P Q = Point x4 y4" "ec_add Q R = Point x5 y5"
      unfolding l(2) m(2) line_sum_def Let_def x4_def y4_def x5_def y5_def by simp_all
    have s4: "slope x4 y4 x3 y3 (k - l)" by (rule three_slopes [OF l(1) m(1) False k(1) x4_def y4_def])
    have "x5 = m ^ 2 - x3 - x2" "y5 = m * (x3 - x5) - y3"
      using m(1) unfolding x5_def y5_def slope_def by (simp_all add: algebra_simps)
    from three_slopes [OF slope_sym [OF m(1)] slope_sym [OF l(1)] _ k(2) this] False
    have s5: "slope x1 y1 x5 y5 (k - m)" using slope_sym by blast
    have "ec_add (Point x4 y4) R = line_sum x4 y4 x3 (k - l)"
      using ec_add_slope [OF s4] ne(3) S(1) R by simp
    moreover have "ec_add P (Point x5 y5) = line_sum x1 y1 x5 (k - m)"
      using ec_add_slope [OF s5] ne(4) S(2) P by simp
    moreover have "line_sum x4 y4 x3 (k - l) = line_sum x1 y1 x5 (k - m)"
      using s4 by (intro three_sums [OF l(1) m(1) k(1) x4_def y4_def x5_def]) (simp add: slope_def)
    ultimately show ?thesis by (simp add: S)
  qed
qed

lemma ec_add_assoc:
  assumes c: "on_curve P" "on_curve Q" "on_curve R"
  shows "ec_add (ec_add P Q) R = ec_add P (ec_add Q R)"
proof -
  have cancel: "ec_add A (ec_add (ec_neg A) B) = B" if "on_curve A" "on_curve B" for A B
    using ec_add_cancel [of "ec_neg A" B] that by simp
  consider "P = Infinity \<or> Q = Infinity \<or> R = Infinity" | "Q = ec_neg P" | "R = ec_neg Q"
    | "R = ec_neg (ec_add P Q)" | "ec_add Q R = ec_neg P"
    | "P \<noteq> Infinity" "Q \<noteq> Infinity" "R \<noteq> Infinity" "Q \<noteq> ec_neg P" "R \<noteq> ec_neg Q" "R \<noteq> ec_neg (ec_add P Q)"
      "ec_add Q R \<noteq> ec_neg P" by blast
  then show ?thesis
  proof cases
    case 2
    then show ?thesis using cancel [OF c(1,3)] ec_add_neg [of P] by simp
  next
    case 3
    have "ec_add (ec_add P Q) (ec_neg Q) = P"
      using ec_add_cancel [OF c(2,1)] ec_add_comm [of P Q] ec_add_comm [of "ec_add P Q" "ec_neg Q"] ec_add_on_curve c by simp
    then show ?thesis using 3 ec_add_neg [of Q] by simp
  next
    case 4
    have "ec_add Q (ec_neg (ec_add P Q)) = ec_neg P"
      using cancel [of Q "ec_neg P"] c ec_neg_add [OF c(1,2)] ec_add_comm [of "ec_neg P" "ec_neg Q"] by simp
    then show ?thesis using 4 ec_add_neg [of P] ec_add_neg [of "ec_add P Q"] by simp
  next
    case 5
    have "R = ec_neg (ec_add P Q)"
      using ec_add_cancel [OF c(2,3)] 5 ec_neg_add [OF c(1,2)] ec_add_comm [of "ec_neg P" "ec_neg Q"] c by simp
    then show ?thesis using 5 ec_add_neg [of P] ec_add_neg [of "ec_add P Q"] by simp
  next
    case 6
    then obtain x1 y1 x2 y2 x3 y3 where "P = Point x1 y1" "Q = Point x2 y2" "R = Point x3 y3" by (meson point.exhaust)
    then show ?thesis using ec_assoc_generic c 6 by blast
  qed auto
qed

section \<open>The group\<close>

typedef curve_point = "{P. on_curve P}"
proof
  show "Infinity \<in> {P. on_curve P}" by simp
qed

setup_lifting type_definition_curve_point

instantiation curve_point :: ab_group_add
begin

lift_definition zero_curve_point :: curve_point is Infinity by simp

lift_definition plus_curve_point :: "curve_point \<Rightarrow> curve_point \<Rightarrow> curve_point" is ec_add by (rule ec_add_on_curve)

lift_definition uminus_curve_point :: "curve_point \<Rightarrow> curve_point" is ec_neg by simp

definition minus_curve_point :: "curve_point \<Rightarrow> curve_point \<Rightarrow> curve_point" where
  "minus_curve_point P Q = P + - Q"

instance
proof
  fix P Q R :: curve_point
  show "P + Q + R = P + (Q + R)" by transfer (rule ec_add_assoc)
  show "P + Q = Q + P" by transfer (rule ec_add_comm)
  show "0 + P = P" by transfer simp
  show "- P + P = 0" by transfer (metis ec_add_neg ec_neg_neg)
  show "P - Q = P + - Q" by (rule minus_curve_point_def)
qed

end

text \<open>Multiples of a point.\<close>

primrec point_mult :: "nat \<Rightarrow> point \<Rightarrow> point" where
  "point_mult 0 P = Infinity"
| "point_mult (Suc n) P = ec_add P (point_mult n P)"

lemma point_mult_on_curve: "on_curve P \<Longrightarrow> on_curve (point_mult n P)"
  by (induction n) (simp_all add: ec_add_on_curve)

lemma point_mult_add: "on_curve P \<Longrightarrow> point_mult (m + n) P = ec_add (point_mult m P) (point_mult n P)"
  by (induction m) (simp_all add: ec_add_assoc point_mult_on_curve)

lemma point_mult_mult: "on_curve P \<Longrightarrow> point_mult (m * n) P = point_mult m (point_mult n P)"
  by (induction m) (simp_all add: point_mult_add)

lemma ec_double_add: "ec_double P = ec_add P P"
  by (cases P) simp_all

text \<open>Both scalars at once, by doubling and adding.\<close>

function double_mult :: "point \<Rightarrow> point \<Rightarrow> nat \<Rightarrow> nat \<Rightarrow> point" where
  "double_mult G Q u v =
     (if u = 0 \<and> v = 0 then Infinity
      else
        let D = ec_double (double_mult G Q (u div 2) (v div 2)) in
        if odd u then if odd v then ec_add D (ec_add G Q) else ec_add D G
        else if odd v then ec_add D Q else D)"
  by pat_completeness auto
termination by (relation "measure (\<lambda>(G, Q, u, v). u + v)") auto

declare double_mult.simps [simp del]

lemma double_mult_double: "double_mult G Q (2 * u) (2 * v) = ec_double (double_mult G Q u v)"
  by (cases "u = 0 \<and> v = 0") (simp_all add: double_mult.simps [of G Q "2 * u"] double_mult.simps [of G Q 0 0])

lemma double_mult_add:
  "double_mult G Q (2 * u + 1) (2 * v) = ec_add (double_mult G Q (2 * u) (2 * v)) G"
  "double_mult G Q (2 * u) (2 * v + 1) = ec_add (double_mult G Q (2 * u) (2 * v)) Q"
  "double_mult G Q (2 * u + 1) (2 * v + 1) = ec_add (double_mult G Q (2 * u) (2 * v)) (ec_add G Q)"
  by (simp_all add: double_mult_double) (simp_all add: double_mult.simps [of G Q "Suc _"] double_mult.simps [of G Q _ "Suc _"])

text \<open>
  The shared doublings compute the sum of the two multiples; the laws used are those of the class.
\<close>

primrec multiple :: "nat \<Rightarrow> curve_point \<Rightarrow> curve_point" where
  "multiple 0 P = 0"
| "multiple (Suc n) P = P + multiple n P"

lemma Rep_multiple: "Rep_curve_point (multiple n P) = point_mult n (Rep_curve_point P)"
  by (induction n) (simp_all add: zero_curve_point.rep_eq plus_curve_point.rep_eq)

lemma multiple_add: "multiple (m + n) P = multiple m P + multiple n P"
  by (induction m) (simp_all add: algebra_simps)

lemma double_mult_group:
  "double_mult (Rep_curve_point G) (Rep_curve_point Q) u v = Rep_curve_point (multiple u G + multiple v Q)"
proof (induction "u + v" arbitrary: u v rule: less_induct)
  case less
  define a b where "a = u div 2" and "b = v div 2"
  let ?D = "double_mult (Rep_curve_point G) (Rep_curve_point Q)"
  have u: "u = 2 * a \<or> u = 2 * a + 1" and v: "v = 2 * b \<or> v = 2 * b + 1" by (auto simp: a_def b_def)
  show ?case
  proof (cases "u = 0 \<and> v = 0")
    case False
    then have "?D a b = Rep_curve_point (multiple a G + multiple b Q)"
      using u v by (intro less) linarith
    then have even: "?D (2 * a) (2 * b) = Rep_curve_point (multiple (2 * a) G + multiple (2 * b) Q)"
      unfolding double_mult_double ec_double_add
      by (simp add: plus_curve_point.rep_eq [symmetric] mult_2 multiple_add add_ac)
    have "?D (2 * a + 1) (2 * b) = Rep_curve_point (multiple (2 * a + 1) G + multiple (2 * b) Q)"
      "?D (2 * a) (2 * b + 1) = Rep_curve_point (multiple (2 * a) G + multiple (2 * b + 1) Q)"
      "?D (2 * a + 1) (2 * b + 1) = Rep_curve_point (multiple (2 * a + 1) G + multiple (2 * b + 1) Q)"
      unfolding double_mult_add even by (simp_all add: plus_curve_point.rep_eq [symmetric] ac_simps)
    then show ?thesis using u v even by auto
  qed (simp add: double_mult.simps zero_curve_point.rep_eq)
qed

lemma double_mult_is_sum:
  assumes "on_curve G" "on_curve Q"
  shows "double_mult G Q u v = ec_add (point_mult u G) (point_mult v Q)"
  using double_mult_group [of "Abs_curve_point G" "Abs_curve_point Q" u v] assms
  by (simp add: Abs_curve_point_inverse plus_curve_point.rep_eq Rep_multiple)

end
