(* ===== verification/Secp256r1.thy ===== *)
theory Secp256r1
  imports P256
begin

unbundle bit_operations_syntax

text \<open>
  \<open>SECP256R1.sol\<close>: a second implementation of secp256r1 signatures, in Jacobian coordinates with
  a table of sixteen points and two bits of each scalar at a time. The arithmetic is assembly, so
  additions and subtractions wrap; the lemmas show that every difference the library takes is the
  difference modulo the field prime, although the sum before it may exceed 256 bits.

  The modular exponentiation is a static call to the precompile at address 5, an argument of the
  model: \<open>None\<close> is a failed call. \<open>modexp_precompile\<close> states what EIP-198 documents of it.
\<close>

section \<open>Data\<close>

record PassKey =
  pubKeyX :: uint256
  pubKeyY :: uint256

type_synonym jacobian = "uint256 \<times> uint256 \<times> uint256"

record JPoint =
  jp_x :: uint256
  jp_y :: uint256
  jp_z :: uint256

definition coords :: "JPoint \<Rightarrow> jacobian" where
  "coords P = (jp_x P, jp_y P, jp_z P)"

definition MOST_SIGNIFICANT :: uint256 where
  "MOST_SIGNIFICANT = 0xc000000000000000000000000000000000000000000000000000000000000000"

section \<open>Point operations\<close>

definition jAdd ::
    "uint256 \<Rightarrow> uint256 \<Rightarrow> uint256 \<Rightarrow> uint256 \<Rightarrow> uint256 \<Rightarrow> uint256 \<Rightarrow> jacobian" where
  "jAdd p1 p2 p3 q1 q2 q3 =
     (if p3 = 0 then (q1, q2, q3)
      else if q3 = 0 then (p1, p2, p3)
      else
        let pd = P256_p;
            z1z1 = mulmod p3 p3 pd;
            z2z2 = mulmod q3 q3 pd;
            u1 = mulmod p1 z2z2 pd;
            u2 = mulmod q1 z1z1 pd;
            s1 = mulmod p2 (mulmod z2z2 q3 pd) pd;
            s2 = mulmod q2 (mulmod z1z1 p3 pd) pd;
            p3q3 = addmod p3 q3 pd;
            u2 = (if u2 < u1 then pd + u2 else u2);
            h = u2 - u1;
            i = mulmod 2 h pd;
            i = mulmod i i pd;
            j = mulmod h i pd;
            s2 = (if s2 < s1 then pd + s2 else s2);
            rr = mulmod 2 (s2 - s1) pd;
            r1 = mulmod rr rr pd;
            v = mulmod u1 i pd;
            j2v = addmod j (mulmod 2 v pd) pd;
            r1 = (if r1 < j2v then pd + r1 else r1);
            r1 = r1 - j2v;
            s12j = mulmod (mulmod 2 s1 pd) j pd;
            v = (if v < r1 then pd + v else v);
            r2 = mulmod rr (v - r1) pd;
            r2 = (if r2 < s12j then pd + r2 else r2);
            r2 = r2 - s12j;
            z1z1 = addmod z1z1 z2z2 pd;
            j2v = mulmod p3q3 p3q3 pd;
            j2v = (if j2v < z1z1 then pd + j2v else j2v);
            r3 = mulmod (j2v - z1z1) h pd
        in (r1, r2, r3))"

definition modifiedJacobianDouble :: "uint256 \<Rightarrow> uint256 \<Rightarrow> uint256 \<Rightarrow> jacobian" where
  "modifiedJacobianDouble x y z =
     (let pd = P256_p;
          z2 = mulmod z z pd;
          az4 = mulmod P256_a (mulmod z2 z2 pd) pd;
          y2 = mulmod y y pd;
          s = mulmod 4 (mulmod x y2 pd) pd;
          u = mulmod 8 (mulmod y2 y2 pd) pd;
          m = addmod (mulmod 3 (mulmod x x pd) pd) az4 pd;
          twos = mulmod 2 s pd;
          m2 = mulmod m m pd;
          m2 = (if m2 < twos then pd + m2 else m2);
          x3 = m2 - twos;
          s = (if s < x3 then pd + s else s);
          y3 = mulmod m (s - x3) pd;
          y3 = (if y3 < u then pd + y3 else y3);
          y3 = y3 - u;
          z3 = mulmod 2 (mulmod y z pd) pd
      in (x3, y3, z3))"

definition jPointAdd :: "JPoint \<Rightarrow> JPoint \<Rightarrow> JPoint" where
  "jPointAdd P Q =
     (case jAdd (jp_x P) (jp_y P) (jp_z P) (jp_x Q) (jp_y Q) (jp_z Q) of (x, y, z) \<Rightarrow>
      \<lparr>jp_x = x, jp_y = y, jp_z = z\<rparr>)"

definition jPointDouble :: "JPoint \<Rightarrow> JPoint" where
  "jPointDouble P =
     (case modifiedJacobianDouble (jp_x P) (jp_y P) (jp_z P) of (x, y, z) \<Rightarrow>
      \<lparr>jp_x = x, jp_y = y, jp_z = z\<rparr>)"

definition preComputeJacobianPoints :: "PassKey \<Rightarrow> JPoint list" where
  "preComputeJacobianPoints passKey =
     (let p0 = \<lparr>jp_x = 0, jp_y = 0, jp_z = 0\<rparr>;
          p1 = \<lparr>jp_x = pubKeyX passKey, jp_y = pubKeyY passKey, jp_z = 1\<rparr>;
          p2 = jPointDouble p1;
          p3 = jPointAdd p1 p2;
          p4 = \<lparr>jp_x = GX, jp_y = GY, jp_z = 1\<rparr>;
          p5 = jPointAdd p4 p1;
          p6 = jPointAdd p4 p2;
          p7 = jPointAdd p4 p3;
          p8 = jPointDouble p4;
          p9 = jPointAdd p8 p1;
          p10 = jPointAdd p8 p2;
          p11 = jPointAdd p8 p3;
          p12 = jPointAdd p4 p8;
          p13 = jPointAdd p12 p1;
          p14 = jPointAdd p12 p2;
          p15 = jPointAdd p12 p3
      in [p0, p1, p2, p3, p4, p5, p6, p7, p8, p9, p10, p11, p12, p13, p14, p15])"

section \<open>Inversion\<close>

text \<open>
  The call writes its answer over the first word of the request in memory, which is the length
  \<open>0x20\<close>; an answer of less than a word leaves the rest of it.
\<close>

definition bigModExp :: "(bytes \<Rightarrow> bytes option) \<Rightarrow> uint256 \<Rightarrow> uint256 \<Rightarrow> uint256 \<Rightarrow> uint256 res" where
  "bigModExp precompile b e f =
     (let b = (if f < b then b mod f else b);
          freemem = abi_word 0x20 @ abi_word 0x20 @ abi_word 0x20 @ abi_word b @ abi_word e @ abi_word f
      in case precompile freemem of
        None \<Rightarrow> Inl RevertEmpty
      | Some out \<Rightarrow> Inr (load_word (take 32 out @ drop (length out) freemem) 0))"

definition primemod :: "(bytes \<Rightarrow> bytes option) \<Rightarrow> uint256 \<Rightarrow> uint256 \<Rightarrow> uint256 res" where
  "primemod precompile u p = bindR (checked_sub p 2) (\<lambda>e. bigModExp precompile u e p)"

definition affineFromJacobian ::
    "(bytes \<Rightarrow> bytes option) \<Rightarrow> uint256 \<Rightarrow> uint256 \<Rightarrow> uint256 \<Rightarrow> (uint256 \<times> uint256) res" where
  "affineFromJacobian precompile x y z =
     (if z = 0 then Inr (0, 0)
      else
        bindR (primemod precompile z P256_p) (\<lambda>zinv.
        let zinvsq = mulmod zinv zinv P256_p
        in Inr (mulmod x zinvsq P256_p, mulmod y (mulmod zinvsq zinv P256_p) P256_p)))"

section \<open>Verification\<close>

text \<open>
  The loop runs \<open>bits\<close> times, from 128 down. The table has sixteen entries and the index four bits,
  so the access is in range.
\<close>

fun shamir_loop :: "nat \<Rightarrow> JPoint list \<Rightarrow> uint256 \<Rightarrow> uint256 \<Rightarrow> jacobian \<Rightarrow> jacobian" where
  "shamir_loop 0 points u1 u2 P = P"
| "shamir_loop (Suc bits) points u1 u2 (x, y, z) =
     (let (x, y, z) =
            (if 0 < z then
               let (x, y, z) = modifiedJacobianDouble x y z in modifiedJacobianDouble x y z
             else (x, y, z));
          index = drop_bit 252 (u1 AND MOST_SIGNIFICANT) OR drop_bit 254 (u2 AND MOST_SIGNIFICANT);
          P = (if 0 < index then
                 let q = points ! unat index in jAdd x y z (jp_x q) (jp_y q) (jp_z q)
               else (x, y, z))
      in shamir_loop bits points (push_bit 2 u1) (push_bit 2 u2) P)"

definition shamirMultJacobian ::
    "(bytes \<Rightarrow> bytes option) \<Rightarrow> JPoint list \<Rightarrow> uint256 \<Rightarrow> uint256 \<Rightarrow> (uint256 \<times> uint256) res" where
  "shamirMultJacobian precompile points u1 u2 =
     (case shamir_loop 128 points u1 u2 (0, 0, 0) of (x, y, z) \<Rightarrow> affineFromJacobian precompile x y z)"

definition verifyWithPrecompute ::
    "(bytes \<Rightarrow> bytes option) \<Rightarrow> JPoint list \<Rightarrow> uint256 \<Rightarrow> uint256 \<Rightarrow> uint256 \<Rightarrow> bool res" where
  "verifyWithPrecompute precompile points r s e =
     (if P256_n \<le> r \<or> P256_n \<le> s then Inr False
      else
        bindR (primemod precompile s P256_n) (\<lambda>w.
        let u1 = mulmod e w P256_n;
            u2 = mulmod r w P256_n
        in bindR (shamirMultJacobian precompile points u1 u2) (\<lambda>(x, y). Inr (x = r))))"

definition secp256r1_verify ::
    "(bytes \<Rightarrow> bytes option) \<Rightarrow> PassKey \<Rightarrow> uint256 \<Rightarrow> uint256 \<Rightarrow> uint256 \<Rightarrow> bool res" where
  "secp256r1_verify precompile passKey r s e =
     (if P256_n \<le> r \<or> P256_n \<le> s then Inr False
      else verifyWithPrecompute precompile (preComputeJacobianPoints passKey) r s e)"

section \<open>Wrapping differences\<close>

lemma wrapped_difference:
  fixes a b :: uint256
  assumes "a < P256_p" "b < P256_p"
  defines "d \<equiv> (if a < b then P256_p + a else a) - b"
  shows "d < P256_p" and "rep a k \<Longrightarrow> rep b l \<Longrightarrow> rep d (k - l)"
proof -
  define c where "c = (if a < b then uint P256_p else 0)"
  have d: "d = word_of_int (c + uint a - uint b)" by (simp add: d_def c_def)
  have range: "0 \<le> c + uint a - uint b" "c + uint a - uint b < uint P256_p"
    using assms(1,2) uint_ge_0 [of b] uint_ge_0 [of a] unfolding c_def word_less_def
    by (cases "uint a < uint b"; simp only: if_True if_False; linarith)+
  have u: "uint d = c + uint a - uint b"
    unfolding d uint_word_of_int by (rule mod_pos_pos_trivial [OF range(1) less_trans [OF range(2) uint_lt2p]])
  show "d < P256_p" using range(2) by (simp add: word_less_def u)
  have "c mod uint P256_p = 0" by (simp add: c_def)
  then have "(c + (uint a - uint b)) mod uint P256_p = (uint a - uint b) mod uint P256_p"
    by (metis add_0 mod_add_left_eq)
  then show "rep d (k - l)" if "rep a k" "rep b l"
    using mod_diff_cong [OF that [unfolded rep_iff]] by (simp only: rep_iff u add_diff_eq)
qed

section \<open>What the operations compute\<close>

text \<open>A point in Jacobian coordinates as a point of \<open>P256Verifier\<close>: \<open>ZZ = Z\<^sup>2\<close>, \<open>ZZZ = Z\<^sup>3\<close>.\<close>

definition zz_of :: "jacobian \<Rightarrow> zz_point" where
  "zz_of P = (case P of (X, Y, Z) \<Rightarrow> (X, Y, mulmod Z Z P256_p, mulmod (mulmod Z Z P256_p) Z P256_p))"

definition jac_reduced :: "jacobian \<Rightarrow> bool" where
  "jac_reduced P \<longleftrightarrow> (case P of (X, Y, Z) \<Rightarrow> X < P256_p \<and> Y < P256_p \<and> Z < P256_p)"

lemma rep_more [rep_intros]: "rep 4 4" "rep 8 8"
  by (simp_all add: rep_def)

lemma modifiedJacobianDouble_rep:
  fixes x y z :: uint256
  defines "X \<equiv> uint x" and "Y \<equiv> uint y" and "Z \<equiv> uint z"
  defines "M \<equiv> 3 * (X * X) + uint P256_a * (Z * Z * (Z * Z))" and "S \<equiv> 4 * (X * (Y * Y))"
  shows "\<exists>x3 y3 z3. modifiedJacobianDouble x y z = (x3, y3, z3) \<and> jac_reduced (x3, y3, z3) \<and>
    rep x3 (M * M - 2 * S) \<and> rep y3 (M * (S - (M * M - 2 * S)) - 8 * (Y * Y * (Y * Y))) \<and> rep z3 (2 * (Y * Z))"
proof -
  define s where "s = mulmod 4 (mulmod x (mulmod y y P256_p) P256_p) P256_p"
  define u where "u = mulmod 8 (mulmod (mulmod y y P256_p) (mulmod y y P256_p) P256_p) P256_p"
  define m where "m = addmod (mulmod 3 (mulmod x x P256_p) P256_p)
    (mulmod P256_a (mulmod (mulmod z z P256_p) (mulmod z z P256_p) P256_p) P256_p) P256_p"
  define t where "t = mulmod 2 s P256_p"
  define m2 where "m2 = mulmod m m P256_p"
  define x3 where "x3 = (if m2 < t then P256_p + m2 else m2) - t"
  define w where "w = mulmod m ((if s < x3 then P256_p + s else s) - x3) P256_p"
  define y3 where "y3 = (if w < u then P256_p + w else w) - u"
  define z3 where "z3 = mulmod 2 (mulmod y z P256_p) P256_p"
  have res: "modifiedJacobianDouble x y z = (x3, y3, z3)"
    unfolding modifiedJacobianDouble_def Let_def s_def [symmetric] u_def [symmetric] m_def [symmetric]
      t_def [symmetric] m2_def [symmetric] x3_def [symmetric] w_def [symmetric] y3_def [symmetric] z3_def [symmetric]
    by (rule refl)
  have lt: "s < P256_p" "u < P256_p" "t < P256_p" "m2 < P256_p" "w < P256_p" "z3 < P256_p"
    unfolding s_def u_def t_def m2_def w_def z3_def by (rule mod_p_less)+
  have x3lt: "x3 < P256_p" unfolding x3_def by (rule wrapped_difference(1) [OF lt(4,3)])
  have S: "rep s S" unfolding s_def S_def X_def Y_def by (intro rep_intros)
  have M: "rep m M" unfolding m_def M_def X_def Z_def by (intro rep_intros)
  have X3: "rep x3 (M * M - 2 * S)"
    unfolding x3_def by (rule wrapped_difference(2) [OF lt(4,3)]; unfold m2_def t_def; intro rep_intros M S)
  have W: "rep w (M * (S - (M * M - 2 * S)))"
    unfolding w_def by (rule rep_mulmod [OF M wrapped_difference(2) [OF lt(1) x3lt S X3]])
  have U: "rep u (8 * (Y * Y * (Y * Y)))" unfolding u_def Y_def by (intro rep_intros)
  have Y3: "rep y3 (M * (S - (M * M - 2 * S)) - 8 * (Y * Y * (Y * Y)))"
    unfolding y3_def by (rule wrapped_difference(2) [OF lt(5,2) W U])
  have "y3 < P256_p" unfolding y3_def by (rule wrapped_difference(1) [OF lt(5,2)])
  moreover have "rep z3 (2 * (Y * Z))" unfolding z3_def Y_def Z_def by (intro rep_intros)
  ultimately show ?thesis using res X3 Y3 x3lt lt(6) by (auto simp: jac_reduced_def)
qed

lemma jAdd_infinity:
  "jAdd p1 p2 0 q1 q2 q3 = (q1, q2, q3)"
  "jAdd p1 p2 p3 q1 q2 0 = (if p3 = 0 then (q1, q2, 0) else (p1, p2, p3))"
  unfolding jAdd_def by (simp_all only: if_True simp_thms if_cancel refl)

lemma jAdd_rep:
  fixes p1 p2 p3 q1 q2 q3 :: uint256
  assumes "p3 \<noteq> 0" "q3 \<noteq> 0"
  defines "Z1 \<equiv> uint p3" and "Z2 \<equiv> uint q3"
  defines "U1 \<equiv> uint p1 * (Z2 * Z2)" and "U2 \<equiv> uint q1 * (Z1 * Z1)"
    and "S1 \<equiv> uint p2 * (Z2 * Z2 * Z2)" and "S2 \<equiv> uint q2 * (Z1 * Z1 * Z1)"
  defines "H \<equiv> U2 - U1" and "R \<equiv> 2 * (S2 - S1)"
  defines "J \<equiv> H * (2 * H * (2 * H))" and "V \<equiv> U1 * (2 * H * (2 * H))"
  defines "X3 \<equiv> R * R - (J + 2 * V)"
  shows "\<exists>r1 r2 r3. jAdd p1 p2 p3 q1 q2 q3 = (r1, r2, r3) \<and> jac_reduced (r1, r2, r3) \<and>
    rep r1 X3 \<and> rep r2 (R * (V - X3) - 2 * S1 * J) \<and>
    rep r3 (((Z1 + Z2) * (Z1 + Z2) - (Z1 * Z1 + Z2 * Z2)) * H)"
proof -
  define zz1 where "zz1 = mulmod p3 p3 P256_p"
  define zz2 where "zz2 = mulmod q3 q3 P256_p"
  define u1 where "u1 = mulmod p1 zz2 P256_p"
  define u2 where "u2 = mulmod q1 zz1 P256_p"
  define s1 where "s1 = mulmod p2 (mulmod zz2 q3 P256_p) P256_p"
  define s2 where "s2 = mulmod q2 (mulmod zz1 p3 P256_p) P256_p"
  define pq where "pq = addmod p3 q3 P256_p"
  define h where "h = (if u2 < u1 then P256_p + u2 else u2) - u1"
  define i where "i = mulmod (mulmod 2 h P256_p) (mulmod 2 h P256_p) P256_p"
  define j where "j = mulmod h i P256_p"
  define d where "d = (if s2 < s1 then P256_p + s2 else s2) - s1"
  define rr where "rr = mulmod 2 d P256_p"
  define r0 where "r0 = mulmod rr rr P256_p"
  define v where "v = mulmod u1 i P256_p"
  define j2v where "j2v = addmod j (mulmod 2 v P256_p) P256_p"
  define r1 where "r1 = (if r0 < j2v then P256_p + r0 else r0) - j2v"
  define s12j where "s12j = mulmod (mulmod 2 s1 P256_p) j P256_p"
  define w where "w = mulmod rr ((if v < r1 then P256_p + v else v) - r1) P256_p"
  define r2 where "r2 = (if w < s12j then P256_p + w else w) - s12j"
  define a where "a = addmod zz1 zz2 P256_p"
  define b where "b = mulmod pq pq P256_p"
  define e where "e = (if b < a then P256_p + b else b) - a"
  define r3 where "r3 = mulmod e h P256_p"
  have res: "jAdd p1 p2 p3 q1 q2 q3 = (r1, r2, r3)"
    unfolding jAdd_def Let_def if_not_P [OF assms(1)] if_not_P [OF assms(2)]
      r3_def e_def b_def a_def r2_def w_def s12j_def r1_def j2v_def v_def r0_def rr_def d_def j_def i_def h_def
      pq_def s2_def s1_def u2_def u1_def zz2_def zz1_def
    by (rule refl)
  have lt: "u1 < P256_p" "u2 < P256_p" "s1 < P256_p" "s2 < P256_p" "r0 < P256_p" "j2v < P256_p"
      "v < P256_p" "w < P256_p" "s12j < P256_p" "a < P256_p" "b < P256_p" "r3 < P256_p"
    unfolding u1_def u2_def s1_def s2_def r0_def j2v_def v_def w_def s12j_def a_def b_def r3_def
    by (rule mod_p_less)+
  have r1lt: "r1 < P256_p" unfolding r1_def by (rule wrapped_difference(1) [OF lt(5,6)])
  have r2lt: "r2 < P256_p" unfolding r2_def by (rule wrapped_difference(1) [OF lt(8,9)])
  have zz: "rep zz1 (Z1 * Z1)" "rep zz2 (Z2 * Z2)" unfolding zz1_def zz2_def Z1_def Z2_def by (intro rep_intros)+
  have U: "rep u1 U1" "rep u2 U2" unfolding u1_def u2_def U1_def U2_def by (intro rep_intros zz)+
  have S: "rep s1 S1" "rep s2 S2"
    unfolding s1_def s2_def S1_def S2_def by (intro rep_intros zz; simp add: Z1_def Z2_def rep_uint)+
  have H: "rep h H" unfolding h_def H_def by (rule wrapped_difference(2) [OF lt(2,1) U(2,1)])
  have I: "rep i (2 * H * (2 * H))" unfolding i_def by (intro rep_intros H)
  have J: "rep j J" unfolding j_def J_def by (intro rep_intros H I)
  have R: "rep rr R"
    unfolding rr_def R_def d_def by (rule rep_mulmod [OF rep_small(1) wrapped_difference(2) [OF lt(4,3) S(2,1)]])
  have V: "rep v V" unfolding v_def V_def by (intro rep_intros U I)
  have JV: "rep j2v (J + 2 * V)" unfolding j2v_def by (intro rep_intros J V)
  have X: "rep r1 X3"
    unfolding r1_def X3_def by (rule wrapped_difference(2) [OF lt(5,6) _ JV]; unfold r0_def; intro rep_intros R)
  have W: "rep w (R * (V - X3))"
    unfolding w_def by (rule rep_mulmod [OF R wrapped_difference(2) [OF lt(7) r1lt V X]])
  have SJ: "rep s12j (2 * S1 * J)" unfolding s12j_def by (intro rep_intros S J)
  have Y: "rep r2 (R * (V - X3) - 2 * S1 * J)"
    unfolding r2_def by (rule wrapped_difference(2) [OF lt(8,9) W SJ])
  have B: "rep b ((Z1 + Z2) * (Z1 + Z2))" unfolding b_def pq_def Z1_def Z2_def by (intro rep_intros)
  have A: "rep a (Z1 * Z1 + Z2 * Z2)" unfolding a_def by (intro rep_intros zz)
  have "rep r3 (((Z1 + Z2) * (Z1 + Z2) - (Z1 * Z1 + Z2 * Z2)) * H)"
    unfolding r3_def e_def by (rule rep_mulmod [OF wrapped_difference(2) [OF lt(11,10) B A] H])
  then show ?thesis using res X Y r1lt r2lt lt(12) by (auto simp: jac_reduced_def)
qed

section \<open>The windows of the multiplication\<close>

text \<open>
  Each turn of the loop takes the two leading bits of each scalar, four times the first plus the
  second as index of the table, and shifts both scalars by two.
\<close>

lemma top_bits:
  fixes u :: uint256
  shows "u AND MOST_SIGNIFICANT = push_bit 254 (of_nat (unat u div 2 ^ 254))" and "unat u div 2 ^ 254 < 4"
proof -
  have ms: "MOST_SIGNIFICANT = NOT (mask 254)" by (simp add: MOST_SIGNIFICANT_def mask_eq_exp_minus_1)
  have "u AND MOST_SIGNIFICANT = push_bit 254 (drop_bit 254 u)"
    unfolding ms by (rule bit_word_eqI) (auto simp: bit_simps)
  moreover have lt: "unat u div 2 ^ 254 < 4"
    using unat_lt_256 [of u] by (intro less_mult_imp_div_less) simp
  have "drop_bit 254 u = of_nat (unat u div 2 ^ 254)"
  proof (rule unsigned_word_eqI)
    have "unat (of_nat (unat u div 2 ^ 254) :: uint256) = unat u div 2 ^ 254"
      by (rule unat_of_nat_less [OF less_trans [OF lt]]) simp
    moreover have "unat (drop_bit 254 u) = unat u div 2 ^ 254"
      unfolding unat_drop_bit_eq by (rule drop_bit_eq_div)
    ultimately show "unat (drop_bit 254 u) = unat (of_nat (unat u div 2 ^ 254) :: uint256)" by (simp only:)
  qed
  ultimately show "u AND MOST_SIGNIFICANT = push_bit 254 (of_nat (unat u div 2 ^ 254))" by (simp only:)
  show "unat u div 2 ^ 254 < 4" by (rule lt)
qed

lemma drop_top_bits:
  assumes "a < 4" "254 = j + i"
  shows "drop_bit i (push_bit 254 (of_nat a)) = (of_nat (a * 2 ^ j) :: uint256)"
proof (rule unsigned_word_eqI)
  have "a * 2 ^ 254 < 4 * 2 ^ 254" using assms(1) by simp
  also have "4 * 2 ^ 254 = (2 :: nat) ^ LENGTH(256)" by simp
  finally have lt: "a * 2 ^ 254 < 2 ^ LENGTH(256)" .
  have split: "a * 2 ^ 254 = a * 2 ^ j * 2 ^ i" by (simp only: assms(2) mult.assoc power_add)
  have "a * 2 ^ j * 1 \<le> a * 2 ^ j * 2 ^ i" by (intro mult_le_mono2) simp
  then have lt': "a * 2 ^ j < 2 ^ LENGTH(256)" using lt unfolding split by linarith
  have "push_bit 254 (of_nat a) = (of_nat (a * 2 ^ 254) :: uint256)"
    by (simp only: push_bit_eq_mult of_nat_mult of_nat_power of_nat_numeral)
  then have "unat (drop_bit i (push_bit 254 (of_nat a) :: uint256)) = drop_bit i (a * 2 ^ 254)"
    by (simp only: unat_drop_bit_eq unat_of_nat_less [OF lt])
  also have "\<dots> = a * 2 ^ j" unfolding split drop_bit_eq_div by (rule nonzero_mult_div_cancel_right) simp
  also have "\<dots> = unat (of_nat (a * 2 ^ j) :: uint256)" by (simp only: unat_of_nat_less [OF lt'])
  finally show "unat (drop_bit i (push_bit 254 (of_nat a) :: uint256)) = unat (of_nat (a * 2 ^ j) :: uint256)" .
qed

lemma small_index:
  assumes "a < 4" "b < 4"
  shows "drop_bit 252 (push_bit 254 (of_nat a)) OR drop_bit 254 (push_bit 254 (of_nat b)) = (of_nat (4 * a + b) :: uint256)"
proof -
  have "drop_bit 252 (push_bit 254 (of_nat a)) = (of_nat (a * 2 ^ 2) :: uint256)"
    by (rule drop_top_bits [OF assms(1)]) simp
  moreover have "drop_bit 254 (push_bit 254 (of_nat b)) = (of_nat (b * 2 ^ 0) :: uint256)"
    by (rule drop_top_bits [OF assms(2)]) simp
  moreover have "n < 4 \<Longrightarrow> n \<in> {0, 1, 2, 3}" for n :: nat by auto
  from this [OF assms(1)] this [OF assms(2)]
  have "of_nat (a * 2 ^ 2) OR of_nat (b * 2 ^ 0) = (of_nat (4 * a + b) :: uint256)" by auto
  ultimately show ?thesis by (simp only:)
qed

lemma table_index:
  "drop_bit 252 (u AND MOST_SIGNIFICANT) OR drop_bit 254 (v AND MOST_SIGNIFICANT) =
     of_nat (4 * (unat u div 2 ^ 254) + unat v div 2 ^ 254)"
  for u v :: uint256
  unfolding top_bits(1) by (rule small_index [OF top_bits(2) top_bits(2)])

lemma shift_two:
  fixes u :: uint256
  assumes "k < 128"
  shows "4 ^ k * (unat u div 2 ^ 254) + unat (push_bit 2 u) div 2 ^ (256 - 2 * k) = unat u div 2 ^ (256 - 2 * Suc k)"
proof -
  define m where "m = unat u mod 2 ^ 254"
  have exp: "2 ^ (256 - 2 * k) = 4 * (2 :: nat) ^ (254 - 2 * k)"
  proof -
    have "256 - 2 * k = Suc (Suc (254 - 2 * k))" using assms by simp
    then show ?thesis by (simp only: power_Suc)
  qed
  have u: "unat u = 2 ^ 254 * (unat u div 2 ^ 254) + m" by (simp add: m_def)
  have "unat (push_bit 2 u) = 4 * unat u mod 2 ^ 256"
    by (simp add: push_bit_eq_mult unat_word_ariths mult.commute)
  also have "\<dots> = 4 * m" by (simp add: m_def mult_mod_right)
  finally have push: "unat (push_bit 2 u) div 2 ^ (256 - 2 * k) = m div 2 ^ (254 - 2 * k)"
    using div_mult_mult1 [of 4 m "2 ^ (254 - 2 * k)"] exp by (simp only: numeral_eq_iff simp_thms zero_neq_numeral)
  have "254 = 254 - 2 * k + 2 * k" using assms by simp
  then have "2 ^ 254 = (2 :: nat) ^ (254 - 2 * k) * 2 ^ (2 * k)" by (metis power_add)
  then have "2 ^ 254 = (2 :: nat) ^ (254 - 2 * k) * 4 ^ k" by (simp only: power_mult) simp
  then have "unat u = 2 ^ (254 - 2 * k) * (4 ^ k * (unat u div 2 ^ 254)) + m" using u by (metis mult.assoc)
  then have "unat u div 2 ^ (254 - 2 * k) = 4 ^ k * (unat u div 2 ^ 254) + m div 2 ^ (254 - 2 * k)"
    by (metis div_mult_self4 power_not_zero zero_neq_numeral)
  moreover have "256 - 2 * Suc k = 254 - 2 * k" by simp
  ultimately show ?thesis by (simp only: push)
qed

section \<open>What verification computes\<close>

definition modexp_precompile :: "(bytes \<Rightarrow> bytes option) \<Rightarrow> bool" where
  "modexp_precompile precompile \<longleftrightarrow>
     (\<forall>b e f. precompile (abi_word 32 @ abi_word 32 @ abi_word 32 @ abi_word b @ abi_word e @ abi_word f) =
       Some (abi_word (modexp b e f)))"

lemma bigModExp_eq:
  assumes "modexp_precompile precompile"
  shows "bigModExp precompile b e f = Inr (modexp b e f)"
proof -
  have "modexp (b mod f) e f = modexp b e f"
    by (simp add: modexp_def powmod_eq unat_mod power_mod)
  then show ?thesis
    using assms by (simp add: bigModExp_def modexp_precompile_def Let_def load_word_def)
qed

lemma primemod_inverse:
  assumes "modexp_precompile precompile"
  shows "primemod precompile u P256_p = Inr (pModInv u)" and "primemod precompile u P256_n = Inr (nModInv u)"
  using bigModExp_eq [OF assms]
  by (simp_all add: primemod_def pModInv_def nModInv_def modInv_def checked_sub_def)
    (simp_all add: P256_p_def P256_n_def minus_2modp_def minus_2modn_def)

text \<open>The x coordinate the library compares with \<open>r\<close>.\<close>

definition jac_affine :: "jacobian \<Rightarrow> uint256 \<times> uint256" where
  "jac_affine P = (case P of (X, Y, Z) \<Rightarrow>
     if Z = 0 then (0, 0)
     else (mulmod X (mulmod (pModInv Z) (pModInv Z) P256_p) P256_p,
           mulmod Y (mulmod (mulmod (pModInv Z) (pModInv Z) P256_p) (pModInv Z) P256_p) P256_p))"

lemma affineFromJacobian_eq:
  "modexp_precompile precompile \<Longrightarrow> affineFromJacobian precompile x y z = Inr (jac_affine (x, y, z))"
  by (simp add: affineFromJacobian_def jac_affine_def primemod_inverse Let_def)

text \<open>Zero is not excluded: the all-zero signature verifies for every key and message.\<close>

lemma shamir_loop_zero: "shamir_loop k points 0 0 (0, 0, 0) = (0, 0, 0)"
  by (induction k) simp_all

lemma secp256r1_zero_signature:
  assumes "modexp_precompile precompile"
  shows "secp256r1_verify precompile key 0 0 e = Inr True"
proof -
  have "nModInv 0 = 0" by (simp add: word_unat_eq_iff nModInv_def unat_modInv P256_n_def minus_2modn_def power_0_left)
  moreover have "mulmod u 0 P256_n = 0" for u by (simp add: mulmod_def)
  moreover have "\<not> P256_n \<le> 0" by (simp add: P256_n_def)
  ultimately show ?thesis
    using primemod_inverse(2) [OF assms, of 0]
    by (simp add: secp256r1_verify_def verifyWithPrecompute_def shamirMultJacobian_def shamir_loop_zero affineFromJacobian_def)
qed

text \<open>There is no case for equal points: the sum of a point and itself has \<open>Z = 0\<close>.\<close>

lemma jAdd_same_point: "z \<noteq> 0 \<Longrightarrow> \<exists>r1 r2. jAdd x y z x y z = (r1, r2, 0)"
  using jAdd_rep [of z z x y x y] by (auto simp: jac_reduced_def rep_zero_iff)

end
