(* ===== verification/CurveSpec.thy ===== *)
theory CurveSpec
  imports CurveGroup Secp256r1
begin

text \<open>
  The point operations of \<open>P256Verifier.sol\<close> and \<open>SECP256R1.sol\<close> as implementations of the group of
  the curve, and signature verification as FIPS 186 states it.
\<close>

section \<open>Points of the contracts\<close>

definition point_of_zz :: "zz_point \<Rightarrow> point" where
  "point_of_zz P = (case P of (X, Y, ZZ, ZZZ) \<Rightarrow>
     if fp_word ZZ = 0 then Infinity else Point (fp_word X / fp_word ZZ) (fp_word Y / fp_word ZZZ))"

definition point_of_aff :: "aff_point \<Rightarrow> point" where
  "point_of_aff P = (if P = (0, 0) then Infinity else Point (fp_word (fst P)) (fp_word (snd P)))"

lemma dvd_fp: "uint P256_p dvd k \<longleftrightarrow> (of_int k :: fp) = 0"
  by (simp only: of_int_fp_eq_0_iff field_prime_P256_p)

lemma curve_poly_fp:
  "(of_int (curve_poly (uint X) (uint Y) (uint Z)) :: fp) =
   fp_word Y ^ 2 - fp_word X ^ 3 - curve_a * fp_word X * fp_word Z ^ 2 - curve_b * fp_word Z ^ 3"
  by (simp add: curve_poly_def curve_a_def curve_b_def fp_word_def)

lemma zz_ok_fp:
  assumes "zz_ok (X, Y, ZZ, ZZZ)"
  shows "fp_word ZZ ^ 3 = fp_word ZZZ ^ 2"
    and "fp_word Y ^ 2 = fp_word X ^ 3 + curve_a * fp_word X * fp_word ZZ ^ 2 + curve_b * fp_word ZZ ^ 3"
    and "ecZZ_IsInf ZZ ZZZ \<longleftrightarrow> fp_word ZZ = 0"
proof -
  have "uint P256_p dvd (uint ZZ ^ 3 - uint ZZZ ^ 2)" "uint P256_p dvd curve_poly (uint X) (uint Y) (uint ZZ)"
    using assms by (simp_all add: zz_ok_def zz_on_curve_def)
  then have "(of_int (uint ZZ ^ 3 - uint ZZZ ^ 2) :: fp) = 0"
      and c: "(of_int (curve_poly (uint X) (uint Y) (uint ZZ)) :: fp) = 0"
    by (simp_all only: dvd_fp)
  then show z: "fp_word ZZ ^ 3 = fp_word ZZZ ^ 2" by (simp add: fp_word_def)
  show "fp_word Y ^ 2 = fp_word X ^ 3 + curve_a * fp_word X * fp_word ZZ ^ 2 + curve_b * fp_word ZZ ^ 3"
    using c unfolding curve_poly_fp by (simp add: algebra_simps)
  have "ZZ < P256_p" "ZZZ < P256_p" using assms by (simp_all add: zz_ok_def zz_reduced_def)
  moreover have "fp_word ZZ = 0 \<longleftrightarrow> fp_word ZZZ = 0" using z by (metis power_eq_0_iff power_zero_numeral)
  ultimately show "ecZZ_IsInf ZZ ZZZ \<longleftrightarrow> fp_word ZZ = 0" by (auto simp: ecZZ_IsInf_def fp_word_0_iff)
qed

lemma zz_ok_root:
  assumes "zz_ok (X, Y, ZZ, ZZZ)" "fp_word ZZ \<noteq> 0"
  obtains z where "z \<noteq> 0" "fp_word ZZ = z ^ 2" "fp_word ZZZ = z ^ 3"
proof (rule that [of "fp_word ZZZ / fp_word ZZ"])
  note eq = zz_ok_fp(1) [OF assms(1)]
  show "fp_word ZZZ / fp_word ZZ \<noteq> 0" using eq assms(2) by (auto simp: power_0_left)
  have "fp_word ZZZ \<noteq> 0" using eq assms(2) by (auto simp: power_0_left)
  show "fp_word ZZ = (fp_word ZZZ / fp_word ZZ) ^ 2"
    using eq assms(2) by (simp add: field_simps power2_eq_square power3_eq_cube)
  then show "fp_word ZZZ = (fp_word ZZZ / fp_word ZZ) ^ 3"
    using assms(2) by (simp add: power3_eq_cube power2_eq_square)
qed

lemma of_int_uint_fp: "of_int (uint w) = fp_word w"
  by (simp only: fp_word_def)

lemmas rep_fp = rep_iff_fp of_int_add of_int_diff of_int_mult of_int_minus of_int_numeral of_int_uint_fp
  curve_a_def [symmetric]

section \<open>Doubling\<close>

lemma tangent:
  fixes X Y z a :: fp
  assumes "z \<noteq> 0" "Y \<noteq> 0" "M = 3 * X ^ 2 + a * z ^ 4"
  shows "((3 * (X / z ^ 2) ^ 2 + a) / (2 * (Y / z ^ 3))) = M / (2 * Y * z)"
  using assms fp_two by (simp add: field_simps power_numeral_reduce)

lemma tangent_formula:
  assumes "z \<noteq> 0" and M: "M = 3 * x ^ 2 + curve_a * z ^ 4"
    and X: "x3 = M ^ 2 - 8 * x * y ^ 2" and Y: "y3 = M * (4 * x * y ^ 2 - x3) - 8 * y ^ 4" and d: "d = 2 * y * z"
  shows "(if d = 0 then Infinity else Point (x3 / d ^ 2) (y3 / d ^ 3)) = ec_double (Point (x / z ^ 2) (y / z ^ 3))"
proof (cases "y = 0")
  case False
  have "d \<noteq> 0" using False assms(1) fp_two by (simp add: d)
  have l: "(3 * (x / z ^ 2) ^ 2 + curve_a) / (2 * (y / z ^ 3)) = M / d"
    unfolding d by (rule tangent [OF assms(1) False M])
  have x3: "x3 / d ^ 2 = (M / d) ^ 2 - 2 * (x / z ^ 2)"
    using assms(1) False fp_two unfolding X d by (simp add: field_simps power_numeral_reduce)
  have y3: "y3 / d ^ 3 = (M / d) * (x / z ^ 2 - x3 / d ^ 2) - y / z ^ 3"
    using assms(1) False fp_two unfolding Y d by (simp add: field_simps power_numeral_reduce)
  show ?thesis using \<open>d \<noteq> 0\<close> False assms(1) x3 y3 l by (simp add: Let_def)
qed (simp add: d)

lemma double_refines:
  assumes "zz_ok P" "ecZZ_double_zz P = Inr P'"
  shows "point_of_zz P' = ec_double (point_of_zz P)"
proof -
  obtain X Y ZZ ZZZ where P: "P = (X, Y, ZZ, ZZZ)" by (metis surj_pair)
  show ?thesis
  proof (cases "fp_word ZZ = 0")
    case True
    then have "P' = ecZZ_PointAtInf" using assms zz_ok_fp(3) by (auto simp: P ecZZ_double_zz_def)
    then show ?thesis using True by (simp add: P point_of_zz_def ecZZ_PointAtInf_def)
  next
    case False
    obtain z where z: "z \<noteq> 0" "fp_word ZZ = z ^ 2" "fp_word ZZZ = z ^ 3"
      using zz_ok_root assms(1) False unfolding P by blast
    define x y M where "x = fp_word X" and "y = fp_word Y" and "M = 3 * x ^ 2 + curve_a * z ^ 4"
    have M: "3 * (x * x) + curve_a * (z\<^sup>2 * z\<^sup>2) = M" unfolding M_def by algebra
    have "\<not> ecZZ_IsInf ZZ ZZZ" using assms(1) False zz_ok_fp(3) unfolding P by blast
    from double_zz_rep [OF this, of X Y, unfolded rep_fp z x_def [symmetric] y_def [symmetric] M] assms(2)
    obtain x3 y3 zz3 zzz3 where P': "P' = (x3, y3, zz3, zzz3)"
      and e: "fp_word x3 = M * M + - 2 * (x * (2 * y * (2 * y)))"
        "fp_word y3 = M * (x * (2 * y * (2 * y)) + - fp_word x3) + - (2 * y * (2 * y * (2 * y))) * y"
        "fp_word zz3 = 2 * y * (2 * y) * z\<^sup>2" "fp_word zzz3 = 2 * y * (2 * y * (2 * y)) * z ^ 3"
      unfolding P by auto
    have "fp_word x3 = M ^ 2 - 8 * x * y ^ 2" unfolding e(1) by algebra
    moreover have "fp_word y3 = M * (4 * x * y ^ 2 - fp_word x3) - 8 * y ^ 4" unfolding e(2) by algebra
    ultimately have "(if 2 * y * z = 0 then Infinity else Point (fp_word x3 / (2 * y * z) ^ 2) (fp_word y3 / (2 * y * z) ^ 3)) =
        ec_double (Point (x / z ^ 2) (y / z ^ 3))"
      by (rule tangent_formula [OF z(1) M_def _ _ refl])
    moreover have "fp_word zz3 = (2 * y * z) ^ 2" unfolding e(3) by algebra
    moreover have "fp_word zzz3 = (2 * y * z) ^ 3" unfolding e(4) by algebra
    ultimately show ?thesis
      using False unfolding P P' point_of_zz_def prod.case x_def [symmetric] y_def [symmetric]
      by (simp only: z zero_eq_power2 if_False)
  qed
qed

section \<open>Addition\<close>

lemma chord:
  fixes X Y z x2 y2 :: fp
  assumes "z \<noteq> 0" "C \<noteq> 0" "C = x2 * z ^ 2 - X" "R = y2 * z ^ 3 - Y"
  shows "(y2 - Y / z ^ 3) / (x2 - X / z ^ 2) = R / (z * C)"
proof -
  have "y2 - Y / z ^ 3 = R / z ^ 3" "x2 - X / z ^ 2 = C / z ^ 2"
    using assms(1) by (simp_all add: assms(3,4) field_simps)
  then show ?thesis using assms(1,2) by (simp add: field_simps power_numeral_reduce)
qed

lemma chord_formula:
  fixes X Y z x2 y2 :: fp
  assumes "z \<noteq> 0" "C \<noteq> 0" and C: "C = x2 * z ^ 2 - X" and R: "R = y2 * z ^ 3 - Y"
    and X3: "x3 = R ^ 2 - C ^ 3 - 2 * X * C ^ 2" and Y3: "y3 = (X * C ^ 2 - x3) * R - Y * C ^ 3" and k: "k = z * C"
  shows "ec_add (Point (X / z ^ 2) (Y / z ^ 3)) (Point x2 y2) = Point (x3 / k ^ 2) (y3 / k ^ 3)"
proof -
  have "k \<noteq> 0" using assms(1,2) by (simp add: k)
  have ne: "X / z ^ 2 \<noteq> x2" using assms(1,2) by (auto simp: C field_simps)
  have l: "(y2 - Y / z ^ 3) / (x2 - X / z ^ 2) = R / k" unfolding k by (rule chord [OF assms(1,2) C R])
  have X2: "x2 = (C + X) / z ^ 2" using assms(1) by (simp add: C field_simps)
  have "x3 / k ^ 2 = (R / k) ^ 2 - X / z ^ 2 - (C + X) / z ^ 2"
    using assms(1,2) unfolding X3 k by (simp add: field_simps power_numeral_reduce)
  then have x3: "x3 / k ^ 2 = (R / k) ^ 2 - X / z ^ 2 - x2" by (simp only: X2)
  have y3: "y3 / k ^ 3 = (R / k) * (X / z ^ 2 - x3 / k ^ 2) - Y / z ^ 3"
    using assms(1,2) unfolding Y3 k by (simp add: field_simps power_numeral_reduce)
  show ?thesis using ne l x3 y3 by (simp add: Let_def)
qed

lemma dadd_refines_finite:
  assumes ok: "zz_ok (X, Y, ZZ, ZZZ)" and T: "aff_ok (x2, y2)" "\<not> ecAff_IsInf x2 y2" and fin: "fp_word ZZ \<noteq> 0"
    and res: "ecZZ_dadd_affine (X, Y, ZZ, ZZZ) x2 y2 = Inr P'"
  shows "point_of_zz P' = ec_add (point_of_zz (X, Y, ZZ, ZZZ)) (Point (fp_word x2) (fp_word y2))"
proof -
  obtain z where z: "z \<noteq> 0" "fp_word ZZ = z ^ 2" "fp_word ZZZ = z ^ 3" using zz_ok_root [OF ok fin] by blast
  have red: "X \<le> P256_p" "Y \<le> P256_p" using ok by (simp_all add: zz_ok_def zz_reduced_def less_imp_le)
  have "\<not> ecZZ_IsInf ZZ ZZZ" using zz_ok_fp(3) [OF ok] fin by blast
  define R where "R = fp_word y2 * z ^ 3 - fp_word Y"
  define C where "C = fp_word x2 * z ^ 2 - fp_word X"
  have RC: "fp_word y2 * z ^ 3 + - fp_word Y = R" "fp_word x2 * z ^ 2 + - fp_word X = C"
    by (simp_all add: R_def C_def)
  obtain x3 y3 zz3 zzz3 where d: "ecZZ_dadd_affine (X, Y, ZZ, ZZZ) x2 y2 =
        (if C \<noteq> 0 then Inr (x3, y3, zz3, zzz3) else if R = 0 then ecZZ_double_affine x2 y2 else Inr ecZZ_PointAtInf)"
      and e: "fp_word x3 = R * R + - (C * C * C) + - 2 * (fp_word X * (C * C))"
        "fp_word y3 = (fp_word X * (C * C) + - fp_word x3) * R + - fp_word Y * (C * C * C)"
        "fp_word zz3 = z ^ 2 * (C * C)" "fp_word zzz3 = z ^ 3 * (C * C * C)"
    using dadd_affine_rep [OF red T(2) \<open>\<not> ecZZ_IsInf ZZ ZZZ\<close>, unfolded rep_fp dvd_fp z RC] by auto
  have eqs: "fp_word X / z ^ 2 = fp_word x2 \<longleftrightarrow> C = 0" "fp_word Y / z ^ 3 = fp_word y2 \<longleftrightarrow> R = 0"
    using z(1) by (auto simp: C_def R_def field_simps)
  consider "C \<noteq> 0" | "C = 0" "R = 0" | "C = 0" "R \<noteq> 0" by blast
  then show ?thesis
  proof cases
    case 1
    have "fp_word x3 = R ^ 2 - C ^ 3 - 2 * fp_word X * C ^ 2" unfolding e(1) by algebra
    moreover have "fp_word y3 = (fp_word X * C ^ 2 - fp_word x3) * R - fp_word Y * C ^ 3" unfolding e(2) by algebra
    ultimately have "ec_add (Point (fp_word X / z ^ 2) (fp_word Y / z ^ 3)) (Point (fp_word x2) (fp_word y2)) =
        Point (fp_word x3 / (z * C) ^ 2) (fp_word y3 / (z * C) ^ 3)"
      by (rule chord_formula [OF z(1) 1 C_def R_def _ _ refl])
    moreover have "fp_word zz3 = (z * C) ^ 2" "fp_word zzz3 = (z * C) ^ 3"
      by (simp_all add: e(3,4) power_numeral_reduce)
    moreover have "P' = (x3, y3, zz3, zzz3)" using res d 1 by simp
    ultimately show ?thesis using fin z 1 by (simp add: point_of_zz_def)
  next
    case 2
    then have "ecZZ_double_zz (x2, y2, 1, 1) = Inr P'" using res d double_affine_eq [OF T(2)] by simp
    from double_refines [OF ok_affine [OF T] this] show ?thesis
      using 2 fin z eqs by (simp add: point_of_zz_def)
  next
    case 3
    then have "P' = ecZZ_PointAtInf" using res d by simp
    then show ?thesis using 3 fin z eqs by (simp add: point_of_zz_def ecZZ_PointAtInf_def)
  qed
qed

lemma dadd_refines:
  assumes "zz_ok P" "aff_ok (x2, y2)" "ecZZ_dadd_affine P x2 y2 = Inr P'"
  shows "point_of_zz P' = ec_add (point_of_zz P) (point_of_aff (x2, y2))"
proof -
  obtain X Y ZZ ZZZ where P: "P = (X, Y, ZZ, ZZZ)" by (metis surj_pair)
  note inf = zz_ok_fp(3) [OF assms(1) [unfolded P]]
  consider "ecAff_IsInf x2 y2" | "\<not> ecAff_IsInf x2 y2" "fp_word ZZ = 0" | "\<not> ecAff_IsInf x2 y2" "fp_word ZZ \<noteq> 0"
    by blast
  then show ?thesis
  proof cases
    case 1
    then show ?thesis
      using assms(3) inf
      by (auto simp: P ecZZ_dadd_affine_def point_of_aff_def ecAff_IsInf_def point_of_zz_def ecZZ_PointAtInf_def split: if_splits)
  next
    case 2
    then show ?thesis
      using assms(3) inf by (auto simp: P ecZZ_dadd_affine_def point_of_aff_def ecAff_IsInf_def point_of_zz_def)
  next
    case 3
    then show ?thesis
      using dadd_refines_finite [OF assms(1) [unfolded P] assms(2) 3 assms(3) [unfolded P]]
      by (auto simp: P point_of_aff_def ecAff_IsInf_def)
  qed
qed

section \<open>Jacobian coordinates\<close>

definition point_of_jac :: "jacobian \<Rightarrow> point" where
  "point_of_jac P = point_of_zz (zz_of P)"

lemma point_of_jac_eq:
  "point_of_jac (X, Y, Z) =
    (if fp_word Z = 0 then Infinity else Point (fp_word X / fp_word Z ^ 2) (fp_word Y / fp_word Z ^ 3))"
  by (simp add: point_of_jac_def zz_of_def point_of_zz_def fp_word_mulmod power2_eq_square power3_eq_cube)

lemma jacobian_double_refines:
  "z \<noteq> 0 \<Longrightarrow> z < P256_p \<Longrightarrow> point_of_jac (modifiedJacobianDouble x y z) = ec_double (point_of_jac (x, y, z))"
proof -
  assume "z \<noteq> 0" "z < P256_p"
  then have z: "fp_word z \<noteq> 0" by (simp add: fp_word_0_iff)
  define M where "M = 3 * fp_word x ^ 2 + curve_a * fp_word z ^ 4"
  have M: "3 * (fp_word x * fp_word x) + curve_a * (fp_word z * fp_word z * (fp_word z * fp_word z)) = M"
    unfolding M_def by algebra
  from modifiedJacobianDouble_rep [of x y z, unfolded rep_fp M]
  obtain x3 y3 z3 where res: "modifiedJacobianDouble x y z = (x3, y3, z3)"
    and e: "fp_word x3 = M * M - 2 * (4 * (fp_word x * (fp_word y * fp_word y)))"
      "fp_word y3 = M * (4 * (fp_word x * (fp_word y * fp_word y)) - fp_word x3) -
        8 * (fp_word y * fp_word y * (fp_word y * fp_word y))"
      "fp_word z3 = 2 * (fp_word y * fp_word z)" by auto
  have "fp_word x3 = M ^ 2 - 8 * fp_word x * fp_word y ^ 2" unfolding e(1) by algebra
  moreover have "fp_word y3 = M * (4 * fp_word x * fp_word y ^ 2 - fp_word x3) - 8 * fp_word y ^ 4" unfolding e(2) by algebra
  moreover have "fp_word z3 = 2 * fp_word y * fp_word z" by (simp add: e(3))
  ultimately show ?thesis
    using tangent_formula [OF z M_def] z by (simp only: res point_of_jac_eq if_False)
qed

text \<open>The addition has no case for two equal points, and returns infinity there.\<close>

lemma jacobian_add_refines:
  assumes "jac_reduced (p1, p2, p3)" "jac_reduced (q1, q2, q3)"
  defines "P \<equiv> point_of_jac (p1, p2, p3)" and "Q \<equiv> point_of_jac (q1, q2, q3)"
  shows "point_of_jac (jAdd p1 p2 p3 q1 q2 q3) = (if P = Q \<and> P \<noteq> Infinity then Infinity else ec_add P Q)"
proof (cases "p3 = 0 \<or> q3 = 0")
  case True
  then show ?thesis by (auto simp: P_def Q_def point_of_jac_eq jAdd_infinity)
next
  case False
  then have nz: "p3 \<noteq> 0" "q3 \<noteq> 0" by simp_all
  define z w where "z = fp_word p3" and "w = fp_word q3"
  have zw: "z \<noteq> 0" "w \<noteq> 0" using nz assms(1,2) by (simp_all add: z_def w_def fp_word_0_iff jac_reduced_def)
  define U V S T where "U = fp_word p1 * w ^ 2" and "V = fp_word q1 * z ^ 2" and "S = fp_word p2 * w ^ 3" and "T = fp_word q2 * z ^ 3"
  define H R where "H = V - U" and "R = T - S"
  have pw: "fp_word p1 * (w * w) = U" "fp_word q1 * (z * z) = V" "fp_word p2 * (w * w * w) = S" "fp_word q2 * (z * z * z) = T"
    unfolding U_def V_def S_def T_def by algebra+
  from jAdd_rep [OF nz, of p1 p2 q1 q2, unfolded rep_fp z_def [symmetric] w_def [symmetric] pw H_def [symmetric] R_def [symmetric]]
  obtain r1 r2 r3 where res: "jAdd p1 p2 p3 q1 q2 q3 = (r1, r2, r3)"
    and e: "fp_word r1 = 2 * R * (2 * R) - (H * (2 * H * (2 * H)) + 2 * (U * (2 * H * (2 * H))))"
      "fp_word r2 = 2 * R * (U * (2 * H * (2 * H)) - fp_word r1) - 2 * S * (H * (2 * H * (2 * H)))"
      "fp_word r3 = ((z + w) * (z + w) - (z * z + w * w)) * H" by auto
  have r3: "fp_word r3 = 2 * (z * w * H)" unfolding e(3) by algebra
  have P: "P = Point (U / (z * w) ^ 2) (S / (z * w) ^ 3)" and Q: "Q = Point (V / (z * w) ^ 2) (T / (z * w) ^ 3)"
    using zw by (simp_all add: P_def Q_def point_of_jac_eq U_def V_def S_def T_def field_simps flip: z_def w_def)
  show ?thesis
  proof (cases "H = 0")
    case True
    then show ?thesis using zw r3 by (auto simp: res point_of_jac_eq P Q H_def)
  next
    case H: False
    define x y where "x = R ^ 2 - H ^ 3 - 2 * U * H ^ 2" and "y = (U * H ^ 2 - x) * R - S * H ^ 3"
    have "fp_word r1 = 4 * x" unfolding e(1) x_def by algebra
    moreover have "fp_word r2 = 8 * y" unfolding e(2) \<open>fp_word r1 = 4 * x\<close> y_def by algebra
    moreover have "ec_add P Q = Point (x / (z * w * H) ^ 2) (y / (z * w * H) ^ 3)"
      unfolding P Q using zw by (intro chord_formula [OF _ H _ _ x_def y_def refl]) (simp_all add: H_def R_def)
    moreover have "P \<noteq> Q" using H zw by (auto simp: P Q H_def)
    ultimately show ?thesis
      using H zw fp_two by (simp add: res point_of_jac_eq r3)
  qed
qed

section \<open>Normalisation\<close>

lemma curve_b_nonzero: "curve_b \<noteq> 0"
  by (simp add: curve_b_def fp_word_0_iff P256_b_def P256_p_def)

lemma valid_iff_on_curve:
  "ecAff_isValidPubkey x y \<longleftrightarrow> aff_reduced (x, y) \<and> on_curve (Point (fp_word x) (fp_word y))"
proof -
  have "ecAff_satisfiesCurveEqn x y \<longleftrightarrow> on_curve (Point (fp_word x) (fp_word y))"
    using curve_poly_fp [of x y 1] by (auto simp: satisfies_iff dvd_fp algebra_simps)
  moreover have "\<not> on_curve (Point (fp_word 0) (fp_word 0))" using curve_b_nonzero by simp
  ultimately show ?thesis by (auto simp: ecAff_isValidPubkey_def aff_reduced_def not_le)
qed

lemma SetAff_refines:
  assumes "zz_ok P"
  shows "aff_ok (ecZZ_SetAff P)" and "point_of_aff (ecZZ_SetAff P) = point_of_zz P"
proof -
  obtain X Y ZZ ZZZ where P: "P = (X, Y, ZZ, ZZZ)" by (metis surj_pair)
  obtain x y where xy: "ecZZ_SetAff P = (x, y)" by (metis surj_pair)
  have red: "aff_reduced (x, y)" using SetAff_reduced [of P] by (simp add: xy)
  note ok = zz_ok_fp [OF assms [unfolded P]]
  have "aff_ok (x, y) \<and> point_of_aff (x, y) = point_of_zz P"
  proof (cases "fp_word ZZ = 0")
    case True
    then show ?thesis using xy ok(3) by (auto simp: P ecZZ_SetAff_def ecAffine_PointAtInf_def aff_ok_def point_of_aff_def point_of_zz_def)
  next
    case False
    obtain z where z: "z \<noteq> 0" "fp_word ZZ = z ^ 2" "fp_word ZZZ = z ^ 3"
      using zz_ok_root [OF assms [unfolded P] False] by blast
    have v: "fp_word x = fp_word X / z ^ 2" "fp_word y = fp_word Y / z ^ 3"
      using xy False ok(3) z
      by (auto simp: P ecZZ_SetAff_def Let_def fp_word_mulmod fp_word_pModInv field_simps power_numeral_reduce)
    have "on_curve (Point (fp_word x) (fp_word y))"
      using ok(2) z unfolding v by (simp add: field_simps power_numeral_reduce)
    then have valid: "ecAff_isValidPubkey x y" using red by (simp add: valid_iff_on_curve)
    then have "(x, y) \<noteq> (0, 0)" by (auto simp: ecAff_isValidPubkey_def)
    then show ?thesis using valid False z v by (simp add: P aff_ok_def point_of_aff_def point_of_zz_def)
  qed
  then show "aff_ok (ecZZ_SetAff P)" "point_of_aff (ecZZ_SetAff P) = point_of_zz P" by (simp_all add: xy)
qed

lemma ecAff_add_refines:
  assumes "aff_ok (x1, y1)" "aff_ok (x2, y2)"
  shows "\<exists>H. ecAff_add x1 y1 x2 y2 = Inr H \<and> aff_ok H \<and>
    point_of_aff H = ec_add (point_of_aff (x1, y1)) (point_of_aff (x2, y2))"
proof (cases "ecAff_IsInf x1 y1 \<or> ecAff_IsInf x2 y2")
  case True
  then show ?thesis using assms by (auto simp: ecAff_add_def ecAff_IsInf_def point_of_aff_def)
next
  case False
  then have "zz_ok (x1, y1, 1, 1)" using ok_affine assms(1) by simp
  moreover obtain P where P: "ecZZ_dadd_affine (x1, y1, 1, 1) x2 y2 = Inr P" "zz_ok P"
    using dadd_affine_ok [OF \<open>zz_ok (x1, y1, 1, 1)\<close> assms(2)] by blast
  ultimately have "point_of_zz P = ec_add (point_of_zz (x1, y1, 1, 1)) (point_of_aff (x2, y2))"
    using dadd_refines assms(2) by blast
  moreover have "point_of_zz (x1, y1, 1, 1) = point_of_aff (x1, y1)"
    using False by (auto simp: point_of_zz_def point_of_aff_def ecAff_IsInf_def)
  ultimately show ?thesis
    using False P SetAff_refines [OF P(2)] by (auto simp: ecAff_add_def simp del: split_paired_Ex)
qed

section \<open>Multiplication\<close>

definition generator :: point where
  "generator = Point (fp_word GX) (fp_word GY)"

lemma generator_aff: "aff_ok (GX, GY)" "point_of_aff (GX, GY) = generator"
  using generator_on_curve by (auto simp: aff_ok_def point_of_aff_def generator_def ecAff_isValidPubkey_def)

text \<open>
  The ladder against the textbook. When the key is the negative of the generator, the sum of the two
  is infinity, stored as \<open>(0, 0)\<close>; a ladder that starts there starts at \<open>(0, 0, 1, 1)\<close>, which is no
  point of the curve, and reaches infinity with the first doubling.
\<close>

definition implements :: "aff_point \<Rightarrow> aff_point \<Rightarrow> nat \<Rightarrow> nat \<Rightarrow> zz_point \<Rightarrow> bool" where
  "implements Q H i j P \<longleftrightarrow> aff_ok Q \<and> aff_ok H \<and> point_of_aff H = ec_add generator (point_of_aff Q) \<and>
     (zz_ok P \<and> point_of_zz P = double_mult generator (point_of_aff Q) i j \<or>
      P = (0, 0, 1, 1) \<and> odd i \<and> odd j \<and> double_mult generator (point_of_aff Q) i j = Infinity)"

lemma double_false_start:
  "\<exists>P'. ecZZ_double_zz (0, 0, 1, 1) = Inr P' \<and> zz_ok P' \<and> point_of_zz P' = Infinity"
proof -
  let ?M = "3 * (uint (0 :: uint256) * uint (0 :: uint256)) + uint P256_a * (uint (1 :: uint256) * uint (1 :: uint256))"
  have "\<not> ecZZ_IsInf 1 1" by (simp add: ecZZ_IsInf_def)
  from double_zz_rep [OF this, of 0 0] obtain x3 y3 zz3 zzz3 where
    d: "ecZZ_double_zz (0, 0, 1, 1) = Inr (x3, y3, zz3, zzz3)" "zz_reduced (x3, y3, zz3, zzz3)"
    and r: "rep x3 (uint P256_a * uint P256_a)" "rep y3 (- (uint P256_a * (uint P256_a * uint P256_a)))" "rep zz3 0" "rep zzz3 0"
    by auto
  have "zz_on_curve (x3, y3, zz3, zzz3)"
  proof (rule on_curve_rep [OF r])
    have "curve_poly (uint P256_a * uint P256_a) (- (uint P256_a * (uint P256_a * uint P256_a))) 0 = 0"
      unfolding curve_poly_def by (simp add: power_numeral_reduce)
    then show "uint P256_p dvd curve_poly (uint P256_a * uint P256_a) (- (uint P256_a * (uint P256_a * uint P256_a))) 0"
      by simp
  qed simp
  moreover have "fp_word zz3 = 0" using r(3) by (simp add: rep_iff_fp)
  ultimately show ?thesis using d by (auto simp: zz_ok_def point_of_zz_def)
qed

interpretation textbook: double_and_add Q H "implements Q H" for Q H
proof unfold_locales
  fix i j P
  show "\<exists>P'. ecZZ_double_zz P = Inr P' \<and> implements Q H (2 * i) (2 * j) P'" if "implements Q H i j P"
    using that double_zz_ok [of P] double_refines [of P] double_false_start
    unfolding implements_def double_mult_double by (metis ec_double.simps(1))
  assume even: "implements Q H (2 * i) (2 * j) P"
  then have ok: "zz_ok P" "point_of_zz P = double_mult generator (point_of_aff Q) (2 * i) (2 * j)"
      and QH: "aff_ok (fst Q, snd Q)" "aff_ok (fst H, snd H)" "point_of_aff H = ec_add generator (point_of_aff Q)"
    by (auto simp: implements_def)
  have step: "\<exists>P'. ecZZ_dadd_affine P x y = Inr P' \<and> zz_ok P' \<and>
      point_of_zz P' = ec_add (double_mult generator (point_of_aff Q) (2 * i) (2 * j)) (point_of_aff (x, y))"
    if "aff_ok (x, y)" for x y
    using dadd_affine_ok [OF ok(1) that] dadd_refines [OF ok(1) that] ok(2) by metis
  show "\<exists>P'. ecZZ_dadd_affine P GX GY = Inr P' \<and> implements Q H (2 * i + 1) (2 * j) P'"
    using step [OF generator_aff(1)] QH unfolding implements_def double_mult_add generator_aff(2) prod.collapse by blast
  show "\<exists>P'. ecZZ_dadd_affine P (fst Q) (snd Q) = Inr P' \<and> implements Q H (2 * i) (2 * j + 1) P'"
    using step [OF QH(1)] QH unfolding implements_def double_mult_add prod.collapse by blast
  show "\<exists>P'. ecZZ_dadd_affine P (fst H) (snd H) = Inr P' \<and> implements Q H (2 * i + 1) (2 * j + 1) P'"
    using step [OF QH(2)] QH unfolding implements_def double_mult_add prod.collapse by metis
qed

fun x_coord :: "point \<Rightarrow> fp" where
  "x_coord Infinity = 0"
| "x_coord (Point x y) = x"

lemma double_mult_bits:
  "double_mult G Q 1 0 = G" "double_mult G Q 0 1 = Q" "double_mult G Q 1 1 = ec_add G Q"
  using double_mult_add [of G Q 0 0] by (simp_all add: double_mult.simps [of G Q 0 0])

lemma implements_start:
  assumes "aff_ok Q" "aff_ok H" "point_of_aff H = ec_add generator (point_of_aff Q)" "Q \<noteq> (0, 0)"
  shows "implements Q H 1 0 (GX, GY, 1, 1)" "implements Q H 0 1 (fst Q, snd Q, 1, 1)"
    "implements Q H 1 1 (fst H, snd H, 1, 1)"
proof -
  have start: "zz_ok (x, y, 1, 1) \<and> point_of_zz (x, y, 1, 1) = point_of_aff (x, y)" if "aff_ok (x, y)" "(x, y) \<noteq> (0, 0)" for x y
    using ok_affine [OF that(1)] that(2) by (auto simp: ecAff_IsInf_def point_of_zz_def point_of_aff_def)
  have "(GX, GY) \<noteq> (0, 0)" by (simp add: GX_def)
  then show "implements Q H 1 0 (GX, GY, 1, 1)"
    using start [OF generator_aff(1)] assms by (simp add: implements_def double_mult_bits [unfolded One_nat_def] generator_aff(2))
  show "implements Q H 0 1 (fst Q, snd Q, 1, 1)"
    using start [of "fst Q" "snd Q"] assms by (simp add: implements_def double_mult_bits [unfolded One_nat_def])
  show "implements Q H 1 1 (fst H, snd H, 1, 1)"
  proof (cases "H = (0, 0)")
    case True
    then show ?thesis using assms by (simp add: implements_def double_mult_bits [unfolded One_nat_def] point_of_aff_def)
  next
    case False
    then show ?thesis using start [of "fst H" "snd H"] assms by (simp add: implements_def double_mult_bits [unfolded One_nat_def])
  qed
qed

lemma implements_x:
  assumes "implements Q H i j (X, Y, ZZ, ZZZ)"
  shows "fp_word (mulmod X (pModInv ZZ) P256_p) = x_coord (double_mult generator (point_of_aff Q) i j)"
proof -
  let ?D = "double_mult generator (point_of_aff Q) i j"
  consider "point_of_zz (X, Y, ZZ, ZZZ) = ?D" | "X = 0" "?D = Infinity"
    using assms by (auto simp: implements_def)
  then show ?thesis
  proof cases
    case 1
    have "fp_word (mulmod X (pModInv ZZ) P256_p) = x_coord (point_of_zz (X, Y, ZZ, ZZZ))"
      by (simp add: fp_word_mulmod fp_word_pModInv point_of_zz_def divide_inverse)
    then show ?thesis by (simp only: 1)
  qed (simp add: fp_word_mulmod)
qed

lemma on_curve_generator: "on_curve generator"
  using generator_on_curve by (simp add: valid_iff_on_curve generator_def del: on_curve.simps)

lemma mulmuladd_textbook:
  assumes "ecAff_isValidPubkey QX QY"
  shows "\<exists>x. ecZZ_mulmuladd QX QY u v = Inr x \<and> x < P256_p \<and>
    fp_word x = x_coord (ec_add (point_mult (unat u) generator) (point_mult (unat v) (Point (fp_word QX) (fp_word QY))))"
proof (cases "u = 0 \<and> v = 0")
  case True
  then show ?thesis using P256_p_pos by (simp add: ecZZ_mulmuladd_def)
next
  case False
  then have nz: "u \<noteq> 0 \<or> v \<noteq> 0" by simp
  have Q: "aff_ok (QX, QY)" "(QX, QY) \<noteq> (0, 0)" using assms by (auto simp: aff_ok_def ecAff_isValidPubkey_def)
  obtain HX HY where H: "ecAff_add GX GY QX QY = Inr (HX, HY)" "aff_ok (HX, HY)"
      "point_of_aff (HX, HY) = ec_add generator (point_of_aff (QX, QY))"
    using ecAff_add_refines [OF generator_aff(1) Q(1)] generator_aff(2) by auto
  obtain i b where first: "mulmuladd_first 256 u v 0 = (i, b)" by (metis surj_pair)
  note found = mulmuladd_first_finds [OF unat_lt_256 unat_lt_256 nz first]
  let ?S = "if b = 1 then (GX, GY) else if b = 2 then (QX, QY) else if b = 3 then (HX, HY) else (0, 0)"
  obtain SX SY where S: "?S = (SX, SY)" by (metis surj_pair)
  have "implements (QX, QY) (HX, HY) (unat u div 2 ^ i) (unat v div 2 ^ i) (SX, SY, 1, 1)"
    using found S implements_start [OF Q(1) H(2,3) Q(2)]
    by (cases "bit u i"; cases "bit v i") (simp_all add: bitpair_cases)
  then obtain P where P: "mulmuladd_loop (QX, QY) (HX, HY) i u v (SX, SY, 1, 1) = Inr P"
      "implements (QX, QY) (HX, HY) (unat u) (unat v) P"
    using textbook.loop_ok by blast
  obtain X Y ZZ ZZZ where X: "P = (X, Y, ZZ, ZZZ)" by (metis surj_pair)
  have "ecZZ_mulmuladd QX QY u v = Inr (mulmod X (pModInv ZZ) P256_p)"
    using nz P(1) by (auto simp: ecZZ_mulmuladd_def H(1) first Let_def S X split del: if_split)
  moreover have "point_of_aff (QX, QY) = Point (fp_word QX) (fp_word QY)" using Q(2) by (simp add: point_of_aff_def)
  moreover have "on_curve (Point (fp_word QX) (fp_word QY))" using assms by (simp add: valid_iff_on_curve del: on_curve.simps)
  note double_mult_is_sum [OF on_curve_generator this]
  ultimately show ?thesis using implements_x [OF P(2) [unfolded X]] mod_p_less by auto
qed

section \<open>Signatures\<close>

text \<open>The word below the prime that represents an element.\<close>

definition word_of_fp :: "fp \<Rightarrow> uint256" where
  "word_of_fp a = word_of_int (Rep_fp a)"

lemma word_of_fp_unique: "x < P256_p \<Longrightarrow> word_of_fp (fp_word x) = x"
proof -
  assume "x < P256_p"
  then have "uint x mod field_prime = uint x" by (simp add: field_prime_P256_p word_less_def)
  then show ?thesis by (simp add: word_of_fp_def fp_word_def fp_of_int.rep_eq flip: fp_of_int_eq)
qed

text \<open>The order of the group is prime, so every scalar below it has an inverse.\<close>

lemma power_inverse:
  assumes "0 < s" "s < P256_n"
  shows "unat s * (unat s ^ (unat P256_n - 2) mod unat P256_n) mod unat P256_n = 1"
proof -
  define N where "N = unat P256_n"
  have N: "int N = group_order" "2 < N" by (simp_all add: N_def P256_n_def group_order_def)
  have s: "0 < unat s" "unat s < N" using assms by (simp_all add: N_def word_less_nat_alt)
  then have "\<not> N dvd unat s" by (simp add: nat_dvd_not_less)
  then have "\<not> group_order dvd int (unat s)" by (simp only: N(1) [symmetric] of_nat_dvd_iff simp_thms)
  from fermat_little [OF prime_group_order this] have "int (unat s) ^ nat (int N - 1) mod int N = 1"
    by (simp only: N(1))
  moreover have "nat (int N - 1) = Suc (N - 2)" using N(2) by simp
  ultimately have "int (unat s ^ Suc (N - 2) mod N) = int 1" by (simp only: of_nat_mod of_nat_power of_nat_1)
  then have "unat s * unat s ^ (N - 2) mod N = 1" by (simp only: of_nat_eq_iff power_Suc)
  then show ?thesis by (simp only: mod_mult_right_eq flip: N_def)
qed

lemma residue_inverse_unique:
  fixes s w w' n :: nat
  assumes "s * w mod n = 1" "s * w' mod n = 1"
  shows "h * w mod n = h * w' mod n"
proof -
  have "h * w mod n = h * w * (s * w') mod n" using assms(2) by (metis mod_mult_right_eq mult.right_neutral)
  also have "\<dots> = h * w' * (s * w) mod n" by (simp add: mult_ac)
  also have "\<dots> = h * w' mod n" using assms(1) by (metis mod_mult_right_eq mult.right_neutral)
  finally show ?thesis .
qed

text \<open>Verification as FIPS 186 states it, with \<open>w\<close> the inverse of \<open>s\<close> modulo the order.\<close>

definition ecdsa_equation :: "uint256 \<Rightarrow> uint256 \<Rightarrow> nat \<Rightarrow> uint256 \<Rightarrow> uint256 \<Rightarrow> bool" where
  "ecdsa_equation h r w x y \<longleftrightarrow>
     (let u1 = unat h * w mod unat P256_n;
          u2 = unat r * w mod unat P256_n;
          R = ec_add (point_mult u1 generator) (point_mult u2 (Point (fp_word x) (fp_word y)))
      in unat (word_of_fp (x_coord R)) mod unat P256_n = unat r)"

definition ecdsa_spec :: "uint256 \<Rightarrow> uint256 \<Rightarrow> uint256 \<Rightarrow> uint256 \<Rightarrow> uint256 \<Rightarrow> bool" where
  "ecdsa_spec h r s x y \<longleftrightarrow>
     0 < r \<and> r < P256_n \<and> 0 < s \<and> s < P256_n \<and> x < P256_p \<and> y < P256_p \<and>
     on_curve (Point (fp_word x) (fp_word y)) \<and>
     (\<exists>w. unat s * w mod unat P256_n = 1 \<and> ecdsa_equation h r w x y)"

lemma ecdsa_equation_inverse:
  assumes "unat s * w mod unat P256_n = 1"
  shows "(\<exists>w. unat s * w mod unat P256_n = 1 \<and> ecdsa_equation h r w x y) \<longleftrightarrow> ecdsa_equation h r w x y"
  using residue_inverse_unique [OF assms] assms unfolding ecdsa_equation_def by metis

lemma ecdsa_verify_spec: "ecdsa_verify h r s pk = Inr (ecdsa_spec h r s (fst pk) (snd pk))"
proof (cases "0 < r \<and> r < P256_n \<and> 0 < s \<and> s < P256_n \<and> ecAff_isValidPubkey (fst pk) (snd pk)")
  case False
  then show ?thesis
    by (auto simp: ecdsa_verify_def ecdsa_spec_def valid_iff_on_curve aff_reduced_def not_le word_gt_0 not_less)
next
  case True
  have n: "0 < P256_n" "P256_n \<noteq> 0" "unat minus_2modn = unat P256_n - 2" by (simp_all add: P256_n_def minus_2modn_def)
  define w where "w = unat s ^ (unat P256_n - 2) mod unat P256_n"
  have w: "unat (nModInv s) = w" unfolding nModInv_def w_def unat_modInv [OF n(2)] n(3) ..
  obtain x where x: "ecZZ_mulmuladd (fst pk) (snd pk) (mulmod h (nModInv s) P256_n) (mulmod r (nModInv s) P256_n) = Inr x"
      "x < P256_p" "fp_word x = x_coord (ec_add (point_mult (unat h * w mod unat P256_n) generator)
        (point_mult (unat r * w mod unat P256_n) (Point (fp_word (fst pk)) (fp_word (snd pk)))))"
    using mulmuladd_textbook [of "fst pk" "snd pk" "mulmod h (nModInv s) P256_n" "mulmod r (nModInv s) P256_n"] True
    by (auto simp: unat_mulmod [OF n(1)] w)
  have "ecdsa_verify h r s pk = Inr (x mod P256_n = r)"
    using True x(1) by (auto simp: ecdsa_verify_def Let_def not_le word_gt_0)
  moreover have "word_of_fp (x_coord (ec_add (point_mult (unat h * w mod unat P256_n) generator)
        (point_mult (unat r * w mod unat P256_n) (Point (fp_word (fst pk)) (fp_word (snd pk)))))) = x"
    using word_of_fp_unique [OF x(2)] x(3) by simp
  ultimately show ?thesis
    using True ecdsa_equation_inverse [OF power_inverse [of s, folded w_def], of h r "fst pk" "snd pk"]
    by (auto simp: ecdsa_spec_def ecdsa_equation_def Let_def valid_iff_on_curve aff_reduced_def word_unat_eq_iff unat_mod)
qed

end
