(* ===== verification/P256Yul.thy ===== *)
theory P256Yul
  imports Montgomery CurveSpec
begin

text \<open>
  \<open>P256VERIFY.yul\<close>: the verifier of secp256r1 signatures in Yul. It works in homogeneous coordinates
  with a third coordinate of 0 for the point at infinity, keeps every coordinate in Montgomery form,
  and multiplies two points at once. \<open>burnGas\<close> consumes the gas that is left and ends the call, so it
  is an outcome of its own; a call that does not end is \<open>None\<close>.
\<close>

unbundle bit_operations_syntax

section \<open>Constants\<close>

definition yul_P :: uint256 where
  "yul_P = 0xffffffff00000001000000000000000000000000ffffffffffffffffffffffff"

definition yul_N :: uint256 where
  "yul_N = 0xffffffff00000000ffffffffffffffffbce6faada7179e84f3b9cac2fc632551"

definition MONTGOMERY_ONE_P :: uint256 where
  "MONTGOMERY_ONE_P = 26959946660873538059280334323183841250350249843923952699046031785985"

definition MONTGOMERY_ONE_N :: uint256 where
  "MONTGOMERY_ONE_N = 26959946660873538059280334323273029441504803697035324946844617595567"

definition MONTGOMERY_A_P :: uint256 where
  "MONTGOMERY_A_P = 115792089129476408780076832771566570560534619664239564663761773211729002495996"

definition MONTGOMERY_B_P :: uint256 where
  "MONTGOMERY_B_P = 99593677540221402957765480916910020772520766868399186769503856397241456836063"

type_synonym proj_point = "uint256 \<times> uint256 \<times> uint256"

definition MONTGOMERY_PROJECTIVE_G_P :: proj_point where
  "MONTGOMERY_PROJECTIVE_G_P =
     (0x18905F76A53755C679FB732B7762251075BA95FC5FEDB60179E730D418A9143C,
      0x8571FF1825885D85D2E88688DD21F3258B4AB8E4BA19E45CDDF25357CE95560A,
      MONTGOMERY_ONE_P)"

definition R2_MOD_P :: uint256 where
  "R2_MOD_P = 134799733323198995502561713907086292154532538166959272814710328655875"

definition R2_MOD_N :: uint256 where
  "R2_MOD_N = 46533765739406314298121036767150998762426774378559716911348521029833835802274"

definition P_PRIME :: uint256 where
  "P_PRIME = 115792089210356248768974548684794254293921932838497980611635986753331132366849"

definition N_PRIME :: uint256 where
  "N_PRIME = 43790243024438006127650828685417305984841428635278707415088219106730833919055"

section \<open>Curve arithmetic\<close>

definition fieldElementIsOnFieldOrder :: "uint256 \<Rightarrow> bool" where
  "fieldElementIsOnFieldOrder felt \<longleftrightarrow> felt < yul_P"

definition fieldElementIsOnSubgroupOrder :: "uint256 \<Rightarrow> bool" where
  "fieldElementIsOnSubgroupOrder felt \<longleftrightarrow> felt < yul_N"

definition affinePointCoordinatesAreOnFieldOrder :: "uint256 \<Rightarrow> uint256 \<Rightarrow> bool" where
  "affinePointCoordinatesAreOnFieldOrder xp yp \<longleftrightarrow> fieldElementIsOnFieldOrder xp \<and> fieldElementIsOnFieldOrder yp"

definition affinePointIsInfinity :: "uint256 \<Rightarrow> uint256 \<Rightarrow> bool" where
  "affinePointIsInfinity xp yp \<longleftrightarrow> xp OR yp = 0"

definition affinePointIsOnCurve :: "uint256 \<Rightarrow> uint256 \<Rightarrow> bool" where
  "affinePointIsOnCurve xp yp =
     (let left = montgomeryMul yp yp yul_P P_PRIME;
          right = montgomeryAdd (montgomeryMul xp (montgomeryMul xp xp yul_P P_PRIME) yul_P P_PRIME)
                    (montgomeryAdd (montgomeryMul MONTGOMERY_A_P xp yul_P P_PRIME) MONTGOMERY_B_P yul_P) yul_P
      in left = right)"

definition projectiveFromAffine :: "uint256 \<Rightarrow> uint256 \<Rightarrow> proj_point" where
  "projectiveFromAffine xp yp = (xp, yp, MONTGOMERY_ONE_P)"

definition projectivePointIsInfinity :: "proj_point \<Rightarrow> bool" where
  "projectivePointIsInfinity p = (case p of (xp, yp, zp) \<Rightarrow> zp = 0)"

definition projectiveDouble :: "proj_point \<Rightarrow> proj_point" where
  "projectiveDouble p =
     (case p of (xp, yp, zp) \<Rightarrow>
      let x_squared = montgomeryMul xp xp yul_P P_PRIME;
          z_squared = montgomeryMul zp zp yul_P P_PRIME;
          az_squared = montgomeryMul MONTGOMERY_A_P z_squared yul_P P_PRIME;
          t = montgomeryAdd (montgomeryAdd x_squared (montgomeryAdd x_squared x_squared yul_P) yul_P) az_squared yul_P;
          yz = montgomeryMul yp zp yul_P P_PRIME;
          u = montgomeryAdd yz yz yul_P;
          uxy = montgomeryMul u (montgomeryMul xp yp yul_P P_PRIME) yul_P P_PRIME;
          v = montgomeryAdd uxy uxy yul_P;
          w = montgomerySub (montgomeryMul t t yul_P P_PRIME) (montgomeryAdd v v yul_P) yul_P;
          xr = montgomeryMul u w yul_P P_PRIME;
          uy = montgomeryMul u yp yul_P P_PRIME;
          uy_squared = montgomeryMul uy uy yul_P P_PRIME;
          yr = montgomerySub (montgomeryMul t (montgomerySub v w yul_P) yul_P P_PRIME)
                 (montgomeryAdd uy_squared uy_squared yul_P) yul_P;
          zr = montgomeryMul u (montgomeryMul u u yul_P P_PRIME) yul_P P_PRIME
      in (xr, yr, zr))"

definition projectiveAdd :: "proj_point \<Rightarrow> proj_point \<Rightarrow> proj_point" where
  "projectiveAdd p q =
     (case p of (xp, yp, zp) \<Rightarrow> case q of (xq, yq, zq) \<Rightarrow>
      if projectivePointIsInfinity (xp, yp, zp) then (xq, yq, zq)
      else if projectivePointIsInfinity (xq, yq, zq) then (xp, yp, zp)
      else
        let t0 = montgomeryMul yp zq yul_P P_PRIME;
            t1 = montgomeryMul yq zp yul_P P_PRIME;
            t = montgomerySub t0 t1 yul_P;
            u0 = montgomeryMul xp zq yul_P P_PRIME;
            u1 = montgomeryMul xq zp yul_P P_PRIME;
            u = montgomerySub u0 u1 yul_P
        in if t OR u = 0 then projectiveDouble (xp, yp, zp)
           else
             let u2 = montgomeryMul u u yul_P P_PRIME;
                 u3 = montgomeryMul u2 u yul_P P_PRIME;
                 v = montgomeryMul zp zq yul_P P_PRIME;
                 w = montgomerySub (montgomeryMul (montgomeryMul t t yul_P P_PRIME) v yul_P P_PRIME)
                       (montgomeryMul u2 (montgomeryAdd u0 u1 yul_P) yul_P P_PRIME) yul_P;
                 xr = montgomeryMul u w yul_P P_PRIME;
                 yr = montgomerySub
                        (montgomeryMul t (montgomerySub (montgomeryMul u0 u2 yul_P P_PRIME) w yul_P) yul_P P_PRIME)
                        (montgomeryMul t0 u3 yul_P P_PRIME) yul_P;
                 zr = montgomeryMul u3 v yul_P P_PRIME
             in (xr, yr, zr))"

definition compareBits :: "uint256 \<Rightarrow> uint256 \<Rightarrow> uint256 \<Rightarrow> uint256" where
  "compareBits index t0 t1 = (drop_bit (unat index) t0 AND 1) * 2 + (drop_bit (unat index) t1 AND 1)"

partial_function (option) msb_loop :: "uint256 \<Rightarrow> uint256 \<Rightarrow> uint256 \<Rightarrow> uint256 \<Rightarrow> (uint256 \<times> uint256) option" where
  "msb_loop t0 t1 index ret =
     (if ret = 0 then msb_loop t0 t1 (index - 1) (compareBits index t0 t1) else Some (index, ret))"

declare msb_loop.simps [code]

definition findMostSignificantBitIndex :: "uint256 \<Rightarrow> uint256 \<Rightarrow> (uint256 \<times> uint256) option" where
  "findMostSignificantBitIndex t0 t1 =
     Option.bind (msb_loop t0 t1 255 0) (\<lambda>(index, ret). Some (index + 1, ret))"

text \<open>The \<open>switch\<close> over the two bits, and the loop over the index, which counts down to 0.\<close>

definition addend :: "proj_point \<Rightarrow> proj_point \<Rightarrow> proj_point \<Rightarrow> uint256 \<Rightarrow> proj_point option" where
  "addend q g h ret =
     (if ret = 1 then Some q else if ret = 2 then Some g else if ret = 3 then Some h else None)"

primrec combination_loop ::
    "proj_point \<Rightarrow> proj_point \<Rightarrow> proj_point \<Rightarrow> uint256 \<Rightarrow> uint256 \<Rightarrow> nat \<Rightarrow> proj_point \<Rightarrow> proj_point" where
  "combination_loop q g h t0 t1 0 r = r"
| "combination_loop q g h t0 t1 (Suc index) r =
     (let r = projectiveDouble r
      in combination_loop q g h t0 t1 index
           (case addend q g h (compareBits (of_nat index) t0 t1) of None \<Rightarrow> r | Some s \<Rightarrow> projectiveAdd r s))"

definition shamirLinearCombination :: "proj_point \<Rightarrow> uint256 \<Rightarrow> uint256 \<Rightarrow> proj_point option" where
  "shamirLinearCombination q t0 t1 =
     (let g = MONTGOMERY_PROJECTIVE_G_P;
          h = projectiveAdd g q
      in Option.bind (findMostSignificantBitIndex t0 t1) (\<lambda>(index, ret).
         let r = (case addend q g h ret of None \<Rightarrow> (0, 0, 0) | Some s \<Rightarrow> s)
         in Some (combination_loop q g h t0 t1 (unat index) r)))"

section \<open>The contract\<close>

datatype yul_outcome = BurntGas | Returned bytes

definition calldataload :: "bytes \<Rightarrow> nat \<Rightarrow> uint256" where
  "calldataload calldata off = load_word (drop off calldata @ replicate 32 0) 0"

definition p256verify_words :: "uint256 \<Rightarrow> uint256 \<Rightarrow> uint256 \<Rightarrow> uint256 \<Rightarrow> uint256 \<Rightarrow> yul_outcome option" where
  "p256verify_words hash r s x y =
     (if (r = 0 \<or> \<not> fieldElementIsOnSubgroupOrder r) \<or> (s = 0 \<or> \<not> fieldElementIsOnSubgroupOrder s) then Some BurntGas
      else if affinePointIsInfinity x y \<or> \<not> affinePointCoordinatesAreOnFieldOrder x y then Some BurntGas
      else
        let x = intoMontgomeryForm x yul_P P_PRIME R2_MOD_P;
            y = intoMontgomeryForm y yul_P P_PRIME R2_MOD_P
        in if \<not> affinePointIsOnCurve x y then Some BurntGas
           else
             let p = projectiveFromAffine x y;
                 hash = intoMontgomeryForm hash yul_N N_PRIME R2_MOD_N;
                 rTmp = r;
                 r = intoMontgomeryForm r yul_N N_PRIME R2_MOD_N;
                 s = intoMontgomeryForm s yul_N N_PRIME R2_MOD_N
             in Option.bind (montgomeryModularInverse s yul_N R2_MOD_N) (\<lambda>s1.
                let t0 = outOfMontgomeryForm (montgomeryMul hash s1 yul_N N_PRIME) yul_N N_PRIME;
                    t1 = outOfMontgomeryForm (montgomeryMul r s1 yul_N N_PRIME) yul_N N_PRIME
                in Option.bind (shamirLinearCombination p t0 t1) (\<lambda>(xr, yr, zr).
                   if zr = 0 then Some (Returned (abi_word 0))
                   else
                     Option.bind (montgomeryModularInverse zr yul_P R2_MOD_P) (\<lambda>z_inv.
                     let xr = montgomeryMul xr z_inv yul_P P_PRIME;
                         xr = outOfMontgomeryForm xr yul_P P_PRIME;
                         xr = xr mod yul_N
                     in Some (Returned (abi_word (if xr = rTmp then 1 else 0)))))))"

definition p256verify_yul :: "bytes \<Rightarrow> yul_outcome option" where
  "p256verify_yul calldata =
     p256verify_words (calldataload calldata 0) (calldataload calldata 32) (calldataload calldata 64)
       (calldataload calldata 96) (calldataload calldata 128)"

section \<open>The two moduli\<close>

lemma yul_moduli: "yul_P = P256_p" "yul_N = P256_n"
  by (simp_all add: yul_P_def P256_p_def yul_N_def P256_n_def)

lemma uint_yul_P: "uint yul_P = field_prime"
  by (simp add: yul_P_def field_prime_def)

lemma uint_yul_N: "uint yul_N = group_order"
  by (simp add: yul_N_def group_order_def)

text \<open>The constants that the source computes beforehand are the ones the reduction needs.\<close>

lemma minus_one_word: "uint a * uint b = k * 2 ^ 256 + (2 ^ 256 - 1) \<Longrightarrow> a * b = - 1" for a b :: uint256
proof -
  assume "uint a * uint b = k * 2 ^ 256 + (2 ^ 256 - 1)"
  then have "uint (a * b) = (2 ^ 256 - 1 + k * 2 ^ 256) mod 2 ^ 256" by (simp add: uint_word_ariths add.commute)
  also have "\<dots> = 2 ^ 256 - 1" by (simp only: mod_mult_self1) simp
  finally show ?thesis by (simp add: word_uint_eq_iff unsigned_minus_1_eq_mask mask_eq_exp_minus_1)
qed

lemma square_radix: "radix * radix = uint n * k + r \<Longrightarrow> 0 \<le> r \<Longrightarrow> r < uint n \<Longrightarrow> r = radix * radix mod uint n"
  by simp

lemma nPrime_values: "yul_P * P_PRIME = - 1" "yul_N * N_PRIME = - 1"
proof -
  have "uint yul_P * uint P_PRIME = 0xfffffffe00000003fffffffd0000000200000001fffffffe00000002ffffffff * 2 ^ 256 + (2 ^ 256 - 1)"
    unfolding uint_yul_P field_prime_def P_PRIME_def by simp
  then show "yul_P * P_PRIME = - 1" by (rule minus_one_word)
  have "uint yul_N * uint N_PRIME = 0x60d066334905c1e907f8b6041e607725badef3e243566fafce1bc8f79c197c78 * 2 ^ 256 + (2 ^ 256 - 1)"
    unfolding uint_yul_N group_order_def N_PRIME_def by simp
  then show "yul_N * N_PRIME = - 1" by (rule minus_one_word)
qed

interpretation field_form: montgomery yul_P P_PRIME R2_MOD_P
proof unfold_locales
  show "yul_P * P_PRIME = - 1" by (rule nPrime_values)
  show "uint R2_MOD_P = radix * radix mod uint yul_P"
    by (rule square_radix [where k = "0x100000000fffffffffffffffefffffffefffffffeffffffff0000000000000003"]) (simp_all add: radix_def uint_yul_P field_prime_def R2_MOD_P_def)
  show "1 < uint yul_P" by (simp add: uint_yul_P field_prime_def)
qed

interpretation order_form: montgomery yul_N N_PRIME R2_MOD_N
proof unfold_locales
  show "yul_N * N_PRIME = - 1" by (rule nPrime_values)
  show "uint R2_MOD_N = radix * radix mod uint yul_N"
    by (rule square_radix [where k = "0x100000000fffffffffffffffeffffffff43190552df1a6c21012ffd85eedf9bfe"]) (simp_all add: radix_def uint_yul_N group_order_def R2_MOD_N_def)
  show "1 < uint yul_N" by (simp add: uint_yul_N group_order_def)
qed

lemma is_mont_constant: "v < n \<Longrightarrow> k * radix = uint n * q + uint v \<Longrightarrow> is_mont n v k"
  by (simp add: is_mont_def)

lemma constants_form:
  "is_mont yul_P MONTGOMERY_ONE_P 1" "is_mont yul_P MONTGOMERY_A_P (uint P256_a)" "is_mont yul_P MONTGOMERY_B_P (uint P256_b)"
  "is_mont yul_P (fst MONTGOMERY_PROJECTIVE_G_P) (uint GX)" "is_mont yul_P (fst (snd MONTGOMERY_PROJECTIVE_G_P)) (uint GY)"
      apply (rule is_mont_constant [where q = 1]; code_simp)
     apply (rule is_mont_constant [where q = "0xfffffffffffffffffffffffffffffffffffffffffffffffffffffffffffffffc"]; code_simp)
    apply (rule is_mont_constant [where q = "0x5ac635d90500c9c05e26513ccfbe0e38d6b4c3ac78843090d89cdf6229c4bddf"]; code_simp)
   apply (rule is_mont_constant [where q = "0x6b17d1f34c44143ad9e9292cf14955e48e63aa385fedb60179e730d418a9143c"]; code_simp)
  apply (rule is_mont_constant [where q = "0x4fe342e34dfdc27e8d026ae5bb14467d59e00eeeba19e45cddf25357ce95560a"]; code_simp)
  done

section \<open>Field elements\<close>

text \<open>The element of the field that a word in Montgomery form stands for.\<close>

definition mfp :: "uint256 \<Rightarrow> fp" where
  "mfp w = fp_word w / of_int radix"

lemma radix_nonzero: "(of_int radix :: fp) \<noteq> 0"
proof
  assume "(of_int radix :: fp) = 0"
  then have "field_prime dvd radix" by (simp only: of_int_fp_eq_0_iff)
  then have "is_unit (uint yul_P)"
    using field_form.coprime_radix coprime_common_divisor by (metis dvd_refl uint_yul_P)
  then show False using field_form.n_gt_1 by simp
qed

lemma is_mont_fp: "is_mont yul_P v k \<longleftrightarrow> v < yul_P \<and> mfp v = of_int k"
proof -
  have "mfp v = of_int k \<longleftrightarrow> (of_int (uint v) :: fp) = of_int (k * radix)"
    using radix_nonzero by (simp add: mfp_def fp_word_def divide_eq_eq)
  then show ?thesis by (simp only: is_mont_def of_int_fp_eq_iff uint_yul_P)
qed

lemma mfp_of_form: "is_mont yul_P v k \<Longrightarrow> mfp v = of_int k"
  by (simp only: is_mont_fp)

lemma mont_ops:
  assumes "v < yul_P" "w < yul_P"
  shows "montgomeryMul v w yul_P P_PRIME < yul_P" "mfp (montgomeryMul v w yul_P P_PRIME) = mfp v * mfp w"
    and "montgomeryAdd v w yul_P < yul_P" "mfp (montgomeryAdd v w yul_P) = mfp v + mfp w"
    and "montgomerySub v w yul_P < yul_P" "mfp (montgomerySub v w yul_P) = mfp v - mfp w"
proof -
  obtain k l where kl: "is_mont yul_P v k" "is_mont yul_P w l" using assms field_form.form_exists by blast
  note ops = field_form.form_mul [OF kl] field_form.form_add [OF kl] field_form.form_sub [OF kl]
  show "montgomeryMul v w yul_P P_PRIME < yul_P" "mfp (montgomeryMul v w yul_P P_PRIME) = mfp v * mfp w"
    "montgomeryAdd v w yul_P < yul_P" "mfp (montgomeryAdd v w yul_P) = mfp v + mfp w"
    "montgomerySub v w yul_P < yul_P" "mfp (montgomerySub v w yul_P) = mfp v - mfp w"
    using ops kl by (simp_all add: is_mont_fp)
qed

lemma mfp_0_iff: "v < yul_P \<Longrightarrow> mfp v = 0 \<longleftrightarrow> v = 0"
  using radix_nonzero by (simp add: mfp_def fp_word_0_iff yul_moduli)

lemma mont_constants:
  "MONTGOMERY_ONE_P < yul_P" "MONTGOMERY_A_P < yul_P" "MONTGOMERY_B_P < yul_P" "0 < yul_P"
  "mfp MONTGOMERY_ONE_P = 1" "mfp MONTGOMERY_A_P = curve_a" "mfp MONTGOMERY_B_P = curve_b" "mfp 0 = 0"
  using constants_form(1-3) [unfolded is_mont_fp of_int_uint_fp of_int_1 curve_a_def [symmetric] curve_b_def [symmetric]]
  by (simp_all add: mfp_def yul_moduli P256_p_pos)

lemma into_form_fp:
  "intoMontgomeryForm a yul_P P_PRIME R2_MOD_P < yul_P" "mfp (intoMontgomeryForm a yul_P P_PRIME R2_MOD_P) = fp_word a"
  using field_form.into_form [of a, unfolded is_mont_fp of_int_uint_fp] by simp_all

lemma out_of_form_fp:
  assumes "v < yul_P"
  shows "outOfMontgomeryForm v yul_P P_PRIME < yul_P" "fp_word (outOfMontgomeryForm v yul_P P_PRIME) = mfp v"
proof -
  obtain k where k: "is_mont yul_P v k" using assms field_form.form_exists by blast
  note out = field_form.out_of_form [OF k]
  show "outOfMontgomeryForm v yul_P P_PRIME < yul_P" using field_form.n_gt_1 by (simp add: word_less_def out)
  show "fp_word (outOfMontgomeryForm v yul_P P_PRIME) = mfp v"
    unfolding fp_word_def out mfp_of_form [OF k] of_int_fp_eq_iff uint_yul_P by simp
qed

lemma inverse_fp:
  assumes "v < yul_P" "v \<noteq> 0"
  shows "\<exists>w. montgomeryModularInverse v yul_P R2_MOD_P = Some w \<and> w < yul_P \<and> mfp w = inverse (mfp v)"
proof -
  obtain k where k: "is_mont yul_P v k" using assms field_form.form_exists by blast
  have "\<not> field_prime dvd k"
    using k assms mfp_0_iff [of v] by (auto simp: is_mont_fp of_int_fp_eq_0_iff)
  then have "coprime k (uint yul_P)" using prime_coprime [OF prime_field_prime] by (metis uint_yul_P coprime_commute)
  then obtain w l where w: "montgomeryModularInverse v yul_P R2_MOD_P = Some w" "is_mont yul_P w l" "k * l mod uint yul_P = 1"
    using field_form.form_inverse [OF k] by blast
  then have "(of_int (k * l) :: fp) = of_int 1"
    using field_prime_gt_1 by (simp only: of_int_fp_eq_iff uint_yul_P) simp
  then have "mfp v * mfp w = 1" using k w(2) by (simp add: is_mont_fp)
  then show ?thesis using w(1,2) by (auto simp: is_mont_fp Fields.inverse_unique)
qed

section \<open>Points\<close>

definition proj_ok :: "proj_point \<Rightarrow> bool" where
  "proj_ok p \<longleftrightarrow> (case p of (x, y, z) \<Rightarrow> x < yul_P \<and> y < yul_P \<and> z < yul_P)"

definition point_of_proj :: "proj_point \<Rightarrow> point" where
  "point_of_proj p = (case p of (x, y, z) \<Rightarrow> if z = 0 then Infinity else Point (mfp x / mfp z) (mfp y / mfp z))"

lemma homogeneous_tangent:
  fixes X Y Z :: fp
  assumes "Z \<noteq> 0" and T: "T = 3 * X ^ 2 + curve_a * Z ^ 2" and U: "U = 2 * (Y * Z)"
    and V: "V = 2 * (U * (X * Y))" and W: "W = T ^ 2 - 2 * V"
  shows "(if U ^ 3 = 0 then Infinity
          else Point (U * W / U ^ 3) ((T * (V - W) - 2 * (U * Y) ^ 2) / U ^ 3)) = ec_double (Point (X / Z) (Y / Z))"
proof (cases "Y = 0")
  case False
  then have "U \<noteq> 0" using assms(1) fp_two by (simp add: U)
  have l: "(3 * (X / Z) ^ 2 + curve_a) / (2 * (Y / Z)) = T / U"
    using assms(1) False fp_two unfolding T U by (simp add: field_simps power_numeral_reduce)
  have V': "V / U ^ 2 = X / Z"
    using assms(1) False fp_two unfolding V U by (simp add: field_simps power_numeral_reduce)
  have x: "U * W / U ^ 3 = (T / U) ^ 2 - 2 * (X / Z)"
    using \<open>U \<noteq> 0\<close> unfolding W V' [symmetric] by (simp add: field_simps power_numeral_reduce)
  have "2 * (U * Y) ^ 2 / U ^ 3 = Y / Z"
    using assms(1) False fp_two unfolding U by (simp add: field_simps power_numeral_reduce)
  then have y: "(T * (V - W) - 2 * (U * Y) ^ 2) / U ^ 3 = T / U * (X / Z - U * W / U ^ 3) - Y / Z"
    using \<open>U \<noteq> 0\<close> unfolding V' [symmetric] by (simp add: diff_divide_distrib right_diff_distrib power_numeral_reduce)
  show ?thesis using \<open>U \<noteq> 0\<close> False assms(1) l x y by (simp add: Let_def)
qed (simp add: U)

lemma homogeneous_chord:
  fixes X Y Z X' Y' Z' :: fp
  assumes "Z \<noteq> 0" "Z' \<noteq> 0" "U \<noteq> 0" and T: "T = Y * Z' - Y' * Z" and U: "U = X * Z' - X' * Z"
    and W: "W = T ^ 2 * (Z * Z') - U ^ 2 * (X * Z' + X' * Z)"
  shows "ec_add (Point (X / Z) (Y / Z)) (Point (X' / Z') (Y' / Z')) =
    Point (U * W / (U ^ 3 * (Z * Z'))) ((T * (X * Z' * U ^ 2 - W) - Y * Z' * U ^ 3) / (U ^ 3 * (Z * Z')))"
proof -
  have ne: "X / Z \<noteq> X' / Z'" using assms(1-3) by (simp add: U field_simps)
  have d: "X' / Z' - X / Z = - (U / (Z * Z'))" "Y' / Z' - Y / Z = - (T / (Z * Z'))"
    using assms(1,2) unfolding T U by (simp_all add: field_simps)
  have l: "(Y' / Z' - Y / Z) / (X' / Z' - X / Z) = T / U" using assms(1-3) unfolding d by simp
  have "(X * Z' + X' * Z) / (Z * Z') = X / Z + X' / Z'" using assms(1,2) by (simp add: field_simps)
  then have x: "U * W / (U ^ 3 * (Z * Z')) = (T / U) ^ 2 - X / Z - X' / Z'"
    using assms(1-3) unfolding W by (simp add: field_simps power_numeral_reduce)
  have y: "(T * (X * Z' * U ^ 2 - W) - Y * Z' * U ^ 3) / (U ^ 3 * (Z * Z')) = T / U * (X / Z - U * W / (U ^ 3 * (Z * Z'))) - Y / Z"
    using assms(1-3) by (simp add: field_simps power_numeral_reduce)
  show ?thesis using ne l x y by (simp add: Let_def)
qed

lemma projectiveDouble_refines:
  assumes "proj_ok p"
  shows "proj_ok (projectiveDouble p)" and "point_of_proj (projectiveDouble p) = ec_double (point_of_proj p)"
proof -
  obtain x y z where p: "p = (x, y, z)" by (metis surj_pair)
  have red: "x < yul_P" "y < yul_P" "z < yul_P" using assms by (simp_all add: p proj_ok_def)
  define X Y Z where "X = mfp x" and "Y = mfp y" and "Z = mfp z"
  define T where "T = 3 * X ^ 2 + curve_a * Z ^ 2"
  define U where "U = 2 * (Y * Z)"
  define V where "V = 2 * (U * (X * Y))"
  define W where "W = T ^ 2 - 2 * V"
  obtain xr yr zr where res: "projectiveDouble p = (xr, yr, zr)" by (metis surj_pair)
  have T: "X * X + (X * X + X * X) + curve_a * (Z * Z) = T" unfolding T_def by algebra
  have U: "Y * Z + Y * Z = U" and V: "U * (X * Y) + U * (X * Y) = V" and W: "T * T - (V + V) = W"
    by (simp_all add: U_def V_def W_def power2_eq_square flip: mult_2)
  have r: "xr < yul_P" "yr < yul_P" "zr < yul_P" "mfp xr = U * W"
      "mfp yr = T * (V - W) - (U * Y * (U * Y) + U * Y * (U * Y))" "mfp zr = U * (U * U)"
    using res [symmetric, unfolded p projectiveDouble_def Let_def prod.case prod.inject] red
    by (simp_all only: mont_ops mont_constants T U V W simp_thms flip: X_def Y_def Z_def)
  then show "proj_ok (projectiveDouble p)" by (simp add: res proj_ok_def)
  have eqs: "mfp yr = T * (V - W) - 2 * (U * Y) ^ 2" "mfp zr = U ^ 3"
    using r by (simp_all add: power2_eq_square power3_eq_cube)
  have zr: "zr = 0 \<longleftrightarrow> U ^ 3 = 0" using mfp_0_iff [OF r(3)] by (simp only: eqs(2))
  show "point_of_proj (projectiveDouble p) = ec_double (point_of_proj p)"
  proof (cases "z = 0")
    case True
    then have "U = 0" by (simp add: U_def Z_def mont_constants)
    then show ?thesis using True zr unfolding res by (simp add: p point_of_proj_def)
  next
    case False
    then have "Z \<noteq> 0" using mfp_0_iff [OF red(3)] by (simp add: Z_def)
    from homogeneous_tangent [OF this T_def U_def V_def W_def] show ?thesis
      using False unfolding res by (simp only: p point_of_proj_def prod.case zr r(4) eqs if_False flip: X_def Y_def Z_def)
  qed
qed

lemma projectiveAdd_refines:
  assumes "proj_ok p" "proj_ok q"
  shows "proj_ok (projectiveAdd p q)" and "point_of_proj (projectiveAdd p q) = ec_add (point_of_proj p) (point_of_proj q)"
proof -
  obtain x y z where p: "p = (x, y, z)" by (metis surj_pair)
  obtain x' y' z' where q: "q = (x', y', z')" by (metis surj_pair)
  have red: "x < yul_P" "y < yul_P" "z < yul_P" "x' < yul_P" "y' < yul_P" "z' < yul_P"
    using assms by (simp_all add: p q proj_ok_def)
  define X Y Z where "X = mfp x" and "Y = mfp y" and "Z = mfp z"
  define X' Y' Z' where "X' = mfp x'" and "Y' = mfp y'" and "Z' = mfp z'"
  define T where "T = Y * Z' - Y' * Z"
  define U where "U = X * Z' - X' * Z"
  define W where "W = T ^ 2 * (Z * Z') - U ^ 2 * (X * Z' + X' * Z)"
  obtain xr yr zr where res: "projectiveAdd p q = (xr, yr, zr)" by (metis surj_pair)
  have "proj_ok (projectiveAdd p q) \<and> point_of_proj (projectiveAdd p q) = ec_add (point_of_proj p) (point_of_proj q)"
  proof (cases "z = 0 \<or> z' = 0")
    case True
    then show ?thesis
      using assms by (auto simp: p q projectiveAdd_def projectivePointIsInfinity_def point_of_proj_def)
  next
    case False
    then have Z: "Z \<noteq> 0" "Z' \<noteq> 0" using mfp_0_iff red by (simp_all add: Z_def Z'_def)
    have pts: "point_of_proj p = Point (X / Z) (Y / Z)" "point_of_proj q = Point (X' / Z') (Y' / Z')"
      using False by (simp_all add: p q point_of_proj_def X_def Y_def Z_def X'_def Y'_def Z'_def)
    define t where "t = montgomerySub (montgomeryMul y z' yul_P P_PRIME) (montgomeryMul y' z yul_P P_PRIME) yul_P"
    define u where "u = montgomerySub (montgomeryMul x z' yul_P P_PRIME) (montgomeryMul x' z yul_P P_PRIME) yul_P"
    have tu: "t < yul_P" "u < yul_P" "mfp t = T" "mfp u = U"
      using red by (simp_all add: t_def u_def mont_ops T_def U_def X_def Y_def Z_def X'_def Y'_def Z'_def)
    have zero: "t = 0 \<longleftrightarrow> T = 0" "u = 0 \<longleftrightarrow> U = 0" using tu mfp_0_iff by auto
    have eqs: "X / Z = X' / Z' \<longleftrightarrow> U = 0" "Y / Z = Y' / Z' \<longleftrightarrow> T = 0"
      using Z by (simp_all add: T_def U_def frac_eq_eq)
    show ?thesis
    proof (cases "T = 0 \<and> U = 0")
      case True
      then have "projectiveAdd p q = projectiveDouble p"
        using False zero unfolding t_def u_def
        by (simp add: p q projectiveAdd_def projectivePointIsInfinity_def Let_def)
      moreover have "ec_add (point_of_proj p) (point_of_proj q) = ec_double (point_of_proj p)"
        using True eqs by (simp add: pts)
      ultimately show ?thesis using projectiveDouble_refines [OF assms(1)] by simp
    next
      case N: False
      then have "t OR u \<noteq> 0" using zero by (simp add: or_eq_0_iff)
      then have r: "xr < yul_P" "yr < yul_P" "zr < yul_P" "mfp xr = U * (T * T * (Z * Z') - U * U * (X * Z' + X' * Z))"
          "mfp yr = T * (X * Z' * (U * U) - (T * T * (Z * Z') - U * U * (X * Z' + X' * Z))) - Y * Z' * (U * U * U)"
          "mfp zr = U * U * U * (Z * Z')"
        using res red False tu
        by (auto simp: p q projectiveAdd_def projectivePointIsInfinity_def Let_def mont_ops
            X_def Y_def Z_def X'_def Y'_def Z'_def simp flip: t_def u_def)
      have m: "mfp xr = U * W" "mfp yr = T * (X * Z' * U ^ 2 - W) - Y * Z' * U ^ 3" "mfp zr = U ^ 3 * (Z * Z')"
        using r by (simp_all add: W_def power2_eq_square power3_eq_cube)
      have zr: "zr = 0 \<longleftrightarrow> U = 0" using mfp_0_iff [OF r(3)] Z by (simp add: m(3))
      have "point_of_proj (xr, yr, zr) = ec_add (point_of_proj p) (point_of_proj q)"
      proof (cases "U = 0")
        case True
        then show ?thesis using N zr eqs unfolding pts by (simp add: point_of_proj_def)
      next
        case U: False
        then show ?thesis
          using homogeneous_chord [OF Z U T_def U_def W_def] zr unfolding pts by (simp add: point_of_proj_def m)
      qed
      then show ?thesis using r by (simp add: res proj_ok_def)
    qed
  qed
  then show "proj_ok (projectiveAdd p q)" "point_of_proj (projectiveAdd p q) = ec_add (point_of_proj p) (point_of_proj q)"
    by simp_all
qed

section \<open>Both scalars at once\<close>

lemma compareBits_cases:
  "i < 256 \<Longrightarrow> compareBits (of_nat i) t0 t1 =
    (if bit t0 i then (if bit t1 i then 3 else 2) else (if bit t1 i then 1 else 0))"
  by (simp add: compareBits_def unat_of_nat_less and_one_eq mod2_eq_if even_drop_bit_iff_not_bit)

lemma msb_found:
  "k \<le> 256 \<Longrightarrow> unat t0 < 2 ^ k \<Longrightarrow> unat t1 < 2 ^ k \<Longrightarrow> t0 \<noteq> 0 \<or> t1 \<noteq> 0 \<Longrightarrow>
   \<exists>i. i < 256 \<and> msb_loop t0 t1 (of_nat k - 1) 0 = Some (of_nat i - 1, compareBits (of_nat i) t0 t1) \<and>
     (bit t0 i \<or> bit t1 i) \<and>
     unat t0 div 2 ^ i = (if bit t0 i then 1 else 0) \<and> unat t1 div 2 ^ i = (if bit t1 i then 1 else 0)"
proof (induction k)
  case (Suc k)
  have top: "unat w div 2 ^ k = (if bit w k then 1 else 0)" if "unat w < 2 ^ Suc k" for w :: uint256
    using unat_div_pow [of w k] that by simp
  note bits = top [OF Suc.prems(2)] top [OF Suc.prems(3)]
  have step: "msb_loop t0 t1 (of_nat (Suc k) - 1) 0 = msb_loop t0 t1 (of_nat k - 1) (compareBits (of_nat k) t0 t1)"
    by (subst msb_loop.simps) simp
  show ?case
  proof (cases "bit t0 k \<or> bit t1 k")
    case True
    then have "compareBits (of_nat k) t0 t1 \<noteq> 0" using Suc.prems(1) by (auto simp: compareBits_cases)
    then have "msb_loop t0 t1 (of_nat (Suc k) - 1) 0 = Some (of_nat k - 1, compareBits (of_nat k) t0 t1)"
      unfolding step by (subst msb_loop.simps) simp
    then show ?thesis using True bits Suc.prems(1) by (intro exI [of _ k]) simp
  next
    case False
    then have "compareBits (of_nat k) t0 t1 = 0" using Suc.prems(1) by (simp add: compareBits_cases)
    moreover have "unat t0 < 2 ^ k" "unat t1 < 2 ^ k" using False bits by (simp_all add: div_eq_0_iff)
    ultimately show ?thesis using Suc.IH Suc.prems(1,4) unfolding step by simp
  qed
qed (simp add: unsigned_eq_0_iff)

lemma combination_loop_refines:
  assumes "proj_ok q" "proj_ok g" "proj_ok h" "point_of_proj h = ec_add (point_of_proj g) (point_of_proj q)"
  shows "i \<le> 256 \<Longrightarrow> proj_ok r \<Longrightarrow>
    point_of_proj r = double_mult (point_of_proj g) (point_of_proj q) (unat t0 div 2 ^ i) (unat t1 div 2 ^ i) \<Longrightarrow>
    proj_ok (combination_loop q g h t0 t1 i r) \<and>
    point_of_proj (combination_loop q g h t0 t1 i r) = double_mult (point_of_proj g) (point_of_proj q) (unat t0) (unat t1)"
proof (induction i arbitrary: r)
  case (Suc i)
  let ?D = "double_mult (point_of_proj g) (point_of_proj q)" and ?r = "projectiveDouble r"
  let ?r' = "case addend q g h (compareBits (of_nat i) t0 t1) of None \<Rightarrow> ?r | Some s \<Rightarrow> projectiveAdd ?r s"
  have dbl: "proj_ok ?r" "point_of_proj ?r = ?D (2 * (unat t0 div 2 ^ Suc i)) (2 * (unat t1 div 2 ^ Suc i))"
    using projectiveDouble_refines [OF Suc.prems(2)] Suc.prems(3) by (simp_all only: double_mult_double)
  have "proj_ok ?r' \<and> point_of_proj ?r' = ?D (unat t0 div 2 ^ i) (unat t1 div 2 ^ i)"
    unfolding unat_div_pow [of t0 i] unat_div_pow [of t1 i]
    using Suc.prems(1) dbl assms projectiveAdd_refines [OF dbl(1)]
    by (auto simp: compareBits_cases addend_def double_mult_add [simplified])
  then show ?case using Suc.IH [of ?r'] Suc.prems(1) by (simp add: Let_def)
qed simp

lemma generator_proj: "proj_ok MONTGOMERY_PROJECTIVE_G_P" "point_of_proj MONTGOMERY_PROJECTIVE_G_P = generator"
proof -
  obtain gx gy where g: "MONTGOMERY_PROJECTIVE_G_P = (gx, gy, MONTGOMERY_ONE_P)" by (simp add: MONTGOMERY_PROJECTIVE_G_P_def)
  have "gx < yul_P" "mfp gx = fp_word GX" "gy < yul_P" "mfp gy = fp_word GY"
    using constants_form(4,5) [unfolded is_mont_fp of_int_uint_fp] by (simp_all add: g)
  moreover have "MONTGOMERY_ONE_P \<noteq> 0" using mont_constants(5,8) by auto
  ultimately show "proj_ok MONTGOMERY_PROJECTIVE_G_P" "point_of_proj MONTGOMERY_PROJECTIVE_G_P = generator"
    by (simp_all add: g proj_ok_def point_of_proj_def generator_def mont_constants)
qed

lemma shamir_refines:
  assumes "proj_ok q" "t0 \<noteq> 0 \<or> t1 \<noteq> 0"
  shows "\<exists>r. shamirLinearCombination q t0 t1 = Some r \<and> proj_ok r \<and>
    point_of_proj r = double_mult generator (point_of_proj q) (unat t0) (unat t1)"
proof -
  let ?g = MONTGOMERY_PROJECTIVE_G_P
  define h where "h = projectiveAdd ?g q"
  note g = generator_proj
  have h: "proj_ok h" "point_of_proj h = ec_add (point_of_proj ?g) (point_of_proj q)"
    using projectiveAdd_refines [OF g(1) assms(1)] by (simp_all add: h_def)
  obtain i where i: "i < 256" "msb_loop t0 t1 255 0 = Some (of_nat i - 1, compareBits (of_nat i) t0 t1)"
      "bit t0 i \<or> bit t1 i" "unat t0 div 2 ^ i = (if bit t0 i then 1 else 0)" "unat t1 div 2 ^ i = (if bit t1 i then 1 else 0)"
    using msb_found [OF order.refl unat_lt_256 unat_lt_256 assms(2)] by auto
  obtain r where r: "addend q ?g h (compareBits (of_nat i) t0 t1) = Some r" "proj_ok r"
      "point_of_proj r = double_mult (point_of_proj ?g) (point_of_proj q) (unat t0 div 2 ^ i) (unat t1 div 2 ^ i)"
    using i assms(1) g h
    by (cases "bit t0 i"; cases "bit t1 i") (auto simp: compareBits_cases addend_def double_mult_bits [unfolded One_nat_def])
  have "unat (of_nat i :: uint256) = i" using i(1) by (intro unat_of_nat_less) simp
  then have "shamirLinearCombination q t0 t1 = Some (combination_loop q ?g h t0 t1 i r)"
    by (simp add: shamirLinearCombination_def findMostSignificantBitIndex_def i(2) r(1) flip: h_def)
  then show ?thesis
    using combination_loop_refines [OF assms(1) g(1) h(1,2) less_imp_le [OF i(1)] r(2,3)] g(2) by simp
qed

section \<open>Verification\<close>

lemma onCurve_refines:
  "affinePointIsOnCurve (intoMontgomeryForm x yul_P P_PRIME R2_MOD_P) (intoMontgomeryForm y yul_P P_PRIME R2_MOD_P) \<longleftrightarrow>
    on_curve (Point (fp_word x) (fp_word y))"
proof -
  have eq: "v = w \<longleftrightarrow> mfp v = mfp w" if "v < yul_P" "w < yul_P" for v w
    using mfp_0_iff [OF mont_ops(5) [OF that]] mont_ops(6) [OF that] fp_word_inj [of v w] radix_nonzero that
    by (simp add: mfp_def yul_moduli)
  show ?thesis
    unfolding affinePointIsOnCurve_def Let_def
    by (subst eq) (simp_all add: mont_ops mont_constants into_form_fp power2_eq_square power3_eq_cube add.assoc mult.assoc)
qed

lemma affine_start:
  "proj_ok (projectiveFromAffine (intoMontgomeryForm x yul_P P_PRIME R2_MOD_P) (intoMontgomeryForm y yul_P P_PRIME R2_MOD_P))"
  "point_of_proj (projectiveFromAffine (intoMontgomeryForm x yul_P P_PRIME R2_MOD_P) (intoMontgomeryForm y yul_P P_PRIME R2_MOD_P)) =
    Point (fp_word x) (fp_word y)"
proof -
  have "MONTGOMERY_ONE_P \<noteq> 0" using mont_constants(5,8) by auto
  then show "proj_ok (projectiveFromAffine (intoMontgomeryForm x yul_P P_PRIME R2_MOD_P) (intoMontgomeryForm y yul_P P_PRIME R2_MOD_P))"
    "point_of_proj (projectiveFromAffine (intoMontgomeryForm x yul_P P_PRIME R2_MOD_P) (intoMontgomeryForm y yul_P P_PRIME R2_MOD_P)) =
      Point (fp_word x) (fp_word y)"
    by (simp_all add: projectiveFromAffine_def proj_ok_def point_of_proj_def into_form_fp mont_constants)
qed

text \<open>The scalars: \<open>w\<close> is the inverse of \<open>s\<close>, and not both scalars are zero.\<close>

lemma scalars:
  assumes "0 < r" "r < yul_N" "0 < s" "s < yul_N"
  defines "form \<equiv> \<lambda>a. intoMontgomeryForm a yul_N N_PRIME R2_MOD_N"
  shows "\<exists>s1 w. montgomeryModularInverse (form s) yul_N R2_MOD_N = Some s1 \<and> unat s * w mod unat yul_N = 1 \<and>
    (\<forall>a. unat (outOfMontgomeryForm (montgomeryMul (form a) s1 yul_N N_PRIME) yul_N N_PRIME) = unat a * w mod unat yul_N) \<and>
    outOfMontgomeryForm (montgomeryMul (form r) s1 yul_N N_PRIME) yul_N N_PRIME \<noteq> 0"
proof -
  define N where "N = uint yul_N"
  have N: "N = group_order" "1 < N" "unat yul_N = nat N"
    using order_form.n_gt_1 by (simp_all add: N_def uint_yul_N unat_eq_nat_uint)
  have s: "0 < uint s" "uint s < N" using assms(3,4) by (simp_all add: word_less_def N_def)
  then have "\<not> group_order dvd uint s" by (auto simp: N(1) dest: zdvd_imp_le)
  then have "coprime (uint s) (uint yul_N)" using prime_coprime [OF prime_group_order] by (metis uint_yul_N coprime_commute)
  from order_form.form_inverse [OF order_form.into_form this]
  obtain s1 l where s1: "montgomeryModularInverse (form s) yul_N R2_MOD_N = Some s1" "is_mont yul_N s1 l" "uint s * l mod N = 1"
    unfolding form_def N_def by blast
  have out: "uint (outOfMontgomeryForm (montgomeryMul (form a) s1 yul_N N_PRIME) yul_N N_PRIME) = uint a * l mod N" for a
    unfolding form_def N_def by (rule order_form.out_of_form [OF order_form.form_mul [OF order_form.into_form s1(2)]])
  define w where "w = nat (l mod N)"
  have w: "int w = l mod N" using N(2) by (simp add: w_def)
  have times: "int (unat a * w mod nat N) = uint a * l mod N" for a :: uint256
    using N(2) by (simp add: zmod_int w mod_mult_right_eq)
  have "unat s * w mod nat N = 1" using times [of s] s1(3) by (metis of_nat_1 of_nat_eq_iff)
  moreover have "unat (outOfMontgomeryForm (montgomeryMul (form a) s1 yul_N N_PRIME) yul_N N_PRIME) = unat a * w mod nat N" for a
    using out [of a] times [of a] by (metis nat_int unat_eq_nat_uint)
  moreover have "outOfMontgomeryForm (montgomeryMul (form r) s1 yul_N N_PRIME) yul_N N_PRIME \<noteq> 0"
  proof
    assume "outOfMontgomeryForm (montgomeryMul (form r) s1 yul_N N_PRIME) yul_N N_PRIME = 0"
    then have "uint r * l mod N = 0" using out [of r] by simp
    then have "N dvd uint r * l * uint s" using dvd_mult2 [of N "uint r * l"] by (simp add: dvd_eq_mod_eq_0)
    then have "uint r * (uint s * l) mod N = 0" by (simp add: dvd_eq_mod_eq_0 mult_ac)
    then have "uint r mod N = 0" using s1(3) by (metis mod_mult_right_eq mult.right_neutral)
    then show False using assms(1,2) by (simp add: word_less_def N_def)
  qed
  ultimately show ?thesis using s1(1) unfolding N(3) by blast
qed

lemma x_coordinate:
  assumes "proj_ok (xr, yr, zr)" "zr \<noteq> 0"
  shows "\<exists>z_inv. montgomeryModularInverse zr yul_P R2_MOD_P = Some z_inv \<and>
    outOfMontgomeryForm (montgomeryMul xr z_inv yul_P P_PRIME) yul_P P_PRIME = word_of_fp (x_coord (point_of_proj (xr, yr, zr)))"
proof -
  have red: "xr < yul_P" "zr < yul_P" using assms(1) by (simp_all add: proj_ok_def)
  obtain z_inv where z: "montgomeryModularInverse zr yul_P R2_MOD_P = Some z_inv" "z_inv < yul_P" "mfp z_inv = inverse (mfp zr)"
    using inverse_fp [OF red(2) assms(2)] by blast
  note out = out_of_form_fp [OF mont_ops(1) [OF red(1) z(2)]]
  have "fp_word (outOfMontgomeryForm (montgomeryMul xr z_inv yul_P P_PRIME) yul_P P_PRIME) =
      x_coord (point_of_proj (xr, yr, zr))"
    using assms(2) by (simp add: out(2) mont_ops(2) [OF red(1) z(2)] z(3) point_of_proj_def divide_inverse)
  then show ?thesis using z(1) word_of_fp_unique out(1) by (metis yul_moduli(1))
qed

lemma valid_key:
  "ecAff_isValidPubkey x y \<longleftrightarrow> \<not> affinePointIsInfinity x y \<and> affinePointCoordinatesAreOnFieldOrder x y \<and>
    on_curve (Point (fp_word x) (fp_word y))"
proof -
  have "\<not> ecAff_isValidPubkey 0 0" by (simp add: ecAff_isValidPubkey_def)
  then show ?thesis
    unfolding valid_iff_on_curve affinePointIsInfinity_def affinePointCoordinatesAreOnFieldOrder_def
      fieldElementIsOnFieldOrder_def yul_moduli or_eq_0_iff aff_reduced_def by auto
qed

lemma p256verify_words_spec:
  "p256verify_words hash r s x y =
    Some (if 0 < r \<and> r < P256_n \<and> 0 < s \<and> s < P256_n \<and> ecAff_isValidPubkey x y
          then Returned (abi_word (if ecdsa_spec hash r s x y then 1 else 0)) else BurntGas)"
proof (cases "0 < r \<and> r < P256_n \<and> 0 < s \<and> s < P256_n \<and> ecAff_isValidPubkey x y")
  case False
  then show ?thesis
    by (auto simp: p256verify_words_def fieldElementIsOnSubgroupOrder_def yul_moduli(2) word_gt_0 Let_def onCurve_refines
        valid_key simp del: on_curve.simps)
next
  case True
  then have range: "0 < r" "r < yul_N" "0 < s" "s < yul_N" by (simp_all add: yul_moduli)
  have valid: "\<not> affinePointIsInfinity x y" "affinePointCoordinatesAreOnFieldOrder x y" "on_curve (Point (fp_word x) (fp_word y))"
    using True by (simp_all add: valid_key del: on_curve.simps)
  let ?form = "\<lambda>a. intoMontgomeryForm a yul_N N_PRIME R2_MOD_N"
  obtain s1 w where s1: "montgomeryModularInverse (?form s) yul_N R2_MOD_N = Some s1" "unat s * w mod unat P256_n = 1"
      and t: "\<And>a. unat (outOfMontgomeryForm (montgomeryMul (?form a) s1 yul_N N_PRIME) yul_N N_PRIME) = unat a * w mod unat P256_n"
      and t1: "outOfMontgomeryForm (montgomeryMul (?form r) s1 yul_N N_PRIME) yul_N N_PRIME \<noteq> 0"
    using scalars [OF range] unfolding yul_moduli(2) by blast
  let ?R = "ec_add (point_mult (unat hash * w mod unat P256_n) generator)
    (point_mult (unat r * w mod unat P256_n) (Point (fp_word x) (fp_word y)))"
  obtain xr yr zr where R: "shamirLinearCombination
        (projectiveFromAffine (intoMontgomeryForm x yul_P P_PRIME R2_MOD_P) (intoMontgomeryForm y yul_P P_PRIME R2_MOD_P))
        (outOfMontgomeryForm (montgomeryMul (?form hash) s1 yul_N N_PRIME) yul_N N_PRIME)
        (outOfMontgomeryForm (montgomeryMul (?form r) s1 yul_N N_PRIME) yul_N N_PRIME) = Some (xr, yr, zr)"
      "proj_ok (xr, yr, zr)" "point_of_proj (xr, yr, zr) = ?R"
    using shamir_refines [OF affine_start(1) disjI2 [OF t1],
        of x y "outOfMontgomeryForm (montgomeryMul (?form hash) s1 yul_N N_PRIME) yul_N N_PRIME"]
    unfolding t affine_start(2) double_mult_is_sum [OF on_curve_generator valid(3)] by (metis surj_pair)
  have spec: "ecdsa_spec hash r s x y \<longleftrightarrow> word_of_fp (x_coord ?R) mod P256_n = r"
    using True ecdsa_equation_inverse [OF s1(2), of hash r x y] valid_iff_on_curve [of x y]
    by (auto simp: ecdsa_spec_def ecdsa_equation_def Let_def word_unat_eq_iff unat_mod aff_reduced_def)
  have start: "p256verify_words hash r s x y =
      (if zr = 0 then Some (Returned (abi_word 0))
       else Option.bind (montgomeryModularInverse zr yul_P R2_MOD_P) (\<lambda>z_inv.
         Some (Returned (abi_word (if outOfMontgomeryForm (montgomeryMul xr z_inv yul_P P_PRIME) yul_P P_PRIME mod yul_N = r then 1 else 0)))))"
    using range valid R(1) s1(1)
    by (simp add: p256verify_words_def fieldElementIsOnSubgroupOrder_def Let_def onCurve_refines word_gt_0 del: on_curve.simps)
  show ?thesis
  proof (cases "zr = 0")
    case True
    then have "?R = Infinity" using R(3) by (simp add: point_of_proj_def)
    then have "\<not> ecdsa_spec hash r s x y" using spec range(1) by (simp add: word_of_fp_def zero_fp.rep_eq)
    then show ?thesis using True start \<open>0 < r \<and> _\<close> by simp
  next
    case False
    then show ?thesis
      using x_coordinate [OF R(2) False] start \<open>0 < r \<and> _\<close> spec R(3) by (auto simp: yul_moduli(2))
  qed
qed

text \<open>The five words of the call, with zeroes behind the end of the calldata.\<close>

lemma calldataload_encoded:
  assumes "calldata = abi_word hash @ abi_word r @ abi_word s @ abi_word x @ abi_word y"
  shows "calldataload calldata 0 = hash" "calldataload calldata 32 = r" "calldataload calldata 64 = s"
    "calldataload calldata 96 = x" "calldataload calldata 128 = y"
  by (simp_all add: calldataload_def assms)

lemma p256verify_yul_encoded:
  "p256verify_yul (abi_word hash @ abi_word r @ abi_word s @ abi_word x @ abi_word y) = p256verify_words hash r s x y"
  by (simp only: p256verify_yul_def calldataload_encoded [OF refl])

text \<open>Inversion returns for every number except zero, where its first loop does not end.\<close>

lemma halving_nonzero:
  assumes "halving m u b = Some r"
  shows "u \<noteq> 0"
proof (rule halving.raw_induct [where P = "\<lambda>m u b r. u \<noteq> 0", OF _ assms])
  fix rec :: "uint256 \<Rightarrow> uint256 \<Rightarrow> uint256 \<Rightarrow> (uint256 \<times> uint256) option" and m u b r
  assume IH: "\<And>m u b r. rec m u b = Some r \<Longrightarrow> u \<noteq> 0"
    and eq: "(if u AND 1 = 0 then rec m (drop_bit 1 u) (halve_mod m b) else Some (u, b)) = Some r"
  show "u \<noteq> 0"
  proof
    assume "u = 0"
    then have "rec m 0 (halve_mod m b) = Some r" using eq by simp
    then show False using IH by blast
  qed
qed

lemma inverse_returns_iff:
  assumes "v < yul_P"
  shows "(\<exists>w. montgomeryModularInverse v yul_P R2_MOD_P = Some w) \<longleftrightarrow> v \<noteq> 0"
proof (cases "v = 0")
  case True
  have "yul_P \<noteq> 1" by (simp add: yul_P_def)
  moreover have "halving yul_P 0 R2_MOD_P = None" using halving_nonzero by (metis option.exhaust)
  ultimately show ?thesis
    using True by (simp add: montgomeryModularInverse_def binaryExtendedEuclideanAlgorithm_def euclid_loop.simps [of _ 0])
next
  case False
  then show ?thesis using inverse_fp [OF assms] by blast
qed

end
