(* ===== verification/Secp256r1Spec.thy ===== *)
theory Secp256r1Spec
  imports CurveSpec
begin

text \<open>
  The multiplication and the verification of \<open>SECP256R1.sol\<close> against the group of the curve. The
  addition of the library has no case for two equal points (\<open>jacobian_add_refines\<close>), so its
  simultaneous multiplication computes \<open>u G + v Q\<close> for those scalars where no addition on the way
  meets two equal finite points; \<open>regular_scalars\<close> states this of the true multiples of the
  generator and the key, with no reference to the library's coordinates.
\<close>

section \<open>The operations\<close>

definition jac_is :: "jacobian \<Rightarrow> point \<Rightarrow> bool" where
  "jac_is J P \<longleftrightarrow> jac_reduced J \<and> point_of_jac J = P"

definition addable :: "point \<Rightarrow> point \<Rightarrow> bool" where
  "addable P Q \<longleftrightarrow> P \<noteq> Q \<or> P = Infinity"

lemma addable_Infinity [simp]: "addable Infinity P" "addable P Infinity"
  by (auto simp: addable_def)

lemma jacobian_double_all:
  assumes "z < P256_p"
  shows "point_of_jac (modifiedJacobianDouble x y z) = ec_double (point_of_jac (x, y, z))"
proof (cases "z = 0")
  case True
  from modifiedJacobianDouble_rep [of x y z, unfolded rep_fp]
  obtain x3 y3 z3 where "modifiedJacobianDouble x y z = (x3, y3, z3)" "fp_word z3 = 2 * (fp_word y * fp_word z)"
    by auto
  then show ?thesis using True by (simp add: point_of_jac_eq)
next
  case False
  then show ?thesis using assms by (rule jacobian_double_refines)
qed

lemma jac_is_double: "jac_is (x, y, z) P \<Longrightarrow> jac_is (modifiedJacobianDouble x y z) (ec_double P)"
  using modifiedJacobianDouble_rep [of x y z] jacobian_double_all [of z x y]
  by (auto simp: jac_is_def jac_reduced_def)

lemma jAdd_reduced:
  assumes "jac_reduced (p1, p2, p3)" "jac_reduced (q1, q2, q3)"
  shows "jac_reduced (jAdd p1 p2 p3 q1 q2 q3)"
proof (cases "p3 = 0 \<or> q3 = 0")
  case True
  then show ?thesis using assms by (auto simp: jAdd_infinity)
next
  case False
  then show ?thesis using jAdd_rep [of p3 q3 p1 p2 q1 q2] by auto
qed

lemma jac_is_add:
  "jac_is (p1, p2, p3) P \<Longrightarrow> jac_is (q1, q2, q3) Q \<Longrightarrow> addable P Q \<Longrightarrow>
   jac_is (jAdd p1 p2 p3 q1 q2 q3) (ec_add P Q)"
  using jAdd_reduced jacobian_add_refines [of p1 p2 p3 q1 q2 q3] by (auto simp: jac_is_def addable_def)

lemma jac_is_jPoint:
  "jac_is (coords A) P \<Longrightarrow> jac_is (coords (jPointDouble A)) (ec_double P)"
  "jac_is (coords A) P \<Longrightarrow> jac_is (coords B) Q \<Longrightarrow> addable P Q \<Longrightarrow> jac_is (coords (jPointAdd A B)) (ec_add P Q)"
  using jac_is_double [of "jp_x A" "jp_y A" "jp_z A" P]
    jac_is_add [of "jp_x A" "jp_y A" "jp_z A" P "jp_x B" "jp_y B" "jp_z B" Q]
  by (auto simp: coords_def jPointDouble_def jPointAdd_def split: prod.splits)

section \<open>Multiples of the generator and the key\<close>

definition combination :: "point \<Rightarrow> nat \<Rightarrow> nat \<Rightarrow> point" where
  "combination Q i j = ec_add (point_mult i generator) (point_mult j Q)"

lemma combination_0 [simp]: "combination Q 0 j = point_mult j Q" "combination Q i 0 = point_mult i generator"
  by (simp_all add: combination_def)

lemma combination_group:
  "on_curve Q \<Longrightarrow> combination Q i j =
     Rep_curve_point (multiple i (Abs_curve_point generator) + multiple j (Abs_curve_point Q))"
  using on_curve_generator
  by (simp add: combination_def Abs_curve_point_inverse plus_curve_point.rep_eq Rep_multiple)

lemma combination_add:
  "on_curve Q \<Longrightarrow> combination Q (i + k) (j + l) = ec_add (combination Q i j) (combination Q k l)"
  by (simp add: combination_group plus_curve_point.rep_eq [symmetric] multiple_add add_ac)

lemma combination_twice: "on_curve Q \<Longrightarrow> combination Q (2 * i) (2 * j) = ec_double (combination Q i j)"
  by (simp add: ec_double_add mult_2 combination_add)

lemma addable_double: "on_curve P \<Longrightarrow> addable P (ec_double P)"
  using ec_add_assoc [of "ec_neg P" P P] ec_add_neg [of P] ec_add_comm [of P "ec_neg P"]
  by (auto simp: addable_def ec_double_add)

section \<open>The table\<close>

text \<open>Entry \<open>4 a + b\<close> is \<open>a G + b Q\<close>.\<close>

lemma table_multiples:
  assumes "jac_is (pubKeyX k, pubKeyY k, 1) Q" "on_curve Q" "n < 16"
    and "addable (point_mult (n div 4) generator) (point_mult (n mod 4) Q)"
  shows "jac_is (coords (preComputeJacobianPoints k ! n)) (combination Q (n div 4) (n mod 4))"
proof -
  define p1 where "p1 = \<lparr>jp_x = pubKeyX k, jp_y = pubKeyY k, jp_z = 1\<rparr>"
  define p4 where "p4 = \<lparr>jp_x = GX, jp_y = GY, jp_z = 1\<rparr>"
  define p2 p3 p8 where "p2 = jPointDouble p1" and "p3 = jPointAdd p1 p2" and "p8 = jPointDouble p4"
  define p12 where "p12 = jPointAdd p4 p8"
  let ?is = "\<lambda>(i, j) P. addable (point_mult i generator) (point_mult j Q) \<longrightarrow> jac_is (coords P) (combination Q i j)"
  have mult: "point_mult 1 P = P" "point_mult 2 P = ec_double P" "point_mult 3 P = ec_add P (ec_double P)" for P
    by (simp_all add: eval_nat_numeral ec_double_add)
  have r0: "?is (0, 0) \<lparr>jp_x = 0, jp_y = 0, jp_z = 0\<rparr>"
    by (simp add: jac_is_def coords_def jac_reduced_def P256_p_pos point_of_jac_eq)
  have r1: "jac_is (coords p1) (point_mult 1 Q)" using assms(1) by (simp add: coords_def p1_def)
  have r4: "jac_is (coords p4) (point_mult 1 generator)"
    using generator_aff G_reduced P256_p_gt_1
    by (simp add: coords_def p4_def jac_is_def jac_reduced_def aff_reduced_def point_of_jac_eq generator_def)
  have r2: "jac_is (coords p2) (point_mult 2 Q)" "jac_is (coords p8) (point_mult 2 generator)"
    unfolding p2_def p8_def using jac_is_jPoint(1) [OF r1] jac_is_jPoint(1) [OF r4] by (simp_all only: mult)
  have r3: "jac_is (coords p3) (point_mult 3 Q)" "jac_is (coords p12) (point_mult 3 generator)"
    unfolding p3_def p12_def
    using jac_is_jPoint(2) [OF r1 r2(1)] jac_is_jPoint(2) [OF r4 r2(2)] addable_double [OF assms(2)]
      addable_double [OF on_curve_generator]
    by (simp_all only: mult)
  have sum: "?is (i, j) (jPointAdd A B)"
    if "jac_is (coords A) (point_mult i generator)" "jac_is (coords B) (point_mult j Q)" for A B i j
    using jac_is_jPoint(2) [OF that] by (simp add: combination_def)
  have edge: "?is (i, 0) A" if "jac_is (coords A) (point_mult i generator)" for A i using that by simp
  have edge': "?is (0, j) A" if "jac_is (coords A) (point_mult j Q)" for A j using that by simp
  have "list_all2 ?is
      [(0, 0), (0, 1), (0, 2), (0, 3), (1, 0), (1, 1), (1, 2), (1, 3),
       (2, 0), (2, 1), (2, 2), (2, 3), (3, 0), (3, 1), (3, 2), (3, 3)] (preComputeJacobianPoints k)"
    unfolding preComputeJacobianPoints_def Let_def p1_def [symmetric] p4_def [symmetric] p2_def [symmetric]
      p3_def [symmetric] p8_def [symmetric] p12_def [symmetric] list_all2_Cons list_all2_Nil
    by (intro conjI refl r0 edge edge' sum r1 r2 r3 r4)
  also have "[(0, 0), (0, 1), (0, 2), (0, 3), (1, 0), (1, 1), (1, 2), (1, 3), (2, 0), (2, 1), (2, 2), (2, 3),
      (3, 0), (3, 1), (3, 2), (3, 3)] = map (\<lambda>n. (n div 4, n mod 4)) [0..<16 :: nat]"
    by code_simp
  finally show ?thesis using assms(3,4) by (auto dest: list_all2_nthD [where p = n])
qed

section \<open>The multiplication\<close>

definition digit :: "nat \<Rightarrow> nat \<Rightarrow> nat" where
  "digit k u = u div 4 ^ k mod 4"

definition regular_step :: "point \<Rightarrow> nat \<Rightarrow> nat \<Rightarrow> nat \<Rightarrow> bool" where
  "regular_step Q u v k \<longleftrightarrow>
     addable (point_mult (digit k u) generator) (point_mult (digit k v) Q) \<and>
     addable (combination Q (4 * (u div 4 ^ Suc k)) (4 * (v div 4 ^ Suc k))) (combination Q (digit k u) (digit k v))"

definition regular_scalars :: "point \<Rightarrow> nat \<Rightarrow> nat \<Rightarrow> bool" where
  "regular_scalars Q u v \<longleftrightarrow> (\<forall>k<128. regular_step Q u v k)"

lemma digits:
  fixes i a t :: nat
  assumes "U = 4 ^ k * (4 * i + a) + t" "t < 4 ^ k" "a < 4"
  shows "digit k U = a" "U div 4 ^ Suc k = i"
proof -
  have "U div 4 ^ k = 4 * i + a" using assms(1,2) by simp
  then show "digit k U = a" "U div 4 ^ Suc k = i"
    using assms(3) by (simp_all add: digit_def div_mult2_eq power_Suc2 del: power_Suc)
qed

lemma window_bound: "bits \<le> 128 \<Longrightarrow> unat u div 2 ^ (256 - 2 * bits) < 4 ^ bits" for u :: uint256
proof -
  assume "bits \<le> 128"
  then have "2 * bits + (256 - 2 * bits) = 256" by simp
  then have "(2 :: nat) ^ 256 = 2 ^ (2 * bits) * 2 ^ (256 - 2 * bits)" by (metis power_add)
  moreover have "(2 :: nat) ^ (2 * bits) = 4 ^ bits" by (simp add: power_mult)
  ultimately show ?thesis using unat_lt_256 [of u] by (metis less_mult_imp_div_less)
qed

lemma shamir_loop_multiples:
  fixes key :: PassKey
  defines "points \<equiv> preComputeJacobianPoints key"
  assumes key: "jac_is (pubKeyX key, pubKeyY key, 1) Q" "on_curve Q"
  shows "bits \<le> 128 \<Longrightarrow> jac_is P (combination Q i j) \<Longrightarrow>
    U = 4 ^ bits * i + unat u1 div 2 ^ (256 - 2 * bits) \<Longrightarrow> V = 4 ^ bits * j + unat u2 div 2 ^ (256 - 2 * bits) \<Longrightarrow>
    \<forall>k<bits. regular_step Q U V k \<Longrightarrow> jac_is (shamir_loop bits points u1 u2 P) (combination Q U V)"
proof (induction bits arbitrary: i j P u1 u2)
  case 0
  then show ?case using unat_lt_256 [of u1] unat_lt_256 [of u2] by simp
next
  case (Suc bits)
  obtain x y z where P: "P = (x, y, z)" by (metis surj_pair)
  define D where "D = (if 0 < z then case modifiedJacobianDouble x y z of (x, y, z) \<Rightarrow> modifiedJacobianDouble x y z else (x, y, z))"
  obtain dx dy dz where D: "D = (dx, dy, dz)" by (metis surj_pair)
  obtain ex ey ez where E: "modifiedJacobianDouble x y z = (ex, ey, ez)" by (metis surj_pair)
  have four: "combination Q (4 * i) (4 * j) = ec_double (ec_double (combination Q i j))"
    using combination_twice [OF key(2), of "2 * i" "2 * j"] combination_twice [OF key(2), of i j] by simp
  have dbl: "jac_is (dx, dy, dz) (combination Q (4 * i) (4 * j))"
  proof (cases "z = 0")
    case True
    then have "combination Q i j = Infinity" using Suc.prems(2) P by (simp add: jac_is_def point_of_jac_eq)
    then show ?thesis using True Suc.prems(2) P D by (simp add: D_def four)
  next
    case False
    then have "jac_is (ex, ey, ez) (ec_double (combination Q i j))" using jac_is_double Suc.prems(2) P E by metis
    from jac_is_double [OF this] show ?thesis using False D by (simp add: D_def E four word_gt_0)
  qed
  define a b where "a = unat u1 div 2 ^ 254" and "b = unat u2 div 2 ^ 254"
  have ab: "a < 4" "b < 4" unfolding a_def b_def by (rule top_bits(2))+
  have bits: "bits < 128" using Suc.prems(1) by simp
  define s t where "s = unat (push_bit 2 u1) div 2 ^ (256 - 2 * bits)" and "t = unat (push_bit 2 u2) div 2 ^ (256 - 2 * bits)"
  have st: "s < 4 ^ bits" "t < 4 ^ bits" unfolding s_def t_def using bits by (intro window_bound; simp)+
  have UV: "U = 4 ^ bits * (4 * i + a) + s" "V = 4 ^ bits * (4 * j + b) + t"
    unfolding Suc.prems(3,4) s_def t_def a_def b_def
    using shift_two [OF bits, of u1] shift_two [OF bits, of u2] by (simp_all add: algebra_simps)
  note dig = digits [OF UV(1) st(1) ab(1)] digits [OF UV(2) st(2) ab(2)]
  have reg: "addable (point_mult a generator) (point_mult b Q)"
      "addable (combination Q (4 * i) (4 * j)) (combination Q a b)"
    using Suc.prems(5) unfolding regular_step_def by (metis dig lessI)+
  define n where "n = 4 * a + b"
  have n: "n < 16" "n div 4 = a" "n mod 4 = b" using ab by (simp_all add: n_def)
  then have un: "unat (of_nat n :: uint256) = n" by (intro unat_of_nat_less) simp
  then have pos: "(0 :: uint256) < of_nat n \<longleftrightarrow> 0 < n" by (metis unat_gt_0 word_gt_0)
  define q where "q = points ! n"
  define S where "S = (if 0 < n then jAdd dx dy dz (jp_x q) (jp_y q) (jp_z q) else (dx, dy, dz))"
  have "jac_is (coords q) (combination Q a b)"
    using table_multiples [OF key n(1)] reg(1) by (simp add: n(2,3) q_def points_def)
  from jac_is_add [OF dbl this [unfolded coords_def] reg(2)]
  have "jac_is S (combination Q (4 * i + a) (4 * j + b))"
    using dbl by (auto simp: S_def n_def combination_add [OF key(2)])
  moreover have "\<forall>k<bits. regular_step Q U V k" using Suc.prems(5) by simp
  moreover have "bits \<le> 128" using bits by simp
  ultimately have "jac_is (shamir_loop bits points (push_bit 2 u1) (push_bit 2 u2) S) (combination Q U V)"
    using Suc.IH [of S "4 * i + a" "4 * j + b" "push_bit 2 u1" "push_bit 2 u2"] UV by (simp add: s_def t_def)
  moreover have "shamir_loop (Suc bits) points u1 u2 P = shamir_loop bits points (push_bit 2 u1) (push_bit 2 u2) S"
    unfolding P shamir_loop.simps Let_def D_def [symmetric] D table_index a_def [symmetric] b_def [symmetric]
      n_def [symmetric] prod.case un pos q_def [symmetric] S_def [symmetric]
    by (rule refl)
  ultimately show ?case by (simp only:)
qed

text \<open>The scalars 0 and 1 are regular: every addition has infinity on one side.\<close>

lemma regular_single: "regular_scalars Q 0 1"
proof -
  have one: "(1 :: nat) div 4 ^ k = 0" if "0 < k" for k using that by (intro div_less one_less_power) simp_all
  have "digit k 1 = (if k = 0 then 1 else 0)" "(1 :: nat) div 4 ^ Suc k = 0" "digit k 0 = 0" for k
    using one [of k] one [of "Suc k"] by (simp_all only: digit_def zero_less_Suc simp_thms) simp_all
  then show ?thesis by (simp add: regular_scalars_def regular_step_def)
qed

section \<open>Verification\<close>

lemma mulmod_nModInv: "0 < s \<Longrightarrow> s < P256_n \<Longrightarrow> mulmod s (nModInv s) P256_n = 1"
proof -
  assume s: "0 < s" "s < P256_n"
  have n: "0 < P256_n" "P256_n \<noteq> 0" "unat minus_2modn = unat P256_n - 2" by (simp_all add: P256_n_def minus_2modn_def)
  show ?thesis
    unfolding word_unat_eq_iff unat_mulmod [OF n(1)] nModInv_def unat_modInv [OF n(2)] n(3)
    using power_inverse [OF s] by simp
qed

lemma jac_affine_x: "jac_is J P \<Longrightarrow> fst (jac_affine J) = word_of_fp (x_coord P)"
proof -
  assume J: "jac_is J P"
  obtain x y z where xyz: "J = (x, y, z)" by (metis surj_pair)
  have "fst (jac_affine J) < P256_p" by (simp add: jac_affine_def xyz mod_p_less P256_p_pos)
  moreover have "fp_word (fst (jac_affine J)) = x_coord P"
    using J by (auto simp: jac_is_def jac_reduced_def jac_affine_def xyz point_of_jac_eq fp_word_0_iff
        fp_word_mulmod fp_word_pModInv field_simps power2_eq_square)
  ultimately show ?thesis using word_of_fp_unique by metis
qed

lemma secp256r1_verify_regular:
  fixes e :: uint256
  assumes "modexp_precompile precompile" "r < P256_n" "s < P256_n"
    and "ecAff_isValidPubkey (pubKeyX key) (pubKeyY key)"
  defines "Q \<equiv> Point (fp_word (pubKeyX key)) (fp_word (pubKeyY key))"
    and "u \<equiv> mulmod e (nModInv s) P256_n" and "v \<equiv> mulmod r (nModInv s) P256_n"
  assumes "regular_scalars Q (unat u) (unat v)"
  shows "secp256r1_verify precompile key r s e = Inr (word_of_fp (x_coord (combination Q (unat u) (unat v))) = r)"
proof -
  define J where "J = shamir_loop 128 (preComputeJacobianPoints key) u v (0, 0, 0)"
  have key: "jac_is (pubKeyX key, pubKeyY key, 1) Q" "on_curve Q"
    using assms(4) P256_p_gt_1
    by (auto simp: Q_def valid_iff_on_curve jac_is_def jac_reduced_def aff_reduced_def point_of_jac_eq simp del: on_curve.simps)
  have "jac_is (0, 0, 0) (combination Q 0 0)" by (simp add: jac_is_def jac_reduced_def P256_p_pos point_of_jac_eq)
  from shamir_loop_multiples [OF key order_refl this, of "unat u" u "unat v" v] assms(8)
  have J: "jac_is J (combination Q (unat u) (unat v))" by (simp add: J_def regular_scalars_def)
  have "shamirMultJacobian precompile (preComputeJacobianPoints key) u v = Inr (jac_affine J)"
    unfolding shamirMultJacobian_def J_def [symmetric]
    by (cases J) (simp only: prod.case affineFromJacobian_eq [OF assms(1)])
  then show ?thesis
    using assms(2,3) [folded not_le] primemod_inverse(2) [OF assms(1)] jac_affine_x [OF J]
    by (simp add: secp256r1_verify_def verifyWithPrecompute_def Let_def split_beta flip: u_def v_def)
qed

text \<open>\<open>P256Verifier\<close> on the same scalars; it reduces the x coordinate modulo the order.\<close>

lemma ecdsa_verify_combination:
  fixes e :: uint256
  assumes "r < P256_n" "s < P256_n" "ecAff_isValidPubkey x y"
  defines "u \<equiv> mulmod e (nModInv s) P256_n" and "v \<equiv> mulmod r (nModInv s) P256_n"
  shows "ecdsa_verify e r s (x, y) =
    Inr (0 < r \<and> 0 < s \<and> word_of_fp (x_coord (combination (Point (fp_word x) (fp_word y)) (unat u) (unat v))) mod P256_n = r)"
proof (cases "0 < r \<and> 0 < s")
  case True
  obtain X where X: "ecZZ_mulmuladd x y u v = Inr X" "X < P256_p"
      "fp_word X = x_coord (combination (Point (fp_word x) (fp_word y)) (unat u) (unat v))"
    using mulmuladd_textbook [OF assms(3), of u v] by (auto simp: combination_def)
  then show ?thesis using True assms(1-3) word_of_fp_unique [OF X(2)]
    by (auto simp: ecdsa_verify_def Let_def not_le word_gt_0 u_def [symmetric] v_def [symmetric])
qed (auto simp: ecdsa_verify_def word_gt_0)

end
