(* ===== verification/Instances.thy ===== *)
theory Instances
  imports ScriptSpec SignatureModules P256Yul Secp256r1Spec
begin

text \<open>
  Concrete instances of the parameters of the model, used to evaluate the properties on concrete
  inputs: a hash that reads its first word, a signature recovery with one signer, the precompile for
  modular exponentiation, a token with a
  ledger of naturals, Uniswap and Chainlink with one pool and one feed,
  and a world with one deployed factory. They satisfy the hypotheses that the properties state of
  the code they stand for.
\<close>

section \<open>Hashes and signatures\<close>

definition toy_crypto :: evm_crypto where
  "toy_crypto = \<lparr>keccak256 = (\<lambda>bs. load_word bs 0), sha256 = (\<lambda>bs. load_word bs 0), ecrecover = (\<lambda>_ _ _ _. 7)\<rparr>"

definition const_crypto :: evm_crypto where
  "const_crypto = \<lparr>keccak256 = (\<lambda>_. 77), sha256 = (\<lambda>_. 78), ecrecover = (\<lambda>_ _ _ _. 7)\<rparr>"

definition toy_pm_env :: pm_env where
  "toy_pm_env = \<lparr>pe_crypto = toy_crypto, pe_chainid = 10, pe_this = 9\<rparr>"

definition toy_sig :: bytes where
  "toy_sig = replicate 65 0"

definition toy_op :: UserOperation where
  "toy_op =
     \<lparr>sender = 5, nonce = 0, initCode = [], callData = [1, 2], callGasLimit = 3, verificationGasLimit = 4,
      preVerificationGas = 5, maxFeePerGas = 6, maxPriorityFeePerGas = 2,
      paymasterAndData = build_paymasterAndData (replicate 20 9) 100 0 toy_sig, signature = []\<rparr>"

lemma toy_recover: "ECDSA_recover toy_crypto h toy_sig = Inr 7"
proof -
  have "load_word toy_sig 32 = 0"
    by (simp add: load_word_def toy_sig_def be_nat_def numeral_eq_Suc)
  then show ?thesis by (simp add: ECDSA_recover_eq_Inr toy_crypto_def toy_sig_def)
qed

lemma toy_parse: "parsePaymasterAndData (paymasterAndData toy_op) = Inr (100, 0, toy_sig)"
  by (simp add: toy_op_def parse_build)

lemma toy_sig_length: "require_sig_length toy_sig = Inr ()"
  by (simp add: require_sig_length_def toy_sig_def)

definition toy_multi_data :: bytes where
  "toy_multi_data = replicate 40 1 @ abi_encode [AWord (ucast (100 :: uint48)), AWord (ucast (0 :: uint48))] @ toy_sig"

lemma toy_multi_parse: "\<exists>tok. multi_parsePaymasterAndData toy_multi_data = Inr (tok, 100, 0, toy_sig)"
  using decode_range_encode [of 100 0]
  by (simp add: multi_parsePaymasterAndData_def toy_multi_data_def slice_def slice_from_def length_two_words)

section \<open>Modular exponentiation\<close>

definition toy_modexp :: "bytes \<Rightarrow> bytes option" where
  "toy_modexp input = Some (abi_word (modexp (load_word input 96) (load_word input 128) (load_word input 160)))"

lemma toy_modexp_ok: "modexp_precompile toy_modexp"
proof -
  have "load_word (pre @ abi_word w @ post) (length pre) = w" for pre w post by simp
  from this [of "abi_word 32 @ abi_word 32 @ abi_word 32"] this [of "abi_word 32 @ abi_word 32 @ abi_word 32 @ abi_word b" for b]
    this [of "abi_word 32 @ abi_word 32 @ abi_word 32 @ abi_word b @ abi_word e" _ "[]" for b e]
  show ?thesis by (simp add: modexp_precompile_def toy_modexp_def)
qed

section \<open>Tokens\<close>

type_synonym ledger = "address \<Rightarrow> address \<Rightarrow> nat"

definition move :: "address \<Rightarrow> address \<Rightarrow> address \<Rightarrow> uint256 \<Rightarrow> ledger \<Rightarrow> (bool \<times> ledger) res" where
  "move token from to amount x =
     (if unat amount \<le> x token from
      then let x = x(token := (x token)(from := x token from - unat amount))
           in Inr (True, x(token := (x token)(to := x token to + unat amount)))
      else Inr (False, x))"

definition toy_erc20 :: "ledger erc20" where
  "toy_erc20 =
     \<lparr>erc20_balanceOf = (\<lambda>token a x. Inr (of_nat (x token a))),
      erc20_transferFrom = (\<lambda>token spender from to amount x. move token from to amount x),
      erc20_transfer = (\<lambda>token from to amount x. move token from to amount x)\<rparr>"

lemma toy_tokens_ok: "vault_tokens_ok toy_erc20 (\<lambda>x. x) this"
  by (auto simp: vault_tokens_ok_def toy_erc20_def move_def Let_def split: if_splits)

definition toy_ledger :: ledger where
  "toy_ledger token a = (if token = 2 \<and> a = 5 then 10000000 else 0)"

section \<open>Price sources\<close>

definition toy_chainlink :: chainlink where
  "toy_chainlink = \<lparr>cl_latestAnswer = (\<lambda>_. Inr 250000000000), cl_decimals = (\<lambda>_. Inr 8)\<rparr>"

lemma toy_mainnet_fee:
  assumes "unat g * 250000000000 < 2 ^ 256"
    and "unat f = unat g * 250000000000 div 10 ^ 20 + unat g * 250000000000 div 10 ^ 20 div 20"
  shows "mainnet_calculateFee toy_chainlink (mainnet_constructor feed 20) token g = Inr f"
proof -
  have dec: "unat (8 :: byte) = 8" by simp
  have "unat f < 2 ^ 256" by (rule unat_lt_256)
  then show ?thesis
    using assms
    by (subst mainnet_eq [where answer = 250000000000 and decimals = 8])
      (simp_all add: mainnet_constructor_def toy_chainlink_def mainnet_fee_def mainnet_cost_def dec)
qed

definition toy_uniswap :: uniswap_ext where
  "toy_uniswap =
     \<lparr>ux_getPool = (\<lambda>_ _ _ tier. Inr (if tier = 500 then 77 else 0)), ux_liquidity = (\<lambda>_. Inr (2 ^ 70)),
      ux_sqrtPriceX96 = (\<lambda>_. Inr (2 ^ 96)), ux_decimals = (\<lambda>_. Inr 6), sm_add = checked_add, sm_sub = checked_sub,
      sm_div = checked_div\<rparr>"

lemma toy_safemath: "safemath_ok toy_uniswap"
  by (simp add: safemath_ok_def toy_uniswap_def)

section \<open>A network\<close>

definition toy_env :: "unit ethers_env" where
  "toy_env =
     \<lparr>en_signers = [7], en_create = (\<lambda>a n. of_nat (1000 + n)), en_mined = even, en_resolve = (\<lambda>_. None),
      en_view = (\<lambda>_ _ _ _. Inr JUndef), en_send = (\<lambda>_ _ _ _ _ x. Inr x), en_onlyOwner = (\<lambda>_ _. Inr ()),
      en_chainlink = (\<lambda>_. toy_chainlink), en_uniswap = (\<lambda>_. toy_uniswap),
      en_erc721 = (\<lambda>_. \<lparr>n721_balanceOf = (\<lambda>_ _. Inr 0), n721_mint = (\<lambda>_ _ x. Inr x),
         ctr_increment = (\<lambda>c. checked_add c 1), ctr_current = (\<lambda>c. c)\<rparr>),
      en_staticcall = (\<lambda>_ _. (True, [])), en_crypto = toy_crypto, en_chainid = 10, en_gasprice = 1,
      en_proxyCode = [0x60], en_txHash = (\<lambda>_ _. [])\<rparr>"

definition toy_wallet :: js_crypto where
  "toy_wallet = \<lparr>jc_signMessage = (\<lambda>_ _. toy_sig), jc_sign = (\<lambda>_ _. (1, 1)), jc_verify = (\<lambda>_ _ _. True)\<rparr>"

definition empty_world :: "unit world" where
  "empty_world = \<lparr>w_contracts = (\<lambda>_. None), w_unmined = [], w_nonce = 0, w_rest = (), w_console = []\<rparr>"

definition world_with :: "(address \<times> contract) list \<Rightarrow> unit world" where
  "world_with cs = empty_world\<lparr>w_contracts := map_of cs\<rparr>"

end
