(* ===== verification/HardhatConfig.thy ===== *)
theory HardhatConfig
  imports Prelude
begin

text \<open>
  \<open>hardhat.config.ts\<close>: the compilers, the networks with their accounts, and the block explorers. The
  environment of the process is the argument \<open>env\<close>; a variable that is not set is the string
  \<open>undefined\<close> in a concatenation and an absent account in an account list.
\<close>

section \<open>Compilers\<close>

type_synonym version = "nat \<times> nat \<times> nat"

record compiler =
  co_version :: version
  co_runs :: "nat option"
  co_viaIR :: bool

definition compilers :: "compiler list" where
  "compilers =
     [\<lparr>co_version = (0, 8, 9), co_runs = None, co_viaIR = False\<rparr>,
      \<lparr>co_version = (0, 8, 10), co_runs = None, co_viaIR = False\<rparr>,
      \<lparr>co_version = (0, 8, 20), co_runs = None, co_viaIR = False\<rparr>,
      \<lparr>co_version = (0, 8, 21), co_runs = Some 100, co_viaIR = True\<rparr>,
      \<lparr>co_version = (0, 8, 19), co_runs = Some 100, co_viaIR = True\<rparr>,
      \<lparr>co_version = (0, 8, 23), co_runs = Some 100, co_viaIR = False\<rparr>,
      \<lparr>co_version = (0, 8, 17), co_runs = Some 800, co_viaIR = True\<rparr>]"

section \<open>Networks\<close>

record network =
  nw_url :: string
  nw_accounts :: "string option list option"

definition getNetwork1 :: "(string \<Rightarrow> string option) \<Rightarrow> string \<Rightarrow> network" where
  "getNetwork1 env url = \<lparr>nw_url = url, nw_accounts = Some [env ''PRIVATE_KEY2'', env ''PRIVATE_KEY'']\<rparr>"

definition getNetworkTestBalance :: "(string \<Rightarrow> string option) \<Rightarrow> string \<Rightarrow> network" where
  "getNetworkTestBalance env url = \<lparr>nw_url = url, nw_accounts = Some [env ''PRIVATE_KEY_TEST_BALANCE'']\<rparr>"

definition getNetworkProd :: "(string \<Rightarrow> string option) \<Rightarrow> string \<Rightarrow> network" where
  "getNetworkProd env url = \<lparr>nw_url = url, nw_accounts = Some [env ''REGISTRY_DEPLOYMENT_KEY'']\<rparr>"

definition env_string :: "(string \<Rightarrow> string option) \<Rightarrow> string \<Rightarrow> string" where
  "env_string env k = (case env k of None \<Rightarrow> ''undefined'' | Some v \<Rightarrow> v)"

definition networks :: "(string \<Rightarrow> string option) \<Rightarrow> (string \<times> network) list" where
  "networks env =
     (let infura = (\<lambda>s. ''https://'' @ s @ ''.infura.io/v3/'' @ env_string env ''INFURA_API_KEY'') in
      [(''dev'', \<lparr>nw_url = ''http://127.0.0.1:8545'', nw_accounts = None\<rparr>),
       (''arbitrumSepolia'', \<lparr>nw_url = infura ''arbitrum-sepolia'', nw_accounts = Some [env ''PRIVATE_KEY'']\<rparr>),
       (''sepolia'', getNetworkTestBalance env (infura ''sepolia'')),
       (''opSepolia'', getNetworkTestBalance env (infura ''optimism-sepolia'')),
       (''arbSepolia'', getNetworkTestBalance env (infura ''arbitrum-sepolia'')),
       (''amoy'', getNetwork1 env (infura ''polygon-amoy'')),
       (''kakarotSepolia'', getNetwork1 env ''https://sepolia-rpc.kakarot.org''),
       (''kakarotSepoliaNew'', getNetwork1 env ''https://rpc-kakarot-sepolia.karnot.xyz''),
       (''opmain'', getNetwork1 env (infura ''optimism-mainnet'')),
       (''arbmain'', getNetwork1 env (infura ''arbitrum-mainnet'')),
       (''basemain'', getNetwork1 env ''https://1rpc.io/base''),
       (''avaxmain'', getNetwork1 env (infura ''avalanche-mainnet''))])"

section \<open>Block explorers\<close>

datatype api_key = Literal | FromEnv string

definition apiKeys :: "(string \<times> api_key) list" where
  "apiKeys = [(''arbSepolia'', Literal), (''opmain'', FromEnv ''OP_SCAN_API_KEY''), (''arbmain'', FromEnv ''ARB_SCAN_API_KEY'')]"

record custom_chain =
  cc_network :: string
  cc_chainId :: nat
  cc_apiURL :: string
  cc_browserURL :: string

definition customChains :: "custom_chain list" where
  "customChains =
     [\<lparr>cc_network = ''amoy'', cc_chainId = 80002, cc_apiURL = ''https://api-amoy.polygonscan.com/api'',
       cc_browserURL = ''https://amoy.polygonscan.com/''\<rparr>,
      \<lparr>cc_network = ''arbSepolia'', cc_chainId = 421614, cc_apiURL = ''https://api-sepolia.arbiscan.io/api'',
       cc_browserURL = ''https://sepolia.arbiscan.io/''\<rparr>,
      \<lparr>cc_network = ''opmain'', cc_chainId = 10, cc_apiURL = ''https://api-optimistic.etherscan.io/api'',
       cc_browserURL = ''https://optimistic.etherscan.io/''\<rparr>,
      \<lparr>cc_network = ''arbmain'', cc_chainId = 42161, cc_apiURL = ''https://api.arbiscan.io/api'',
       cc_browserURL = ''https://arbiscan.io/''\<rparr>]"

section \<open>What the configuration offers\<close>

text \<open>A caret pragma \<open>^a.b.c\<close> with \<open>a = 0\<close> allows later patches of the same minor version.\<close>

definition caret_allows :: "version \<Rightarrow> version \<Rightarrow> bool" where
  "caret_allows v w = (case v of (a, b, c) \<Rightarrow> case w of (a', b', c') \<Rightarrow> a = a' \<and> b = b' \<and> c \<le> c')"

definition the_signers :: "network \<Rightarrow> string list option" where
  "the_signers nw = (case nw_accounts nw of None \<Rightarrow> None | Some ks \<Rightarrow> those ks)"

text \<open>Two names for one chain differ in the key that signs.\<close>

lemma network_names_distinct: "distinct (map fst (networks env))"
  by (simp add: networks_def Let_def)

lemma explorer_networks: "cc_network ` set customChains \<subseteq> fst ` set (networks env)"
  "fst ` set apiKeys \<subseteq> fst ` set (networks env)"
  by (simp_all add: customChains_def apiKeys_def networks_def Let_def)

end
