(* ===== verification/Spec2Isabelle.thy ===== *)
theory Spec2Isabelle
  imports Instances HardhatConfig
begin

text \<open>
  Verification of the Enclave smart accounts: ERC-4337 accounts that are controlled by a passkey (a
  secp256r1 key in a WebAuthn authenticator) or by an Ethereum key, the paymasters that sponsor
  their gas, the token vault of the smart balance, and the scripts that deploy and operate them.

  \<^bold>\<open>The program.\<close> An account (\<open>P256SmartAccount\<close>, \<open>SmartAccount\<close>) is created by its factory at a CREATE2
  address and acts for its entry point. It looks the entry point and the signature verifier up in the
  \<open>EnclaveRegistry\<close>. Validation of an operation rebuilds the WebAuthn client data with \<open>Base64URL\<close>, hashes
  it and asks \<open>P256V\<close>, which calls \<open>P256Verifier\<close>. A paymaster checks the signature of its trusted signer over
  the operation and a nonce of its own; the token and NFT paymasters settle in \<open>postOp\<close> with a fee
  logic (\<open>EnclaveFeeLogic*\<close>, over \<open>CustomFullMath\<close>) or with \<open>NFTGasLogic\<close>. The scripts deploy these contracts,
  fill the registry, and build, sponsor, sign and send operations.

  \<^bold>\<open>Conventions.\<close> A contract's storage is a record, and a function of the contract is a definition from
  the storage and the arguments to \<open>'a res\<close>, the sum of the reverts and panics with the result. Integers
  are words of their width; checked arithmetic panics, assembly wraps. Code outside the repository is
  an argument of the definitions that call it: hashes and \<open>ecrecover\<close> (\<open>evm_crypto\<close>), tokens, price
  feeds, pools, the compiler's proxy code, \<open>MerkleProof\<close>, hardhat and ethers (\<open>ethers_env\<close>), the wallet. The
  hypotheses that a property states of an argument are named definitions (\<open>vault_tokens_ok\<close>,
  \<open>modexp_precompile\<close> and the like); \<open>Instances\<close> holds concrete functions that satisfy them.

  \<^bold>\<open>Theories and sources.\<close>

  \<^item> \<open>Prelude\<close>: errors, checked arithmetic, \<open>mulmod\<close> and \<open>addmod\<close>, words and their bounds.
  \<^item> \<open>Abi\<close>: the ABI encoding of words, bytes and word arrays, with decoding of encodings.
  \<^item> \<open>Registry\<close>: \<open>EnclaveRegistry.sol\<close>; the locale \<open>address_book\<close>.
  \<^item> \<open>Base64Url\<close>: \<open>utils/Base64URL.sol\<close> over the \<open>Base64\<close> of the flattened file, and RFC 4648's encoding as
    reference.
  \<^item> \<open>FullMath\<close>: \<open>paymaster/CustomFullMath.sol\<close>. \<open>FeeLogic\<close>: the three fee contracts and \<open>UniswapHelper.sol\<close>; the
    locale \<open>fee_logic\<close>. \<open>NftGas\<close>: \<open>NFTGasLogic.sol\<close>, \<open>GasNFT.sol\<close>, \<open>TestNFT.sol\<close>.
  \<^item> \<open>UserOp\<close>: the account-abstraction helpers and the \<open>ECDSA\<close> library of
    \<open>P256SmartAccountFactory_Flattened.sol\<close>.
  \<^item> \<open>Paymasters\<close> and \<open>PaymasterSpec\<close>: the verifying, token, NFT, multi-token and solver paymasters; the
    locale \<open>nonce_paymaster\<close>. \<open>Vault\<close>: \<open>v0/EnclaveTokenVaultV0.sol\<close> and \<open>MockUSDC.sol\<close>.
  \<^item> \<open>Accounts\<close>, \<open>AccountSpec\<close> and \<open>Factories\<close>: both accounts, \<open>P256V.sol\<close>, proxies and upgrades, both
    factories; the locales \<open>account_executor\<close> and \<open>account_factory\<close>. The histories of a passkey account
    (\<open>p256_trace\<close>) are a step relation on its storage and the call stack.
  \<^item> \<open>P256\<close>: \<open>P256Verifier.sol\<close>; the locale \<open>double_and_add\<close>. \<open>Secp256r1\<close>: \<open>SECP256R1.sol\<close>.
    \<open>SignatureModules\<close>: \<open>signatureModules/MultichainValidator.sol\<close> and \<open>P256VerifierYul.sol\<close>.
  \<^item> \<open>Montgomery\<close>: the modular arithmetic of \<open>P256VERIFY.yul\<close>; the locale \<open>montgomery\<close>. \<open>P256Yul\<close>: the constants,
    the projective point operations and the fallback of that object.
  \<^item> \<open>BinaryNumerals\<close>, \<open>Primality\<close>, \<open>CurvePrimes\<close> and \<open>PrimeField\<close>: fast arithmetic on numerals, Fermat's
    theorem, a primality test, the proofs that the field prime and the group order are prime, and the
    field as a type. \<open>CurveGroup\<close>: the affine chord and tangent law, the proof that the points of the curve
    are an abelian group under it, and multiples of points. \<open>CurveSpec\<close>: textbook ECDSA, and the point
    operations of both Solidity libraries as implementations of the group. \<open>Secp256r1Spec\<close>: the table, the
    loop and the verification of \<open>SECP256R1.sol\<close> on multiples of points.
  \<^item> \<open>Script\<close>, \<open>DeployScripts\<close>, \<open>OpsScripts\<close>, \<open>UserOpScripts\<close>, \<open>ScriptSpec\<close>: the scripts under \<open>scripts/\<close>, one \<open>main\<close>
    per file; the locale \<open>world_property\<close>. \<open>HardhatConfig\<close>: \<open>hardhat.config.ts\<close>. A contract creation is
    sent and mined apart: the network is a parameter, and a script that does not wait for its deployment
    may read before there is code.

  \<^bold>\<open>What is shown.\<close> The properties C1 to C40 below rest on the lemmas of these theories.

  \<^item> Signatures (C1 to C5, C22, C23, C27, C29, C32): passkey validation is textbook ECDSA over the WebAuthn
    digest; the Solidity and the Yul verifier are textbook ECDSA on every input, and their loops and point
    formulas implement the group of the curve; \<open>SECP256R1\<close> decides on the same point where none of its
    additions meets equal points, and accepts the zero signature; what the multichain validator decides;
    the owner-signed account accepts exactly the owner's signatures.
  \<^item> Encodings (C24 to C26, C33): Base64URL is RFC 4648's encoding, \<open>paymasterAndData\<close> round trips; what
    the signed bytes cover;
    the script packs as the contract does. Lemmas beside them: the two signature checks of an account
    agree, and validation data round trip.
  \<^item> Paymasters and prices (C6 to C10, C14 to C17, C28, C38, C39): no replay, every branch of
    validation, when an operation can be settled, the outcome of \<open>mulDiv\<close>, the fee formulas, limits, and the
    paymasters that cannot work.
  \<^item> State (C11 to C13, C18 to C21, C30, C31): the vault covers its deposits; who makes an account act;
    batches; creation, single initialisation and upgrades; the registry.
  \<^item> Scripts (C34 to C37, C40): which deployments fail, which scripts leave the chain alone, and what the
    account and verifier scripts do.

  \<^bold>\<open>Loops and bounds.\<close> The loops of the Solidity sources and of the scripts are total functions: those
  of the verifiers run 256 and 128 times, the Newton iteration six times, the others over a list; no fuel
  is used. Three loops of the Yul object need not end (the two of the inversion, on 0, and the search for
  the first bit, on two zero scalars); they are partial functions, and C5 shows that every call of the
  contract ends. ABI decoding is shown for encodings below \<open>2\<^sup>6\<^sup>4\<close> bytes, the limit of the decoder. In
  \<open>CurvePrimes\<close> the factors used of the predecessor of a prime have a product above its cube root, which
  the test needs.

  \<^bold>\<open>Not modelled.\<close> Of the Yul object the two instructions behind \<open>verbatim\<close> are taken as their comments say:
  the upper half of a product, and the burning of the remaining gas, which ends the call. \<open>EntryPoint.sol\<close>
  consists of an import, and \<open>MockUSDC.sol\<close> of two calls into the ERC20 contract, which is an argument. Of
  the flattened file only what the contracts use is modelled. In the scripts a call transaction is taken
  as mined when the script goes on; \<open>UniFeeLogicNew.ts\<close>, \<open>fakeUSDC.ts\<close> and \<open>paymasterFunctionsV1.ts\<close> read
  without waiting for one and would see the old state on a slower network, which no property covers.
  That the generator has the order \<open>N\<close> is not proved; no property needs it. Gas, console output, event
  subscription and the tests under \<open>test/\<close> have no counterpart; a message call is a function, so
  out-of-gas failures appear only as failed calls. The private keys and API keys in the scripts and in
  the configuration are arguments and are not repeated here.
\<close>

section \<open>Passkey signatures\<close>



text \<open>
  C2. The interleaved double-and-add loop of the verifier computes multiples of points: for a key Q on
  the curve and any two scalars u and v, ecZZ_mulmuladd returns the reduced word that represents the x
  coordinate of the point u G + v Q, where G is the generator and the multiples are repeated sums in
  the group of the chord and tangent law, and 0 when the sum is the point at infinity.
\<close>

theorem mulmuladd_is_textbook_multiplication:
  assumes "ecAff_isValidPubkey QX QY"
  shows "\<exists>x. ecZZ_mulmuladd QX QY u v = Inr x \<and> x < P256_p \<and>
    fp_word x = x_coord (ec_add (point_mult (unat u) generator) (point_mult (unat v) (Point (fp_word QX) (fp_word QY))))"
  by (rule mulmuladd_textbook [OF assms])

theorem mulmuladd_is_textbook_multiplication_witness:
  "\<exists>x. ecZZ_mulmuladd GX GY 3 5 = Inr x \<and> x < P256_p \<and>
     fp_word x = x_coord (ec_add (point_mult 3 generator) (point_mult 5 generator))"
  using mulmuladd_is_textbook_multiplication [OF generator_on_curve, of 3 5] by (simp add: generator_def)

text \<open>
  C3. The point operations of the verifier implement the chord and tangent law: doubling a point in
  (X, Y, ZZ, ZZZ) coordinates and adding an affine point to it never revert on reduced points of the
  curve, the result is again a reduced point of the curve, and the affine point it stands for is the
  textbook double and the textbook sum, infinity and equal or opposite points included.
\<close>

theorem point_operations_implement_group_law:
  assumes "zz_ok P" and "aff_ok (x2, y2)"
  shows "(\<exists>D. ecZZ_double_zz P = Inr D \<and> zz_ok D \<and> point_of_zz D = ec_double (point_of_zz P)) \<and>
    (\<exists>S. ecZZ_dadd_affine P x2 y2 = Inr S \<and> zz_ok S \<and>
      point_of_zz S = ec_add (point_of_zz P) (point_of_aff (x2, y2)))"
  using double_zz_ok [OF assms(1)] dadd_affine_ok [OF assms] double_refines [OF assms(1)] dadd_refines [OF assms] by blast

theorem point_operations_implement_group_law_witness:
  "(\<exists>D. ecZZ_double_zz (GX, GY, 1, 1) = Inr D \<and> zz_ok D \<and> point_of_zz D = ec_double (point_of_zz (GX, GY, 1, 1))) \<and>
   (\<exists>S. ecZZ_dadd_affine (GX, GY, 1, 1) GX GY = Inr S \<and> zz_ok S \<and>
      point_of_zz S = ec_add (point_of_zz (GX, GY, 1, 1)) (point_of_aff (GX, GY)))"
proof -
  have "\<not> ecAff_IsInf GX GY" by (simp add: ecAff_IsInf_def GX_def)
  then have "zz_ok (GX, GY, 1, 1)" using ok_affine generator_aff(1) by blast
  then show ?thesis using point_operations_implement_group_law generator_aff(1) by blast
qed

text \<open>
  C4. ecdsa_verify is ECDSA verification: on every input it returns, without a checked-arithmetic
  panic, and its verdict is the textbook one: r and s strictly between 0 and the group order, a key
  with reduced coordinates on the curve, and r equal to the x coordinate, modulo the order, of the
  multiple of the generator and the key by the two scalars that the hash, r and s give.
\<close>

theorem ecdsa_verify_is_textbook_ecdsa:
  "ecdsa_verify h r s pk = Inr (ecdsa_spec h r s (fst pk) (snd pk))"
  by (rule ecdsa_verify_spec)

text \<open>
  C5. The Yul verifier is ECDSA verification, on every calldata: its loops end, it burns the gas of the
  call exactly when r or s is not strictly between 0 and the group order or the key is not a point of
  the curve with reduced coordinates, and otherwise it returns one word, 1 for a signature that is
  valid by the textbook definition and 0 for every other one. It returns 1 exactly when the Solidity
  verifier accepts the five words.
\<close>

theorem yul_verifier_is_textbook_ecdsa:
  "let hash = calldataload calldata 0; r = calldataload calldata 32; s = calldataload calldata 64;
       x = calldataload calldata 96; y = calldataload calldata 128
   in p256verify_yul calldata =
        Some (if 0 < r \<and> r < P256_n \<and> 0 < s \<and> s < P256_n \<and> ecAff_isValidPubkey x y
              then Returned (abi_word (if ecdsa_spec hash r s x y then 1 else 0)) else BurntGas) \<and>
      (p256verify_yul calldata = Some (Returned (abi_word 1)) \<longleftrightarrow> ecdsa_verify hash r s (x, y) = Inr True)"
  unfolding Let_def p256verify_yul_def p256verify_words_spec ecdsa_verify_spec
  by (auto simp: ecdsa_spec_def valid_iff_on_curve aff_reduced_def simp del: on_curve.simps)

text \<open>
  C23. What the library SECP256R1 decides. When the exponentiation precompile answers as EIP-198
  documents, r and s are below the order, the key is on the curve and no addition of its multiplication
  meets two equal finite points (regular_scalars, stated of the true multiples of the generator G and
  the key Q), verification returns whether the x coordinate of u1 G + u2 Q equals r, where
  u1 = e / s and u2 = r / s modulo the order. P256Verifier decides on the same point, but
  compares the x coordinate modulo the order and rejects r = 0 and s = 0. Zero is not excluded by the
  library: r = s = 0 is accepted for every key and every message.
\<close>

theorem secp256r1_verify_decides:
  assumes "modexp_precompile precompile" and "r < P256_n" and "s < P256_n"
    and "ecAff_isValidPubkey (pubKeyX key) (pubKeyY key)"
    and "regular_scalars (Point (fp_word (pubKeyX key)) (fp_word (pubKeyY key)))
      (unat (mulmod e (nModInv s) P256_n)) (unat (mulmod r (nModInv s) P256_n))"
  shows "let R = ec_add (point_mult (unat (mulmod e (nModInv s) P256_n)) generator)
             (point_mult (unat (mulmod r (nModInv s) P256_n)) (Point (fp_word (pubKeyX key)) (fp_word (pubKeyY key))))
    in secp256r1_verify precompile key r s e = Inr (word_of_fp (x_coord R) = r) \<and>
      ecdsa_verify e r s (pubKeyX key, pubKeyY key) =
        Inr (0 < r \<and> 0 < s \<and> word_of_fp (x_coord R) mod P256_n = r) \<and>
      secp256r1_verify precompile key 0 0 e = Inr True \<and>
      ecdsa_verify e 0 0 (pubKeyX key, pubKeyY key) = Inr False"
  using secp256r1_verify_regular [OF assms] ecdsa_verify_combination [OF assms(2-4), of e]
    secp256r1_zero_signature [OF assms(1), of key e]
  by (simp add: combination_def Let_def ecdsa_verify_def [of e 0 0])

theorem secp256r1_verify_decides_witness:
  "secp256r1_verify toy_modexp \<lparr>pubKeyX = GX, pubKeyY = GY\<rparr> GX GX 0 = Inr True \<and>
   ecdsa_verify 0 GX GX (GX, GY) = Inr True"
proof -
  have r: "0 < GX" "GX < P256_n" by (simp_all add: GX_def P256_n_def)
  have v: "mulmod GX (nModInv GX) P256_n = 1" by (rule mulmod_nModInv [OF r])
  have u: "mulmod 0 (nModInv GX) P256_n = 0" by (simp add: mulmod_def)
  have one: "point_mult 1 P = P" for P by simp
  have "word_of_fp (x_coord generator) = GX"
    using G_reduced by (simp add: generator_def word_of_fp_unique aff_reduced_def)
  then show ?thesis
    using secp256r1_verify_decides [OF toy_modexp_ok r(2) r(2), of "\<lparr>pubKeyX = GX, pubKeyY = GY\<rparr>" 0]
      generator_on_curve r mod_word_less [OF r(2)]
    by (simp add: u v one regular_single [simplified] generator_def [symmetric])
qed

text \<open>
  C27. The projective operations of the Yul verifier implement the group law: on coordinates in
  Montgomery form below the prime, doubling and addition give such coordinates again, for the textbook
  double and the textbook sum, infinity and equal or opposite points included; and the simultaneous
  multiplication by two scalars that are not both zero returns, with the point t0 G + t1 Q, where G is
  the generator and the point Q is on the curve.
\<close>

theorem yul_operations_implement_group_law:
  assumes "proj_ok p" and "proj_ok q" and "on_curve (point_of_proj q)" and "t0 \<noteq> 0 \<or> t1 \<noteq> 0"
  shows "proj_ok (projectiveDouble p) \<and> point_of_proj (projectiveDouble p) = ec_double (point_of_proj p) \<and>
    proj_ok (projectiveAdd p q) \<and> point_of_proj (projectiveAdd p q) = ec_add (point_of_proj p) (point_of_proj q) \<and>
    (\<exists>r. shamirLinearCombination q t0 t1 = Some r \<and> proj_ok r \<and>
      point_of_proj r = ec_add (point_mult (unat t0) generator) (point_mult (unat t1) (point_of_proj q)))"
  using projectiveDouble_refines [OF assms(1)] projectiveAdd_refines [OF assms(1,2)] shamir_refines [OF assms(2,4)]
    double_mult_is_sum [OF on_curve_generator assms(3)] by (simp del: split_paired_Ex)

theorem yul_operations_implement_group_law_witness:
  "\<exists>r. shamirLinearCombination MONTGOMERY_PROJECTIVE_G_P 3 5 = Some r \<and>
     point_of_proj r = ec_add (point_mult 3 generator) (point_mult 5 generator)"
  using yul_operations_implement_group_law
    [of MONTGOMERY_PROJECTIVE_G_P MONTGOMERY_PROJECTIVE_G_P 3 5] generator_proj on_curve_generator
  by (auto simp del: split_paired_Ex)

text \<open>
  C22. The Jacobian operations of the library SECP256R1 against the chord and tangent law, for any two
  points in reduced coordinates, infinity (Z = 0) included: doubling gives the textbook double, and
  addition gives the textbook sum except for two equal finite points, whose sum it returns as
  infinity, for it has no case for them. The wrapping additions and subtractions of the assembly never
  disturb the result, and the coordinates stay reduced.
\<close>

theorem jacobian_operations_against_group_law:
  assumes "jac_reduced (p1, p2, p3)" and "jac_reduced (q1, q2, q3)"
  shows "jac_reduced (modifiedJacobianDouble p1 p2 p3) \<and> jac_reduced (jAdd p1 p2 p3 q1 q2 q3) \<and>
    point_of_jac (modifiedJacobianDouble p1 p2 p3) = ec_double (point_of_jac (p1, p2, p3)) \<and>
    point_of_jac (jAdd p1 p2 p3 q1 q2 q3) =
      (if point_of_jac (p1, p2, p3) = point_of_jac (q1, q2, q3) \<and> point_of_jac (p1, p2, p3) \<noteq> Infinity then Infinity
       else ec_add (point_of_jac (p1, p2, p3)) (point_of_jac (q1, q2, q3)))"
  using jac_is_double [of p1 p2 p3] jAdd_reduced [OF assms] jacobian_add_refines [OF assms] assms(1)
  by (simp add: jac_is_def)

theorem jacobian_operations_against_group_law_witness:
  "point_of_jac (jAdd GX GY 1 GX GY 1) = Infinity \<and>
   point_of_jac (modifiedJacobianDouble GX GY 1) = ec_double (point_of_jac (GX, GY, 1)) \<and>
   point_of_jac (jAdd 0 0 0 GX GY 1) = point_of_jac (GX, GY, 1)"
proof -
  have red: "jac_reduced (GX, GY, 1)" "jac_reduced (0, 0, 0)"
    using G_reduced P256_p_gt_1 by (simp_all add: jac_reduced_def aff_reduced_def P256_p_pos)
  show ?thesis
    using jacobian_operations_against_group_law [OF red(1) red(1)]
      jacobian_operations_against_group_law [OF red(2) red(1)] by (simp add: point_of_jac_eq)
qed

text \<open>
  C29. Multichain validation. For an operation that carries the ABI encoding of a validity range, a
  Merkle root, a proof and a passkey signature, MultichainPasskeyValidator reverts with "Invalid
  UserOp" when the proof does not put the leaf of the range and the operation hash under the root;
  otherwise it returns 0 or 1, as the curve verifier accepts or rejects the WebAuthn digest of the
  Merkle root (not of the operation hash) under the key of the calling account.
\<close>

theorem multichain_validation_outcome:
  assumes "signature userOp = encode_module vUntil vAfter root path (encode_signature k r s ad pre post) validator"
    and "length (signature userOp) < 2 ^ 64"
    and "registry_lookup regs reg ''p256Verifier'' = Inr v" and "accounts caller = Some acc"
  shows "\<exists>ok. ecdsa_verify (passkey_hash c ad pre post root) r s (pubKey acc) = Inr ok \<and>
    multichain_validateUserOp merkle_verify c regs (\<lambda>_. ecdsa_verify) accounts reg caller userOp h =
      (if \<not> merkle_verify path root (multichain_leaf c vUntil vAfter h) then Inl (Revert ''Invalid UserOp'')
       else Inr (if ok then 0 else 1))"
  using multichain_outcome [where accounts = accounts and caller = caller, OF assms] ecdsa_verify_returns [of "passkey_hash c ad pre post root" r s "pubKey acc"]
  by auto

theorem multichain_validation_outcome_witness:
  "multichain_validateUserOp (\<lambda>path root leaf. path = [leaf]) const_crypto
     (\<lambda>_. Some \<lparr>er_owner = 1, er_registry = (\<lambda>_. 8)\<rparr>) (\<lambda>_. ecdsa_verify)
     (\<lambda>_. Some (p256_created 3 (1, 2) 4)) 5 9
     (toy_op\<lparr>signature := encode_module 20 10 55 [77] (encode_signature 0 0 1 [1] [2] [3]) 7\<rparr>) 6 = Inr 1"
proof -
  let ?regs = "\<lambda>_ :: address. Some \<lparr>er_owner = 1, er_registry = (\<lambda>_. 8)\<rparr>"
  let ?op = "toy_op\<lparr>signature := encode_module 20 10 55 [77] (encode_signature 0 0 1 [1] [2] [3]) 7\<rparr>"
  have "registry_lookup ?regs 5 ''p256Verifier'' = Inr 8"
    by (simp add: registry_lookup_def getRegistryAddress_def)
  moreover have "length (signature ?op) < 2 ^ 64"
    by (simp add: encode_module_def encode_signature_def length_abi_encode pad32_def)
  moreover have "ecdsa_verify h 0 1 pk = Inr False" for h pk by (simp add: ecdsa_verify_def)
  moreover have "multichain_leaf const_crypto 20 10 6 = 77" by (simp add: multichain_leaf_def const_crypto_def)
  ultimately show ?thesis
    using multichain_validation_outcome
      [of ?op 20 10 55 "[77]" 0 0 1 "[1]" "[2]" "[3]" 7 ?regs 5 8 "\<lambda>_. Some (p256_created 3 (1, 2) 4)" 9
        "p256_created 3 (1, 2) 4" const_crypto "\<lambda>path root leaf. path = [leaf]" 6]
    by auto
qed

section \<open>Paymasters\<close>

text \<open>
  C6. A sponsorship cannot be replayed: after a run of validations that begins with an operation
  sponsored by the verifying paymaster, the bytes that the signer has to sign for any operation and
  any validity range differ from the bytes that were signed for that first operation.
\<close>

theorem verifying_sponsorship_not_replayable:
  assumes "validate_run (verifying_validatePaymasterUserOp e) ((userOp, pf) # ops) s = Inr s'"
  shows "pm_preimage e (senderNonce s' (sender userOp')) userOp' u' a' \<noteq>
    pm_preimage e (senderNonce s (sender userOp)) userOp u a"
  by (rule verifying.no_replay [OF assms])

theorem verifying_sponsorship_not_replayable_witness:
  "pm_preimage toy_pm_env 1 toy_op 100 0 \<noteq> pm_preimage toy_pm_env 0 toy_op 100 0"
proof -
  let ?s = "verifying_constructor 7"
  have "\<exists>s'. validate_run (verifying_validatePaymasterUserOp toy_pm_env) [(toy_op, 0)] ?s = Inr s' \<and> senderNonce s' 5 = 1"
    by (simp add: verifying_validatePaymasterUserOp_def toy_parse toy_sig_length Let_def bump_nonce_def checked_succ
        toy_pm_env_def toy_recover verifying_constructor_def getSender_def) (simp add: toy_op_def)
  then show ?thesis
    using verifying_sponsorship_not_replayable [of toy_pm_env toy_op 0 "[]" ?s _ toy_op 100 0 100 0]
    by (fastforce simp: toy_op_def verifying_constructor_def)
qed

text \<open>
  C7. The verifying paymaster on every branch. For an operation whose paymasterAndData is a 20-byte
  address, the ABI-encoded validity range and a signature: a signature that is not 64 or 65 bytes
  long reverts, an exhausted nonce panics, a failed recovery reverts with the error of ECDSA, and
  otherwise the validation data packs the verdict on the recovered signer with the range, and only
  the nonce of the sender goes up, by one.
\<close>

theorem verifying_paymaster_outcome:
  assumes "length pm = 20" and "paymasterAndData userOp = build_paymasterAndData pm u a sig"
  shows "verifying_validatePaymasterUserOp e userOp pf s =
    (if length sig \<noteq> 64 \<and> length sig \<noteq> 65
     then Inl (Revert ''VerifyingPaymaster: invalid signature length in paymasterAndData'')
     else if senderNonce s (sender userOp) = - 1 then Inl (Panic 0x11)
     else case ECDSA_recover (pe_crypto e) (request_hash e (senderNonce s (sender userOp)) userOp u a) sig of
            Inl err \<Rightarrow> Inl err
          | Inr rec \<Rightarrow> Inr (([], packValidationData (verifyingSigner s \<noteq> rec) u a),
              s\<lparr>senderNonce := (senderNonce s)(sender userOp := senderNonce s (sender userOp) + 1)\<rparr>))"
  by (rule verifying_outcome [OF assms])

theorem verifying_paymaster_outcome_witness:
  "verifying_validatePaymasterUserOp toy_pm_env toy_op 0 (verifying_constructor 7) =
     Inr (([], packValidationData False 100 0), \<lparr>verifyingSigner = 7, senderNonce = (\<lambda>_. 0)(5 := 1)\<rparr>)"
proof -
  have "paymasterAndData toy_op = build_paymasterAndData (replicate 20 9) 100 0 toy_sig" by (simp add: toy_op_def)
  moreover have "length toy_sig = 65" "sender toy_op = 5" by (simp_all add: toy_sig_def toy_op_def)
  ultimately show ?thesis
    using verifying_paymaster_outcome [of "replicate 20 9" toy_op 100 0 toy_sig toy_pm_env 0 "verifying_constructor 7"]
    by (simp add: toy_pm_env_def toy_recover verifying_constructor_def)
qed

text \<open>
  C8. Sponsoring in the script and validating on chain agree. The sponsor step of the transfer
  script, run against a deployed verifying paymaster, returns an operation that this paymaster accepts
  in the state it was signed for, with the range the script chose, provided the wallet that signs is
  the paymaster's verifying signer.
\<close>

theorem script_sponsorship_is_accepted:
  assumes "en_signers e = signer # rest" and "deployed w pm = Some (CVerifyingPaymaster ep s)"
    and "VALID_UNTIL now1 < 2 ^ 48" and "VALID_AFTER now2 < 2 ^ 48" and "senderNonce s (sender op) \<noteq> - 1"
    and "signMessage_ok (en_crypto e) jc signer" and "verifyingSigner s = signer"
  shows "\<exists>op' w' s'. sponsor e jc (''EnclaveVerifyingPaymaster'', pm) now1 now2 op w = (Inr op', w') \<and>
    on_chain w' = on_chain w \<and>
    verifying_validatePaymasterUserOp (pm_env_at e pm) op' pf s =
      Inr (([], packValidationData False (of_nat (VALID_UNTIL now1)) (of_nat (VALID_AFTER now2))), s')"
proof -
  obtain w' where "sponsor e jc (''EnclaveVerifyingPaymaster'', pm) now1 now2 op w =
      (Inr (sponsored e jc signer pm s now1 now2 op), w')" "on_chain w' = on_chain w"
    using sponsor_returns [OF assms(1-4)] by blast
  moreover have "\<exists>s'. verifying_validatePaymasterUserOp (pm_env_at e pm) (sponsored e jc signer pm s now1 now2 op) pf s =
      Inr (([], packValidationData False (of_nat (VALID_UNTIL now1)) (of_nat (VALID_AFTER now2))), s')"
    using sponsored_accepted [OF _ _ refl assms(5), of jc signer e pm now1 now2 pf] assms(6,7)
    by (simp add: signMessage_ok_def)
  ultimately show ?thesis by blast
qed

theorem script_sponsorship_is_accepted_witness:
  "\<exists>op' w' s'. sponsor toy_env toy_wallet (''EnclaveVerifyingPaymaster'', 9) 1000 1000 toy_op
      (world_with [(9, CVerifyingPaymaster 2 (verifying_constructor 7))]) = (Inr op', w') \<and>
    on_chain w' = on_chain (world_with [(9, CVerifyingPaymaster 2 (verifying_constructor 7))]) \<and>
    verifying_validatePaymasterUserOp (pm_env_at toy_env 9) op' 0 (verifying_constructor 7) =
      Inr (([], packValidationData False (of_nat (VALID_UNTIL 1000)) (of_nat (VALID_AFTER 1000))), s')"
proof -
  have "signMessage_ok (en_crypto toy_env) toy_wallet 7"
    by (simp add: signMessage_ok_def toy_wallet_def toy_env_def toy_recover) (simp add: toy_sig_def)
  then show ?thesis
    using script_sponsorship_is_accepted
      [of toy_env 7 "[]" "world_with [(9, CVerifyingPaymaster 2 (verifying_constructor 7))]" 9 2
        "verifying_constructor 7" 1000 1000 toy_op toy_wallet 0]
    by (simp add: toy_env_def world_with_def empty_world_def deployed_def verifying_constructor_def VALID_UNTIL_def VALID_AFTER_def)
qed

text \<open>
  C9. A sponsored operation of the token paymaster can be settled. When validation succeeds, the
  mainnet fee logic prices the prefund, and the sender's tokens can be pulled up to that price, then
  postOp with the context that validation returned and any gas cost up to the prefund returns: it
  charges the sender, not another account, the price of the actual gas cost, which is at most the
  price of the prefund.
\<close>

theorem token_sponsorship_settles:
  assumes "token_validatePaymasterUserOp e userOp pf s = Inr ((ctx, vd), s')"
    and "calculateFee (tp_feeLogic s) = mainnet_calculateFee cl fees"
    and "mainnet_calculateFee cl fees (tp_paymentToken s) pf = Inr cap" and "g \<le> pf"
    and "can_pull erc (tp_paymentToken s) (pe_this e) (sender userOp) cap x"
  shows "\<exists>charge x'. mainnet_calculateFee cl fees (tp_paymentToken s) g = Inr charge \<and> charge \<le> cap \<and>
    erc20_transferFrom erc (tp_paymentToken s) (pe_this e) (sender userOp) (pe_this e) charge x = Inr (True, x') \<and>
    token_postOp erc calculateFee e ctx g s' x = Inr x'"
proof -
  have same: "tp_paymentToken s' = tp_paymentToken s" "tp_feeLogic s' = tp_feeLogic s"
    using token_frame [OF assms(1)] by simp_all
  have "fee_logic (calculateFee (tp_feeLogic s') (tp_paymentToken s'))"
    using mainnet.fee_logic_axioms assms(2) same by simp
  then show ?thesis
    using token_postOp_ok [of calculateFee s' pf cap g erc e "sender userOp" x] token_context [OF assms(1)] assms(2-5) same
    by simp
qed

theorem token_sponsorship_settles_witness:
  "\<exists>charge x'. mainnet_calculateFee toy_chainlink (mainnet_constructor 3 20) 2 400000000000000 = Inr charge \<and> charge \<le> 2625000 \<and>
    erc20_transferFrom toy_erc20 2 9 5 9 charge toy_ledger = Inr (True, x') \<and>
    token_postOp toy_erc20 (\<lambda>_. mainnet_calculateFee toy_chainlink (mainnet_constructor 3 20)) toy_pm_env
      (abi_encode [AWord (ucast (sender toy_op))]) 400000000000000
      \<lparr>verifyingSigner = 7, senderNonce = (\<lambda>_. 0)(5 := 1), tp_paymentToken = 2, tp_feeLogic = 3, tp_log = []\<rparr>
      toy_ledger = Inr x'"
proof -
  let ?s' = "\<lparr>verifyingSigner = 7, senderNonce = (\<lambda>_. 0)(5 := 1), tp_paymentToken = 2, tp_feeLogic = 3, tp_log = []\<rparr>"
  have op: "sender toy_op = 5" by (simp add: toy_op_def)
  have run: "token_validatePaymasterUserOp toy_pm_env toy_op 1000000000000000 (token_constructor 7 2 3) =
      Inr ((abi_encode [AWord (ucast (sender toy_op))], packValidationData False 100 0), ?s')"
    by (simp add: token_validatePaymasterUserOp_def toy_parse toy_sig_length Let_def bump_nonce_def checked_succ
        toy_pm_env_def toy_recover token_constructor_def getSender_def op)
  have fee: "mainnet_calculateFee toy_chainlink (mainnet_constructor 3 20) 2 1000000000000000 = Inr 2625000"
    by (rule toy_mainnet_fee) simp_all
  have "can_pull toy_erc20 2 9 5 2625000 toy_ledger"
    by (simp add: can_pull_def toy_erc20_def move_def toy_ledger_def word_le_nat_alt)
  then show ?thesis
    using token_sponsorship_settles [OF run, where cl = toy_chainlink and fees = "mainnet_constructor 3 20" and
        calculateFee = "\<lambda>_. mainnet_calculateFee toy_chainlink (mainnet_constructor 3 20)" and cap = 2625000
        and g = 400000000000000 and erc = toy_erc20 and x = toy_ledger] fee
    by (simp add: token_constructor_def toy_pm_env_def op)
qed

text \<open>
  C10. When a sponsored operation of the NFT paymaster can be settled. The context that a successful
  validation returns is charged to the sender of the operation, in whatever state the chain is by then
  (balances nb2, gas logic gl2, paymaster s2; other operations and the operation itself run in
  between): postOp returns exactly if at that time the sender still holds the NFT, has sponsored operations
  left, and the actual gas cost fits what is left of the gas limit; otherwise it reverts. When it
  returns, it has booked one more operation and that gas cost to the sender and left every other record
  and the limits alone. If the sender's NFT balance, record and limits are still those that validation
  saw, any gas cost up to the prefund is settled.
\<close>

theorem nft_sponsorship_settles:
  assumes "nft_validatePaymasterUserOp nb gl e userOp pf s = Inr ((ctx, vd), s')"
  shows "let nft = np_nft s2; user = sender userOp; d = sponsoredTransactionsByNFT gl2 nft user in
    ((\<exists>gl'. nft_postOp nb2 ctx g s2 gl2 = Inr gl') \<longleftrightarrow>
      (\<exists>b. nb2 nft user = Inr b \<and> 0 < b) \<and> unat (sd_count d) < unat (transactionLimitByNFT gl2 nft) \<and>
      unat g + unat (sd_totalAmount d) \<le> unat (gasValueLimitByNFT gl2 nft)) \<and>
    (\<forall>gl'. nft_postOp nb2 ctx g s2 gl2 = Inr gl' \<longrightarrow>
      unat (sd_count (sponsoredTransactionsByNFT gl' nft user)) = unat (sd_count d) + 1 \<and>
      unat (sd_totalAmount (sponsoredTransactionsByNFT gl' nft user)) = unat (sd_totalAmount d) + unat g \<and>
      (\<forall>nft' user'. (nft', user') \<noteq> (nft, user) \<longrightarrow>
        sponsoredTransactionsByNFT gl' nft' user' = sponsoredTransactionsByNFT gl2 nft' user') \<and>
      transactionLimitByNFT gl' = transactionLimitByNFT gl2 \<and> gasValueLimitByNFT gl' = gasValueLimitByNFT gl2) \<and>
    (nft = np_nft s \<and> nb2 nft user = nb nft user \<and> d = sponsoredTransactionsByNFT gl nft user \<and>
      transactionLimitByNFT gl2 nft = transactionLimitByNFT gl nft \<and>
      gasValueLimitByNFT gl2 nft = gasValueLimitByNFT gl nft \<and> g \<le> pf \<longrightarrow>
      (\<exists>gl'. nft_postOp nb2 ctx g s2 gl2 = Inr gl'))"
proof -
  note c = nft_context [OF assms]
  have ctx: "ctx = abi_encode [AWord (ucast (sender userOp))]" using c by simp
  have same: "isEligible nb2 (sender userOp) (np_nft s2) g gl2 = Inr True"
    if "np_nft s2 = np_nft s" "nb2 (np_nft s2) (sender userOp) = nb (np_nft s2) (sender userOp)"
      "sponsoredTransactionsByNFT gl2 (np_nft s2) (sender userOp) = sponsoredTransactionsByNFT gl (np_nft s2) (sender userOp)"
      "transactionLimitByNFT gl2 (np_nft s2) = transactionLimitByNFT gl (np_nft s2)"
      "gasValueLimitByNFT gl2 (np_nft s2) = gasValueLimitByNFT gl (np_nft s2)" "g \<le> pf"
    using that c isEligible_mono [of nb "sender userOp" "np_nft s" pf gl g] by (simp add: isEligible_eq_True)
  show ?thesis
    unfolding Let_def ctx nft_postOp_iff using same applyLogic_effect(3-7) isEligible_eq_True
    by (auto simp: nft_postOp_eq)
qed

theorem nft_sponsorship_settles_witness:
  "\<exists>gl'. nft_postOp (\<lambda>_ _. Inr 1) (abi_encode [AWord (ucast (sender toy_op))]) 45 (nft_constructor 7 2 3)
      (set_sponsored 2 5 \<lparr>sd_count = 1, sd_totalAmount = 40\<rparr> (addOrUpdateNFTLimits 2 10 100 nft_gas_constructor)) = Inr gl' \<and>
    unat (sd_count (sponsoredTransactionsByNFT gl' 2 5)) = 2 \<and>
    unat (sd_totalAmount (sponsoredTransactionsByNFT gl' 2 5)) = 85"
proof -
  let ?gl = "addOrUpdateNFTLimits 2 10 100 nft_gas_constructor"
  let ?gl2 = "set_sponsored 2 5 \<lparr>sd_count = 1, sd_totalAmount = 40\<rparr> ?gl"
  have op: "sender toy_op = 5" by (simp add: toy_op_def)
  have run: "nft_validatePaymasterUserOp (\<lambda>_ _. Inr 1) ?gl toy_pm_env toy_op 50 (nft_constructor 7 2 3) =
      Inr ((abi_encode [AWord (ucast (sender toy_op))], packValidationData False 100 0),
        \<lparr>verifyingSigner = 7, senderNonce = (\<lambda>_. 0)(5 := 1), np_nft = 2, np_gasLogic = 3, np_log = []\<rparr>)"
    by (simp add: nft_validatePaymasterUserOp_def toy_parse toy_sig_length Let_def bump_nonce_def checked_succ
        toy_pm_env_def toy_recover nft_constructor_def getSender_def op isEligible_def addOrUpdateNFTLimits_def
        nft_gas_constructor_def checked_add_def)
  have "np_nft (nft_constructor 7 2 3) = 2" "sponsoredTransactionsByNFT ?gl2 2 5 = \<lparr>sd_count = 1, sd_totalAmount = 40\<rparr>"
      "transactionLimitByNFT ?gl2 2 = 10" "gasValueLimitByNFT ?gl2 2 = 100"
    by (simp_all add: nft_constructor_def set_sponsored_def addOrUpdateNFTLimits_def)
  then show ?thesis
    using nft_sponsorship_settles [OF run, of "nft_constructor 7 2 3" ?gl2 "\<lambda>_ _. Inr 1" 45]
    by (auto simp: op Let_def)
qed

section \<open>Vault\<close>

text \<open>
  C11. The token vault is solvent. In every state reached from deployment by deposits, withdrawals,
  claims, changes of managers and transfers from outside that do not take tokens from the vault, the
  deposits recorded for each token add up to no more than the vault's balance of it.
\<close>

theorem vault_covers_deposits:
  assumes "vault_tokens_ok erc bal this" and "vault_reachable erc bal this st"
  shows "total_deposits (fst st) t \<le> bal (snd st) t this"
  using vault_reachable_solvent [OF assms] by (simp add: vault_solvent_def)

theorem vault_covers_deposits_witness:
  "\<exists>st. vault_deposit toy_erc20 20 5 2 300 (vault_constructor 1, toy_ledger) = Inr st \<and>
    total_deposits (fst st) 2 \<le> snd st 2 20"
proof -
  have "\<exists>st. vault_deposit toy_erc20 20 5 2 300 (vault_constructor 1, toy_ledger) = Inr st"
    by (simp add: vault_deposit_def toy_erc20_def move_def toy_ledger_def Let_def checked_add_def vault_constructor_def
        vault_emit_def)
  then obtain st where run: "vault_deposit toy_erc20 20 5 2 300 (vault_constructor 1, toy_ledger) = Inr st" ..
  have "vault_reachable toy_erc20 (\<lambda>x. x) 20 st"
    by (rule vault_reachable.step [OF vault_reachable.deploy vault_step.deposit [OF _ run]]) simp
  then show ?thesis using vault_covers_deposits [OF toy_tokens_ok, of 20 st 2] run by blast
qed

section \<open>Accounts\<close>

text \<open>
  C12. Who makes a passkey account act. In every state that a history of calls reaches, with calls
  nested, reverted or reentering and the registry changing at any time: the outermost open call of
  execute or executeBatch was made by the entry point that the account's registry named at that
  moment; a message that changes the account's storage (guardians, key, initialisation, either upgrade
  function) comes from a guardian and changes only the public key, or comes from the account itself
  while such a call, begun by the entry point, is open; and the account stays initialised exactly once,
  with an empty guardian list and the zero address never a guardian. The history ends when
  upgradeToAndCall hands the storage to other code.
\<close>

theorem account_calls_start_at_entryPoint:
  assumes "p256_trace self this a st"
  shows "account_ok a \<and>
    (outermost_call st = Some (c, regs, a0) \<longrightarrow> p256_entryPoint regs a0 = Inr c) \<and>
    (sends this st caller \<and> p256_change self this caller a a' \<longrightarrow>
      (isGuardian a caller \<and> (\<exists>pk. a' = a\<lparr>pubKey := pk\<rparr>)) \<or>
      (caller = this \<and> (\<exists>c regs a0. outermost_call st = Some (c, regs, a0) \<and> p256_entryPoint regs a0 = Inr c)))"
  using p256_trace_inv [OF assms] p256_change_cases [of self this caller a a'] sends_this [of this st]
  by (auto simp: begun_by_entryPoint_def)

theorem account_calls_start_at_entryPoint_witness:
  "\<exists>a st a'. p256_trace 3 20 a st \<and> sends 20 st 20 \<and> addGuardian 20 20 9 a = Inr a' \<and> isGuardian a' 9 \<and>
     account_ok a \<and> (\<exists>c regs a0. outermost_call st = Some (c, regs, a0) \<and> p256_entryPoint regs a0 = Inr c)"
proof -
  obtain a where init: "p256_initialize False (1, 2) 4 (p256_fresh 3) = Inr a"
    by (simp add: p256_initialize_eq p256_fresh_def)
  then have a: "px_implementation a = 3" "isGuardian a = (\<lambda>_. False)" by (auto simp: p256_initialize_eq p256_fresh_def)
  let ?regs = "\<lambda>_. Some \<lparr>er_owner = 1, er_registry = (\<lambda>_. 8)\<rparr>"
  let ?st = "[AccountCall 8 ?regs a [(20, 0, [])]]"
  have "p256_execute record_call ?regs 20 8 20 0 [] (a, []) = Inr (a, [(20, 0, [])])"
    by (simp add: p256_execute_def p256_requireFromEntryPointOrOwner_def p256_entryPoint_def registry_lookup_def
        getRegistryAddress_def account_call_def record_call_def)
  then have tr: "p256_trace 3 20 a ?st"
    by (intro p256_trace.execute [OF p256_trace.create [OF init] a(1)]) simp_all
  have g: "addGuardian 20 20 9 a = Inr (a\<lparr>isGuardian := (isGuardian a)(9 := True)\<rparr>)"
    by (simp add: addGuardian_def p256_onlyOwner_def a(2))
  have "sends 20 ?st 20" by simp
  moreover have "p256_change 3 20 20 a (a\<lparr>isGuardian := (isGuardian a)(9 := True)\<rparr>)"
    by (intro p256_change.change_write p256_write.add [OF g])
  moreover have "\<not> isGuardian a 20" by (simp add: a(2))
  moreover have "isGuardian (a\<lparr>isGuardian := (isGuardian a)(9 := True)\<rparr>) 9" by simp
  ultimately show ?thesis
    using account_calls_start_at_entryPoint [OF tr, of _ _ _ 20 "a\<lparr>isGuardian := (isGuardian a)(9 := True)\<rparr>"] tr g by blast
qed

text \<open>
  C13. A batch runs all its calls in order or has no effect. executeBatch returns exactly when the
  caller is the account's current entry point or the account itself, the lists of targets and call
  data have the same length and the values are absent or as many, and every call in turn succeeds from
  the state the previous one left; the result is the state after the last call.
\<close>

theorem batch_runs_all_calls_in_order:
  "p256_executeBatch mc regs this caller dest val func st = Inr st' \<longleftrightarrow>
   (\<exists>ep. p256_entryPoint regs (fst st) = Inr ep \<and> (caller = ep \<or> caller = this)) \<and>
   length dest = length func \<and> (val = [] \<or> length val = length func) \<and>
   calls_run mc (zip dest (zip (if val = [] then replicate (length dest) 0 else val) func)) st st'"
  by (auto simp: p256_executeBatch_def executeBatch_body_def res_simps p256_gate_iff batch_loop_iff)

section \<open>Fees\<close>

text \<open>
  C14. mulDiv on every input. A zero denominator reverts; a product that fits 256 bits gives the
  exact quotient; for a larger product a quotient that does not fit reverts, a denominator that is a
  power of two gives the exact quotient, and every other denominator panics, because the Newton steps
  run with checked arithmetic.
\<close>

theorem mulDiv_outcome:
  "mulDiv a b d =
    (if d = 0 then Inl RevertEmpty
     else if unat a * unat b < 2 ^ 256 then Inr (of_nat (unat a * unat b div unat d))
     else if unat d \<le> unat a * unat b div 2 ^ 256 then Inl RevertEmpty
     else if \<exists>k. unat d = 2 ^ k then Inr (of_nat (unat a * unat b div unat d))
     else Inl (Panic 0x11))"
  using mulDiv_small [of a b d] mulDiv_large [of a b d] by (simp add: mulDiv_zero not_less)

text \<open>
  C15. The Uniswap fee never grows when less gas is used: if the fee of a gas amount is defined then
  so is the fee of every smaller amount, and it is at most as high, through pool selection, price
  impact, decimals and markup.
\<close>

theorem uniswap_fee_monotone:
  assumes "safemath_ok ux" and "uniswap_calculateFee ux s gasprice token g = Inr f" and "g' \<le> g"
  shows "\<exists>f'. uniswap_calculateFee ux s gasprice token g' = Inr f' \<and> f' \<le> f"
  by (rule uniswap_mono [OF assms])

theorem uniswap_fee_monotone_witness:
  "\<exists>f'. uniswap_calculateFee toy_uniswap (uniswap_constructor 1 2 120 100) 1 3 5000000000000 = Inr f' \<and> f' \<le> 14"
proof -
  have "checked_pow (10 :: uint256) 6 = Inr 1000000" by (simp add: checked_pow_eq_Inr)
  then have "uniswap_calculateFee toy_uniswap (uniswap_constructor 1 2 120 100) 1 3 10000000000000 = Inr 14"
    by (simp add: uniswap_calculateFee_def getAmountIn_def findOptimalPool_def toy_uniswap_def uniswap_constructor_def
        mulDiv_small Q96_def checked_div_def checked_sub_def checked_add_def)
  then show ?thesis by (rule uniswap_fee_monotone [OF toy_safemath]) simp
qed

text \<open>
  C16. Pool selection is optimal: the fee tier that findOptimalPool returns has, among the
  configured tiers with a pool, the highest liquidity, and the lowest fee among those with the same
  liquidity; it is 0 exactly when no tier has a pool with liquidity.
\<close>

theorem optimal_pool_is_best:
  assumes "findOptimalPool ux s token = Inr fee"
  shows "\<exists>best. best_tier ux s token (set (fu_feeTiers s)) fee best"
  by (rule findOptimalPool_best [OF assms])

theorem optimal_pool_is_best_witness:
  "\<exists>best. best_tier toy_uniswap (uniswap_constructor 1 2 120 100) 3 {100, 500, 3000, 10000} 500 best"
proof -
  have "findOptimalPool toy_uniswap (uniswap_constructor 1 2 120 100) 3 = Inr 500"
    by (simp add: findOptimalPool_def toy_uniswap_def uniswap_constructor_def)
  from optimal_pool_is_best [OF this] show ?thesis by (simp add: uniswap_constructor_def)
qed

text \<open>
  C17. The mainnet fee is the gas cost at the feed's price in units of a token with six decimals,
  rounded down, plus its markup share rounded down; it is defined exactly when the product, the scale
  and the sum fit 256 bits and the markup denominator is not zero.
\<close>

theorem mainnet_fee_formula:
  assumes "fm_ETH_DECIMALS s = 18" and "cl_latestAnswer cl (fm_dataFeed s) = Inr answer"
    and "cl_decimals cl (fm_dataFeed s) = Inr decimals"
  shows "mainnet_calculateFee cl s token g = Inr f \<longleftrightarrow>
    unat g * unat answer < 2 ^ 256 \<and> (10::nat) ^ (12 + unat decimals) < 2 ^ 256 \<and> fm_markupDenominator s \<noteq> 0 \<and>
    mainnet_fee (unat answer) (unat decimals) (unat (fm_markupDenominator s)) (unat g) < 2 ^ 256 \<and>
    unat f = mainnet_fee (unat answer) (unat decimals) (unat (fm_markupDenominator s)) (unat g)"
  by (rule mainnet_eq [OF assms])

theorem mainnet_fee_formula_witness:
  "mainnet_calculateFee toy_chainlink (mainnet_constructor 3 20) 2 400000000000000 = Inr 1050000"
  by (subst mainnet_fee_formula [where answer = 250000000000 and decimals = 8])
    (simp_all add: mainnet_constructor_def toy_chainlink_def mainnet_fee_def mainnet_cost_def)

section \<open>Factories\<close>

text \<open>
  C18. Account creation is idempotent and goes to the announced address: a createAccount that
  returns gives the CREATE2 address of the proxy for this key, registry and salt, which is what
  getAccountAddress computes; a fresh account is initialised with them; and a second call with the
  same arguments returns the same address and changes nothing.
\<close>

theorem createAccount_at_create2_address:
  assumes "p256_createAccount c cc f pk reg salt ch = Inr (a, ch')"
  shows "a = p256_getAccountAddress c cc f pk reg salt \<and>
    a = create2_address c (fa_this f) salt (proxy_initcode cc (fa_implementation f) (p256_initialize_call c pk reg)) \<and>
    ch_code ch' a \<and>
    ch_account ch' a = (if ch_code ch a then ch_account ch a else Some (p256_created (fa_implementation f) pk reg)) \<and>
    p256_createAccount c cc f pk reg salt ch' = Inr (a, ch')"
  using assms getAccountAddress_is_create2(1) [of c cc f pk reg salt]
  by (auto simp: p256_createAccount_eq Let_def split: if_splits)

theorem createAccount_at_create2_address_witness:
  "\<exists>a ch'. p256_createAccount toy_crypto [0x60] (factory_at 20 3) (1, 2) 4 0
      \<lparr>ch_code = (\<lambda>a. a = 3), ch_account = (\<lambda>_. None)\<rparr> = Inr (a, ch') \<and>
    p256_createAccount toy_crypto [0x60] (factory_at 20 3) (1, 2) 4 0 ch' = Inr (a, ch')"
proof -
  have "\<exists>a ch'. p256_createAccount toy_crypto [0x60] (factory_at 20 3) (1, 2) 4 0
      \<lparr>ch_code = (\<lambda>a. a = 3), ch_account = (\<lambda>_. None)\<rparr> = Inr (a, ch')"
    by (simp add: p256_createAccount_eq Let_def factory_at_def)
  then show ?thesis using createAccount_at_create2_address by blast
qed

text \<open>
  C19. A factory whose implementation is deployed can create any sequence of accounts: every call
  returns the computed address, afterwards exactly those addresses have gained code, and no account
  that existed before has changed.
\<close>

theorem factory_creates_all_accounts:
  assumes "ch_code ch (fa_implementation f)"
  shows "\<exists>ch'. create_all (\<lambda>(pk, reg, salt). p256_createAccount c cc f pk reg salt) ks ch =
      Inr (map (\<lambda>(pk, reg, salt). p256_getAccountAddress c cc f pk reg salt) ks, ch') \<and>
    (\<forall>b. ch_code ch' b \<longleftrightarrow> ch_code ch b \<or> b \<in> (\<lambda>(pk, reg, salt). p256_getAccountAddress c cc f pk reg salt) ` set ks) \<and>
    (\<forall>b. ch_code ch b \<longrightarrow> ch_account ch' b = ch_account ch b)"
proof -
  obtain ch' where run: "create_all (\<lambda>(pk, reg, salt). p256_createAccount c cc f pk reg salt) ks ch =
      Inr (map (\<lambda>(pk, reg, salt). p256_getAccountAddress c cc f pk reg salt) ks, ch')"
    and code: "\<forall>b. ch_code ch' b \<longleftrightarrow>
      ch_code ch b \<or> b \<in> (\<lambda>(pk, reg, salt). p256_getAccountAddress c cc f pk reg salt) ` set ks"
    using p256_factory.create_all_returns [OF assms, of c cc ks] by blast
  have "\<forall>b. ch_code ch b \<longrightarrow> ch_account ch' b = ch_account ch b"
    using p256_factory.create_all_keeps [OF run] by blast
  with run code show ?thesis by blast
qed

theorem factory_creates_all_accounts_witness:
  "\<exists>ch'. create_all (\<lambda>(pk, reg, salt). p256_createAccount toy_crypto [0x60] (factory_at 20 3) pk reg salt)
      [((1, 2), 4, 0), ((5, 6), 4, 1)] \<lparr>ch_code = (\<lambda>a. a = 3), ch_account = (\<lambda>_. None)\<rparr> =
    Inr ([p256_getAccountAddress toy_crypto [0x60] (factory_at 20 3) (1, 2) 4 0,
          p256_getAccountAddress toy_crypto [0x60] (factory_at 20 3) (5, 6) 4 1], ch')"
  using factory_creates_all_accounts [of "\<lparr>ch_code = (\<lambda>a. a = 3), ch_account = (\<lambda>_. None)\<rparr>" "factory_at 20 3"
      toy_crypto "[0x60]" "[((1, 2), 4, 0), ((5, 6), 4, 1)]"]
  by (auto simp: factory_at_def)

text \<open>
  C20. An account is initialised once. The account that a factory has just created holds the given
  key, registry and implementation, and every later call of initialize on it reverts; so does every
  call of initialize on the implementation contract itself.
\<close>

theorem created_account_cannot_be_reinitialised:
  assumes "p256_createAccount c cc f pk reg salt ch = Inr (a, ch')" and "\<not> ch_code ch a"
  shows "\<exists>acc impl. ch_account ch' a = Some acc \<and> pubKey acc = pk \<and> enclaveRegistry acc = reg \<and>
    px_implementation acc = fa_implementation f \<and> p256_constructor = Inr impl \<and>
    (\<forall>pk' reg'. p256_initialize True pk' reg' acc = Inl (Revert ''Initializable: contract is already initialized'') \<and>
      p256_initialize True pk' reg' impl = Inl (Revert ''Initializable: contract is already initialized''))"
proof -
  have acc: "ch_account ch' a = Some (p256_created (fa_implementation f) pk reg)"
    using assms by (auto simp: p256_createAccount_eq Let_def split: if_splits)
  obtain impl where "p256_constructor = Inr impl" "px_initialized impl = - 1"
    using p256_implementation_locked by blast
  then show ?thesis
    using acc
    by (intro exI [of _ "p256_created (fa_implementation f) pk reg"] exI [of _ impl])
      (simp add: p256_initialize_again p256_created_def)
qed

theorem created_account_cannot_be_reinitialised_witness:
  "\<exists>a ch' acc. p256_createAccount const_crypto [0x60] (factory_at 20 3) (1, 2) 4 0
      \<lparr>ch_code = (\<lambda>a. a = 3), ch_account = (\<lambda>_. None)\<rparr> = Inr (a, ch') \<and> ch_account ch' a = Some acc \<and>
    p256_initialize True (8, 9) 6 acc = Inl (Revert ''Initializable: contract is already initialized'')"
proof -
  let ?ch = "\<lparr>ch_code = (\<lambda>a. a = 3), ch_account = (\<lambda>_. None)\<rparr>"
  let ?a = "p256_getAccountAddress const_crypto [0x60] (factory_at 20 3) (1, 2) 4 0"
  have fresh: "\<not> ch_code ?ch ?a"
    by (simp add: p256_getAccountAddress_def computeAddress_def const_crypto_def)
  obtain ch' where "p256_createAccount const_crypto [0x60] (factory_at 20 3) (1, 2) 4 0 ?ch = Inr (?a, ch')"
    using fresh by (simp add: p256_createAccount_eq Let_def factory_at_def)
  then show ?thesis using created_account_cannot_be_reinitialised [OF _ fresh] by blast
qed

text \<open>
  C21. Only the account upgrades itself. An upgradeTo of a passkey account that returns was called
  by the account itself, through a proxy whose active implementation is the executing code; the new
  implementation has code and reports the ERC-1967 slot as its UUID; and nothing but the implementation
  and the event log has changed.
\<close>

theorem upgrade_only_by_account:
  assumes "UUPS_upgradeTo is_contract uuid delegate (p256_authorizeUpgrade this caller) self this impl a = Inr a'"
    and "\<not> px_rollback a"
  shows "caller = this \<and> this \<noteq> self \<and> px_implementation a = self \<and> is_contract impl \<and>
    uuid impl = Inr IMPLEMENTATION_SLOT \<and>
    a' = a\<lparr>px_implementation := impl, px_log := px_log a @ [Upgraded impl]\<rparr>"
  using upgrade_authorized [OF assms(1)] upgrade_sets [OF assms]
  by (simp add: p256_authorizeUpgrade_def p256_onlyOwner_def res_simps)

theorem upgrade_only_by_account_witness:
  "\<exists>a'. UUPS_upgradeTo (\<lambda>_. True) (\<lambda>i. proxiableUUID i i) (\<lambda>_ _ a. Inr a) (p256_authorizeUpgrade 20 20) 3 20 6
      (p256_created 3 (1, 2) 4) = Inr a' \<and> px_implementation a' = 6 \<and> pubKey a' = (1, 2)"
proof -
  have "\<exists>a'. UUPS_upgradeTo (\<lambda>_. True) (\<lambda>i. proxiableUUID i i) (\<lambda>_ _ a. Inr a) (p256_authorizeUpgrade 20 20) 3 20 6
      (p256_created 3 (1, 2) 4) = Inr a'"
    by (simp add: UUPS_upgradeTo_def onlyProxy_def p256_authorizeUpgrade_def p256_onlyOwner_def p256_created_def
        upgradeToAndCallUUPS_def proxiableUUID_def notDelegated_def upgradeToAndCall_internal_def upgradeTo_internal_def
        setImplementation_def)
  then show ?thesis
    using upgrade_only_by_account [of "\<lambda>_. True" "\<lambda>i. proxiableUUID i i" "\<lambda>_ _ a. Inr a" 20 20 3 6 "p256_created 3 (1, 2) 4"]
    by (fastforce simp: p256_created_def)
qed

section \<open>Encodings\<close>

text \<open>
  The two signature checks of a passkey account have one verdict: validation data is 0 or
  SIG_VALIDATION_FAILED and nothing else, and the ERC-1271 check answers the magic value for a hash
  and signature exactly when validation of an operation with them answers 0.
\<close>

lemma signature_checks_agree:
  assumes "p256_validateSignature c regs vs a userOp h = Inr v"
  shows "v \<in> {0, SIG_VALIDATION_FAILED} \<and>
    p256_isValidSignature c regs vs a h (signature userOp) = Inr (if v = 0 then 0x1626ba7e else 0xffffffff)"
proof -
  obtain k r s ad pre post where dec: "decode_signature (signature userOp) = Inr (k, r, s, ad, pre, post)"
    using assms by (auto simp: p256_validateSignature_def bindR_eq_Inr)
  then obtain ok where ver: "p256_verifySignature c regs vs a ad pre post h r s = Inr ok"
    using assms by (auto simp: p256_validateSignature_def bindR_eq_Inr)
  from assms dec ver have "v = (if ok then 0 else SIG_VALIDATION_FAILED)"
    by (simp add: p256_validateSignature_def split: if_splits)
  with dec ver show ?thesis by (simp add: p256_isValidSignature_def SIG_VALIDATION_FAILED_def)
qed

text \<open>
  Validation data round trip: parsing packed validation data gives back the failure flag and the
  range, with an end of 0 read as no end; and a time lies in the intersection of two packed ranges
  exactly when it lies in both.
\<close>

lemma validation_data_round_trip:
  "parseValidationData (packValidationData f u a) =
     \<lparr>aggregator = (if f then 1 else 0), validAfter = a, validUntil = (if u = 0 then - 1 else u)\<rparr> \<and>
   (validAfter (intersectTimeRange v p) \<le> t \<and> t \<le> validUntil (intersectTimeRange v p) \<longleftrightarrow>
     (validAfter (parseValidationData v) \<le> t \<and> t \<le> validUntil (parseValidationData v)) \<and>
     (validAfter (parseValidationData p) \<le> t \<and> t \<le> validUntil (parseValidationData p)))"
  using parse_pack intersectTimeRange_mem by blast

text \<open>
  C24. The challenge that the account writes into the client data is the operation hash in RFC 4648's
  unpadded base64url, the encoding a browser applies to a WebAuthn challenge: the encoder agrees with
  the RFC's encoding on all byte strings, the decoder for the RFC's alphabet gives the bytes back, and
  between the same prefix and suffix two operation hashes give the same client data only if they are
  equal.
\<close>

theorem challenge_determines_hash:
  "Base64URL_encode bs = url_ref bs \<and> url_decode (Base64URL_encode bs) = bs \<and>
   clientDataJSON pre post h = pre @ url_ref (abi_word h) @ post \<and>
   (clientDataJSON pre post h = clientDataJSON pre post h' \<longleftrightarrow> h = h')"
  using Base64URL_encode_ref Base64URL_decode clientDataJSON_inject by (simp add: clientDataJSON_def)

text \<open>
  C25. The paymaster's signature covers the request: two requests to one paymaster have the same
  signed bytes exactly when they agree in the sender, the nonce, the hashes of init code and call
  data, the gas limits and fees, the paymaster's own nonce and both ends of the validity range.
  Neither paymasterAndData nor the account's signature is covered: two operations that differ only
  there have the same signed bytes.
\<close>

theorem signed_bytes_cover_request:
  "pm_preimage e n userOp u a = pm_preimage e n' userOp' u' a' \<longleftrightarrow>
   sender userOp = sender userOp' \<and> nonce userOp = nonce userOp' \<and>
   keccak256 (pe_crypto e) (initCode userOp) = keccak256 (pe_crypto e) (initCode userOp') \<and>
   keccak256 (pe_crypto e) (callData userOp) = keccak256 (pe_crypto e) (callData userOp') \<and>
   callGasLimit userOp = callGasLimit userOp' \<and> verificationGasLimit userOp = verificationGasLimit userOp' \<and>
   preVerificationGas userOp = preVerificationGas userOp' \<and> maxFeePerGas userOp = maxFeePerGas userOp' \<and>
   maxPriorityFeePerGas userOp = maxPriorityFeePerGas userOp' \<and> n = n' \<and> u = u' \<and> a = a'"
  by (simp add: pm_preimage_inject covered_def calldataKeccak_def)

text \<open>
  C26. Parsing and building paymasterAndData are inverse: data parse to a validity range and a
  signature exactly when they are 20 bytes followed by the ABI encoding of that range and by that
  signature, so nothing is truncated or skipped, and everything else reverts.
\<close>

theorem paymasterAndData_round_trip:
  "parsePaymasterAndData data = Inr (u, a, sig) \<longleftrightarrow>
   (\<exists>pm. length pm = 20 \<and> data = build_paymasterAndData pm u a sig)"
  by (rule parse_iff)

section \<open>NFT sponsorship and the registry\<close>

text \<open>
  C28. Sponsored gas stays within the limits: over any sequence of sponsorships that goes through, in
  any interleaving of users and NFTs, the count and the total gas of a user grow by exactly the
  requests made for that user and NFT, and they end within the limits set for the NFT.
\<close>

theorem sponsorship_within_limits:
  assumes "sponsor_run nb reqs s = Inr s'" and "requests_of user nft reqs \<noteq> []"
  shows "unat (sd_count (sponsoredTransactionsByNFT s' nft user)) =
      unat (sd_count (sponsoredTransactionsByNFT s nft user)) + length (requests_of user nft reqs) \<and>
    unat (sd_totalAmount (sponsoredTransactionsByNFT s' nft user)) =
      unat (sd_totalAmount (sponsoredTransactionsByNFT s nft user)) + sum_list (requests_of user nft reqs) \<and>
    unat (sd_count (sponsoredTransactionsByNFT s' nft user)) \<le> unat (transactionLimitByNFT s nft) \<and>
    unat (sd_totalAmount (sponsoredTransactionsByNFT s' nft user)) \<le> unat (gasValueLimitByNFT s nft)"
  using sponsor_run_total [OF assms(1)] sponsor_run_within [OF assms] by blast

theorem sponsorship_within_limits_witness:
  "\<exists>s'. sponsor_run (\<lambda>_ _. Inr 1) [(5, 2, 30), (6, 2, 10), (5, 2, 20)] (addOrUpdateNFTLimits 2 10 100 nft_gas_constructor) =
      Inr s' \<and> unat (sd_count (sponsoredTransactionsByNFT s' 2 5)) = 2 \<and>
    unat (sd_totalAmount (sponsoredTransactionsByNFT s' 2 5)) = 50"
proof -
  let ?s = "addOrUpdateNFTLimits 2 10 100 nft_gas_constructor"
  have "\<exists>s'. sponsor_run (\<lambda>_ _. Inr 1) [(5, 2, 30), (6, 2, 10), (5, 2, 20)] ?s = Inr s'"
    by (simp add: applyLogic_def isEligible_def addOrUpdateNFTLimits_def nft_gas_constructor_def checked_add_def
        set_sponsored_def Let_def)
  then show ?thesis
    using sponsorship_within_limits [of "\<lambda>_ _. Inr 1" "[(5, 2, 30), (6, 2, 10), (5, 2, 20)]" ?s _ 5 2]
    by (fastforce simp: requests_of_def addOrUpdateNFTLimits_def nft_gas_constructor_def)
qed

text \<open>
  C30. The registry is a map: when its owner writes any sequence of non-zero addresses every write
  goes through, and afterwards each name reads as the last address written for it, or as before when
  the sequence does not mention it; the owner is unchanged.
\<close>

theorem registry_reads_last_write:
  assumes "\<forall>(k, a) \<in> set kvs. a \<noteq> 0"
  shows "\<exists>s'. run_updates (updateRegistryAddress (er_owner s)) kvs s = Inr s' \<and> er_owner s' = er_owner s \<and>
    (\<forall>k. getRegistryAddress k s' = (case map_of (rev kvs) k of None \<Rightarrow> getRegistryAddress k s | Some a \<Rightarrow> Inr a))"
  using reg.run_returns [OF assms, of s] reg.run_get reg.run_own by blast

theorem registry_reads_last_write_witness:
  "\<exists>s'. run_updates (updateRegistryAddress 1) [(''entryPoint'', 5), (''p256Verifier'', 6), (''entryPoint'', 7)]
      (registry_constructor 1) = Inr s' \<and> getRegistryAddress ''entryPoint'' s' = Inr 7"
proof -
  have "er_owner (registry_constructor 1) = 1" by (simp add: registry_constructor_def)
  then show ?thesis
    using registry_reads_last_write [of "[(''entryPoint'', 5), (''p256Verifier'', 6), (''entryPoint'', 7)]"
        "registry_constructor 1"]
    by force
qed

text \<open>
  C31. Only the deployer's chosen owner ever changes the registry: in every reachable state the owner
  is the one given at deployment, and every transaction that changes the registry is sent by it.
\<close>

theorem registry_changed_only_by_owner:
  assumes "registry_reachable ow s" and "registry_step s caller s'"
  shows "caller = ow \<and> er_owner s' = ow"
  using registry_reachable_owner [OF assms(1)] registry_step_by_owner [OF assms(2)]
    registry_reachable_owner [OF registry_reachable.call [OF assms]] by simp

theorem registry_changed_only_by_owner_witness:
  "\<exists>s'. updateRegistryAddress 1 ''entryPoint'' 5 (registry_constructor 1) = Inr s' \<and> er_owner s' = 1"
proof -
  obtain s' where up: "updateRegistryAddress 1 ''entryPoint'' 5 (registry_constructor 1) = Inr s'"
    by (simp add: updateRegistryAddress_def registry_onlyOwner_def registry_constructor_def)
  then show ?thesis
    using registry_changed_only_by_owner [OF registry_reachable.deploy registry_step.update [OF up]] by blast
qed

section \<open>The owner-signed account\<close>

text \<open>
  C32. The smart account accepts an operation, with validation data 0, exactly when its entry point
  asks and the operation's signature recovers, over the Ethereum-prefixed operation hash, to the
  account's owner; it then pays the missing funds to the entry point and changes nothing else.
\<close>

theorem smart_account_accepts_iff_signed:
  "smart_validateUserOp c mc caller userOp h funds st = Inr (0, st') \<longleftrightarrow>
   caller = sa_entrypoint (fst st) \<and>
   ECDSA_recover c (toEthSignedMessageHash c h) (signature userOp) = Inr (sa_owner (fst st)) \<and>
   st' = payPrefund mc caller funds st"
  by (auto simp: smart_validateUserOp_eq_Inr smart_validateSignature_def Let_def SIG_VALIDATION_FAILED_def res_simps
      split: if_splits)

section \<open>Scripts\<close>

text \<open>
  C33. The transfer script hashes what the contracts hash: packUserOp in JavaScript and the pack of
  UserOperationLib in Solidity give the same bytes for every operation, and concatenating hex strings
  in the script is concatenating the bytes they stand for.
\<close>

theorem script_packs_like_contract:
  "packUserOp c op = UserOperationLib_pack c op \<and> from_hex (hexConcat (map to_hex bss)) = concat bss"
  using packUserOp_eq from_hex_hexConcat by blast

text \<open>
  C34. The deployment scripts that create the registry without its owner argument cannot succeed:
  run on any network in any state they exit with code 1 and leave every registry as it was.
\<close>

theorem ownerless_deployments_fail:
  assumes "m \<in> set (broken_deployments e)"
  shows "fst (run_catch m w) = 1 \<and> world_registries (snd (run_catch m w)) = world_registries w"
  using run_catch_fails [OF broken_deployments_outcome(1) [OF assms]]
    registries.keeps_run_catch [OF broken_deployments_outcome(2) [OF assms]] by blast

theorem ownerless_deployments_fail_witness: "fst (run_catch (deployAll_main toy_env) empty_world) = 1"
  using ownerless_deployments_fail [of "deployAll_main toy_env" toy_env empty_world]
  by (simp add: broken_deployments_def)

text \<open>
  C35. The scripts that only report do not touch the chain: each of the listed scripts, whether it
  returns or throws, leaves every contract, the signer's nonce and the rest of the chain as they were.
\<close>

theorem reading_scripts_keep_chain:
  assumes "m \<in> set (reading_scripts e formatEther now1 now2)"
  shows "on_chain (snd (m w)) = on_chain w"
  using reading_keeps [of e formatEther now1 now2] assms by (simp add: list_all_iff keeps_def)

theorem reading_scripts_keep_chain_witness:
  "on_chain (snd (setRegistry_main toy_env empty_world)) = on_chain empty_world"
  using reading_scripts_keep_chain [of "setRegistry_main toy_env" toy_env "\<lambda>_. []" 0 0 empty_world]
  by (simp add: reading_scripts_def)

text \<open>
  C36. The account deployment script creates the account it announces: with the factory it names and
  the factory's implementation on chain, it returns, the address it prints is the one at which the
  account with the script's key and registry exists once its transaction is mined, and no other
  contract has changed.
\<close>

theorem deployaccount_creates_printed_account:
  fixes a :: address
  defines "a \<equiv> 0x502674c8eF6A87A9C485df592033796A5ad71607"
  assumes "en_signers e = signer # rest" and "deployed w a = Some (CP256Factory impl)"
    and "w_contracts w impl \<noteq> None"
  defines "acc \<equiv> predicted e a impl account_keys 0xA8E8f8cBD889Fc74882AeDFDcf8323fD7423DB47 0"
  shows "\<exists>w'. deployaccount_main e w = (Inr (), w') \<and> (''Dummy Address: '', [JAddr acc]) \<in> set (w_console w') \<and>
    w_contracts w' = (if w_contracts w acc = None
      then (w_contracts w)(acc \<mapsto> CP256Account (p256_created impl account_keys 0xA8E8f8cBD889Fc74882AeDFDcf8323fD7423DB47))
      else w_contracts w)"
  unfolding a_def acc_def by (rule deployaccount_run) (use assms(2-4) in \<open>simp_all add: a_def\<close>)

theorem deployaccount_creates_printed_account_witness:
  "\<exists>w'. deployaccount_main toy_env
      (world_with [(0x502674c8eF6A87A9C485df592033796A5ad71607, CP256Factory 3), (3, CP256Implementation (p256_fresh 0))]) =
    (Inr (), w')"
  using deployaccount_creates_printed_account [of toy_env 7 "[]"
      "world_with [(0x502674c8eF6A87A9C485df592033796A5ad71607, CP256Factory 3), (3, CP256Implementation (p256_fresh 0))]" 3]
  by (auto simp: toy_env_def world_with_def empty_world_def deployed_def)

text \<open>
  C37. When the verifier test script prints a verdict. The script does not wait for the verifier it
  deploys. On every chain where the next contract address is free and no creation is outstanding: if
  the network has mined the creation by the script's next step, the script returns, and the last line
  it prints is the verdict of ecdsa_verify, for the script's signature and key, on the digest that
  a passkey account would compute for the operation hash whose Base64URL encoding the script has as its
  challenge; otherwise its read finds no code, and the script throws after it printed the address,
  without a verdict. In both cases the creation of the verifier is sent and no other contract changes.
\<close>

theorem verify_test_prints_verdict:
  assumes "en_signers e = signer # rest" and "w_contracts w (en_create e signer (w_nonce w)) = None"
    and "w_unmined w = []"
  shows "\<exists>w'. w_contracts w' = (w_contracts w)(en_create e signer (w_nonce w) \<mapsto> CP256Verifier) \<and>
    (if en_mined e (w_nonce w)
     then \<exists>ok. ecdsa_verify
            (passkey_hash (en_crypto e) authenticator_bytes client_data_pre client_data_post passkey_challenge)
            (of_nat (nat passkey_r)) (of_nat (nat passkey_s))
            (0xb3ef0eb6729d78ff039b7d99dbebef10d15151e12c2750cc3e9906ff18e077dc,
             0xc5928d1c4b8b56c27e3361afe6c3c9f4b78da21c9a75eedaf41de1503f5ec80f) = Inr ok \<and>
          P256VerifyTest_main e w = (Inr (), w') \<and> last (w_console w') = (''Res: '', [JBool ok])
     else P256VerifyTest_main e w = (Inl (Thrown ''could not decode result data''), w') \<and>
          last (w_console w') = (''P256Verifier deployed to: '', [JAddr (en_create e signer (w_nonce w))]))"
  using verify_test_run [OF assms] unfolding passkey_digest_is_account_hash .

theorem verify_test_prints_verdict_witness:
  "(\<exists>ok w'. P256VerifyTest_main toy_env empty_world = (Inr (), w') \<and> last (w_console w') = (''Res: '', [JBool ok])) \<and>
   (\<exists>w'. P256VerifyTest_main toy_env (empty_world\<lparr>w_nonce := 1\<rparr>) = (Inl (Thrown ''could not decode result data''), w'))"
  using verify_test_prints_verdict [of toy_env 7 "[]" empty_world]
    verify_test_prints_verdict [of toy_env 7 "[]" "empty_world\<lparr>w_nonce := 1\<rparr>"]
  by (auto simp: toy_env_def empty_world_def)

section \<open>Paths that always fail\<close>

text \<open>
  C38. The multi-token paymaster cannot settle what it sponsors: the context its validation returns
  holds one address where postOp decodes two, so postOp reverts after every successful validation.
\<close>

theorem multi_token_postOp_reverts:
  assumes "multi_validatePaymasterUserOp e userOp pf s = Inr ((ctx, vd), s')"
  shows "multi_postOp erc calculateFee e ctx g s' x = Inl RevertEmpty"
  by (rule multi_postOp_short) (simp add: multi_context [OF assms] length_abi_encode)

theorem multi_token_postOp_reverts_witness:
  "\<exists>ctx vd s'. multi_validatePaymasterUserOp toy_pm_env (toy_op\<lparr>paymasterAndData := toy_multi_data\<rparr>) 0
      \<lparr>verifyingSigner = 7, senderNonce = (\<lambda>_. 0), mp_feeLogic = 3, mp_allowedPaymentTokens = (\<lambda>_. True), mp_log = []\<rparr> =
    Inr ((ctx, vd), s') \<and> multi_postOp toy_erc20 (\<lambda>_ _ g. Inr g) toy_pm_env ctx 0 s' toy_ledger = Inl RevertEmpty"
proof -
  let ?s = "\<lparr>verifyingSigner = 7, senderNonce = (\<lambda>_. 0), mp_feeLogic = 3, mp_allowedPaymentTokens = (\<lambda>_. True), mp_log = []\<rparr>"
  have "\<exists>ctx vd s'. multi_validatePaymasterUserOp toy_pm_env (toy_op\<lparr>paymasterAndData := toy_multi_data\<rparr>) 0 ?s =
      Inr ((ctx, vd), s')"
    using toy_multi_parse
    by (auto simp: multi_validatePaymasterUserOp_def toy_sig_length Let_def bump_nonce_def checked_succ
        toy_pm_env_def toy_recover)
  then obtain ctx vd s' where
    run: "multi_validatePaymasterUserOp toy_pm_env (toy_op\<lparr>paymasterAndData := toy_multi_data\<rparr>) 0 ?s = Inr ((ctx, vd), s')"
    by blast
  show ?thesis
    by (rule exI, rule exI, rule exI, rule conjI [OF run]) (rule multi_token_postOp_reverts [OF run])
qed

text \<open>
  C39. The solver paymasters sponsor nothing: both versions cut a signature of 64 bytes out of
  paymasterAndData, which the ECDSA library rejects, so no validation of either version returns.
\<close>

theorem solver_paymasters_never_sponsor:
  "solver_validatePaymasterUserOp_v0 erc e userOp pf st \<noteq> Inr r \<and>
   solver_validatePaymasterUserOp_v1 erc e userOp pf st \<noteq> Inr r"
  by (simp add: solver_validatePaymasterUserOp_v0_def solver_validatePaymasterUserOp_v1_def solver_never_returns)

text \<open>
  C40. The operations that the transfer script signs cannot pass the passkey account: the script
  encodes two words where the account decodes six fields, so signature validation reverts for every
  account, registry, verifier and operation hash.
\<close>

theorem script_signature_rejected_by_account:
  "p256_validateSignature c regs vs a (sign_userOp jc message privKey userOp) h = Inl RevertEmpty"
  by (rule signed_userOp_rejected)

end
